(* ===== verification/Df_Prelude.thy ===== *)
theory Df_Prelude
  imports Main "HOL-Library.Word" "HOL-Library.Signed_Division"
begin

text \<open>
  Shared vocabulary of the dockerfuse development: the Go machine types at the width they have on
  the two architectures the satellite is built for (amd64 and arm64), the result of a Go call
  that may panic, the named collections the component proofs feed to the simplifier, and generic
  lemmas on words, strings, lists and association lists.
\<close>

unbundle bit_operations_syntax

named_theorems wire_defs \<open>definitions that describe values on the RPC wire\<close>
named_theorems handler_defs \<open>definitions of the satellite's RPC handlers\<close>
named_theorems client_defs \<open>definitions of the client's RPC wrappers\<close>
named_theorems node_defs \<open>definitions of the FUSE node operations\<close>

subsection \<open>Go types\<close>

type_synonym uint16 = "16 word"
type_synonym uint32 = "32 word"
type_synonym uint64 = "64 word"
type_synonym int32 = "32 word"
type_synonym int64 = "64 word"
type_synonym go_int = "64 word"
type_synonym uintptr = "64 word"
type_synonym byte = "8 word"
type_synonym errno = "64 word"
type_synonym FileMode = "32 word"

text \<open>
  Signed and unsigned Go integers of one width share a word type: a conversion between them keeps
  the bits, which is what Go does; \<^const>\<open>sint\<close> reads a word as the signed type.
  A Go function that may panic returns \<open>Panic\<close> with the run-time error's text.
\<close>

datatype 'a go = Val 'a | Panic string

subsection \<open>Words\<close>

lemma word_and_mask_self_iff:
  fixes x m :: "'a::len word"
  shows "x AND m = m \<longleftrightarrow> (\<forall>n. bit m n \<longrightarrow> bit x n)"
  by (auto simp: bit_eq_iff bit_simps dest: bit_imp_le_length)

lemma word_and_eq_0_iff_bits:
  fixes x m :: "'a::len word"
  shows "x AND m = 0 \<longleftrightarrow> (\<forall>n. \<not> (bit x n \<and> bit m n))"
  by (auto simp: bit_eq_iff bit_simps dest: bit_imp_le_length)

subsection \<open>Association lists\<close>

lemma map_of_map_of_inverse:
  assumes "distinct (map f (map fst t))" and "(k, v) \<in> set t"
  shows "map_of (map (\<lambda>(k, v). (f k, v)) t) (f k) = Some v"
  using assms by (induction t) (auto simp: image_iff split: prod.splits)

lemma map_of_None_image:
  "(\<forall>k v. (k, v) \<in> set t \<longrightarrow> f k \<noteq> x) \<Longrightarrow> map_of (map (\<lambda>(k, v). (f k, v)) t) x = None"
  by (induction t) (auto, blast)

lemma map_of_SomeE_image:
  assumes "map_of (map (\<lambda>(k, v). (f k, v)) t) x = Some v"
  obtains k where "(k, v) \<in> set t" and "f k = x"
proof -
  from assms have "(x, v) \<in> set (map (\<lambda>(k, v). (f k, v)) t)"
    by (rule map_of_SomeD)
  then show ?thesis
    using that by auto
qed

end
