(* ===== verification/Rpc_Types.thy ===== *)
theory Rpc_Types
  imports Df_Prelude
begin

text \<open>
  The requests and replies of the RPC service (\<^verbatim>\<open>pkg/rpccommon/rpc_types.go\<close>), one
  record per Go struct, and the accessors of \<^verbatim>\<open>SetAttrRequest\<close>, whose bitmap says
  which attributes a request sets. Field names carry a prefix where several structs share one.
  \<^verbatim>\<open>time.Time\<close> is an instant: seconds since the Unix epoch and nanoseconds.
\<close>

subsection \<open>Times\<close>

record Time =
  t_sec :: int
  t_nsec :: int

text \<open>The zero \<^verbatim>\<open>time.Time\<close>: the first of January of year 1.\<close>

definition zero_Time :: Time where
  "zero_Time = \<lparr> t_sec = -62135596800, t_nsec = 0 \<rparr>"

subsection \<open>Requests and replies\<close>

record DirEntry =
  de_Mode :: uint32
  de_Name :: string
  de_Ino :: uint64

record ReadDirRequest =
  rd_FullPath :: string

record ReadDirReply =
  DirEntries :: "DirEntry list"

record StatRequest =
  st_FullPath :: string

record StatReply =
  Mode :: uint32
  Nlink :: uint32
  Ino :: uint64
  UID :: uint32
  GID :: uint32
  Atime :: int64
  Mtime :: int64
  Ctime :: int64
  Size :: int64
  Blocks :: int64
  Blksize :: int32
  LinkTarget :: string

record OpenRequest =
  op_FullPath :: string
  op_SAFlags :: uint16
  op_Mode :: FileMode

text \<open>\<^verbatim>\<open>OpenReply\<close> embeds a \<^verbatim>\<open>StatReply\<close>.\<close>

record OpenReply =
  op_FD :: uintptr
  op_StatReply :: StatReply

record CloseRequest =
  cl_FD :: uintptr

record ReadRequest =
  re_FD :: uintptr
  re_Offset :: int64
  re_Num :: go_int

record ReadReply =
  re_Data :: "byte list"

record SeekRequest =
  sk_FD :: uintptr
  sk_Offset :: int64
  sk_Whence :: go_int

record SeekReply =
  sk_Num :: int64

record WriteRequest =
  wr_FD :: uintptr
  wr_Offset :: int64
  wr_Data :: "byte list"

record WriteReply =
  wr_Num :: go_int

record UnlinkRequest =
  ul_FullPath :: string

record FsyncRequest =
  fy_FD :: uintptr
  fy_Flags :: uint32

record MkdirRequest =
  md_FullPath :: string
  md_Mode :: FileMode

text \<open>\<^verbatim>\<open>type MkdirReply StatReply\<close>.\<close>

type_synonym MkdirReply = StatReply

record RmdirRequest =
  rm_FullPath :: string

record RenameRequest =
  rn_FullPath :: string
  rn_FullNewPath :: string
  rn_Flags :: uint32

record ReadlinkRequest =
  rl_FullPath :: string

record ReadlinkReply =
  rl_LinkTarget :: string

record LinkRequest =
  ln_OldFullPath :: string
  ln_NewFullPath :: string

record SymlinkRequest =
  sl_OldFullPath :: string
  sl_NewFullPath :: string

text \<open>The replies without fields (\<^verbatim>\<open>CloseReply\<close>, \<^verbatim>\<open>UnlinkReply\<close>,
  \<^verbatim>\<open>FsyncReply\<close>, \<^verbatim>\<open>RmdirReply\<close>, \<^verbatim>\<open>RenameReply\<close>,
  \<^verbatim>\<open>LinkReply\<close>, \<^verbatim>\<open>SymlinkReply\<close>) are \<^typ>\<open>unit\<close>.\<close>

subsection \<open>Setting attributes\<close>

definition SATTR_ATIME :: uint32 where "SATTR_ATIME = push_bit 0 1"
definition SATTR_GID :: uint32 where "SATTR_GID = push_bit 1 1"
definition SATTR_MODE :: uint32 where "SATTR_MODE = push_bit 2 1"
definition SATTR_MTIME :: uint32 where "SATTR_MTIME = push_bit 3 1"
definition SATTR_SIZE :: uint32 where "SATTR_SIZE = push_bit 4 1"
definition SATTR_UID :: uint32 where "SATTR_UID = push_bit 5 1"

definition UTIME_OMIT :: int64 where "UTIME_OMIT = push_bit 30 1 - 2"

record SetAttrRequest =
  sa_FullPath :: string
  sa_ValidAttrs :: uint32
  sa_ATime :: Time
  sa_MTime :: Time
  sa_UID :: uint32
  sa_GID :: uint32
  sa_Mode :: uint32
  sa_Size :: uint64

type_synonym SetAttrReply = StatReply

text \<open>\<^verbatim>\<open>SetAttrRequest{FullPath: p}\<close>: the other fields have their zero values.\<close>

definition new_SetAttrRequest :: "string \<Rightarrow> SetAttrRequest" where
  "new_SetAttrRequest p = \<lparr> sa_FullPath = p, sa_ValidAttrs = 0, sa_ATime = zero_Time, sa_MTime = zero_Time,
     sa_UID = 0, sa_GID = 0, sa_Mode = 0, sa_Size = 0 \<rparr>"

definition GetMode :: "SetAttrRequest \<Rightarrow> uint32 \<times> bool" where
  "GetMode r = (if sa_ValidAttrs r AND SATTR_MODE = SATTR_MODE then (sa_Mode r, True) else (0, False))"

definition GetUID :: "SetAttrRequest \<Rightarrow> uint32 \<times> bool" where
  "GetUID r = (if sa_ValidAttrs r AND SATTR_UID = SATTR_UID then (sa_UID r, True) else (0, False))"

definition GetGID :: "SetAttrRequest \<Rightarrow> uint32 \<times> bool" where
  "GetGID r = (if sa_ValidAttrs r AND SATTR_GID = SATTR_GID then (sa_GID r, True) else (0, False))"

definition GetATime :: "SetAttrRequest \<Rightarrow> Time \<times> bool" where
  "GetATime r = (if sa_ValidAttrs r AND SATTR_ATIME = SATTR_ATIME then (sa_ATime r, True)
     else (zero_Time, False))"

definition GetMTime :: "SetAttrRequest \<Rightarrow> Time \<times> bool" where
  "GetMTime r = (if sa_ValidAttrs r AND SATTR_MTIME = SATTR_MTIME then (sa_MTime r, True)
     else (zero_Time, False))"

definition GetSize :: "SetAttrRequest \<Rightarrow> uint64 \<times> bool" where
  "GetSize r = (if sa_ValidAttrs r AND SATTR_SIZE = SATTR_SIZE then (sa_Size r, True) else (0, False))"

definition SetMode :: "uint32 \<Rightarrow> SetAttrRequest \<Rightarrow> SetAttrRequest" where
  "SetMode m r = r\<lparr> sa_Mode := m, sa_ValidAttrs := sa_ValidAttrs r OR SATTR_MODE \<rparr>"

definition SetUID :: "uint32 \<Rightarrow> SetAttrRequest \<Rightarrow> SetAttrRequest" where
  "SetUID u r = r\<lparr> sa_UID := u, sa_ValidAttrs := sa_ValidAttrs r OR SATTR_UID \<rparr>"

definition SetGID :: "uint32 \<Rightarrow> SetAttrRequest \<Rightarrow> SetAttrRequest" where
  "SetGID g r = r\<lparr> sa_GID := g, sa_ValidAttrs := sa_ValidAttrs r OR SATTR_GID \<rparr>"

definition SetATime :: "Time \<Rightarrow> SetAttrRequest \<Rightarrow> SetAttrRequest" where
  "SetATime a r = r\<lparr> sa_ATime := a, sa_ValidAttrs := sa_ValidAttrs r OR SATTR_ATIME \<rparr>"

definition SetMTime :: "Time \<Rightarrow> SetAttrRequest \<Rightarrow> SetAttrRequest" where
  "SetMTime m r = r\<lparr> sa_MTime := m, sa_ValidAttrs := sa_ValidAttrs r OR SATTR_MTIME \<rparr>"

definition SetSize :: "uint64 \<Rightarrow> SetAttrRequest \<Rightarrow> SetAttrRequest" where
  "SetSize s r = r\<lparr> sa_Size := s, sa_ValidAttrs := sa_ValidAttrs r OR SATTR_SIZE \<rparr>"

lemmas sattr_defs = SATTR_ATIME_def SATTR_GID_def SATTR_MODE_def SATTR_MTIME_def SATTR_SIZE_def SATTR_UID_def

lemmas sattr_get_defs = GetMode_def GetUID_def GetGID_def GetATime_def GetMTime_def GetSize_def

lemmas sattr_set_defs = SetMode_def SetUID_def SetGID_def SetATime_def SetMTime_def SetSize_def

subsection \<open>One attribute: a bit and a field\<close>

text \<open>
  The six attributes follow one scheme: a getter that looks at the attribute's bit, and a setter
  that writes the field and sets the bit. The locale states the scheme for one attribute of a
  request with a bitmap \<open>valid\<close>; each attribute is an interpretation.
\<close>

locale flagged_attr =
  fixes valid :: "'r \<Rightarrow> uint32"
    and flag :: uint32
    and get :: "'r \<Rightarrow> 'a \<times> bool"
    and put :: "'a \<Rightarrow> 'r \<Rightarrow> 'r"
    and default :: 'a
  assumes get_absent: "valid r AND flag \<noteq> flag \<Longrightarrow> get r = (default, False)"
    and get_put: "get (put a r) = (a, True)"
    and valid_put: "valid (put a r) = valid r OR flag"
begin

lemma get_ok_iff_flag: "snd (get r) \<Longrightarrow> valid r AND flag = flag"
  using get_absent by fastforce

lemma put_keeps_flags: "valid r AND m = m \<Longrightarrow> valid (put a r) AND m = m"
  unfolding valid_put word_and_mask_self_iff by (auto simp: bit_simps)

lemma put_adds_only_flag: "m AND flag = 0 \<Longrightarrow> valid (put a r) AND m = valid r AND m"
  by (auto simp: valid_put bit_eq_iff bit_simps word_and_eq_0_iff_bits)

end

interpretation mode_attr: flagged_attr sa_ValidAttrs SATTR_MODE GetMode SetMode 0
  by unfold_locales (auto simp: GetMode_def SetMode_def bit_eq_iff bit_simps)

interpretation uid_attr: flagged_attr sa_ValidAttrs SATTR_UID GetUID SetUID 0
  by unfold_locales (auto simp: GetUID_def SetUID_def bit_eq_iff bit_simps)

interpretation gid_attr: flagged_attr sa_ValidAttrs SATTR_GID GetGID SetGID 0
  by unfold_locales (auto simp: GetGID_def SetGID_def bit_eq_iff bit_simps)

interpretation atime_attr: flagged_attr sa_ValidAttrs SATTR_ATIME GetATime SetATime zero_Time
  by unfold_locales (auto simp: GetATime_def SetATime_def bit_eq_iff bit_simps)

interpretation mtime_attr: flagged_attr sa_ValidAttrs SATTR_MTIME GetMTime SetMTime zero_Time
  by unfold_locales (auto simp: GetMTime_def SetMTime_def bit_eq_iff bit_simps)

interpretation size_attr: flagged_attr sa_ValidAttrs SATTR_SIZE GetSize SetSize 0
  by unfold_locales (auto simp: GetSize_def SetSize_def bit_eq_iff bit_simps)

subsection \<open>Independence of the attributes\<close>

datatype sattr = A_Mode uint32 | A_UID uint32 | A_GID uint32 | A_ATime Time | A_MTime Time | A_Size uint64

fun set_attr :: "sattr \<Rightarrow> SetAttrRequest \<Rightarrow> SetAttrRequest" where
  "set_attr (A_Mode m) = SetMode m"
| "set_attr (A_UID u) = SetUID u"
| "set_attr (A_GID g) = SetGID g"
| "set_attr (A_ATime a) = SetATime a"
| "set_attr (A_MTime m) = SetMTime m"
| "set_attr (A_Size s) = SetSize s"

lemma flag_test_or:
  fixes x :: uint32
  assumes "n AND m = 0"
  shows "(x OR n) AND m = m \<longleftrightarrow> x AND m = m"
  using assms by (auto simp: word_and_mask_self_iff word_and_eq_0_iff_bits bit_simps)

lemma sattr_flags_disjoint [simp]:
  "SATTR_UID AND SATTR_MODE = 0" "SATTR_GID AND SATTR_MODE = 0" "SATTR_ATIME AND SATTR_MODE = 0"
  "SATTR_MTIME AND SATTR_MODE = 0" "SATTR_SIZE AND SATTR_MODE = 0"
  "SATTR_MODE AND SATTR_UID = 0" "SATTR_GID AND SATTR_UID = 0" "SATTR_ATIME AND SATTR_UID = 0"
  "SATTR_MTIME AND SATTR_UID = 0" "SATTR_SIZE AND SATTR_UID = 0"
  "SATTR_MODE AND SATTR_GID = 0" "SATTR_UID AND SATTR_GID = 0" "SATTR_ATIME AND SATTR_GID = 0"
  "SATTR_MTIME AND SATTR_GID = 0" "SATTR_SIZE AND SATTR_GID = 0"
  "SATTR_MODE AND SATTR_ATIME = 0" "SATTR_UID AND SATTR_ATIME = 0" "SATTR_GID AND SATTR_ATIME = 0"
  "SATTR_MTIME AND SATTR_ATIME = 0" "SATTR_SIZE AND SATTR_ATIME = 0"
  "SATTR_MODE AND SATTR_MTIME = 0" "SATTR_UID AND SATTR_MTIME = 0" "SATTR_GID AND SATTR_MTIME = 0"
  "SATTR_ATIME AND SATTR_MTIME = 0" "SATTR_SIZE AND SATTR_MTIME = 0"
  "SATTR_MODE AND SATTR_SIZE = 0" "SATTR_UID AND SATTR_SIZE = 0" "SATTR_GID AND SATTR_SIZE = 0"
  "SATTR_ATIME AND SATTR_SIZE = 0" "SATTR_MTIME AND SATTR_SIZE = 0"
  by (simp_all add: sattr_defs)

lemma GetMode_set_attr: "GetMode (set_attr a r) = (case a of A_Mode m \<Rightarrow> (m, True) | _ \<Rightarrow> GetMode r)"
  by (cases a) (simp add: mode_attr.get_put, simp_all add: GetMode_def sattr_set_defs flag_test_or)

lemma GetUID_set_attr: "GetUID (set_attr a r) = (case a of A_UID u \<Rightarrow> (u, True) | _ \<Rightarrow> GetUID r)"
  by (cases a) (simp_all add: uid_attr.get_put, simp_all add: GetUID_def sattr_set_defs flag_test_or)

lemma GetGID_set_attr: "GetGID (set_attr a r) = (case a of A_GID g \<Rightarrow> (g, True) | _ \<Rightarrow> GetGID r)"
  by (cases a) (simp_all add: gid_attr.get_put, simp_all add: GetGID_def sattr_set_defs flag_test_or)

lemma GetATime_set_attr: "GetATime (set_attr a r) = (case a of A_ATime t \<Rightarrow> (t, True) | _ \<Rightarrow> GetATime r)"
  by (cases a) (simp_all add: atime_attr.get_put, simp_all add: GetATime_def sattr_set_defs flag_test_or)

lemma GetMTime_set_attr: "GetMTime (set_attr a r) = (case a of A_MTime t \<Rightarrow> (t, True) | _ \<Rightarrow> GetMTime r)"
  by (cases a) (simp_all add: mtime_attr.get_put, simp_all add: GetMTime_def sattr_set_defs flag_test_or)

lemma GetSize_set_attr: "GetSize (set_attr a r) = (case a of A_Size s \<Rightarrow> (s, True) | _ \<Rightarrow> GetSize r)"
  by (cases a) (simp_all add: size_attr.get_put, simp_all add: GetSize_def sattr_set_defs flag_test_or)

lemmas get_set_attr = GetMode_set_attr GetUID_set_attr GetGID_set_attr GetATime_set_attr GetMTime_set_attr
  GetSize_set_attr

lemma get_new_SetAttrRequest [simp]:
  "GetMode (new_SetAttrRequest p) = (0, False)" "GetUID (new_SetAttrRequest p) = (0, False)"
  "GetGID (new_SetAttrRequest p) = (0, False)" "GetATime (new_SetAttrRequest p) = (zero_Time, False)"
  "GetMTime (new_SetAttrRequest p) = (zero_Time, False)" "GetSize (new_SetAttrRequest p) = (0, False)"
  by (simp_all add: sattr_get_defs sattr_defs new_SetAttrRequest_def)

lemma sa_FullPath_new: "sa_FullPath (new_SetAttrRequest p) = p"
  by (simp add: new_SetAttrRequest_def)

lemma sa_FullPath_set_attr [simp]: "sa_FullPath (set_attr a r) = sa_FullPath r"
  by (cases a) (simp_all add: sattr_set_defs)

text \<open>The reference: the last value a sequence of setter calls gives an attribute.\<close>

fun last_set :: "(sattr \<Rightarrow> 'a option) \<Rightarrow> 'a \<Rightarrow> sattr list \<Rightarrow> 'a \<times> bool" where
  "last_set sel d [] = (d, False)"
| "last_set sel d (a # as) = (case last_set sel d as of
     (v, True) \<Rightarrow> (v, True)
   | (_, False) \<Rightarrow> (case sel a of Some v \<Rightarrow> (v, True) | None \<Rightarrow> (d, False)))"

lemma last_set_snoc:
  "last_set sel d (as @ [a]) = (case sel a of Some v \<Rightarrow> (v, True) | None \<Rightarrow> last_set sel d as)"
  by (induction as) (auto split: option.splits prod.splits bool.splits)

text \<open>C12. After any sequence of setter calls on a fresh request every getter reports the last
  value its own setter stored, or that the attribute is not set, whatever the other setters did.\<close>

theorem setattr_get_last_set:
  "let r = fold set_attr as (new_SetAttrRequest p) in
   sa_FullPath r = p \<and>
   GetMode r = last_set (\<lambda>a. case a of A_Mode m \<Rightarrow> Some m | _ \<Rightarrow> None) 0 as \<and>
   GetUID r = last_set (\<lambda>a. case a of A_UID u \<Rightarrow> Some u | _ \<Rightarrow> None) 0 as \<and>
   GetGID r = last_set (\<lambda>a. case a of A_GID g \<Rightarrow> Some g | _ \<Rightarrow> None) 0 as \<and>
   GetATime r = last_set (\<lambda>a. case a of A_ATime t \<Rightarrow> Some t | _ \<Rightarrow> None) zero_Time as \<and>
   GetMTime r = last_set (\<lambda>a. case a of A_MTime t \<Rightarrow> Some t | _ \<Rightarrow> None) zero_Time as \<and>
   GetSize r = last_set (\<lambda>a. case a of A_Size s \<Rightarrow> Some s | _ \<Rightarrow> None) 0 as"
proof (induction as rule: rev_induct)
  case Nil
  show ?case by (simp add: sa_FullPath_new)
next
  case (snoc a as)
  then show ?case
    by (cases a) (simp_all add: Let_def last_set_snoc get_set_attr del: set_attr.simps)
qed

end
