(* ===== verification/Gob_Wire.thy ===== *)
theory Gob_Wire
  imports Rpc_Types "HOL-Library.Monad_Syntax"
begin

text \<open>
  What crosses the connection: Go's \<^verbatim>\<open>encoding/gob\<close>, which \<^verbatim>\<open>net/rpc\<close> uses for
  arguments and replies. A struct is sent as the names of its fields and those of its values that
  are not zero; the receiver stores the fields it knows by name into a variable that starts out as
  zero, and refuses values of another kind or out of the range of its field. Integers travel
  without a width.
\<close>

datatype gob =
    GInt int
  | GUint int
  | GString string
  | GBytes "byte list"
  | GTime int int
  | GSlice "gob list"
  | GStruct "string list" "(string \<times> gob) list"

subsection \<open>Kinds of fields\<close>

text \<open>An encoder returns nothing for a zero value; a decoder gets nothing for a field not sent.\<close>

definition put :: "('a \<Rightarrow> gob option) \<Rightarrow> string \<Rightarrow> 'a \<Rightarrow> (string \<times> gob) list \<Rightarrow> (string \<times> gob) list" where
  "put enc n v fs = (case enc v of None \<Rightarrow> fs | Some g \<Rightarrow> (n, g) # fs)"

definition get :: "(gob option \<Rightarrow> 'a option) \<Rightarrow> string \<Rightarrow> (string \<times> gob) list \<Rightarrow> 'a option" where
  "get dec n fs = dec (map_of fs n)"

lemma map_of_put:
  "map_of (put enc m v fs) n = (if m = n then (case enc v of None \<Rightarrow> map_of fs n | Some g \<Rightarrow> Some g) else map_of fs n)"
  by (simp add: put_def split: option.splits)

locale wire_kind =
  fixes enc :: "'a \<Rightarrow> gob option" and dec :: "gob option \<Rightarrow> 'a option"
  assumes dec_enc: "dec (enc v) = Some v"
begin

lemma get_put: "map_of fs n = None \<Longrightarrow> get dec n (put enc n v fs) = Some v"
  using dec_enc [of v] by (cases "enc v") (simp_all add: get_def map_of_put)

end

lemma get_put_other: "m \<noteq> n \<Longrightarrow> get dec n (put enc m v fs) = get dec n fs"
  by (simp add: get_def map_of_put)

definition enc_uint :: "'a::len word \<Rightarrow> gob option" where
  "enc_uint w = (if w = 0 then None else Some (GUint (uint w)))"

definition dec_uint :: "gob option \<Rightarrow> 'a::len word option" where
  "dec_uint g = (case g of None \<Rightarrow> Some 0
     | Some (GUint k) \<Rightarrow> if uint (word_of_int k :: 'a word) = k then Some (word_of_int k) else None | _ \<Rightarrow> None)"

definition enc_int :: "'a::len word \<Rightarrow> gob option" where
  "enc_int w = (if w = 0 then None else Some (GInt (sint w)))"

definition dec_int :: "gob option \<Rightarrow> 'a::len word option" where
  "dec_int g = (case g of None \<Rightarrow> Some 0
     | Some (GInt i) \<Rightarrow> if sint (word_of_int i :: 'a word) = i then Some (word_of_int i) else None | _ \<Rightarrow> None)"

definition enc_str :: "string \<Rightarrow> gob option" where
  "enc_str s = (if s = [] then None else Some (GString s))"

definition dec_str :: "gob option \<Rightarrow> string option" where
  "dec_str g = (case g of None \<Rightarrow> Some [] | Some (GString s) \<Rightarrow> Some s | _ \<Rightarrow> None)"

definition enc_bytes :: "byte list \<Rightarrow> gob option" where
  "enc_bytes bs = (if bs = [] then None else Some (GBytes bs))"

definition dec_bytes :: "gob option \<Rightarrow> byte list option" where
  "dec_bytes g = (case g of None \<Rightarrow> Some [] | Some (GBytes bs) \<Rightarrow> Some bs | _ \<Rightarrow> None)"

definition enc_time :: "Time \<Rightarrow> gob option" where
  "enc_time t = (if t = zero_Time then None else Some (GTime (t_sec t) (t_nsec t)))"

definition dec_time :: "gob option \<Rightarrow> Time option" where
  "dec_time g = (case g of None \<Rightarrow> Some zero_Time | Some (GTime s n) \<Rightarrow> Some \<lparr> t_sec = s, t_nsec = n \<rparr> | _ \<Rightarrow> None)"

interpretation uint_kind: wire_kind enc_uint dec_uint
  by unfold_locales (simp add: enc_uint_def dec_uint_def)

interpretation int_kind: wire_kind enc_int dec_int
  by unfold_locales (simp add: enc_int_def dec_int_def)

interpretation str_kind: wire_kind enc_str dec_str
  by unfold_locales (simp add: enc_str_def dec_str_def)

interpretation bytes_kind: wire_kind enc_bytes dec_bytes
  by unfold_locales (simp add: enc_bytes_def dec_bytes_def)

interpretation time_kind: wire_kind enc_time dec_time
  by unfold_locales (simp add: enc_time_def dec_time_def)

text \<open>The fields of a received struct; a sent struct that shares no field with the local type is
  refused.\<close>

definition struct_fields :: "string list \<Rightarrow> gob \<Rightarrow> (string \<times> gob) list option" where
  "struct_fields local g = (case g of
     GStruct sent fs \<Rightarrow> if sent \<noteq> [] \<and> local \<noteq> [] \<and> \<not> list_ex (\<lambda>n. n \<in> set sent) local then None else Some fs
   | _ \<Rightarrow> None)"

lemmas wire_laws = uint_kind.get_put int_kind.get_put str_kind.get_put bytes_kind.get_put time_kind.get_put
  get_put_other map_of_put struct_fields_def

subsection \<open>The structs\<close>

definition enc_DirEntry :: "DirEntry \<Rightarrow> gob" where
  "enc_DirEntry r = GStruct [''Mode'', ''Name'', ''Ino'']
     (put enc_uint ''Mode'' (de_Mode r)
      (put enc_str ''Name'' (de_Name r)
      (put enc_uint ''Ino'' (de_Ino r) [])))"

definition dec_DirEntry :: "gob \<Rightarrow> DirEntry option" where
  "dec_DirEntry g = do {
     fs \<leftarrow> struct_fields [''Mode'', ''Name'', ''Ino''] g;
     x0 \<leftarrow> get dec_uint ''Mode'' fs;
     x1 \<leftarrow> get dec_str ''Name'' fs;
     x2 \<leftarrow> get dec_uint ''Ino'' fs;
     Some \<lparr> de_Mode = x0, de_Name = x1, de_Ino = x2 \<rparr> }"

lemma dec_enc_DirEntry: "dec_DirEntry (enc_DirEntry r) = Some r"
  by (simp add: enc_DirEntry_def dec_DirEntry_def wire_laws)

definition enc_ReadDirRequest :: "ReadDirRequest \<Rightarrow> gob" where
  "enc_ReadDirRequest r = GStruct [''FullPath'']
     (put enc_str ''FullPath'' (rd_FullPath r) [])"

definition dec_ReadDirRequest :: "gob \<Rightarrow> ReadDirRequest option" where
  "dec_ReadDirRequest g = do {
     fs \<leftarrow> struct_fields [''FullPath''] g;
     x0 \<leftarrow> get dec_str ''FullPath'' fs;
     Some \<lparr> rd_FullPath = x0 \<rparr> }"

lemma dec_enc_ReadDirRequest: "dec_ReadDirRequest (enc_ReadDirRequest r) = Some r"
  by (simp add: enc_ReadDirRequest_def dec_ReadDirRequest_def wire_laws)

definition enc_entries :: "DirEntry list \<Rightarrow> gob option" where
  "enc_entries es = (if es = [] then None else Some (GSlice (map enc_DirEntry es)))"

definition dec_entries :: "gob option \<Rightarrow> DirEntry list option" where
  "dec_entries g = (case g of None \<Rightarrow> Some [] | Some (GSlice gs) \<Rightarrow> those (map dec_DirEntry gs) | _ \<Rightarrow> None)"

lemma those_map_dec: "(\<And>x. d (e x) = Some x) \<Longrightarrow> those (map d (map e xs)) = Some xs"
  by (induction xs) auto

interpretation entries_kind: wire_kind enc_entries dec_entries
  by unfold_locales (simp add: enc_entries_def dec_entries_def those_map_dec [where d = dec_DirEntry and e = enc_DirEntry, OF dec_enc_DirEntry] del: map_map)

definition enc_ReadDirReply :: "ReadDirReply \<Rightarrow> gob" where
  "enc_ReadDirReply r = GStruct [''DirEntries'']
     (put enc_entries ''DirEntries'' (DirEntries r) [])"

definition dec_ReadDirReply :: "gob \<Rightarrow> ReadDirReply option" where
  "dec_ReadDirReply g = do {
     fs \<leftarrow> struct_fields [''DirEntries''] g;
     x0 \<leftarrow> get dec_entries ''DirEntries'' fs;
     Some \<lparr> DirEntries = x0 \<rparr> }"

lemma dec_enc_ReadDirReply: "dec_ReadDirReply (enc_ReadDirReply r) = Some r"
  by (simp add: enc_ReadDirReply_def dec_ReadDirReply_def wire_laws entries_kind.get_put)

definition enc_StatRequest :: "StatRequest \<Rightarrow> gob" where
  "enc_StatRequest r = GStruct [''FullPath'']
     (put enc_str ''FullPath'' (st_FullPath r) [])"

definition dec_StatRequest :: "gob \<Rightarrow> StatRequest option" where
  "dec_StatRequest g = do {
     fs \<leftarrow> struct_fields [''FullPath''] g;
     x0 \<leftarrow> get dec_str ''FullPath'' fs;
     Some \<lparr> st_FullPath = x0 \<rparr> }"

lemma dec_enc_StatRequest: "dec_StatRequest (enc_StatRequest r) = Some r"
  by (simp add: enc_StatRequest_def dec_StatRequest_def wire_laws)

definition enc_StatReply :: "StatReply \<Rightarrow> gob" where
  "enc_StatReply r = GStruct [''Mode'', ''Nlink'', ''Ino'', ''UID'', ''GID'', ''Atime'', ''Mtime'', ''Ctime'', ''Size'', ''Blocks'', ''Blksize'', ''LinkTarget'']
     (put enc_uint ''Mode'' (Mode r)
      (put enc_uint ''Nlink'' (Nlink r)
      (put enc_uint ''Ino'' (Ino r)
      (put enc_uint ''UID'' (UID r)
      (put enc_uint ''GID'' (GID r)
      (put enc_int ''Atime'' (Atime r)
      (put enc_int ''Mtime'' (Mtime r)
      (put enc_int ''Ctime'' (Ctime r)
      (put enc_int ''Size'' (Size r)
      (put enc_int ''Blocks'' (Blocks r)
      (put enc_int ''Blksize'' (Blksize r)
      (put enc_str ''LinkTarget'' (LinkTarget r) []))))))))))))"

definition dec_StatReply :: "gob \<Rightarrow> StatReply option" where
  "dec_StatReply g = do {
     fs \<leftarrow> struct_fields [''Mode'', ''Nlink'', ''Ino'', ''UID'', ''GID'', ''Atime'', ''Mtime'', ''Ctime'', ''Size'', ''Blocks'', ''Blksize'', ''LinkTarget''] g;
     x0 \<leftarrow> get dec_uint ''Mode'' fs;
     x1 \<leftarrow> get dec_uint ''Nlink'' fs;
     x2 \<leftarrow> get dec_uint ''Ino'' fs;
     x3 \<leftarrow> get dec_uint ''UID'' fs;
     x4 \<leftarrow> get dec_uint ''GID'' fs;
     x5 \<leftarrow> get dec_int ''Atime'' fs;
     x6 \<leftarrow> get dec_int ''Mtime'' fs;
     x7 \<leftarrow> get dec_int ''Ctime'' fs;
     x8 \<leftarrow> get dec_int ''Size'' fs;
     x9 \<leftarrow> get dec_int ''Blocks'' fs;
     x10 \<leftarrow> get dec_int ''Blksize'' fs;
     x11 \<leftarrow> get dec_str ''LinkTarget'' fs;
     Some \<lparr> Mode = x0, Nlink = x1, Ino = x2, UID = x3, GID = x4, Atime = x5, Mtime = x6, Ctime = x7, Size = x8, Blocks = x9, Blksize = x10, LinkTarget = x11 \<rparr> }"

lemma dec_enc_StatReply: "dec_StatReply (enc_StatReply r) = Some r"
  by (simp add: enc_StatReply_def dec_StatReply_def wire_laws)

definition enc_OpenRequest :: "OpenRequest \<Rightarrow> gob" where
  "enc_OpenRequest r = GStruct [''FullPath'', ''SAFlags'', ''Mode'']
     (put enc_str ''FullPath'' (op_FullPath r)
      (put enc_uint ''SAFlags'' (op_SAFlags r)
      (put enc_uint ''Mode'' (op_Mode r) [])))"

definition dec_OpenRequest :: "gob \<Rightarrow> OpenRequest option" where
  "dec_OpenRequest g = do {
     fs \<leftarrow> struct_fields [''FullPath'', ''SAFlags'', ''Mode''] g;
     x0 \<leftarrow> get dec_str ''FullPath'' fs;
     x1 \<leftarrow> get dec_uint ''SAFlags'' fs;
     x2 \<leftarrow> get dec_uint ''Mode'' fs;
     Some \<lparr> op_FullPath = x0, op_SAFlags = x1, op_Mode = x2 \<rparr> }"

lemma dec_enc_OpenRequest: "dec_OpenRequest (enc_OpenRequest r) = Some r"
  by (simp add: enc_OpenRequest_def dec_OpenRequest_def wire_laws)

definition enc_stat :: "StatReply \<Rightarrow> gob option" where
  "enc_stat st = Some (enc_StatReply st)"

definition dec_stat :: "gob option \<Rightarrow> StatReply option" where
  "dec_stat g = (case g of None \<Rightarrow> dec_StatReply (GStruct [] []) | Some g' \<Rightarrow> dec_StatReply g')"

interpretation stat_kind: wire_kind enc_stat dec_stat
  by unfold_locales (simp add: enc_stat_def dec_stat_def dec_enc_StatReply)

definition enc_OpenReply :: "OpenReply \<Rightarrow> gob" where
  "enc_OpenReply r = GStruct [''FD'', ''StatReply'']
     (put enc_uint ''FD'' (op_FD r)
      (put enc_stat ''StatReply'' (op_StatReply r) []))"

definition dec_OpenReply :: "gob \<Rightarrow> OpenReply option" where
  "dec_OpenReply g = do {
     fs \<leftarrow> struct_fields [''FD'', ''StatReply''] g;
     x0 \<leftarrow> get dec_uint ''FD'' fs;
     x1 \<leftarrow> get dec_stat ''StatReply'' fs;
     Some \<lparr> op_FD = x0, op_StatReply = x1 \<rparr> }"

lemma dec_enc_OpenReply: "dec_OpenReply (enc_OpenReply r) = Some r"
  by (simp add: enc_OpenReply_def dec_OpenReply_def wire_laws stat_kind.get_put)

definition enc_CloseRequest :: "CloseRequest \<Rightarrow> gob" where
  "enc_CloseRequest r = GStruct [''FD'']
     (put enc_uint ''FD'' (cl_FD r) [])"

definition dec_CloseRequest :: "gob \<Rightarrow> CloseRequest option" where
  "dec_CloseRequest g = do {
     fs \<leftarrow> struct_fields [''FD''] g;
     x0 \<leftarrow> get dec_uint ''FD'' fs;
     Some \<lparr> cl_FD = x0 \<rparr> }"

lemma dec_enc_CloseRequest: "dec_CloseRequest (enc_CloseRequest r) = Some r"
  by (simp add: enc_CloseRequest_def dec_CloseRequest_def wire_laws)

definition enc_ReadRequest :: "ReadRequest \<Rightarrow> gob" where
  "enc_ReadRequest r = GStruct [''FD'', ''Offset'', ''Num'']
     (put enc_uint ''FD'' (re_FD r)
      (put enc_int ''Offset'' (re_Offset r)
      (put enc_int ''Num'' (re_Num r) [])))"

definition dec_ReadRequest :: "gob \<Rightarrow> ReadRequest option" where
  "dec_ReadRequest g = do {
     fs \<leftarrow> struct_fields [''FD'', ''Offset'', ''Num''] g;
     x0 \<leftarrow> get dec_uint ''FD'' fs;
     x1 \<leftarrow> get dec_int ''Offset'' fs;
     x2 \<leftarrow> get dec_int ''Num'' fs;
     Some \<lparr> re_FD = x0, re_Offset = x1, re_Num = x2 \<rparr> }"

lemma dec_enc_ReadRequest: "dec_ReadRequest (enc_ReadRequest r) = Some r"
  by (simp add: enc_ReadRequest_def dec_ReadRequest_def wire_laws)

definition enc_ReadReply :: "ReadReply \<Rightarrow> gob" where
  "enc_ReadReply r = GStruct [''Data'']
     (put enc_bytes ''Data'' (re_Data r) [])"

definition dec_ReadReply :: "gob \<Rightarrow> ReadReply option" where
  "dec_ReadReply g = do {
     fs \<leftarrow> struct_fields [''Data''] g;
     x0 \<leftarrow> get dec_bytes ''Data'' fs;
     Some \<lparr> re_Data = x0 \<rparr> }"

lemma dec_enc_ReadReply: "dec_ReadReply (enc_ReadReply r) = Some r"
  by (simp add: enc_ReadReply_def dec_ReadReply_def wire_laws)

definition enc_SeekRequest :: "SeekRequest \<Rightarrow> gob" where
  "enc_SeekRequest r = GStruct [''FD'', ''Offset'', ''Whence'']
     (put enc_uint ''FD'' (sk_FD r)
      (put enc_int ''Offset'' (sk_Offset r)
      (put enc_int ''Whence'' (sk_Whence r) [])))"

definition dec_SeekRequest :: "gob \<Rightarrow> SeekRequest option" where
  "dec_SeekRequest g = do {
     fs \<leftarrow> struct_fields [''FD'', ''Offset'', ''Whence''] g;
     x0 \<leftarrow> get dec_uint ''FD'' fs;
     x1 \<leftarrow> get dec_int ''Offset'' fs;
     x2 \<leftarrow> get dec_int ''Whence'' fs;
     Some \<lparr> sk_FD = x0, sk_Offset = x1, sk_Whence = x2 \<rparr> }"

lemma dec_enc_SeekRequest: "dec_SeekRequest (enc_SeekRequest r) = Some r"
  by (simp add: enc_SeekRequest_def dec_SeekRequest_def wire_laws)

definition enc_SeekReply :: "SeekReply \<Rightarrow> gob" where
  "enc_SeekReply r = GStruct [''Num'']
     (put enc_int ''Num'' (sk_Num r) [])"

definition dec_SeekReply :: "gob \<Rightarrow> SeekReply option" where
  "dec_SeekReply g = do {
     fs \<leftarrow> struct_fields [''Num''] g;
     x0 \<leftarrow> get dec_int ''Num'' fs;
     Some \<lparr> sk_Num = x0 \<rparr> }"

lemma dec_enc_SeekReply: "dec_SeekReply (enc_SeekReply r) = Some r"
  by (simp add: enc_SeekReply_def dec_SeekReply_def wire_laws)

definition enc_WriteRequest :: "WriteRequest \<Rightarrow> gob" where
  "enc_WriteRequest r = GStruct [''FD'', ''Offset'', ''Data'']
     (put enc_uint ''FD'' (wr_FD r)
      (put enc_int ''Offset'' (wr_Offset r)
      (put enc_bytes ''Data'' (wr_Data r) [])))"

definition dec_WriteRequest :: "gob \<Rightarrow> WriteRequest option" where
  "dec_WriteRequest g = do {
     fs \<leftarrow> struct_fields [''FD'', ''Offset'', ''Data''] g;
     x0 \<leftarrow> get dec_uint ''FD'' fs;
     x1 \<leftarrow> get dec_int ''Offset'' fs;
     x2 \<leftarrow> get dec_bytes ''Data'' fs;
     Some \<lparr> wr_FD = x0, wr_Offset = x1, wr_Data = x2 \<rparr> }"

lemma dec_enc_WriteRequest: "dec_WriteRequest (enc_WriteRequest r) = Some r"
  by (simp add: enc_WriteRequest_def dec_WriteRequest_def wire_laws)

definition enc_WriteReply :: "WriteReply \<Rightarrow> gob" where
  "enc_WriteReply r = GStruct [''Num'']
     (put enc_int ''Num'' (wr_Num r) [])"

definition dec_WriteReply :: "gob \<Rightarrow> WriteReply option" where
  "dec_WriteReply g = do {
     fs \<leftarrow> struct_fields [''Num''] g;
     x0 \<leftarrow> get dec_int ''Num'' fs;
     Some \<lparr> wr_Num = x0 \<rparr> }"

lemma dec_enc_WriteReply: "dec_WriteReply (enc_WriteReply r) = Some r"
  by (simp add: enc_WriteReply_def dec_WriteReply_def wire_laws)

definition enc_UnlinkRequest :: "UnlinkRequest \<Rightarrow> gob" where
  "enc_UnlinkRequest r = GStruct [''FullPath'']
     (put enc_str ''FullPath'' (ul_FullPath r) [])"

definition dec_UnlinkRequest :: "gob \<Rightarrow> UnlinkRequest option" where
  "dec_UnlinkRequest g = do {
     fs \<leftarrow> struct_fields [''FullPath''] g;
     x0 \<leftarrow> get dec_str ''FullPath'' fs;
     Some \<lparr> ul_FullPath = x0 \<rparr> }"

lemma dec_enc_UnlinkRequest: "dec_UnlinkRequest (enc_UnlinkRequest r) = Some r"
  by (simp add: enc_UnlinkRequest_def dec_UnlinkRequest_def wire_laws)

definition enc_FsyncRequest :: "FsyncRequest \<Rightarrow> gob" where
  "enc_FsyncRequest r = GStruct [''FD'', ''Flags'']
     (put enc_uint ''FD'' (fy_FD r)
      (put enc_uint ''Flags'' (fy_Flags r) []))"

definition dec_FsyncRequest :: "gob \<Rightarrow> FsyncRequest option" where
  "dec_FsyncRequest g = do {
     fs \<leftarrow> struct_fields [''FD'', ''Flags''] g;
     x0 \<leftarrow> get dec_uint ''FD'' fs;
     x1 \<leftarrow> get dec_uint ''Flags'' fs;
     Some \<lparr> fy_FD = x0, fy_Flags = x1 \<rparr> }"

lemma dec_enc_FsyncRequest: "dec_FsyncRequest (enc_FsyncRequest r) = Some r"
  by (simp add: enc_FsyncRequest_def dec_FsyncRequest_def wire_laws)

definition enc_MkdirRequest :: "MkdirRequest \<Rightarrow> gob" where
  "enc_MkdirRequest r = GStruct [''FullPath'', ''Mode'']
     (put enc_str ''FullPath'' (md_FullPath r)
      (put enc_uint ''Mode'' (md_Mode r) []))"

definition dec_MkdirRequest :: "gob \<Rightarrow> MkdirRequest option" where
  "dec_MkdirRequest g = do {
     fs \<leftarrow> struct_fields [''FullPath'', ''Mode''] g;
     x0 \<leftarrow> get dec_str ''FullPath'' fs;
     x1 \<leftarrow> get dec_uint ''Mode'' fs;
     Some \<lparr> md_FullPath = x0, md_Mode = x1 \<rparr> }"

lemma dec_enc_MkdirRequest: "dec_MkdirRequest (enc_MkdirRequest r) = Some r"
  by (simp add: enc_MkdirRequest_def dec_MkdirRequest_def wire_laws)

definition enc_RmdirRequest :: "RmdirRequest \<Rightarrow> gob" where
  "enc_RmdirRequest r = GStruct [''FullPath'']
     (put enc_str ''FullPath'' (rm_FullPath r) [])"

definition dec_RmdirRequest :: "gob \<Rightarrow> RmdirRequest option" where
  "dec_RmdirRequest g = do {
     fs \<leftarrow> struct_fields [''FullPath''] g;
     x0 \<leftarrow> get dec_str ''FullPath'' fs;
     Some \<lparr> rm_FullPath = x0 \<rparr> }"

lemma dec_enc_RmdirRequest: "dec_RmdirRequest (enc_RmdirRequest r) = Some r"
  by (simp add: enc_RmdirRequest_def dec_RmdirRequest_def wire_laws)

definition enc_RenameRequest :: "RenameRequest \<Rightarrow> gob" where
  "enc_RenameRequest r = GStruct [''FullPath'', ''FullNewPath'', ''Flags'']
     (put enc_str ''FullPath'' (rn_FullPath r)
      (put enc_str ''FullNewPath'' (rn_FullNewPath r)
      (put enc_uint ''Flags'' (rn_Flags r) [])))"

definition dec_RenameRequest :: "gob \<Rightarrow> RenameRequest option" where
  "dec_RenameRequest g = do {
     fs \<leftarrow> struct_fields [''FullPath'', ''FullNewPath'', ''Flags''] g;
     x0 \<leftarrow> get dec_str ''FullPath'' fs;
     x1 \<leftarrow> get dec_str ''FullNewPath'' fs;
     x2 \<leftarrow> get dec_uint ''Flags'' fs;
     Some \<lparr> rn_FullPath = x0, rn_FullNewPath = x1, rn_Flags = x2 \<rparr> }"

lemma dec_enc_RenameRequest: "dec_RenameRequest (enc_RenameRequest r) = Some r"
  by (simp add: enc_RenameRequest_def dec_RenameRequest_def wire_laws)

definition enc_ReadlinkRequest :: "ReadlinkRequest \<Rightarrow> gob" where
  "enc_ReadlinkRequest r = GStruct [''FullPath'']
     (put enc_str ''FullPath'' (rl_FullPath r) [])"

definition dec_ReadlinkRequest :: "gob \<Rightarrow> ReadlinkRequest option" where
  "dec_ReadlinkRequest g = do {
     fs \<leftarrow> struct_fields [''FullPath''] g;
     x0 \<leftarrow> get dec_str ''FullPath'' fs;
     Some \<lparr> rl_FullPath = x0 \<rparr> }"

lemma dec_enc_ReadlinkRequest: "dec_ReadlinkRequest (enc_ReadlinkRequest r) = Some r"
  by (simp add: enc_ReadlinkRequest_def dec_ReadlinkRequest_def wire_laws)

definition enc_ReadlinkReply :: "ReadlinkReply \<Rightarrow> gob" where
  "enc_ReadlinkReply r = GStruct [''LinkTarget'']
     (put enc_str ''LinkTarget'' (rl_LinkTarget r) [])"

definition dec_ReadlinkReply :: "gob \<Rightarrow> ReadlinkReply option" where
  "dec_ReadlinkReply g = do {
     fs \<leftarrow> struct_fields [''LinkTarget''] g;
     x0 \<leftarrow> get dec_str ''LinkTarget'' fs;
     Some \<lparr> rl_LinkTarget = x0 \<rparr> }"

lemma dec_enc_ReadlinkReply: "dec_ReadlinkReply (enc_ReadlinkReply r) = Some r"
  by (simp add: enc_ReadlinkReply_def dec_ReadlinkReply_def wire_laws)

definition enc_LinkRequest :: "LinkRequest \<Rightarrow> gob" where
  "enc_LinkRequest r = GStruct [''OldFullPath'', ''NewFullPath'']
     (put enc_str ''OldFullPath'' (ln_OldFullPath r)
      (put enc_str ''NewFullPath'' (ln_NewFullPath r) []))"

definition dec_LinkRequest :: "gob \<Rightarrow> LinkRequest option" where
  "dec_LinkRequest g = do {
     fs \<leftarrow> struct_fields [''OldFullPath'', ''NewFullPath''] g;
     x0 \<leftarrow> get dec_str ''OldFullPath'' fs;
     x1 \<leftarrow> get dec_str ''NewFullPath'' fs;
     Some \<lparr> ln_OldFullPath = x0, ln_NewFullPath = x1 \<rparr> }"

lemma dec_enc_LinkRequest: "dec_LinkRequest (enc_LinkRequest r) = Some r"
  by (simp add: enc_LinkRequest_def dec_LinkRequest_def wire_laws)

definition enc_SymlinkRequest :: "SymlinkRequest \<Rightarrow> gob" where
  "enc_SymlinkRequest r = GStruct [''OldFullPath'', ''NewFullPath'']
     (put enc_str ''OldFullPath'' (sl_OldFullPath r)
      (put enc_str ''NewFullPath'' (sl_NewFullPath r) []))"

definition dec_SymlinkRequest :: "gob \<Rightarrow> SymlinkRequest option" where
  "dec_SymlinkRequest g = do {
     fs \<leftarrow> struct_fields [''OldFullPath'', ''NewFullPath''] g;
     x0 \<leftarrow> get dec_str ''OldFullPath'' fs;
     x1 \<leftarrow> get dec_str ''NewFullPath'' fs;
     Some \<lparr> sl_OldFullPath = x0, sl_NewFullPath = x1 \<rparr> }"

lemma dec_enc_SymlinkRequest: "dec_SymlinkRequest (enc_SymlinkRequest r) = Some r"
  by (simp add: enc_SymlinkRequest_def dec_SymlinkRequest_def wire_laws)

definition enc_SetAttrRequest :: "SetAttrRequest \<Rightarrow> gob" where
  "enc_SetAttrRequest r = GStruct [''FullPath'', ''ValidAttrs'', ''ATime'', ''MTime'', ''UID'', ''GID'', ''Mode'', ''Size'']
     (put enc_str ''FullPath'' (sa_FullPath r)
      (put enc_uint ''ValidAttrs'' (sa_ValidAttrs r)
      (put enc_time ''ATime'' (sa_ATime r)
      (put enc_time ''MTime'' (sa_MTime r)
      (put enc_uint ''UID'' (sa_UID r)
      (put enc_uint ''GID'' (sa_GID r)
      (put enc_uint ''Mode'' (sa_Mode r)
      (put enc_uint ''Size'' (sa_Size r) []))))))))"

definition dec_SetAttrRequest :: "gob \<Rightarrow> SetAttrRequest option" where
  "dec_SetAttrRequest g = do {
     fs \<leftarrow> struct_fields [''FullPath'', ''ValidAttrs'', ''ATime'', ''MTime'', ''UID'', ''GID'', ''Mode'', ''Size''] g;
     x0 \<leftarrow> get dec_str ''FullPath'' fs;
     x1 \<leftarrow> get dec_uint ''ValidAttrs'' fs;
     x2 \<leftarrow> get dec_time ''ATime'' fs;
     x3 \<leftarrow> get dec_time ''MTime'' fs;
     x4 \<leftarrow> get dec_uint ''UID'' fs;
     x5 \<leftarrow> get dec_uint ''GID'' fs;
     x6 \<leftarrow> get dec_uint ''Mode'' fs;
     x7 \<leftarrow> get dec_uint ''Size'' fs;
     Some \<lparr> sa_FullPath = x0, sa_ValidAttrs = x1, sa_ATime = x2, sa_MTime = x3, sa_UID = x4, sa_GID = x5, sa_Mode = x6, sa_Size = x7 \<rparr> }"

lemma dec_enc_SetAttrRequest: "dec_SetAttrRequest (enc_SetAttrRequest r) = Some r"
  by (simp add: enc_SetAttrRequest_def dec_SetAttrRequest_def wire_laws)

text \<open>The client sends a \<^verbatim>\<open>StatRequest\<close> where the satellite expects a
  \<^verbatim>\<open>ReadDirRequest\<close>; the two have the same field.\<close>

lemma dec_enc_StatRequest_ReadDirRequest:
  "dec_ReadDirRequest (enc_StatRequest r) = Some \<lparr> rd_FullPath = st_FullPath r \<rparr>"
  by (simp add: enc_StatRequest_def dec_ReadDirRequest_def wire_laws)

text \<open>The replies without fields.\<close>

definition enc_unit :: "unit \<Rightarrow> gob" where
  "enc_unit r = GStruct [] []"

definition dec_unit :: "gob \<Rightarrow> unit option" where
  "dec_unit g = map_option (\<lambda>_. ()) (struct_fields [] g)"

lemma dec_enc_unit: "dec_unit (enc_unit r) = Some r"
  by (simp add: enc_unit_def dec_unit_def struct_fields_def)

lemmas dec_enc = dec_enc_DirEntry dec_enc_ReadDirRequest dec_enc_ReadDirReply dec_enc_StatRequest dec_enc_StatReply
  dec_enc_OpenRequest dec_enc_OpenReply dec_enc_CloseRequest dec_enc_ReadRequest dec_enc_ReadReply
  dec_enc_SeekRequest dec_enc_SeekReply dec_enc_WriteRequest dec_enc_WriteReply dec_enc_UnlinkRequest
  dec_enc_FsyncRequest dec_enc_MkdirRequest dec_enc_RmdirRequest dec_enc_RenameRequest dec_enc_ReadlinkRequest
  dec_enc_ReadlinkReply dec_enc_LinkRequest dec_enc_SymlinkRequest dec_enc_SetAttrRequest dec_enc_unit
  dec_enc_StatRequest_ReadDirRequest

end
