(* ===== verification/Errno_Codec.thy ===== *)
theory Errno_Codec
  imports Df_Prelude
begin

text \<open>
  Errors on the wire (\<^verbatim>\<open>pkg/rpccommon/utils.go\<close>, lines 115-532). The values of
  \<^verbatim>\<open>errno\<close> differ between operating systems, so the satellite sends the symbolic
  name of an error as the text of the RPC error and the client translates it back. A platform is
  the function from the names of the \<^verbatim>\<open>syscall\<close> constants to their values; the locale
  \<open>errno_consts\<close> states what the translation needs of one and is interpreted on Linux and
  macOS.
\<close>

type_synonym errno_names = "string \<Rightarrow> errno"

subsection \<open>The \<^verbatim>\<open>syscall.E*\<close> constants of the two platforms\<close>

definition linux_errno_table :: "(string \<times> errno) list" where
  "linux_errno_table = [
     (''E2BIG'', 7), (''EACCES'', 13), (''EADDRINUSE'', 98), (''EADDRNOTAVAIL'', 99),
     (''EAFNOSUPPORT'', 97), (''EAGAIN'', 11), (''EALREADY'', 114), (''EBADF'', 9),
     (''EBADMSG'', 74), (''EBUSY'', 16), (''ECANCELED'', 125), (''ECHILD'', 10),
     (''ECONNABORTED'', 103), (''ECONNREFUSED'', 111), (''ECONNRESET'', 104), (''EDEADLK'', 35),
     (''EDESTADDRREQ'', 89), (''EDOM'', 33), (''EDQUOT'', 122), (''EEXIST'', 17), (''EFAULT'', 14),
     (''EFBIG'', 27), (''EHOSTDOWN'', 112), (''EHOSTUNREACH'', 113), (''EIDRM'', 43),
     (''EILSEQ'', 84), (''EINPROGRESS'', 115), (''EINTR'', 4), (''EINVAL'', 22), (''EIO'', 5),
     (''EISCONN'', 106), (''EISDIR'', 21), (''ELOOP'', 40), (''EMFILE'', 24), (''EMLINK'', 31),
     (''EMSGSIZE'', 90), (''EMULTIHOP'', 72), (''ENAMETOOLONG'', 36), (''ENETDOWN'', 100),
     (''ENETRESET'', 102), (''ENETUNREACH'', 101), (''ENFILE'', 23), (''ENOBUFS'', 105),
     (''ENODATA'', 61), (''ENODEV'', 19), (''ENOENT'', 2), (''ENOEXEC'', 8), (''ENOLCK'', 37),
     (''ENOLINK'', 67), (''ENOMEM'', 12), (''ENOMSG'', 42), (''ENOPROTOOPT'', 92), (''ENOSPC'', 28),
     (''ENOSR'', 63), (''ENOSTR'', 60), (''ENOSYS'', 38), (''ENOTBLK'', 15), (''ENOTCONN'', 107),
     (''ENOTDIR'', 20), (''ENOTEMPTY'', 39), (''ENOTRECOVERABLE'', 131), (''ENOTSOCK'', 88),
     (''ENOTSUP'', 95), (''ENOTTY'', 25), (''ENXIO'', 6), (''EOPNOTSUPP'', 95), (''EOVERFLOW'', 75),
     (''EOWNERDEAD'', 130), (''EPERM'', 1), (''EPFNOSUPPORT'', 96), (''EPIPE'', 32),
     (''EPROTO'', 71), (''EPROTONOSUPPORT'', 93), (''EPROTOTYPE'', 91), (''ERANGE'', 34),
     (''EREMOTE'', 66), (''EROFS'', 30), (''ESHUTDOWN'', 108), (''ESOCKTNOSUPPORT'', 94),
     (''ESPIPE'', 29), (''ESRCH'', 3), (''ESTALE'', 116), (''ETIME'', 62), (''ETIMEDOUT'', 110),
     (''ETOOMANYREFS'', 109), (''ETXTBSY'', 26), (''EUSERS'', 87), (''EWOULDBLOCK'', 11),
     (''EXDEV'', 18)]"

definition darwin_errno_table :: "(string \<times> errno) list" where
  "darwin_errno_table = [
     (''E2BIG'', 7), (''EACCES'', 13), (''EADDRINUSE'', 48), (''EADDRNOTAVAIL'', 49),
     (''EAFNOSUPPORT'', 47), (''EAGAIN'', 35), (''EALREADY'', 37), (''EBADF'', 9),
     (''EBADMSG'', 94), (''EBUSY'', 16), (''ECANCELED'', 89), (''ECHILD'', 10),
     (''ECONNABORTED'', 53), (''ECONNREFUSED'', 61), (''ECONNRESET'', 54), (''EDEADLK'', 11),
     (''EDESTADDRREQ'', 39), (''EDOM'', 33), (''EDQUOT'', 69), (''EEXIST'', 17), (''EFAULT'', 14),
     (''EFBIG'', 27), (''EHOSTDOWN'', 64), (''EHOSTUNREACH'', 65), (''EIDRM'', 90),
     (''EILSEQ'', 92), (''EINPROGRESS'', 36), (''EINTR'', 4), (''EINVAL'', 22), (''EIO'', 5),
     (''EISCONN'', 56), (''EISDIR'', 21), (''ELOOP'', 62), (''EMFILE'', 24), (''EMLINK'', 31),
     (''EMSGSIZE'', 40), (''EMULTIHOP'', 95), (''ENAMETOOLONG'', 63), (''ENETDOWN'', 50),
     (''ENETRESET'', 52), (''ENETUNREACH'', 51), (''ENFILE'', 23), (''ENOBUFS'', 55),
     (''ENODATA'', 96), (''ENODEV'', 19), (''ENOENT'', 2), (''ENOEXEC'', 8), (''ENOLCK'', 77),
     (''ENOLINK'', 97), (''ENOMEM'', 12), (''ENOMSG'', 91), (''ENOPROTOOPT'', 42), (''ENOSPC'', 28),
     (''ENOSR'', 98), (''ENOSTR'', 99), (''ENOSYS'', 78), (''ENOTBLK'', 15), (''ENOTCONN'', 57),
     (''ENOTDIR'', 20), (''ENOTEMPTY'', 66), (''ENOTRECOVERABLE'', 104), (''ENOTSOCK'', 38),
     (''ENOTSUP'', 45), (''ENOTTY'', 25), (''ENXIO'', 6), (''EOPNOTSUPP'', 102),
     (''EOVERFLOW'', 84), (''EOWNERDEAD'', 105), (''EPERM'', 1), (''EPFNOSUPPORT'', 46),
     (''EPIPE'', 32), (''EPROTO'', 100), (''EPROTONOSUPPORT'', 43), (''EPROTOTYPE'', 41),
     (''ERANGE'', 34), (''EREMOTE'', 71), (''EROFS'', 30), (''ESHUTDOWN'', 58),
     (''ESOCKTNOSUPPORT'', 44), (''ESPIPE'', 29), (''ESRCH'', 3), (''ESTALE'', 70),
     (''ETIME'', 101), (''ETIMEDOUT'', 60), (''ETOOMANYREFS'', 59), (''ETXTBSY'', 26),
     (''EUSERS'', 68), (''EWOULDBLOCK'', 35), (''EXDEV'', 18)]"

definition errno_const :: "(string \<times> errno) list \<Rightarrow> errno_names" where
  "errno_const t c = (case map_of t c of Some e \<Rightarrow> e | None \<Rightarrow> 0)"

abbreviation linux_errno :: errno_names where "linux_errno \<equiv> errno_const linux_errno_table"
abbreviation darwin_errno :: errno_names where "darwin_errno \<equiv> errno_const darwin_errno_table"

subsection \<open>Symbols\<close>

text \<open>
  The two \<^verbatim>\<open>switch\<close> statements, case by case in the order of the source:
  \<^verbatim>\<open>case syscall.X: return "Y"\<close> is the pair \<open>(X, Y)\<close>, and
  \<^verbatim>\<open>case "X": return syscall.Y\<close> is the pair \<open>(X, Y)\<close>.
\<close>

definition ErrnoToSym_cases :: "(string \<times> string) list" where
  "ErrnoToSym_cases = [
     (''E2BIG'', ''E2BIG''), (''EACCES'', ''EACCES''), (''EADDRINUSE'', ''EADDRINUSE''),
     (''EADDRNOTAVAIL'', ''EADDRNOTAVAIL''), (''EAFNOSUPPORT'', ''EAFNOSUPPORT''),
     (''EAGAIN'', ''EAGAIN''), (''EALREADY'', ''EALREADY''), (''EBADF'', ''EBADF''),
     (''EBADMSG'', ''EBADMSG''), (''EBUSY'', ''EBUSY''), (''ECANCELED'', ''ECANCELED''),
     (''ECHILD'', ''ECHILD''), (''ECONNABORTED'', ''ECONNABORTED''),
     (''ECONNREFUSED'', ''ECONNREFUSED''), (''ECONNRESET'', ''ECONNRESET''),
     (''EDEADLK'', ''EDEADLK''), (''EDESTADDRREQ'', ''EDESTADDRREQ''), (''EDOM'', ''EDOM''),
     (''EDQUOT'', ''EDQUOT''), (''EEXIST'', ''EEXIST''), (''EFAULT'', ''EFAULT''),
     (''EFBIG'', ''EFBIG''), (''EHOSTDOWN'', ''EHOSTDOWN''), (''EHOSTUNREACH'', ''EHOSTUNREACH''),
     (''EIDRM'', ''EIDRM''), (''EILSEQ'', ''EILSEQ''), (''EINPROGRESS'', ''EINPROGRESS''),
     (''EINTR'', ''EINTR''), (''EINVAL'', ''EINVAL''), (''EIO'', ''EIO''),
     (''EISCONN'', ''EISCONN''), (''EISDIR'', ''EISDIR''), (''ELOOP'', ''ELOOP''),
     (''EMFILE'', ''EMFILE''), (''EMLINK'', ''EMLINK''), (''EMSGSIZE'', ''EMSGSIZE''),
     (''EMULTIHOP'', ''EMULTIHOP''), (''ENAMETOOLONG'', ''ENAMETOOLONG''),
     (''ENETDOWN'', ''ENETDOWN''), (''ENETRESET'', ''ENETRESET''),
     (''ENETUNREACH'', ''ENETUNREACH''), (''ENFILE'', ''ENFILE''), (''ENOBUFS'', ''ENOBUFS''),
     (''ENODATA'', ''ENODATA''), (''ENODEV'', ''ENODEV''), (''ENOENT'', ''ENOENT''),
     (''ENOEXEC'', ''ENOEXEC''), (''ENOLCK'', ''ENOLCK''), (''ENOLINK'', ''ENOLINK''),
     (''ENOMEM'', ''ENOMEM''), (''ENOMSG'', ''ENOMSG''), (''ENOPROTOOPT'', ''ENOPROTOOPT''),
     (''ENOSPC'', ''ENOSPC''), (''ENOSR'', ''ENOSR''), (''ENOSTR'', ''ENOSTR''),
     (''ENOSYS'', ''ENOSYS''), (''ENOTBLK'', ''ENOTBLK''), (''ENOTCONN'', ''ENOTCONN''),
     (''ENOTDIR'', ''ENOTDIR''), (''ENOTEMPTY'', ''ENOTEMPTY''),
     (''ENOTRECOVERABLE'', ''ENOTRECOVERABLE''), (''ENOTSOCK'', ''ENOTSOCK''),
     (''ENOTSUP'', ''ENOTSUP''), (''ENOTTY'', ''ENOTTY''), (''ENXIO'', ''ENXIO''),
     (''EOVERFLOW'', ''EOVERFLOW''), (''EOWNERDEAD'', ''EOWNERDEAD''), (''EPERM'', ''EPERM''),
     (''EPFNOSUPPORT'', ''EPFNOSUPPORT''), (''EPIPE'', ''EPIPE''), (''EPROTO'', ''EPROTO''),
     (''EPROTONOSUPPORT'', ''EPROTONOSUPPORT''), (''EPROTOTYPE'', ''EPROTOTYPE''),
     (''ERANGE'', ''ERANGE''), (''EREMOTE'', ''EREMOTE''), (''EROFS'', ''EROFS''),
     (''ESHUTDOWN'', ''ESHUTDOWN''), (''ESOCKTNOSUPPORT'', ''ESOCKTNOSUPPORT''),
     (''ESPIPE'', ''ESPIPE''), (''ESRCH'', ''ESRCH''), (''ESTALE'', ''ESTALE''),
     (''ETIME'', ''ETIME''), (''ETIMEDOUT'', ''ETIMEDOUT''), (''ETOOMANYREFS'', ''ETOOMANYREFS''),
     (''ETXTBSY'', ''ETXTBSY''), (''EUSERS'', ''EUSERS''), (''EXDEV'', ''EXDEV'')]"

definition ErrnoToSym :: "errno_names \<Rightarrow> errno \<Rightarrow> string" where
  "ErrnoToSym syscall errno =
    (case map_of (map (\<lambda>(c, symb). (syscall c, symb)) ErrnoToSym_cases) errno of
       Some symb \<Rightarrow> symb
     | None \<Rightarrow> ''EIO'')"

definition SymToErrno_cases :: "(string \<times> string) list" where
  "SymToErrno_cases = [
     (''E2BIG'', ''E2BIG''), (''EACCES'', ''EACCES''), (''EADDRINUSE'', ''EADDRINUSE''),
     (''EADDRNOTAVAIL'', ''EADDRNOTAVAIL''), (''EAFNOSUPPORT'', ''EAFNOSUPPORT''),
     (''EAGAIN'', ''EAGAIN''), (''EALREADY'', ''EALREADY''), (''EBADF'', ''EBADF''),
     (''EBADMSG'', ''EBADMSG''), (''EBUSY'', ''EBUSY''), (''ECANCELED'', ''ECANCELED''),
     (''ECHILD'', ''ECHILD''), (''ECONNABORTED'', ''ECONNABORTED''),
     (''ECONNREFUSED'', ''ECONNREFUSED''), (''ECONNRESET'', ''ECONNRESET''),
     (''EDEADLK'', ''EDEADLK''), (''EDESTADDRREQ'', ''EDESTADDRREQ''), (''EDOM'', ''EDOM''),
     (''EDQUOT'', ''EDQUOT''), (''EEXIST'', ''EEXIST''), (''EFAULT'', ''EFAULT''),
     (''EFBIG'', ''EFBIG''), (''EHOSTDOWN'', ''EHOSTDOWN''), (''EHOSTUNREACH'', ''EHOSTUNREACH''),
     (''EIDRM'', ''EIDRM''), (''EILSEQ'', ''EILSEQ''), (''EINPROGRESS'', ''EINPROGRESS''),
     (''EINTR'', ''EINTR''), (''EINVAL'', ''EINVAL''), (''EIO'', ''EIO''),
     (''EISCONN'', ''EISCONN''), (''EISDIR'', ''EISDIR''), (''ELOOP'', ''ELOOP''),
     (''EMFILE'', ''EMFILE''), (''EMLINK'', ''EMLINK''), (''EMSGSIZE'', ''EMSGSIZE''),
     (''EMULTIHOP'', ''EMULTIHOP''), (''ENAMETOOLONG'', ''ENAMETOOLONG''),
     (''ENETDOWN'', ''ENETDOWN''), (''ENETRESET'', ''ENETRESET''),
     (''ENETUNREACH'', ''ENETUNREACH''), (''ENFILE'', ''ENFILE''), (''ENOBUFS'', ''ENOBUFS''),
     (''ENODATA'', ''ENODATA''), (''ENODEV'', ''ENODEV''), (''ENOENT'', ''ENOENT''),
     (''ENOEXEC'', ''ENOEXEC''), (''ENOLCK'', ''ENOLCK''), (''ENOLINK'', ''ENOLINK''),
     (''ENOMEM'', ''ENOMEM''), (''ENOMSG'', ''ENOMSG''), (''ENOPROTOOPT'', ''ENOPROTOOPT''),
     (''ENOSPC'', ''ENOSPC''), (''ENOSR'', ''ENOSR''), (''ENOSTR'', ''ENOSTR''),
     (''ENOSYS'', ''ENOSYS''), (''ENOTBLK'', ''ENOTBLK''), (''ENOTCONN'', ''ENOTCONN''),
     (''ENOTDIR'', ''ENOTDIR''), (''ENOTEMPTY'', ''ENOTEMPTY''),
     (''ENOTRECOVERABLE'', ''ENOTRECOVERABLE''), (''ENOTSOCK'', ''ENOTSOCK''),
     (''ENOTSUP'', ''ENOTSUP''), (''ENOTTY'', ''ENOTTY''), (''ENXIO'', ''ENXIO''),
     (''EOPNOTSUPP'', ''EOPNOTSUPP''), (''EOVERFLOW'', ''EOVERFLOW''),
     (''EOWNERDEAD'', ''EOWNERDEAD''), (''EPERM'', ''EPERM''), (''EPFNOSUPPORT'', ''EPFNOSUPPORT''),
     (''EPIPE'', ''EPIPE''), (''EPROTO'', ''EPROTO''), (''EPROTONOSUPPORT'', ''EPROTONOSUPPORT''),
     (''EPROTOTYPE'', ''EPROTOTYPE''), (''ERANGE'', ''ERANGE''), (''EREMOTE'', ''EREMOTE''),
     (''EROFS'', ''EROFS''), (''ESHUTDOWN'', ''ESHUTDOWN''),
     (''ESOCKTNOSUPPORT'', ''ESOCKTNOSUPPORT''), (''ESPIPE'', ''ESPIPE''), (''ESRCH'', ''ESRCH''),
     (''ESTALE'', ''ESTALE''), (''ETIME'', ''ETIME''), (''ETIMEDOUT'', ''ETIMEDOUT''),
     (''ETOOMANYREFS'', ''ETOOMANYREFS''), (''ETXTBSY'', ''ETXTBSY''), (''EUSERS'', ''EUSERS''),
     (''EWOULDBLOCK'', ''EWOULDBLOCK''), (''EXDEV'', ''EXDEV'')]"

definition SymToErrno :: "errno_names \<Rightarrow> string \<Rightarrow> errno" where
  "SymToErrno syscall symb =
    (case map_of SymToErrno_cases symb of
       Some c \<Rightarrow> syscall c
     | None \<Rightarrow> syscall ''EIO'')"

subsection \<open>Go errors\<close>

text \<open>
  The dynamic types of \<^verbatim>\<open>error\<close> values the satellite distinguishes: a bare
  \<^verbatim>\<open>syscall.Errno\<close>, \<^verbatim>\<open>*fs.PathError\<close> and
  \<^verbatim>\<open>*os.LinkError\<close> with the operation, the path or paths and the cause, and any other
  error, of which only the text is used. \<^verbatim>\<open>io.EOF\<close> and
  \<^verbatim>\<open>os.ErrClosed\<close> are of the last kind.
\<close>

datatype goerror =
    Errno errno
  | PathError string string goerror
  | LinkError string string string goerror
  | ErrorString string

abbreviation EOF :: goerror where "EOF \<equiv> ErrorString ''EOF''"
abbreviation ErrClosed :: goerror where "ErrClosed \<equiv> ErrorString ''file already closed''"
abbreviation ErrNotExist :: goerror where "ErrNotExist \<equiv> ErrorString ''file does not exist''"

text \<open>
  The method \<^verbatim>\<open>Error()\<close>; the text of an \<^verbatim>\<open>errno\<close> is the operating system's
  and a parameter.
\<close>

primrec Error :: "(errno \<Rightarrow> string) \<Rightarrow> goerror \<Rightarrow> string" where
  "Error strerror (Errno e) = strerror e"
| "Error strerror (PathError oper path e) = oper @ '' '' @ path @ '': '' @ Error strerror e"
| "Error strerror (LinkError oper old new e) = oper @ '' '' @ old @ '' '' @ new @ '': '' @ Error strerror e"
| "Error strerror (ErrorString s) = s"

text \<open>\<^verbatim>\<open>errors.Is(err, fs.ErrNotExist)\<close>.\<close>

primrec is_not_exist :: "errno_names \<Rightarrow> goerror \<Rightarrow> bool" where
  "is_not_exist syscall (Errno e) = (e = syscall ''ENOENT'')"
| "is_not_exist syscall (PathError oper path e) = is_not_exist syscall e"
| "is_not_exist syscall (LinkError oper old new e) = is_not_exist syscall e"
| "is_not_exist syscall (ErrorString s) = (ErrorString s = ErrNotExist)"

subsection \<open>Errors to text and back\<close>

text \<open>
  \<^verbatim>\<open>ErrnoToRPCErrorString\<close> returns an error of which the RPC server sends the text; the
  model returns that text. The type assertion \<^verbatim>\<open>e.Err.(syscall.Errno)\<close> panics when the
  cause has another dynamic type.
\<close>

definition assert_Errno :: "goerror \<Rightarrow> errno go" where
  "assert_Errno e = (case e of Errno n \<Rightarrow> Val n
     | _ \<Rightarrow> Panic ''interface conversion: error is not syscall.Errno'')"

fun ErrnoToRPCErrorString :: "errno_names \<Rightarrow> goerror \<Rightarrow> string go" where
  "ErrnoToRPCErrorString syscall (PathError oper path err) =
     (case assert_Errno err of Val e \<Rightarrow> Val (''errno: '' @ ErrnoToSym syscall e) | Panic m \<Rightarrow> Panic m)"
| "ErrnoToRPCErrorString syscall (LinkError oper old new err) =
     (case assert_Errno err of Val e \<Rightarrow> Val (''errno: '' @ ErrnoToSym syscall e) | Panic m \<Rightarrow> Panic m)"
| "ErrnoToRPCErrorString syscall (Errno e) = Val (''errno: '' @ ErrnoToSym syscall e)"
| "ErrnoToRPCErrorString syscall (ErrorString s) =
     (if s = ''EOF'' then Val s else Val (''unknown error: '' @ s))"

text \<open>\<^verbatim>\<open>strings.HasPrefix\<close> and \<^verbatim>\<open>strings.SplitN\<close> with a one-character
  separator.\<close>

definition HasPrefix :: "string \<Rightarrow> string \<Rightarrow> bool" where
  "HasPrefix s p \<longleftrightarrow> take (length p) s = p"

fun SplitN :: "string \<Rightarrow> char \<Rightarrow> nat \<Rightarrow> string list" where
  "SplitN s sep 0 = []"
| "SplitN s sep (Suc 0) = [s]"
| "SplitN s sep (Suc (Suc n)) =
    (if sep \<in> set s
     then takeWhile (\<lambda>c. c \<noteq> sep) s # SplitN (tl (dropWhile (\<lambda>c. c \<noteq> sep) s)) sep (Suc n)
     else [s])"

definition RPCErrorStringTOErrno :: "errno_names \<Rightarrow> string \<Rightarrow> errno" where
  "RPCErrorStringTOErrno syscall msg =
    (if HasPrefix msg ''errno: '' then SymToErrno syscall (SplitN msg CHR '' '' 2 ! 1)
     else syscall ''EIO'')"

subsection \<open>Facts about the two tables\<close>

lemma distinct_SymToErrno_cases: "distinct (map fst SymToErrno_cases)"
  unfolding SymToErrno_cases_def by code_simp

text \<open>The names that \<^verbatim>\<open>ErrnoToSym\<close> lists: all but two, which are aliases on Linux.\<close>

definition listed :: "string \<Rightarrow> bool" where
  "listed c \<longleftrightarrow> c \<noteq> ''EOPNOTSUPP'' \<and> c \<noteq> ''EWOULDBLOCK''"

lemma cases_agree:
  "map (\<lambda>(c, symb). (symb, c)) ErrnoToSym_cases = filter (\<lambda>(symb, c). listed symb) SymToErrno_cases"
  unfolding SymToErrno_cases_def ErrnoToSym_cases_def listed_def by simp

lemma SymToErrno_ErrnoToSym_cases:
  "(c, symb) \<in> set ErrnoToSym_cases \<Longrightarrow> SymToErrno syscall symb = syscall c"
proof -
  assume "(c, symb) \<in> set ErrnoToSym_cases"
  then have "(symb, c) \<in> set (map (\<lambda>(c, symb). (symb, c)) ErrnoToSym_cases)"
    by force
  then have "(symb, c) \<in> set SymToErrno_cases"
    unfolding cases_agree by simp
  then have "map_of SymToErrno_cases symb = Some c"
    using distinct_SymToErrno_cases by simp
  then show ?thesis by (simp add: SymToErrno_def)
qed

lemma SymToErrno_EIO: "SymToErrno syscall ''EIO'' = syscall ''EIO''"
  by (rule SymToErrno_ErrnoToSym_cases) (simp add: ErrnoToSym_cases_def)

lemma split_errno_text: "SplitN (''errno: '' @ s) CHR '' '' 2 = [''errno:'', s]"
  by (simp add: numeral_2_eq_2)

lemma RPCErrorStringTOErrno_errno:
  "RPCErrorStringTOErrno syscall (''errno: '' @ s) = SymToErrno syscall s"
  unfolding RPCErrorStringTOErrno_def split_errno_text by (simp add: HasPrefix_def)

text \<open>The \<^verbatim>\<open>errno\<close> that \<^const>\<open>ErrnoToRPCErrorString\<close> reads off an error, if there is one.\<close>

definition errno_of :: "goerror \<Rightarrow> errno option" where
  "errno_of err = (case err of
      Errno e \<Rightarrow> Some e
    | PathError _ _ (Errno e) \<Rightarrow> Some e
    | LinkError _ _ _ (Errno e) \<Rightarrow> Some e
    | _ \<Rightarrow> None)"

lemma ErrnoToRPCErrorString_errno_of:
  "errno_of err = Some e \<Longrightarrow> ErrnoToRPCErrorString syscall err = Val (''errno: '' @ ErrnoToSym syscall e)"
  by (cases err) (auto simp: errno_of_def assert_Errno_def split: goerror.splits)

lemma ErrnoToRPCErrorString_no_errno:
  "errno_of err = None \<Longrightarrow>
   ErrnoToRPCErrorString syscall err =
     (case err of ErrorString s \<Rightarrow> Val (if s = ''EOF'' then s else ''unknown error: '' @ s)
      | _ \<Rightarrow> Panic ''interface conversion: error is not syscall.Errno'')"
  by (cases err) (auto simp: errno_of_def assert_Errno_def split: goerror.splits)

subsection \<open>What a platform's constants promise\<close>

locale errno_consts =
  fixes syscall :: errno_names
  assumes cases_distinct: "distinct (map syscall (map fst ErrnoToSym_cases))"
    and consts_nonzero: "\<forall>(s, c) \<in> set SymToErrno_cases. syscall c \<noteq> 0"
begin

lemma ErrnoToSym_listed: "(c, symb) \<in> set ErrnoToSym_cases \<Longrightarrow> ErrnoToSym syscall (syscall c) = symb"
  using map_of_map_of_inverse [OF cases_distinct, of c symb] by (simp add: ErrnoToSym_def)

lemma ErrnoToSym_unlisted: "e \<notin> syscall ` fst ` set ErrnoToSym_cases \<Longrightarrow> ErrnoToSym syscall e = ''EIO''"
proof -
  assume "e \<notin> syscall ` fst ` set ErrnoToSym_cases"
  then have "\<forall>c s. (c, s) \<in> set ErrnoToSym_cases \<longrightarrow> syscall c \<noteq> e"
    by force
  then show ?thesis by (simp add: ErrnoToSym_def map_of_None_image)
qed

lemma EIO_nonzero: "syscall ''EIO'' \<noteq> 0"
proof -
  have "(''EIO'', ''EIO'') \<in> set SymToErrno_cases" by (simp add: SymToErrno_cases_def)
  with consts_nonzero show ?thesis by fastforce
qed

lemma SymToErrno_nonzero: "SymToErrno syscall s \<noteq> 0"
  using consts_nonzero EIO_nonzero
  by (auto simp: SymToErrno_def dest!: map_of_SomeD split: option.splits)

lemma RPCErrorStringTOErrno_nonzero: "RPCErrorStringTOErrno syscall msg \<noteq> 0"
  by (simp add: RPCErrorStringTOErrno_def SymToErrno_nonzero EIO_nonzero)

end

text \<open>The constants of a table with distinct names, without looking each name up.\<close>

lemma errno_const_mem: "distinct (map fst t) \<Longrightarrow> (c, v) \<in> set t \<Longrightarrow> errno_const t c = v"
  by (simp add: errno_const_def)

lemma map_errno_const:
  assumes "distinct (map fst t)"
  shows "map (errno_const t) (filter P (map fst t)) = map snd (filter (\<lambda>(c, v). P c) t)"
proof -
  have "map (errno_const t) (filter P (map fst u)) = map snd (filter (\<lambda>(c, v). P c) u)"
    if "set u \<subseteq> set t" for u
    using that assms by (induction u) (auto simp: errno_const_mem)
  then show ?thesis by simp
qed

lemma ErrnoToSym_names: "map fst ErrnoToSym_cases = filter listed (map snd SymToErrno_cases)"
  unfolding ErrnoToSym_cases_def SymToErrno_cases_def listed_def by simp

lemma SymToErrno_names: "map snd SymToErrno_cases = map fst SymToErrno_cases"
  unfolding SymToErrno_cases_def by simp

lemma errno_consts_table:
  assumes names: "map fst t = map snd SymToErrno_cases"
    and vals: "distinct (map snd (filter (\<lambda>(c, v). listed c) t))" and nz: "\<forall>(c, v) \<in> set t. v \<noteq> 0"
  shows "errno_consts (errno_const t)"
proof
  have dist: "distinct (map fst t)"
    using distinct_SymToErrno_cases by (simp add: names SymToErrno_names)
  then show "distinct (map (errno_const t) (map fst ErrnoToSym_cases))"
    using vals by (simp only: ErrnoToSym_names names [symmetric] map_errno_const)
  have "errno_const t c \<noteq> 0" if "c \<in> set (map fst t)" for c
    using that nz by (force simp: errno_const_mem [OF dist])
  then show "\<forall>(s, c) \<in> set SymToErrno_cases. errno_const t c \<noteq> 0"
    unfolding names by force
qed

lemma linux_names: "map fst linux_errno_table = map snd SymToErrno_cases"
  unfolding linux_errno_table_def SymToErrno_cases_def by simp

lemma linux_values: "map snd (filter (\<lambda>(c, v). listed c) linux_errno_table) =
  [7, 13, 98, 99, 97, 11, 114, 9, 74, 16, 125, 10, 103, 111, 104, 35, 89, 33, 122, 17, 14, 27, 112, 113,
   43, 84, 115, 4, 22, 5, 106, 21, 40, 24, 31, 90, 72, 36, 100, 102, 101, 23, 105, 61, 19, 2, 8, 37, 67, 12,
   42, 92, 28, 63, 60, 38, 15, 107, 20, 39, 131, 88, 95, 25, 6, 75, 130, 1, 96, 32, 71, 93, 91, 34, 66, 30,
   108, 94, 29, 3, 116, 62, 110, 109, 26, 87, 18]"
  unfolding linux_errno_table_def listed_def by simp

interpretation linux_err: errno_consts linux_errno
proof (rule errno_consts_table [OF linux_names])
  show "distinct (map snd (filter (\<lambda>(c, v). listed c) linux_errno_table))"
    unfolding linux_values by simp
  show "\<forall>(c, v) \<in> set linux_errno_table. v \<noteq> 0"
    unfolding linux_errno_table_def by simp
qed

interpretation darwin_err: errno_consts darwin_errno
proof (rule errno_consts_table)
  show "map fst darwin_errno_table = map snd SymToErrno_cases"
    unfolding darwin_errno_table_def SymToErrno_cases_def by simp
  show "distinct (map snd (filter (\<lambda>(c, v). listed c) darwin_errno_table))"
    unfolding darwin_errno_table_def listed_def by simp
  show "\<forall>(c, v) \<in> set darwin_errno_table. v \<noteq> 0"
    unfolding darwin_errno_table_def by simp
qed

subsection \<open>Properties\<close>

text \<open>C11. An error whose cause is one of the listed \<^verbatim>\<open>errno\<close> constants of the
  satellite's system, bare or inside a path or link error, reaches the client as the constant of
  the same name on the client's system.\<close>

theorem errno_translate:
  assumes "errno_consts server" and "(c, symb) \<in> set ErrnoToSym_cases"
    and "errno_of err = Some (server c)"
  shows "\<exists>msg. ErrnoToRPCErrorString server err = Val msg \<and> RPCErrorStringTOErrno client msg = client c"
  using ErrnoToRPCErrorString_errno_of [OF assms(3), of server]
  by (simp add: errno_consts.ErrnoToSym_listed [OF assms(1,2)] RPCErrorStringTOErrno_errno
    SymToErrno_ErrnoToSym_cases [OF assms(2)] del: append.simps)

theorem errno_translate_witness:
  "linux_errno ''ENOTEMPTY'' = 39 \<and> darwin_errno ''EDESTADDRREQ'' = 39 \<and>
   (\<exists>msg. ErrnoToRPCErrorString linux_errno (PathError ''remove'' ''/d'' (Errno 39)) = Val msg
      \<and> RPCErrorStringTOErrno darwin_errno msg = 66)"
proof -
  have l: "linux_errno ''ENOTEMPTY'' = 39" and d: "darwin_errno ''EDESTADDRREQ'' = 39"
    and d66: "darwin_errno ''ENOTEMPTY'' = 66"
    by (simp_all add: errno_const_def linux_errno_table_def darwin_errno_table_def)
  have "(''ENOTEMPTY'', ''ENOTEMPTY'') \<in> set ErrnoToSym_cases"
    by (simp add: ErrnoToSym_cases_def)
  then show ?thesis
    using errno_translate [OF linux_err.errno_consts_axioms, of _ _ "PathError ''remove'' ''/d'' (Errno 39)" darwin_errno] l d d66
    by (fastforce simp: errno_of_def)
qed

text \<open>An \<^verbatim>\<open>errno\<close> that no case of the satellite's table lists reaches the client as
  \<^verbatim>\<open>EIO\<close>.\<close>

theorem errno_unlisted_is_EIO:
  assumes "errno_consts server" and "e \<notin> server ` fst ` set ErrnoToSym_cases"
    and "errno_of err = Some e"
  shows "\<exists>msg. ErrnoToRPCErrorString server err = Val msg \<and> RPCErrorStringTOErrno client msg = client ''EIO''"
  using ErrnoToRPCErrorString_errno_of [OF assms(3), of server]
  by (simp add: errno_consts.ErrnoToSym_unlisted [OF assms(1,2)] RPCErrorStringTOErrno_errno
    SymToErrno_EIO del: append.simps)

theorem errno_unlisted_is_EIO_witness:
  "\<exists>msg. ErrnoToRPCErrorString linux_errno (Errno 123) = Val msg \<and> RPCErrorStringTOErrno linux_errno msg = 5"
proof -
  have "linux_errno ` fst ` set ErrnoToSym_cases = set (map linux_errno (map fst ErrnoToSym_cases))"
    by (simp add: image_image)
  also have "\<dots> = set (map snd (filter (\<lambda>(c, v). listed c) linux_errno_table))"
    using distinct_SymToErrno_cases
    by (simp only: ErrnoToSym_names linux_names [symmetric] SymToErrno_names [symmetric] map_errno_const)
  finally have "(123 :: errno) \<notin> linux_errno ` fst ` set ErrnoToSym_cases"
    unfolding linux_values by simp
  moreover have "linux_errno ''EIO'' = 5"
    by (simp add: errno_const_def linux_errno_table_def)
  ultimately show ?thesis
    using errno_unlisted_is_EIO [OF linux_err.errno_consts_axioms, of 123 "Errno 123" linux_errno]
    by (simp add: errno_of_def)
qed

text \<open>Every error text, well formed or not, is translated to a non-zero
  \<^verbatim>\<open>errno\<close>: the client's callers, who take 0 for success, never see a failed call as
  a successful one.\<close>

theorem rpc_error_never_success:
  assumes "errno_consts client"
  shows "RPCErrorStringTOErrno client msg \<noteq> 0"
  by (rule errno_consts.RPCErrorStringTOErrno_nonzero [OF assms])

theorem rpc_error_never_success_witness:
  "RPCErrorStringTOErrno linux_errno ''errno: '' \<noteq> 0 \<and> RPCErrorStringTOErrno darwin_errno ''EOF'' \<noteq> 0"
  by (simp add: rpc_error_never_success [OF linux_err.errno_consts_axioms]
    rpc_error_never_success [OF darwin_err.errno_consts_axioms])

text \<open>Building the error text panics exactly for a path or link error whose cause is not an
  \<^verbatim>\<open>errno\<close>; every other error gets a text.\<close>

theorem rpc_error_panics_iff:
  "(\<exists>m. ErrnoToRPCErrorString syscall err = Panic m) \<longleftrightarrow>
   errno_of err = None \<and> (\<forall>s. err \<noteq> ErrorString s)"
  by (cases err) (auto simp: errno_of_def assert_Errno_def split: goerror.splits)

end
