(* ===== verification/Open_Flags.thy ===== *)
theory Open_Flags
  imports Df_Prelude
begin

text \<open>
  The translation of \<^verbatim>\<open>open(2)\<close> flags between an operating system's own values and the
  system-agnostic 16-bit encoding that travels over the RPC link
  (\<^verbatim>\<open>pkg/rpccommon/utils.go\<close>, lines 14-113). The client runs on Linux or macOS, the
  satellite on Linux, so both directions take the constants of the \<^verbatim>\<open>syscall\<close> package
  of the system they run on as a record. The locale \<open>open_flag_consts\<close> states what the
  translation needs of such constants; it is interpreted on the Linux and on the macOS values.
\<close>

subsection \<open>The system-agnostic flags\<close>

definition O_RDONLY :: uint16 where "O_RDONLY = 0"
definition O_WRONLY :: uint16 where "O_WRONLY = push_bit 0 1"
definition O_RDWR :: uint16 where "O_RDWR = push_bit 1 1"
definition O_APPEND :: uint16 where "O_APPEND = push_bit 2 1"
definition O_ASYNC :: uint16 where "O_ASYNC = push_bit 3 1"
definition O_CREAT :: uint16 where "O_CREAT = push_bit 4 1"
definition O_EXCL :: uint16 where "O_EXCL = push_bit 5 1"
definition O_NOCTTY :: uint16 where "O_NOCTTY = push_bit 6 1"
definition O_NONBLOCK :: uint16 where "O_NONBLOCK = push_bit 7 1"
definition O_SYNC :: uint16 where "O_SYNC = push_bit 8 1"
definition O_TRUNC :: uint16 where "O_TRUNC = push_bit 9 1"

lemmas sa_flag_defs = O_RDONLY_def O_WRONLY_def O_RDWR_def O_APPEND_def O_ASYNC_def O_CREAT_def
  O_EXCL_def O_NOCTTY_def O_NONBLOCK_def O_SYNC_def O_TRUNC_def

subsection \<open>The constants of the \<^verbatim>\<open>syscall\<close> package\<close>

record syscall_flags =
  sys_O_RDONLY :: go_int
  sys_O_WRONLY :: go_int
  sys_O_RDWR :: go_int
  sys_O_APPEND :: go_int
  sys_O_ASYNC :: go_int
  sys_O_CREAT :: go_int
  sys_O_EXCL :: go_int
  sys_O_NOCTTY :: go_int
  sys_O_NONBLOCK :: go_int
  sys_O_SYNC :: go_int
  sys_O_TRUNC :: go_int

definition linux_flags :: syscall_flags where
  "linux_flags = \<lparr> sys_O_RDONLY = 0, sys_O_WRONLY = 0x1, sys_O_RDWR = 0x2, sys_O_APPEND = 0x400,
     sys_O_ASYNC = 0x2000, sys_O_CREAT = 0x40, sys_O_EXCL = 0x80, sys_O_NOCTTY = 0x100,
     sys_O_NONBLOCK = 0x800, sys_O_SYNC = 0x101000, sys_O_TRUNC = 0x200 \<rparr>"

definition darwin_flags :: syscall_flags where
  "darwin_flags = \<lparr> sys_O_RDONLY = 0, sys_O_WRONLY = 0x1, sys_O_RDWR = 0x2, sys_O_APPEND = 0x8,
     sys_O_ASYNC = 0x40, sys_O_CREAT = 0x200, sys_O_EXCL = 0x800, sys_O_NOCTTY = 0x20000,
     sys_O_NONBLOCK = 0x4, sys_O_SYNC = 0x80, sys_O_TRUNC = 0x400 \<rparr>"

subsection \<open>The two conversions\<close>

definition SystemToSAFlags :: "syscall_flags \<Rightarrow> go_int \<Rightarrow> uint16" where
  "SystemToSAFlags sc flagsIn =
    (if flagsIn = sys_O_RDONLY sc then O_RDONLY else
     let flags = 0;
         flags = (if flagsIn AND sys_O_WRONLY sc = sys_O_WRONLY sc then flags OR O_WRONLY else flags);
         flags = (if flagsIn AND sys_O_RDWR sc = sys_O_RDWR sc then flags OR O_RDWR else flags);
         flags = (if flagsIn AND sys_O_APPEND sc = sys_O_APPEND sc then flags OR O_APPEND else flags);
         flags = (if flagsIn AND sys_O_ASYNC sc = sys_O_ASYNC sc then flags OR O_ASYNC else flags);
         flags = (if flagsIn AND sys_O_CREAT sc = sys_O_CREAT sc then flags OR O_CREAT else flags);
         flags = (if flagsIn AND sys_O_EXCL sc = sys_O_EXCL sc then flags OR O_EXCL else flags);
         flags = (if flagsIn AND sys_O_NOCTTY sc = sys_O_NOCTTY sc then flags OR O_NOCTTY else flags);
         flags = (if flagsIn AND sys_O_NONBLOCK sc = sys_O_NONBLOCK sc then flags OR O_NONBLOCK else flags);
         flags = (if flagsIn AND sys_O_SYNC sc = sys_O_SYNC sc then flags OR O_SYNC else flags);
         flags = (if flagsIn AND sys_O_TRUNC sc = sys_O_TRUNC sc then flags OR O_TRUNC else flags)
     in flags)"

definition SAFlagsToSystem :: "syscall_flags \<Rightarrow> uint16 \<Rightarrow> go_int" where
  "SAFlagsToSystem sc flagsIn =
    (if flagsIn = O_RDONLY then sys_O_RDONLY sc else
     let flags = 0;
         flags = (if flagsIn AND O_WRONLY = O_WRONLY then flags OR sys_O_WRONLY sc else flags);
         flags = (if flagsIn AND O_RDWR = O_RDWR then flags OR sys_O_RDWR sc else flags);
         flags = (if flagsIn AND O_APPEND = O_APPEND then flags OR sys_O_APPEND sc else flags);
         flags = (if flagsIn AND O_ASYNC = O_ASYNC then flags OR sys_O_ASYNC sc else flags);
         flags = (if flagsIn AND O_CREAT = O_CREAT then flags OR sys_O_CREAT sc else flags);
         flags = (if flagsIn AND O_EXCL = O_EXCL then flags OR sys_O_EXCL sc else flags);
         flags = (if flagsIn AND O_NOCTTY = O_NOCTTY then flags OR sys_O_NOCTTY sc else flags);
         flags = (if flagsIn AND O_NONBLOCK = O_NONBLOCK then flags OR sys_O_NONBLOCK sc else flags);
         flags = (if flagsIn AND O_SYNC = O_SYNC then flags OR sys_O_SYNC sc else flags);
         flags = (if flagsIn AND O_TRUNC = O_TRUNC then flags OR sys_O_TRUNC sc else flags)
     in flags)"

subsection \<open>The flags by name\<close>

text \<open>
  A set of flags, independent of any encoding, is a list of the ten names; \<open>flag_or\<close>
  encodes it by or-ing the values a platform (or the wire format) gives the names.
\<close>

datatype oflag = F_WRONLY | F_RDWR | F_APPEND | F_ASYNC | F_CREAT | F_EXCL | F_NOCTTY | F_NONBLOCK
  | F_SYNC | F_TRUNC

definition all_flags :: "oflag list" where
  "all_flags = [F_WRONLY, F_RDWR, F_APPEND, F_ASYNC, F_CREAT, F_EXCL, F_NOCTTY, F_NONBLOCK, F_SYNC,
     F_TRUNC]"

fun sys_of :: "syscall_flags \<Rightarrow> oflag \<Rightarrow> go_int" where
  "sys_of sc F_WRONLY = sys_O_WRONLY sc"
| "sys_of sc F_RDWR = sys_O_RDWR sc"
| "sys_of sc F_APPEND = sys_O_APPEND sc"
| "sys_of sc F_ASYNC = sys_O_ASYNC sc"
| "sys_of sc F_CREAT = sys_O_CREAT sc"
| "sys_of sc F_EXCL = sys_O_EXCL sc"
| "sys_of sc F_NOCTTY = sys_O_NOCTTY sc"
| "sys_of sc F_NONBLOCK = sys_O_NONBLOCK sc"
| "sys_of sc F_SYNC = sys_O_SYNC sc"
| "sys_of sc F_TRUNC = sys_O_TRUNC sc"

fun sa_of :: "oflag \<Rightarrow> uint16" where
  "sa_of F_WRONLY = O_WRONLY"
| "sa_of F_RDWR = O_RDWR"
| "sa_of F_APPEND = O_APPEND"
| "sa_of F_ASYNC = O_ASYNC"
| "sa_of F_CREAT = O_CREAT"
| "sa_of F_EXCL = O_EXCL"
| "sa_of F_NOCTTY = O_NOCTTY"
| "sa_of F_NONBLOCK = O_NONBLOCK"
| "sa_of F_SYNC = O_SYNC"
| "sa_of F_TRUNC = O_TRUNC"

fun flag_or :: "('f \<Rightarrow> 'a::len word) \<Rightarrow> 'f list \<Rightarrow> 'a word" where
  "flag_or v [] = 0"
| "flag_or v (f # fs) = v f OR flag_or v fs"

definition has_flag :: "'a::len word \<Rightarrow> 'a word \<Rightarrow> bool" where
  "has_flag x m \<longleftrightarrow> x AND m = m"

lemma set_all_flags [simp]: "set all_flags = UNIV"
proof -
  have "f \<in> set all_flags" for f by (cases f) (simp_all add: all_flags_def)
  then show ?thesis by blast
qed

text \<open>The names can be enumerated, so statements about all of them are decided by evaluation.\<close>

instantiation oflag :: enum
begin

definition enum_oflag :: "oflag list" where
  "enum_oflag = all_flags"

definition enum_all_oflag :: "(oflag \<Rightarrow> bool) \<Rightarrow> bool" where
  "enum_all_oflag P \<longleftrightarrow> list_all P all_flags"

definition enum_ex_oflag :: "(oflag \<Rightarrow> bool) \<Rightarrow> bool" where
  "enum_ex_oflag P \<longleftrightarrow> list_ex P all_flags"

instance
proof
  show "distinct (enum_class.enum :: oflag list)" unfolding enum_oflag_def by (simp add: all_flags_def)
qed (simp_all add: enum_oflag_def enum_all_oflag_def enum_ex_oflag_def list_all_iff list_ex_iff)

end

lemma bit_flag_or: "bit (flag_or v fs) n \<longleftrightarrow> (\<exists>f \<in> set fs. bit (v f) n)"
  by (induction fs) (auto simp: bit_simps)

lemma flag_or_cong_set: "set fs = set gs \<Longrightarrow> flag_or v fs = flag_or v gs"
  by (rule bit_eqI) (simp add: bit_flag_or)

text \<open>Both conversions collect the named flags their input contains.\<close>

lemma SystemToSAFlags_flag_or:
  assumes "sys_O_RDONLY sc = 0" and "\<forall>f. sys_of sc f \<noteq> 0"
  shows "SystemToSAFlags sc x = flag_or sa_of (filter (\<lambda>f. has_flag x (sys_of sc f)) all_flags)"
proof (cases "x = sys_O_RDONLY sc")
  case True
  have none: "filter (\<lambda>f. has_flag 0 (sys_of sc f)) all_flags = []"
    using assms(2) by (auto simp: has_flag_def filter_empty_conv)
  show ?thesis
    using True assms(1) by (simp add: SystemToSAFlags_def O_RDONLY_def none)
next
  case False
  then show ?thesis
    by (simp add: SystemToSAFlags_def all_flags_def has_flag_def Let_def or.assoc)
qed

lemma sa_of_nonzero: "sa_of f \<noteq> 0"
  by (cases f) (simp_all add: sa_flag_defs)

lemma SAFlagsToSystem_flag_or:
  assumes "sys_O_RDONLY sc = 0"
  shows "SAFlagsToSystem sc x = flag_or (sys_of sc) (filter (\<lambda>f. has_flag x (sa_of f)) all_flags)"
proof (cases "x = O_RDONLY")
  case True
  have none: "filter (\<lambda>f. has_flag 0 (sa_of f)) all_flags = []"
    using sa_of_nonzero by (auto simp: has_flag_def filter_empty_conv)
  show ?thesis
    using True assms by (simp add: SAFlagsToSystem_def O_RDONLY_def none)
next
  case False
  then show ?thesis
    by (simp add: SAFlagsToSystem_def all_flags_def has_flag_def Let_def or.assoc)
qed

subsection \<open>Disjoint flag values\<close>

definition disjoint_flags :: "('f \<Rightarrow> 'a::len word) \<Rightarrow> bool" where
  "disjoint_flags v \<longleftrightarrow> (\<forall>f. v f \<noteq> 0) \<and> (\<forall>f g. f \<noteq> g \<longrightarrow> v f AND v g = 0)"

lemma disjoint_flags_bit:
  "disjoint_flags v \<Longrightarrow> bit (v f) n \<Longrightarrow> bit (v g) n \<Longrightarrow> f = g"
  by (auto simp: disjoint_flags_def word_and_eq_0_iff_bits)

lemma has_flag_flag_or:
  assumes "disjoint_flags v"
  shows "has_flag (flag_or v fs) (v f) \<longleftrightarrow> f \<in> set fs"
proof
  assume "has_flag (flag_or v fs) (v f)"
  then have sub: "\<forall>n. bit (v f) n \<longrightarrow> (\<exists>g \<in> set fs. bit (v g) n)"
    by (simp add: has_flag_def word_and_mask_self_iff bit_flag_or)
  from assms have "v f \<noteq> 0" by (simp add: disjoint_flags_def)
  then obtain n where "bit (v f) n" by (auto simp: bit_eq_iff)
  with sub assms show "f \<in> set fs" by (blast dest: disjoint_flags_bit)
next
  assume "f \<in> set fs"
  then show "has_flag (flag_or v fs) (v f)"
    by (auto simp: has_flag_def word_and_mask_self_iff bit_flag_or)
qed

lemma sa_of_disjoint: "disjoint_flags sa_of"
  by code_simp

lemma bit_O_flag:
  "k < 16 \<Longrightarrow> bit (2 ^ k :: uint16) n \<longleftrightarrow> n = k"
  by (auto simp: bit_exp_iff)

fun sa_pos :: "oflag \<Rightarrow> nat" where
  "sa_pos F_WRONLY = 0" | "sa_pos F_RDWR = 1" | "sa_pos F_APPEND = 2" | "sa_pos F_ASYNC = 3"
| "sa_pos F_CREAT = 4" | "sa_pos F_EXCL = 5" | "sa_pos F_NOCTTY = 6" | "sa_pos F_NONBLOCK = 7"
| "sa_pos F_SYNC = 8" | "sa_pos F_TRUNC = 9"

lemma sa_pos_less: "sa_pos f < 10"
  by (cases f) simp_all

lemma bit_sa_of: "bit (sa_of f) n \<longleftrightarrow> n = sa_pos f"
proof -
  have "sa_of f = 2 ^ sa_pos f"
    by (cases f) (simp_all add: sa_flag_defs)
  then show ?thesis
    using sa_pos_less [of f] by (simp add: bit_O_flag)
qed

lemma ex_sa_pos: "n < 10 \<Longrightarrow> \<exists>f. sa_pos f = n"
proof -
  assume "n < 10"
  then have "n \<in> set (map sa_pos all_flags)"
    unfolding all_flags_def by (simp; arith)
  then show ?thesis by auto
qed

lemma flag_or_sa_of_filter:
  "flag_or sa_of (filter (\<lambda>f. has_flag x (sa_of f)) all_flags) = x AND 0x3FF"
proof -
  have m: "(0x3FF :: uint16) = mask 10" by (simp add: mask_eq_exp_minus_1)
  show ?thesis
    unfolding m
    by (rule bit_eqI)
      (use sa_pos_less ex_sa_pos in \<open>auto simp: bit_flag_or has_flag_def word_and_mask_self_iff bit_sa_of bit_simps\<close>)
qed

subsection \<open>What a platform's constants promise, and the conversions over them\<close>

locale open_flag_consts =
  fixes sc :: syscall_flags
  assumes rdonly_zero: "sys_O_RDONLY sc = 0"
    and flags_disjoint: "disjoint_flags (sys_of sc)"
begin

lemma to_SA: "SystemToSAFlags sc x = flag_or sa_of (filter (\<lambda>f. has_flag x (sys_of sc f)) all_flags)"
  using flags_disjoint by (intro SystemToSAFlags_flag_or rdonly_zero) (simp add: disjoint_flags_def)

lemma from_SA: "SAFlagsToSystem sc x = flag_or (sys_of sc) (filter (\<lambda>f. has_flag x (sa_of f)) all_flags)"
  by (rule SAFlagsToSystem_flag_or [OF rdonly_zero])

lemma encode: "SystemToSAFlags sc (flag_or (sys_of sc) fs) = flag_or sa_of fs"
  unfolding to_SA by (rule flag_or_cong_set) (auto simp: has_flag_flag_or [OF flags_disjoint])

lemma decode: "SAFlagsToSystem sc (flag_or sa_of fs) = flag_or (sys_of sc) fs"
  unfolding from_SA by (rule flag_or_cong_set) (auto simp: has_flag_flag_or [OF sa_of_disjoint])

lemma decode_encode: "SystemToSAFlags sc (SAFlagsToSystem sc x) = x AND 0x3FF"
  by (simp add: from_SA encode flag_or_sa_of_filter)

lemma no_flag_invented: "SAFlagsToSystem sc (SystemToSAFlags sc x) AND x = SAFlagsToSystem sc (SystemToSAFlags sc x)"
proof -
  have "\<forall>n. bit (flag_or (sys_of sc) (filter (\<lambda>f. has_flag x (sys_of sc f)) all_flags)) n \<longrightarrow> bit x n"
    by (auto simp: bit_flag_or has_flag_def word_and_mask_self_iff)
  then show ?thesis
    by (simp add: to_SA decode word_and_mask_self_iff and.commute [of _ x])
qed

end

interpretation linux_of: open_flag_consts linux_flags
  by unfold_locales code_simp+

interpretation darwin_of: open_flag_consts darwin_flags
  by unfold_locales code_simp+

subsection \<open>Properties\<close>

text \<open>C10. A set of named open flags encoded with one platform's constants is decoded, on any
  platform, to the same set of flags encoded with that platform's constants: a macOS client and a
  Linux satellite agree on what was asked for.\<close>

theorem open_flags_translate:
  assumes "open_flag_consts client" and "open_flag_consts server"
  shows "SAFlagsToSystem server (SystemToSAFlags client (flag_or (sys_of client) fs))
     = flag_or (sys_of server) fs"
  by (simp add: open_flag_consts.encode [OF assms(1)] open_flag_consts.decode [OF assms(2)])

theorem open_flags_translate_witness:
  "flag_or (sys_of darwin_flags) [F_RDWR, F_CREAT, F_TRUNC] = 0x602 \<and>
   SAFlagsToSystem linux_flags (SystemToSAFlags darwin_flags 0x602) = 0x242"
proof -
  have d: "flag_or (sys_of darwin_flags) [F_RDWR, F_CREAT, F_TRUNC] = 0x602"
    by (simp add: darwin_flags_def)
  have l: "flag_or (sys_of linux_flags) [F_RDWR, F_CREAT, F_TRUNC] = 0x242"
    by (simp add: linux_flags_def)
  show ?thesis
    using open_flags_translate [OF darwin_of.open_flag_consts_axioms linux_of.open_flag_consts_axioms,
      of "[F_RDWR, F_CREAT, F_TRUNC]"] d l by simp
qed

text \<open>Decoding any 16-bit value of the wire and encoding the result again returns the ten
  defined flag bits of the value, and drops the six bits that stand for no flag.\<close>

theorem sa_flags_roundtrip:
  assumes "open_flag_consts sc"
  shows "SystemToSAFlags sc (SAFlagsToSystem sc x) = x AND 0x3FF"
  by (rule open_flag_consts.decode_encode [OF assms])

theorem sa_flags_roundtrip_witness:
  "SystemToSAFlags linux_flags (SAFlagsToSystem linux_flags 0xFC12) = 0x12"
  using sa_flags_roundtrip [OF linux_of.open_flag_consts_axioms, of "0xFC12"] by simp

text \<open>Whatever flags a caller passes, unsupported ones included, the flags that reach the
  other side of a link between two systems of one kind are among the ones passed: no flag is
  invented.\<close>

theorem open_flags_not_invented:
  assumes "open_flag_consts sc"
  shows "SAFlagsToSystem sc (SystemToSAFlags sc x) AND x = SAFlagsToSystem sc (SystemToSAFlags sc x)"
  by (rule open_flag_consts.no_flag_invented [OF assms])

theorem open_flags_not_invented_witness:
  "SAFlagsToSystem linux_flags (SystemToSAFlags linux_flags 0x98041) AND 0x98041
     = SAFlagsToSystem linux_flags (SystemToSAFlags linux_flags 0x98041)
   \<and> SAFlagsToSystem linux_flags (SystemToSAFlags linux_flags 0x98041) = 0x41"
proof
  show "SAFlagsToSystem linux_flags (SystemToSAFlags linux_flags 0x98041) AND 0x98041
     = SAFlagsToSystem linux_flags (SystemToSAFlags linux_flags 0x98041)"
    by (rule open_flags_not_invented [OF linux_of.open_flag_consts_axioms])
  show "SAFlagsToSystem linux_flags (SystemToSAFlags linux_flags 0x98041) = 0x41"
    by (simp add: SystemToSAFlags_def SAFlagsToSystem_def linux_flags_def sa_flag_defs Let_def)
qed

end
