(* ===== verification/Go_Path.thy ===== *)
theory Go_Path
  imports Df_Prelude
begin

text \<open>
  The functions of Go's \<^verbatim>\<open>path/filepath\<close> (on Unix) that the client uses to build the
  container paths of files: \<^verbatim>\<open>Clean\<close>, \<^verbatim>\<open>Join\<close> and \<^verbatim>\<open>Dir\<close>.
  The main facts are that \<^verbatim>\<open>Clean\<close> is idempotent and that appending a file name to a
  clean absolute path appends one element.
\<close>

subsection \<open>The functions\<close>

fun split_on :: "char \<Rightarrow> string \<Rightarrow> string list" where
  "split_on c [] = [[]]"
| "split_on c (x # xs) = (if x = c then [] # split_on c xs
     else (case split_on c xs of e # es \<Rightarrow> (x # e) # es | [] \<Rightarrow> [[x]]))"

fun join_with :: "string \<Rightarrow> string list \<Rightarrow> string" where
  "join_with s [] = []"
| "join_with s [e] = e"
| "join_with s (e # es) = e @ s @ join_with s es"

text \<open>
  \<^verbatim>\<open>Clean\<close> processes the elements from left to right and keeps the ones in effect on a
  stack: empty and single-dot elements are dropped, a double dot removes the element before it, is
  dropped at the root, and stays at the front of a relative path.
\<close>

fun clean_step :: "bool \<Rightarrow> string \<Rightarrow> string list \<Rightarrow> string list" where
  "clean_step rooted e out =
    (if e = '''' \<or> e = ''.'' then out
     else if e = ''..'' then
       (case out of
          [] \<Rightarrow> if rooted then [] else [e]
        | x # xs \<Rightarrow> if x = ''..'' then e # out else xs)
     else e # out)"

definition Clean :: "string \<Rightarrow> string" where
  "Clean path =
    (let rooted = (path \<noteq> [] \<and> hd path = CHR ''/'');
         out = rev (fold (clean_step rooted) (split_on CHR ''/'' path) [])
     in if rooted then ''/'' @ join_with ''/'' out
        else if out = [] then ''.'' else join_with ''/'' out)"

text \<open>\<^verbatim>\<open>Join\<close> skips empty elements at the front.\<close>

definition Join :: "string list \<Rightarrow> string" where
  "Join elem = (case dropWhile (\<lambda>e. e = '''') elem of [] \<Rightarrow> '''' | es \<Rightarrow> Clean (join_with ''/'' es))"

text \<open>\<^verbatim>\<open>Dir\<close>: everything up to the last slash, cleaned.\<close>

definition Dir :: "string \<Rightarrow> string" where
  "Dir path = Clean (rev (dropWhile (\<lambda>c. c \<noteq> CHR ''/'') (rev path)))"

subsection \<open>Elements\<close>

text \<open>An element that \<^verbatim>\<open>Clean\<close> keeps, and the absolute path with given elements.\<close>

definition plain :: "string \<Rightarrow> bool" where
  "plain e \<longleftrightarrow> e \<noteq> '''' \<and> e \<noteq> ''.'' \<and> e \<noteq> ''..'' \<and> CHR ''/'' \<notin> set e"

definition abs_path :: "string list \<Rightarrow> string" where
  "abs_path es = ''/'' @ join_with ''/'' es"

lemma split_on_not_Nil [simp]: "split_on c s \<noteq> []"
  by (induction s) (auto split: list.splits)

lemma split_on_single: "c \<notin> set e \<Longrightarrow> split_on c e = [e]"
  by (induction e) auto

lemma split_on_append: "c \<notin> set e \<Longrightarrow> split_on c (e @ c # s) = e # split_on c s"
  by (induction e) auto

lemma split_on_join:
  "es \<noteq> [] \<Longrightarrow> \<forall>e \<in> set es. c \<notin> set e \<Longrightarrow> split_on c (join_with [c] es) = es"
  by (induction "[c]" es rule: join_with.induct) (auto simp: split_on_single split_on_append)

lemma split_on_no_sep: "e \<in> set (split_on c s) \<Longrightarrow> c \<notin> set e"
  by (induction s arbitrary: e) (auto split: if_splits list.splits)

lemma join_with_append:
  "es \<noteq> [] \<Longrightarrow> fs \<noteq> [] \<Longrightarrow> join_with s (es @ fs) = join_with s es @ s @ join_with s fs"
proof (induction s es rule: join_with.induct)
  case (2 s e)
  then show ?case by (cases fs) auto
qed auto

lemma join_with_hd: "es \<noteq> [] \<Longrightarrow> hd es \<noteq> [] \<Longrightarrow> hd (join_with s es) \<in> set (hd es) \<and> join_with s es \<noteq> []"
  by (cases "(s, es)" rule: join_with.cases) auto

lemma split_on_join_plain: "es \<noteq> [] \<Longrightarrow> \<forall>e \<in> set es. plain e \<Longrightarrow> split_on CHR ''/'' (join_with ''/'' es) = es"
  by (rule split_on_join) (auto simp: plain_def)

lemma clean_step_plain: "plain e \<Longrightarrow> clean_step r e out = e # out"
  by (simp add: plain_def)

lemma fold_clean_plain: "\<forall>e \<in> set es. plain e \<Longrightarrow> fold (clean_step r) es out = rev es @ out"
  by (induction es arbitrary: out) (auto simp: clean_step_plain simp del: clean_step.simps)

subsection \<open>The shape of a clean path\<close>

text \<open>On the stack of a rooted path all elements are plain; a relative path has double dots at its
  front.\<close>

definition stack_ok :: "bool \<Rightarrow> string list \<Rightarrow> bool" where
  "stack_ok rooted out \<longleftrightarrow> (\<exists>es n. out = es @ replicate n ''..'' \<and> (\<forall>e \<in> set es. plain e) \<and> (rooted \<longrightarrow> n = 0))"

lemma stack_ok_step:
  assumes "stack_ok r out" and "CHR ''/'' \<notin> set e"
  shows "stack_ok r (clean_step r e out)"
proof -
  obtain es n where out: "out = es @ replicate n ''..''" "\<forall>e \<in> set es. plain e" "r \<longrightarrow> n = 0"
    using assms(1) by (auto simp: stack_ok_def)
  consider "e = '''' \<or> e = ''.''" | "e = ''..''" "es = []" | x xs where "e = ''..''" "es = x # xs" | "plain e"
    using assms(2) by (cases es) (auto simp: plain_def)
  then show ?thesis
  proof cases
    case 1
    with assms(1) show ?thesis by auto
  next
    case 2
    have "clean_step r e out = (if r then [] else [] @ replicate (Suc n) ''..'')"
      using 2 out by (cases n) auto
    then show ?thesis unfolding stack_ok_def by (metis empty_iff empty_set replicate_0 append_Nil)
  next
    case (3 x xs)
    then have "x \<noteq> ''..''" using out by (auto simp: plain_def)
    with 3 out show ?thesis by (auto simp: stack_ok_def)
  next
    case 4
    then have "clean_step r e out = (e # es) @ replicate n ''..''" "\<forall>e \<in> set (e # es). plain e"
      using out by (simp_all add: clean_step_plain del: clean_step.simps)
    then show ?thesis using out(3) unfolding stack_ok_def by blast
  qed
qed

lemma stack_ok_fold:
  "stack_ok r out \<Longrightarrow> \<forall>e \<in> set es. CHR ''/'' \<notin> set e \<Longrightarrow> stack_ok r (fold (clean_step r) es out)"
  by (induction es arbitrary: out) (auto simp: stack_ok_step simp del: clean_step.simps)

lemma fold_clean_dots: "fold (clean_step False) (replicate n ''..'') (replicate m ''..'') = replicate (n + m) ''..''"
proof (induction n arbitrary: m)
  case (Suc n)
  have "clean_step False ''..'' (replicate m ''..'') = replicate (Suc m) ''..''" by (cases m) auto
  with Suc [of "Suc m"] show ?case by (simp del: clean_step.simps)
qed simp

lemma Clean_rooted: "Clean (CHR ''/'' # s) = abs_path (rev (fold (clean_step True) (split_on CHR ''/'' s) []))"
  by (simp add: Clean_def abs_path_def)

lemma Clean_abs_path: "\<forall>e \<in> set es. plain e \<Longrightarrow> Clean (abs_path es) = abs_path es"
proof (cases "es = []")
  case False
  assume p: "\<forall>e \<in> set es. plain e"
  then have "split_on CHR ''/'' (join_with ''/'' es) = es"
    using False by (simp add: split_on_join_plain)
  then show ?thesis
    using p by (simp add: abs_path_def [of es] Clean_rooted fold_clean_plain del: clean_step.simps)
qed (simp add: abs_path_def Clean_def)

lemma Clean_absolute:
  assumes "hd p = CHR ''/''" and "p \<noteq> []"
  obtains es where "Clean p = abs_path es" and "\<forall>e \<in> set es. plain e"
proof -
  obtain s where s: "p = CHR ''/'' # s" using assms by (cases p) auto
  define out where "out = fold (clean_step True) (split_on CHR ''/'' s) []"
  have "stack_ok True out"
    unfolding out_def by (rule stack_ok_fold) (auto simp: stack_ok_def dest: split_on_no_sep)
  then have "\<forall>e \<in> set (rev out). plain e" by (auto simp: stack_ok_def)
  moreover have "Clean p = abs_path (rev out)" by (simp add: s Clean_rooted out_def)
  ultimately show thesis using that by blast
qed

text \<open>A clean relative path.\<close>

lemma Clean_relative_path:
  assumes "es = replicate n ''..'' @ fs" and "\<forall>e \<in> set fs. plain e" and "es \<noteq> []"
  shows "Clean (join_with ''/'' es) = join_with ''/'' es"
proof -
  have el: "e = ''..'' \<or> plain e" if "e \<in> set es" for e
    using that assms(1,2) by (auto split: if_splits)
  then have sep: "\<forall>e \<in> set es. CHR ''/'' \<notin> set e"
    by (fastforce simp: plain_def)
  have "hd es \<noteq> ''''" "CHR ''/'' \<notin> set (hd es)"
    using el [OF hd_in_set [OF assms(3)]] by (auto simp: plain_def)
  then have rel: "hd (join_with ''/'' es) \<noteq> CHR ''/''" "join_with ''/'' es \<noteq> []"
    using join_with_hd [OF assms(3), of "''/''"] by auto
  have "fold (clean_step False) es [] = rev es"
    using assms(1,2) fold_clean_dots [of n 0] by (simp add: fold_clean_plain del: clean_step.simps)
  then show ?thesis
    using rel assms(3) split_on_join [OF assms(3) sep] by (simp add: Clean_def del: clean_step.simps)
qed

lemma Clean_dot: "Clean ''.'' = ''.''"
  by (simp add: Clean_def)

theorem Clean_idem: "Clean (Clean p) = Clean p"
proof (cases "p \<noteq> [] \<and> hd p = CHR ''/''")
  case True
  then show ?thesis by (metis Clean_absolute Clean_abs_path)
next
  case False
  define out where "out = fold (clean_step False) (split_on CHR ''/'' p) []"
  have c: "Clean p = (if out = [] then ''.'' else join_with ''/'' (rev out))"
    using False by (auto simp: Clean_def out_def simp del: clean_step.simps)
  have "stack_ok False out"
    unfolding out_def by (rule stack_ok_fold) (auto simp: stack_ok_def dest: split_on_no_sep)
  then obtain es n where o: "rev out = replicate n ''..'' @ rev es" "\<forall>e \<in> set (rev es). plain e"
    by (auto simp: stack_ok_def)
  show ?thesis
  proof (cases "out = []")
    case False
    with Clean_relative_path [OF o] show ?thesis by (simp add: c)
  qed (simp add: c Clean_dot)
qed

lemma abs_path_inj:
  "\<forall>e \<in> set es. plain e \<Longrightarrow> \<forall>e \<in> set fs. plain e \<Longrightarrow> abs_path es = abs_path fs \<Longrightarrow> es = fs"
proof -
  have *: "es = []" if "\<forall>e \<in> set es. plain e" "join_with ''/'' es = ''''" for es
    using that by (cases "(''/'', es)" rule: join_with.cases) (auto simp: plain_def)
  assume a: "\<forall>e \<in> set es. plain e" "\<forall>e \<in> set fs. plain e" "abs_path es = abs_path fs"
  show "es = fs"
  proof (cases "es = [] \<or> fs = []")
    case True
    with a * [of es] * [of fs] show ?thesis by (auto simp: abs_path_def)
  next
    case False
    from a(3) have "join_with ''/'' es = join_with ''/'' fs" by (simp add: abs_path_def)
    with False a(1,2) show ?thesis by (metis split_on_join_plain)
  qed
qed

subsection \<open>Children\<close>

text \<open>\<^verbatim>\<open>filepath.Clean(filepath.Join(dir, name))\<close>, the path of a directory entry.\<close>

definition child_path :: "string \<Rightarrow> string \<Rightarrow> string" where
  "child_path dir name = Clean (Join [dir, name])"

lemma split_on_append_sep: "split_on c (s @ c # t) = split_on c s @ split_on c t"
proof (induction s)
  case (Cons x s)
  then show ?case by (cases "split_on c s") auto
qed simp

text \<open>The directory's path need not be clean, as the path given on the command line.\<close>

lemma child_path_absolute:
  assumes "p \<noteq> []" and "hd p = CHR ''/''" and "Clean p = abs_path es" and "\<forall>e \<in> set es. plain e" and "plain name"
  shows "child_path p name = abs_path (es @ [name])"
proof -
  obtain s where s: "p = CHR ''/'' # s" using assms(1,2) by (cases p) auto
  define out where "out = fold (clean_step True) (split_on CHR ''/'' s) []"
  have "stack_ok True out"
    unfolding out_def by (rule stack_ok_fold) (auto simp: stack_ok_def dest: split_on_no_sep)
  then have "\<forall>e \<in> set (rev out). plain e" by (auto simp: stack_ok_def)
  moreover have "abs_path (rev out) = abs_path es" using assms(3) by (simp add: s Clean_rooted out_def)
  ultimately have out: "rev out = es" using assms(4) abs_path_inj by blast
  have "split_on CHR ''/'' (s @ CHR ''/'' # name) = split_on CHR ''/'' s @ [name]"
    using assms(5) by (simp add: split_on_append_sep split_on_single plain_def)
  then have "Join [p, name] = abs_path (es @ [name])"
    using out by (simp add: Join_def s Clean_rooted clean_step_plain assms(5) del: clean_step.simps flip: out_def)
  then show ?thesis using assms(4,5) by (simp add: child_path_def Clean_abs_path)
qed

lemma child_path_abs:
  assumes "\<forall>e \<in> set es. plain e" and "plain name"
  shows "child_path (abs_path es) name = abs_path (es @ [name])"
proof (rule child_path_absolute)
  show "abs_path es \<noteq> []" and "hd (abs_path es) = CHR ''/''" by (simp_all add: abs_path_def)
qed (use assms in \<open>simp_all add: Clean_abs_path\<close>)

text \<open>Walking down a tree: what a client of \<^const>\<open>child_path\<close> relies on.\<close>

locale directory_paths =
  fixes child :: "string \<Rightarrow> string \<Rightarrow> string" and path_of :: "string list \<Rightarrow> string" and name_ok :: "string \<Rightarrow> bool"
  assumes child_of: "\<forall>e \<in> set es. name_ok e \<Longrightarrow> name_ok n \<Longrightarrow> child (path_of es) n = path_of (es @ [n])"
    and path_inj: "\<forall>e \<in> set es. name_ok e \<Longrightarrow> \<forall>e \<in> set fs. name_ok e \<Longrightarrow> path_of es = path_of fs \<Longrightarrow> es = fs"
begin

lemma walk: "\<forall>e \<in> set es. name_ok e \<Longrightarrow> \<forall>n \<in> set ns. name_ok n \<Longrightarrow> foldl child (path_of es) ns = path_of (es @ ns)"
proof (induction ns arbitrary: es)
  case (Cons n ns)
  then have "foldl child (path_of (es @ [n])) ns = path_of ((es @ [n]) @ ns)" by (intro Cons.IH) auto
  with Cons.prems show ?case by (simp add: child_of)
qed simp

lemma walk_inj:
  "\<forall>e \<in> set es. name_ok e \<Longrightarrow> \<forall>n \<in> set ns. name_ok n \<Longrightarrow> \<forall>n \<in> set ms. name_ok n \<Longrightarrow>
   foldl child (path_of es) ns = foldl child (path_of es) ms \<Longrightarrow> ns = ms"
proof -
  assume ok: "\<forall>e \<in> set es. name_ok e" "\<forall>n \<in> set ns. name_ok n" "\<forall>n \<in> set ms. name_ok n"
    and "foldl child (path_of es) ns = foldl child (path_of es) ms"
  then have "path_of (es @ ns) = path_of (es @ ms)" by (simp add: walk)
  then have "es @ ns = es @ ms" using ok by (intro path_inj) auto
  then show "ns = ms" by simp
qed

end

interpretation container: directory_paths child_path abs_path plain
  by unfold_locales (simp_all add: child_path_abs abs_path_inj)

end
