(* ===== verification/Client.thy ===== *)
theory Client
  imports Gob_Wire Errno_Codec Open_Flags Go_Path
begin

text \<open>
  The client side of the service (\<^verbatim>\<open>cmd/dockerfuse/client/client.go\<close>): every file-system
  operation is a request to the satellite whose reply or error is translated for FUSE, and before
  that the satellite is copied into the container and started. The client is written against the
  interfaces \<^verbatim>\<open>rpcClient\<close>, \<^verbatim>\<open>dockerClient\<close> and \<^verbatim>\<open>fileSystem\<close>
  of the source, which are records here; an operation returns what its Go method returns, or
  \<open>Panic\<close>. The context arguments and the log messages are left out.
\<close>

subsection \<open>Interfaces\<close>

text \<open>\<^verbatim>\<open>rpcClient\<close>: the argument and the reply are passed as their encodings.\<close>

record 's rpcClient =
  rc_Call :: "string \<Rightarrow> gob \<Rightarrow> 's \<Rightarrow> (string + gob) \<times> 's"
  rc_Close :: "'s \<Rightarrow> 's"

record 's DockerFuseClient =
  rpcClient :: "'s rpcClient option"
  containerID :: string
  satelliteFullRemotePath :: string

text \<open>The constants of the system the client runs on.\<close>

record client_env =
  ce_errno :: errno_names
  ce_flags :: syscall_flags

text \<open>Types of the package \<^verbatim>\<open>go-fuse\<close>, with the fields the client sets.\<close>

record fuse_Attr =
  a_Ino :: uint64
  a_Size :: uint64
  a_Blocks :: uint64
  a_Atime :: uint64
  a_Mtime :: uint64
  a_Ctime :: uint64
  a_Mode :: uint32
  a_Nlink :: uint32
  a_Uid :: uint32
  a_Gid :: uint32

record fuse_DirEntry =
  fe_Mode :: uint32
  fe_Ino :: uint64
  fe_Name :: string

text \<open>\<^verbatim>\<open>fuse.SetAttrIn\<close>, by the results of its getters.\<close>

record SetAttrIn =
  in_ATime :: "Time \<times> bool"
  in_MTime :: "Time \<times> bool"
  in_UID :: "uint32 \<times> bool"
  in_GID :: "uint32 \<times> bool"
  in_Mode :: "uint32 \<times> bool"
  in_Size :: "uint64 \<times> bool"

text \<open>A \<^verbatim>\<open>fusefs.FileHandle\<close> is an interface value; the client's handles are
  \<^verbatim>\<open>uintptr\<close>, and \<^const>\<open>None\<close> stands for any other value, nil included.\<close>

type_synonym FileHandle = "uintptr option"

record statAttr =
  FuseAttr :: fuse_Attr
  attr_LinkTarget :: string

definition zero_statAttr :: statAttr where
  "zero_statAttr = \<lparr> FuseAttr = \<lparr> a_Ino = 0, a_Size = 0, a_Blocks = 0, a_Atime = 0, a_Mtime = 0, a_Ctime = 0,
     a_Mode = 0, a_Nlink = 0, a_Uid = 0, a_Gid = 0 \<rparr>, attr_LinkTarget = '''' \<rparr>"

subsection \<open>Calls\<close>

definition nil_dereference :: string where
  "nil_dereference = ''invalid memory address or nil pointer dereference''"

text \<open>\<^verbatim>\<open>d.rpcClient.Call(m, args, &reply)\<close>: an error text or the decoded reply.\<close>

definition rpc_Call :: "'s DockerFuseClient \<Rightarrow> string \<Rightarrow> gob \<Rightarrow> (gob \<Rightarrow> 'r option) \<Rightarrow> 's \<Rightarrow> (string + 'r) go \<times> 's" where
  "rpc_Call d m args dec s = (case rpcClient d of
     None \<Rightarrow> (Panic nil_dereference, s)
   | Some c \<Rightarrow> (case rc_Call c m args s of
       (Inl err, s') \<Rightarrow> (Val (Inl err), s')
     | (Inr g, s') \<Rightarrow> (case dec g of
         None \<Rightarrow> (Val (Inl ''reading body gob: type mismatch''), s')
       | Some reply \<Rightarrow> (Val (Inr reply), s'))))"

text \<open>The common tail of the operations: what is returned on an error and on a reply.\<close>

definition on_result :: "(string + 'r) go \<times> 's \<Rightarrow> (string \<Rightarrow> 'a) \<Rightarrow> ('r \<Rightarrow> 'a) \<Rightarrow> 'a go \<times> 's" where
  "on_result x failed ok = (case x of
     (Panic m, s) \<Rightarrow> (Panic m, s)
   | (Val (Inl err), s) \<Rightarrow> (Val (failed err), s)
   | (Val (Inr reply), s) \<Rightarrow> (Val (ok reply), s))"

text \<open>\<^verbatim>\<open>fh.(uintptr)\<close>.\<close>

definition with_fd :: "FileHandle \<Rightarrow> (uintptr \<Rightarrow> 's \<Rightarrow> 'a go \<times> 's) \<Rightarrow> 's \<Rightarrow> 'a go \<times> 's" where
  "with_fd fh f s = (case fh of
     None \<Rightarrow> (Panic ''interface conversion: interface is not uintptr'', s)
   | Some fd \<Rightarrow> f fd s)"

subsection \<open>Attributes\<close>

text \<open>The assignments shared by \<^verbatim>\<open>stat\<close>, \<^verbatim>\<open>create\<close>, \<^verbatim>\<open>mkdir\<close>
  and \<^verbatim>\<open>setAttr\<close>.\<close>

definition fill_attr :: "StatReply \<Rightarrow> string \<Rightarrow> statAttr" where
  "fill_attr reply target = \<lparr> FuseAttr = \<lparr> a_Ino = Ino reply, a_Size = Size reply, a_Blocks = Blocks reply,
     a_Atime = Atime reply, a_Mtime = Mtime reply, a_Ctime = Ctime reply, a_Mode = Mode reply,
     a_Nlink = Nlink reply, a_Uid = UID reply, a_Gid = GID reply \<rparr>, attr_LinkTarget = target \<rparr>"

definition stat :: "client_env \<Rightarrow> 's DockerFuseClient \<Rightarrow> string \<Rightarrow> statAttr \<Rightarrow> 's \<Rightarrow> (statAttr \<times> errno) go \<times> 's" where
  "stat E d fullPath attr s =
    on_result (rpc_Call d ''DockerFuseFSOps.Stat'' (enc_StatRequest \<lparr> st_FullPath = fullPath \<rparr>) dec_StatReply s)
      (\<lambda>err. (attr, RPCErrorStringTOErrno (ce_errno E) err))
      (\<lambda>reply. (fill_attr reply (LinkTarget reply), 0))"

definition create :: "client_env \<Rightarrow> 's DockerFuseClient \<Rightarrow> string \<Rightarrow> go_int \<Rightarrow> FileMode \<Rightarrow> statAttr \<Rightarrow> 's
    \<Rightarrow> (FileHandle \<times> statAttr \<times> errno) go \<times> 's" where
  "create E d fullPath flags mode attr s =
    on_result (rpc_Call d ''DockerFuseFSOps.Open'' (enc_OpenRequest \<lparr> op_FullPath = fullPath,
        op_SAFlags = SystemToSAFlags (ce_flags E) flags, op_Mode = mode \<rparr>) dec_OpenReply s)
      (\<lambda>err. (None, attr, RPCErrorStringTOErrno (ce_errno E) err))
      (\<lambda>reply. (Some (op_FD reply), fill_attr (op_StatReply reply) (LinkTarget (op_StatReply reply)), 0))"

subsection \<open>Directories\<close>

text \<open>\<^verbatim>\<open>readDir\<close> sends a \<^verbatim>\<open>StatRequest\<close> and leaves out the entries with an
  inode number up to 2. The stream made of the entries is their list.\<close>

definition visible_entries :: "DirEntry list \<Rightarrow> fuse_DirEntry list" where
  "visible_entries es = map (\<lambda>e. \<lparr> fe_Mode = de_Mode e, fe_Ino = de_Ino e, fe_Name = de_Name e \<rparr>)
     (filter (\<lambda>e. de_Ino e > 2) es)"

definition readDir :: "client_env \<Rightarrow> 's DockerFuseClient \<Rightarrow> string \<Rightarrow> 's
    \<Rightarrow> (fuse_DirEntry list option \<times> errno) go \<times> 's" where
  "readDir E d fullPath s =
    on_result (rpc_Call d ''DockerFuseFSOps.ReadDir'' (enc_StatRequest \<lparr> st_FullPath = fullPath \<rparr>) dec_ReadDirReply s)
      (\<lambda>err. (None, RPCErrorStringTOErrno (ce_errno E) err))
      (\<lambda>reply. (Some (visible_entries (DirEntries reply)), 0))"

subsection \<open>Files\<close>

definition open_file :: "client_env \<Rightarrow> 's DockerFuseClient \<Rightarrow> string \<Rightarrow> go_int \<Rightarrow> FileMode \<Rightarrow> 's
    \<Rightarrow> (FileHandle \<times> FileMode \<times> errno) go \<times> 's" where
  "open_file E d fullPath flags modeIn s =
    on_result (rpc_Call d ''DockerFuseFSOps.Open'' (enc_OpenRequest \<lparr> op_FullPath = fullPath,
        op_SAFlags = SystemToSAFlags (ce_flags E) flags, op_Mode = modeIn \<rparr>) dec_OpenReply s)
      (\<lambda>err. (None, 0, RPCErrorStringTOErrno (ce_errno E) err))
      (\<lambda>reply. (Some (op_FD reply), Mode (op_StatReply reply), 0))"

text \<open>The operations that return only an \<^verbatim>\<open>errno\<close>.\<close>

definition errno_only :: "client_env \<Rightarrow> (string + unit) go \<times> 's \<Rightarrow> errno go \<times> 's" where
  "errno_only E x = on_result x (\<lambda>err. RPCErrorStringTOErrno (ce_errno E) err) (\<lambda>_. 0)"

definition close :: "client_env \<Rightarrow> 's DockerFuseClient \<Rightarrow> FileHandle \<Rightarrow> 's \<Rightarrow> errno go \<times> 's" where
  "close E d fh = with_fd fh (\<lambda>fd s.
    errno_only E (rpc_Call d ''DockerFuseFSOps.Close'' (enc_CloseRequest \<lparr> cl_FD = fd \<rparr>) dec_unit s))"

text \<open>\<^verbatim>\<open>read\<close> turns the error \<^verbatim>\<open>EOF\<close> into an empty result.\<close>

definition read :: "client_env \<Rightarrow> 's DockerFuseClient \<Rightarrow> FileHandle \<Rightarrow> int64 \<Rightarrow> go_int \<Rightarrow> 's
    \<Rightarrow> (byte list \<times> errno) go \<times> 's" where
  "read E d fh offset n = with_fd fh (\<lambda>fd s.
    on_result (rpc_Call d ''DockerFuseFSOps.Read'' (enc_ReadRequest \<lparr> re_FD = fd, re_Offset = offset, re_Num = n \<rparr>)
        dec_ReadReply s)
      (\<lambda>err. if err = ''EOF'' then ([], 0) else ([], RPCErrorStringTOErrno (ce_errno E) err))
      (\<lambda>reply. (re_Data reply, 0)))"

definition seek :: "client_env \<Rightarrow> 's DockerFuseClient \<Rightarrow> FileHandle \<Rightarrow> int64 \<Rightarrow> go_int \<Rightarrow> 's
    \<Rightarrow> (int64 \<times> errno) go \<times> 's" where
  "seek E d fh offset whence = with_fd fh (\<lambda>fd s.
    on_result (rpc_Call d ''DockerFuseFSOps.Seek'' (enc_SeekRequest \<lparr> sk_FD = fd, sk_Offset = offset, sk_Whence = whence \<rparr>)
        dec_SeekReply s)
      (\<lambda>err. (0, RPCErrorStringTOErrno (ce_errno E) err))
      (\<lambda>reply. (sk_Num reply, 0)))"

definition write_file :: "client_env \<Rightarrow> 's DockerFuseClient \<Rightarrow> FileHandle \<Rightarrow> int64 \<Rightarrow> byte list \<Rightarrow> 's
    \<Rightarrow> (go_int \<times> errno) go \<times> 's" where
  "write_file E d fh offset data = with_fd fh (\<lambda>fd s.
    on_result (rpc_Call d ''DockerFuseFSOps.Write'' (enc_WriteRequest \<lparr> wr_FD = fd, wr_Offset = offset, wr_Data = data \<rparr>)
        dec_WriteReply s)
      (\<lambda>err. (0, RPCErrorStringTOErrno (ce_errno E) err))
      (\<lambda>reply. (wr_Num reply, 0)))"

definition fsync :: "client_env \<Rightarrow> 's DockerFuseClient \<Rightarrow> FileHandle \<Rightarrow> uint32 \<Rightarrow> 's \<Rightarrow> errno go \<times> 's" where
  "fsync E d fh flags = with_fd fh (\<lambda>fd s.
    errno_only E (rpc_Call d ''DockerFuseFSOps.Fsync'' (enc_FsyncRequest \<lparr> fy_FD = fd, fy_Flags = flags \<rparr>) dec_unit s))"

subsection \<open>Names\<close>

definition unlink :: "client_env \<Rightarrow> 's DockerFuseClient \<Rightarrow> string \<Rightarrow> 's \<Rightarrow> errno go \<times> 's" where
  "unlink E d fullPath s =
    errno_only E (rpc_Call d ''DockerFuseFSOps.Unlink'' (enc_UnlinkRequest \<lparr> ul_FullPath = fullPath \<rparr>) dec_unit s)"

text \<open>\<^verbatim>\<open>mkdir\<close> leaves the link target of the attributes empty.\<close>

definition mkdir :: "client_env \<Rightarrow> 's DockerFuseClient \<Rightarrow> string \<Rightarrow> FileMode \<Rightarrow> statAttr \<Rightarrow> 's
    \<Rightarrow> (statAttr \<times> errno) go \<times> 's" where
  "mkdir E d fullPath mode attr s =
    on_result (rpc_Call d ''DockerFuseFSOps.Mkdir'' (enc_MkdirRequest \<lparr> md_FullPath = fullPath, md_Mode = mode \<rparr>)
        dec_StatReply s)
      (\<lambda>err. (attr, RPCErrorStringTOErrno (ce_errno E) err))
      (\<lambda>reply. (fill_attr reply '''', 0))"

definition rmdir :: "client_env \<Rightarrow> 's DockerFuseClient \<Rightarrow> string \<Rightarrow> 's \<Rightarrow> errno go \<times> 's" where
  "rmdir E d fullPath s =
    errno_only E (rpc_Call d ''DockerFuseFSOps.Rmdir'' (enc_RmdirRequest \<lparr> rm_FullPath = fullPath \<rparr>) dec_unit s)"

definition rename :: "client_env \<Rightarrow> 's DockerFuseClient \<Rightarrow> string \<Rightarrow> string \<Rightarrow> uint32 \<Rightarrow> 's \<Rightarrow> errno go \<times> 's" where
  "rename E d fullPath fullNewPath flags s =
    errno_only E (rpc_Call d ''DockerFuseFSOps.Rename'' (enc_RenameRequest \<lparr> rn_FullPath = fullPath,
      rn_FullNewPath = fullNewPath, rn_Flags = flags \<rparr>) dec_unit s)"

definition readlink :: "client_env \<Rightarrow> 's DockerFuseClient \<Rightarrow> string \<Rightarrow> 's \<Rightarrow> (string \<times> errno) go \<times> 's" where
  "readlink E d fullPath s =
    on_result (rpc_Call d ''DockerFuseFSOps.Readlink'' (enc_ReadlinkRequest \<lparr> rl_FullPath = fullPath \<rparr>) dec_ReadlinkReply s)
      (\<lambda>err. ('''', RPCErrorStringTOErrno (ce_errno E) err))
      (\<lambda>reply. (rl_LinkTarget reply, 0))"

definition link :: "client_env \<Rightarrow> 's DockerFuseClient \<Rightarrow> string \<Rightarrow> string \<Rightarrow> 's \<Rightarrow> errno go \<times> 's" where
  "link E d oldFullPath newFullPath s =
    errno_only E (rpc_Call d ''DockerFuseFSOps.Link'' (enc_LinkRequest \<lparr> ln_OldFullPath = oldFullPath,
      ln_NewFullPath = newFullPath \<rparr>) dec_unit s)"

definition symlink :: "client_env \<Rightarrow> 's DockerFuseClient \<Rightarrow> string \<Rightarrow> string \<Rightarrow> 's \<Rightarrow> errno go \<times> 's" where
  "symlink E d oldFullPath newFullPath s =
    errno_only E (rpc_Call d ''DockerFuseFSOps.Symlink'' (enc_SymlinkRequest \<lparr> sl_OldFullPath = oldFullPath,
      sl_NewFullPath = newFullPath \<rparr>) dec_unit s)"

subsection \<open>Setting attributes\<close>

text \<open>\<^verbatim>\<open>if v, ok := in.Get(); ok { request.Set(v) }\<close>.\<close>

definition set_if :: "'a \<times> bool \<Rightarrow> ('a \<Rightarrow> SetAttrRequest \<Rightarrow> SetAttrRequest) \<Rightarrow> SetAttrRequest \<Rightarrow> SetAttrRequest" where
  "set_if x f r = (if snd x then f (fst x) r else r)"

definition setAttr_request :: "string \<Rightarrow> SetAttrIn \<Rightarrow> SetAttrRequest" where
  "setAttr_request fullPath inp =
    (let r0 = new_SetAttrRequest fullPath;
         r1 = set_if (in_ATime inp) SetATime r0;
         r2 = set_if (in_MTime inp) SetMTime r1;
         r3 = set_if (in_UID inp) SetUID r2;
         r4 = set_if (in_GID inp) SetGID r3;
         r5 = set_if (in_Mode inp) SetMode r4
     in set_if (in_Size inp) SetSize r5)"

definition setAttr :: "client_env \<Rightarrow> 's DockerFuseClient \<Rightarrow> string \<Rightarrow> SetAttrIn \<Rightarrow> statAttr \<Rightarrow> 's
    \<Rightarrow> (statAttr \<times> errno) go \<times> 's" where
  "setAttr E d fullPath inp out s =
    on_result (rpc_Call d ''DockerFuseFSOps.SetAttr'' (enc_SetAttrRequest (setAttr_request fullPath inp)) dec_StatReply s)
      (\<lambda>err. (out, RPCErrorStringTOErrno (ce_errno E) err))
      (\<lambda>reply. (fill_attr reply (LinkTarget reply), 0))"


lemmas client_op_defs = stat_def create_def readDir_def open_file_def close_def read_def seek_def write_file_def
  unlink_def fsync_def mkdir_def rmdir_def rename_def readlink_def link_def symlink_def setAttr_def
  on_result_def with_fd_def errno_only_def

end
