(* ===== verification/Fuse_Node.thy ===== *)
theory Fuse_Node
  imports Client
begin

text \<open>
  The file-system nodes (\<^verbatim>\<open>cmd/dockerfuse/client/dockerfuse_fs.go\<close>): every FUSE request
  is forwarded to the client under the node's path in the container. A node talks to the client
  through the interface \<^verbatim>\<open>DockerFuseClientInterface\<close>, a record here. Of the package
  \<^verbatim>\<open>go-fuse\<close> the nodes use some constants and the inode tree: the constants are a record
  of parameters, an inode made by \<^verbatim>\<open>NewPersistentInode\<close> is the pair of its node and its
  stable attributes, and what a node reads of another inode is an argument.
\<close>

subsection \<open>The client's interface\<close>

record 's DockerFuseClientInterface =
  i_close :: "FileHandle \<Rightarrow> 's \<Rightarrow> errno go \<times> 's"
  i_create :: "string \<Rightarrow> go_int \<Rightarrow> FileMode \<Rightarrow> statAttr \<Rightarrow> 's \<Rightarrow> (FileHandle \<times> statAttr \<times> errno) go \<times> 's"
  i_fsync :: "FileHandle \<Rightarrow> uint32 \<Rightarrow> 's \<Rightarrow> errno go \<times> 's"
  i_link :: "string \<Rightarrow> string \<Rightarrow> 's \<Rightarrow> errno go \<times> 's"
  i_mkdir :: "string \<Rightarrow> FileMode \<Rightarrow> statAttr \<Rightarrow> 's \<Rightarrow> (statAttr \<times> errno) go \<times> 's"
  i_open :: "string \<Rightarrow> go_int \<Rightarrow> FileMode \<Rightarrow> 's \<Rightarrow> (FileHandle \<times> FileMode \<times> errno) go \<times> 's"
  i_read :: "FileHandle \<Rightarrow> int64 \<Rightarrow> go_int \<Rightarrow> 's \<Rightarrow> (byte list \<times> errno) go \<times> 's"
  i_readDir :: "string \<Rightarrow> 's \<Rightarrow> (fuse_DirEntry list option \<times> errno) go \<times> 's"
  i_readlink :: "string \<Rightarrow> 's \<Rightarrow> (string \<times> errno) go \<times> 's"
  i_rename :: "string \<Rightarrow> string \<Rightarrow> uint32 \<Rightarrow> 's \<Rightarrow> errno go \<times> 's"
  i_rmdir :: "string \<Rightarrow> 's \<Rightarrow> errno go \<times> 's"
  i_seek :: "FileHandle \<Rightarrow> int64 \<Rightarrow> go_int \<Rightarrow> 's \<Rightarrow> (int64 \<times> errno) go \<times> 's"
  i_setAttr :: "string \<Rightarrow> SetAttrIn \<Rightarrow> statAttr \<Rightarrow> 's \<Rightarrow> (statAttr \<times> errno) go \<times> 's"
  i_stat :: "string \<Rightarrow> statAttr \<Rightarrow> 's \<Rightarrow> (statAttr \<times> errno) go \<times> 's"
  i_symlink :: "string \<Rightarrow> string \<Rightarrow> 's \<Rightarrow> errno go \<times> 's"
  i_unlink :: "string \<Rightarrow> 's \<Rightarrow> errno go \<times> 's"
  i_write :: "FileHandle \<Rightarrow> int64 \<Rightarrow> byte list \<Rightarrow> 's \<Rightarrow> (go_int \<times> errno) go \<times> 's"

definition client_interface :: "client_env \<Rightarrow> 's DockerFuseClient \<Rightarrow> 's DockerFuseClientInterface" where
  "client_interface E d = \<lparr>
     i_close = close E d, i_create = create E d, i_fsync = fsync E d, i_link = link E d, i_mkdir = mkdir E d,
     i_open = open_file E d, i_read = read E d, i_readDir = readDir E d, i_readlink = readlink E d,
     i_rename = rename E d, i_rmdir = rmdir E d, i_seek = seek E d, i_setAttr = setAttr E d, i_stat = stat E d,
     i_symlink = symlink E d, i_unlink = unlink E d, i_write = write_file E d \<rparr>"

subsection \<open>Nodes\<close>

record 's Node =
  node_Data :: string
  node_fullPath :: string
  fuseDockerClient :: "'s DockerFuseClientInterface"

definition NewNode :: "'s DockerFuseClientInterface \<Rightarrow> string \<Rightarrow> string \<Rightarrow> 's Node" where
  "NewNode client fullPath linkTarget =
    \<lparr> node_Data = linkTarget, node_fullPath = fullPath, fuseDockerClient = client \<rparr>"

text \<open>From \<^verbatim>\<open>go-fuse\<close>: file types and flags, stable attributes, and another inode with
  the node embedding it (if that is a \<^verbatim>\<open>*Node\<close>), its type and its path below the root of
  the mount.\<close>

record fuse_consts =
  S_IFDIR :: uint32
  S_IFLNK :: uint32
  S_IFIFO :: uint32
  S_IFREG :: uint32
  FOPEN_DIRECT_IO :: uint32

record StableAttr =
  sattr_Mode :: uint32
  sattr_Ino :: uint64

record 's InodeEmbedder =
  emb_node :: "'s Node option"
  emb_Mode :: uint32
  emb_Path :: string

type_synonym 's Inode = "'s Node \<times> StableAttr"

text \<open>Sequencing of calls that may panic.\<close>

definition go_then :: "'a go \<times> 's \<Rightarrow> ('a \<Rightarrow> 's \<Rightarrow> 'b go \<times> 's) \<Rightarrow> 'b go \<times> 's" where
  "go_then x f = (case x of (Panic m, s) \<Rightarrow> (Panic m, s) | (Val v, s) \<Rightarrow> f v s)"

subsection \<open>Operations\<close>

text \<open>An operation that fills in \<^verbatim>\<open>out.Attr\<close> takes its value and returns the new one.\<close>

definition Node_Create :: "'s Node \<Rightarrow> string \<Rightarrow> uint32 \<Rightarrow> uint32 \<Rightarrow> fuse_Attr \<Rightarrow> 's
    \<Rightarrow> ('s Inode option \<times> FileHandle \<times> uint32 \<times> errno \<times> fuse_Attr) go \<times> 's" where
  "Node_Create node name flags mode out s =
    (let fullPath = Clean (Join [node_fullPath node, name])
     in go_then (i_create (fuseDockerClient node) fullPath (ucast flags) mode zero_statAttr s)
       (\<lambda>(fh, fuseAttr, errno) s'.
          if errno \<noteq> 0 then (Val (None, None, 0, errno, out), s')
          else (let out' = FuseAttr fuseAttr
                in (Val (Some (NewNode (fuseDockerClient node) fullPath '''', \<lparr> sattr_Mode = 0, sattr_Ino = a_Ino out' \<rparr>),
                         fh, flags, errno, out'), s'))))"

definition Node_Flush :: "'s Node \<Rightarrow> FileHandle \<Rightarrow> 's \<Rightarrow> errno go \<times> 's" where
  "Node_Flush node fh s = i_close (fuseDockerClient node) fh s"

definition Node_Release :: "'s Node \<Rightarrow> FileHandle \<Rightarrow> 's \<Rightarrow> errno go \<times> 's" where
  "Node_Release node fh s = i_close (fuseDockerClient node) fh s"

definition Node_Fsync :: "'s Node \<Rightarrow> FileHandle \<Rightarrow> uint32 \<Rightarrow> 's \<Rightarrow> errno go \<times> 's" where
  "Node_Fsync node fh flags s = i_fsync (fuseDockerClient node) fh flags s"

definition Node_Getattr :: "'s Node \<Rightarrow> FileHandle \<Rightarrow> fuse_Attr \<Rightarrow> 's \<Rightarrow> (errno \<times> fuse_Attr) go \<times> 's" where
  "Node_Getattr node fh out s =
    go_then (i_stat (fuseDockerClient node) (node_fullPath node) zero_statAttr s)
      (\<lambda>(fuseAttr, errno) s'.
         if errno \<noteq> 0 then (Val (errno, out), s') else (Val (errno, FuseAttr fuseAttr), s'))"

definition Node_Link :: "'s Node \<Rightarrow> 's InodeEmbedder \<Rightarrow> string \<Rightarrow> fuse_Attr \<Rightarrow> 's
    \<Rightarrow> ('s Inode option \<times> errno \<times> fuse_Attr) go \<times> 's" where
  "Node_Link node target name out s =
    (let newFullPath = Clean (Join [node_fullPath node, name])
     in (case emb_node target of
           None \<Rightarrow> (Panic ''interface conversion: InodeEmbedder is not *Node'', s)
         | Some targetNode \<Rightarrow>
    go_then (i_link (fuseDockerClient node) (node_fullPath targetNode) newFullPath s)
      (\<lambda>errno s'.
         if errno \<noteq> 0 then (Val (None, errno, out), s')
         else
    go_then (i_stat (fuseDockerClient node) newFullPath zero_statAttr s')
      (\<lambda>(fuseAttr, errno) s''.
         if errno \<noteq> 0 then (Val (None, errno, out), s'')
         else (Val (Some (NewNode (fuseDockerClient node) newFullPath (attr_LinkTarget fuseAttr),
                     \<lparr> sattr_Mode = emb_Mode target, sattr_Ino = a_Ino (FuseAttr fuseAttr) \<rparr>),
                   errno, FuseAttr fuseAttr), s'')))))"

text \<open>The file type that \<^verbatim>\<open>Lookup\<close> gives an inode.\<close>

definition stable_mode :: "fuse_consts \<Rightarrow> uint32 \<Rightarrow> uint32" where
  "stable_mode fc m =
    (if m AND S_IFDIR fc = S_IFDIR fc then S_IFDIR fc
     else if m AND S_IFLNK fc = S_IFLNK fc then S_IFLNK fc
     else if m AND S_IFIFO fc = S_IFIFO fc then S_IFIFO fc
     else S_IFREG fc)"

definition Node_Lookup :: "fuse_consts \<Rightarrow> 's Node \<Rightarrow> string \<Rightarrow> fuse_Attr \<Rightarrow> 's
    \<Rightarrow> ('s Inode option \<times> errno \<times> fuse_Attr) go \<times> 's" where
  "Node_Lookup fc node name out s =
    (let fullPath = Clean (Join [node_fullPath node, name])
     in go_then (i_stat (fuseDockerClient node) fullPath zero_statAttr s)
       (\<lambda>(fuseAttr, syserr) s'.
          if syserr \<noteq> 0 then (Val (None, syserr, out), s')
          else (let out' = FuseAttr fuseAttr
                in (Val (Some (NewNode (fuseDockerClient node) fullPath (attr_LinkTarget fuseAttr),
                          \<lparr> sattr_Mode = stable_mode fc (a_Mode out'), sattr_Ino = a_Ino out' \<rparr>), 0, out'), s'))))"

definition Node_Lseek :: "'s Node \<Rightarrow> FileHandle \<Rightarrow> uint64 \<Rightarrow> uint32 \<Rightarrow> 's \<Rightarrow> (uint64 \<times> errno) go \<times> 's" where
  "Node_Lseek node fh off whence s = i_seek (fuseDockerClient node) fh off (ucast whence) s"

definition Node_Mkdir :: "fuse_consts \<Rightarrow> 's Node \<Rightarrow> string \<Rightarrow> uint32 \<Rightarrow> fuse_Attr \<Rightarrow> 's
    \<Rightarrow> ('s Inode option \<times> errno \<times> fuse_Attr) go \<times> 's" where
  "Node_Mkdir fc node name mode out s =
    (let fullPath = Clean (Join [node_fullPath node, name])
     in go_then (i_mkdir (fuseDockerClient node) fullPath mode zero_statAttr s)
       (\<lambda>(fuseAttr, errno) s'.
          if errno \<noteq> 0 then (Val (None, errno, out), s')
          else (let out' = FuseAttr fuseAttr
                in (Val (Some (NewNode (fuseDockerClient node) fullPath '''',
                          \<lparr> sattr_Mode = S_IFDIR fc, sattr_Ino = a_Ino out' \<rparr>), errno, out'), s'))))"

text \<open>\<^verbatim>\<open>Open\<close> passes its flags as the mode, too.\<close>

definition Node_Open :: "fuse_consts \<Rightarrow> 's Node \<Rightarrow> uint32 \<Rightarrow> 's \<Rightarrow> (FileHandle \<times> uint32 \<times> errno) go \<times> 's" where
  "Node_Open fc node flags s =
    go_then (i_open (fuseDockerClient node) (node_fullPath node) (ucast flags) flags s)
      (\<lambda>(fh, _, syserr) s'. (Val (fh, FOPEN_DIRECT_IO fc, syserr), s'))"

definition Node_Readdir :: "'s Node \<Rightarrow> 's \<Rightarrow> (fuse_DirEntry list option \<times> errno) go \<times> 's" where
  "Node_Readdir node s =
    go_then (i_readDir (fuseDockerClient node) (node_fullPath node) s)
      (\<lambda>(ds, errno) s'. if errno \<noteq> 0 then (Val (None, errno), s') else (Val (ds, errno), s'))"

text \<open>\<^verbatim>\<open>dest\<close> is only used for its length.\<close>

definition Node_Read :: "'s Node \<Rightarrow> FileHandle \<Rightarrow> nat \<Rightarrow> int64 \<Rightarrow> 's \<Rightarrow> (byte list option \<times> errno) go \<times> 's" where
  "Node_Read node fh dest_len off s =
    go_then (i_read (fuseDockerClient node) fh off (of_nat dest_len) s)
      (\<lambda>(data, syserr) s'. if syserr \<noteq> 0 then (Val (None, syserr), s') else (Val (Some data, syserr), s'))"

definition Node_Readlink :: "'s Node \<Rightarrow> 's \<Rightarrow> (string \<times> errno) go \<times> 's" where
  "Node_Readlink node s =
    go_then (i_readlink (fuseDockerClient node) (node_fullPath node) s)
      (\<lambda>(linkTarget, errno) s'. if errno \<noteq> 0 then (Val ('''', errno), s') else (Val (linkTarget, errno), s'))"

definition Node_Rename :: "'s Node \<Rightarrow> string \<Rightarrow> 's InodeEmbedder \<Rightarrow> string \<Rightarrow> uint32 \<Rightarrow> 's \<Rightarrow> errno go \<times> 's" where
  "Node_Rename node name newParent newName flags s =
    (let fullPath = Clean (Join [node_fullPath node, name]);
         fullNewPath = Clean (Join [emb_Path newParent, newName])
     in i_rename (fuseDockerClient node) fullPath fullNewPath flags s)"

definition Node_Rmdir :: "'s Node \<Rightarrow> string \<Rightarrow> 's \<Rightarrow> errno go \<times> 's" where
  "Node_Rmdir node name s = i_rmdir (fuseDockerClient node) (Clean (Join [node_fullPath node, name])) s"

definition Node_Setattr :: "'s Node \<Rightarrow> FileHandle \<Rightarrow> SetAttrIn \<Rightarrow> fuse_Attr \<Rightarrow> 's \<Rightarrow> (errno \<times> fuse_Attr) go \<times> 's" where
  "Node_Setattr node f inp out s =
    go_then (i_setAttr (fuseDockerClient node) (node_fullPath node) inp zero_statAttr s)
      (\<lambda>(fuseAttr, errno) s'.
         if errno \<noteq> 0 then (Val (errno, out), s') else (Val (errno, FuseAttr fuseAttr), s'))"

text \<open>\<^verbatim>\<open>Symlink\<close> leaves \<^verbatim>\<open>out\<close> and the inode number unset.\<close>

definition Node_Symlink :: "fuse_consts \<Rightarrow> 's Node \<Rightarrow> string \<Rightarrow> string \<Rightarrow> fuse_Attr \<Rightarrow> 's
    \<Rightarrow> ('s Inode option \<times> errno \<times> fuse_Attr) go \<times> 's" where
  "Node_Symlink fc node target name out s =
    (let newFullPath = Clean (Join [node_fullPath node, name])
     in go_then (i_symlink (fuseDockerClient node) target newFullPath s)
       (\<lambda>errno s'.
          if errno \<noteq> 0 then (Val (None, errno, out), s')
          else (Val (Some (NewNode (fuseDockerClient node) newFullPath (node_fullPath node),
                       \<lparr> sattr_Mode = S_IFLNK fc, sattr_Ino = 0 \<rparr>), errno, out), s')))"

definition Node_Unlink :: "'s Node \<Rightarrow> string \<Rightarrow> 's \<Rightarrow> errno go \<times> 's" where
  "Node_Unlink node name s = i_unlink (fuseDockerClient node) (Clean (Join [node_fullPath node, name])) s"

definition Node_Write :: "'s Node \<Rightarrow> FileHandle \<Rightarrow> byte list \<Rightarrow> int64 \<Rightarrow> 's \<Rightarrow> (uint32 \<times> errno) go \<times> 's" where
  "Node_Write node fh data off s =
    go_then (i_write (fuseDockerClient node) fh off data s)
      (\<lambda>(ntmp, syserr) s'. (Val (ucast ntmp, syserr), s'))"

end
