(* ===== verification/Fs_Interface.thy ===== *)
theory Fs_Interface
  imports Errno_Codec
begin

text \<open>
  The satellite's file-system interface (\<^verbatim>\<open>cmd/satellite/server/filesystem.go\<close>). The
  Go interfaces \<^verbatim>\<open>fileSystem\<close> and \<^verbatim>\<open>file\<close> are records of operations over
  an abstract world \<open>'w\<close>, the state of the container's kernel and of the Go run time, and an
  abstract type \<open>'f\<close> of open file objects. The server is written against these records, as
  the source is written against the interfaces; the locale \<open>descriptor_files\<close> states what
  the server relies on.
\<close>

subsection \<open>What a call returns\<close>

record Timespec =
  ts_Sec :: int64
  ts_Nsec :: int64

text \<open>\<^verbatim>\<open>syscall.Stat_t\<close>, the fields the satellite reads, at the widths of amd64 (on arm64
  \<^verbatim>\<open>Nlink\<close> and \<^verbatim>\<open>Blksize\<close> have 32 bits and are extended).\<close>

record Stat_t =
  s_Ino :: uint64
  s_Nlink :: uint64
  s_Mode :: uint32
  s_Uid :: uint32
  s_Gid :: uint32
  s_Size :: int64
  s_Blksize :: int64
  s_Blocks :: int64
  s_Atim :: Timespec
  s_Mtim :: Timespec
  s_Ctim :: Timespec

text \<open>\<^verbatim>\<open>os.FileInfo\<close>: \<^verbatim>\<open>Sys()\<close> returns an interface value; \<^const>\<open>None\<close>
  stands for a value that is not a \<^verbatim>\<open>*syscall.Stat_t\<close>.\<close>

record FileInfo =
  fi_Sys :: "Stat_t option"

text \<open>\<^verbatim>\<open>os.DirEntry\<close>: a name, and an \<^verbatim>\<open>Info\<close> method that looks at the file
  when it is called.\<close>

record 'w DirEnt =
  dent_Name :: string
  dent_Info :: "'w \<Rightarrow> (goerror + FileInfo) \<times> 'w"

subsection \<open>The interfaces\<close>

record ('f, 'w) fileSystem =
  fs_Chmod :: "string \<Rightarrow> FileMode \<Rightarrow> 'w \<Rightarrow> goerror option \<times> 'w"
  fs_Chown :: "string \<Rightarrow> go_int \<Rightarrow> go_int \<Rightarrow> 'w \<Rightarrow> goerror option \<times> 'w"
  fs_Link :: "string \<Rightarrow> string \<Rightarrow> 'w \<Rightarrow> goerror option \<times> 'w"
  fs_Lstat :: "string \<Rightarrow> 'w \<Rightarrow> (goerror + FileInfo) \<times> 'w"
  fs_Mkdir :: "string \<Rightarrow> FileMode \<Rightarrow> 'w \<Rightarrow> goerror option \<times> 'w"
  fs_OpenFile :: "string \<Rightarrow> go_int \<Rightarrow> FileMode \<Rightarrow> 'w \<Rightarrow> (goerror + 'f) \<times> 'w"
  fs_ReadDir :: "string \<Rightarrow> 'w \<Rightarrow> (goerror + 'w DirEnt list) \<times> 'w"
  fs_Readlink :: "string \<Rightarrow> 'w \<Rightarrow> (goerror + string) \<times> 'w"
  fs_Remove :: "string \<Rightarrow> 'w \<Rightarrow> goerror option \<times> 'w"
  fs_Rename :: "string \<Rightarrow> string \<Rightarrow> 'w \<Rightarrow> goerror option \<times> 'w"
  fs_Symlink :: "string \<Rightarrow> string \<Rightarrow> 'w \<Rightarrow> goerror option \<times> 'w"
  fs_Truncate :: "string \<Rightarrow> int64 \<Rightarrow> 'w \<Rightarrow> goerror option \<times> 'w"
  fs_UtimesNano :: "string \<Rightarrow> Timespec list \<Rightarrow> 'w \<Rightarrow> goerror option \<times> 'w"

text \<open>
  \<^verbatim>\<open>ReadAt\<close> fills a buffer of the given length and returns the count, the buffer and an
  error; the offset-based and the sequential calls return as their Go methods do.
\<close>

record ('f, 'w) file_ops =
  f_Fd :: "'f \<Rightarrow> 'w \<Rightarrow> uintptr"
  f_Close :: "'f \<Rightarrow> 'w \<Rightarrow> goerror option \<times> 'w"
  f_ReadAt :: "'f \<Rightarrow> nat \<Rightarrow> int64 \<Rightarrow> 'w \<Rightarrow> (int \<times> byte list \<times> goerror option) \<times> 'w"
  f_Seek :: "'f \<Rightarrow> int64 \<Rightarrow> go_int \<Rightarrow> 'w \<Rightarrow> (int64 \<times> goerror option) \<times> 'w"
  f_WriteAt :: "'f \<Rightarrow> byte list \<Rightarrow> int64 \<Rightarrow> 'w \<Rightarrow> (go_int \<times> goerror option) \<times> 'w"
  f_Stat :: "'f \<Rightarrow> 'w \<Rightarrow> (goerror + FileInfo) \<times> 'w"
  f_Sync :: "'f \<Rightarrow> 'w \<Rightarrow> goerror option \<times> 'w"

subsection \<open>Files and descriptors\<close>

text \<open>
  What the satellite relies on when it keys its table of open files by descriptor number: in a
  well-formed world (\<open>wfw\<close>), opening yields a new file object whose descriptor no open file has,
  closing an open file closes that file and no other (whether or not it reports an error), and
  every other call leaves the open files and their descriptors alone; all of them keep the world
  well formed.
\<close>

definition same_files :: "('f, 'w) file_ops \<Rightarrow> ('w \<Rightarrow> bool) \<Rightarrow> ('w \<Rightarrow> 'f set) \<Rightarrow> 'w \<Rightarrow> 'w \<Rightarrow> bool" where
  "same_files fo wfw open_files w w' \<longleftrightarrow> (wfw w \<longrightarrow>
     wfw w' \<and> open_files w' = open_files w \<and> (\<forall>f \<in> open_files w. f_Fd fo f w' = f_Fd fo f w))"

lemma same_files_refl [simp]: "same_files fo wfw opn w w"
  by (simp add: same_files_def)

lemma same_files_trans [trans]:
  "same_files fo wfw opn w w' \<Longrightarrow> same_files fo wfw opn w' w'' \<Longrightarrow> same_files fo wfw opn w w''"
  by (simp add: same_files_def)

locale descriptor_files =
  fixes fs :: "('f, 'w) fileSystem"
    and fo :: "('f, 'w) file_ops"
    and wfw :: "'w \<Rightarrow> bool"
    and open_files :: "'w \<Rightarrow> 'f set"
  assumes open_ok: "fs_OpenFile fs n fl p w = (Inr f, w') \<Longrightarrow> wfw w \<Longrightarrow>
      wfw w' \<and> f \<notin> open_files w \<and> open_files w' = insert f (open_files w) \<and>
      (\<forall>g \<in> open_files w. f_Fd fo g w' = f_Fd fo g w \<and> f_Fd fo g w \<noteq> f_Fd fo f w')"
    and open_err: "fs_OpenFile fs n fl p w = (Inl e, w') \<Longrightarrow> same_files fo wfw open_files w w'"
    and close_open: "f_Close fo f w = (r, w') \<Longrightarrow> wfw w \<Longrightarrow> f \<in> open_files w \<Longrightarrow>
      wfw w' \<and> open_files w' = open_files w - {f} \<and>
      (\<forall>g \<in> open_files w - {f}. f_Fd fo g w' = f_Fd fo g w)"
    and chmod_files: "same_files fo wfw open_files w (snd (fs_Chmod fs n m w))"
    and chown_files: "same_files fo wfw open_files w (snd (fs_Chown fs n u g w))"
    and link_files: "same_files fo wfw open_files w (snd (fs_Link fs n n' w))"
    and lstat_files: "same_files fo wfw open_files w (snd (fs_Lstat fs n w))"
    and mkdir_files: "same_files fo wfw open_files w (snd (fs_Mkdir fs n m w))"
    and readdir_files: "same_files fo wfw open_files w (snd (fs_ReadDir fs n w))"
    and info_files: "fs_ReadDir fs n w = (Inr ds, w') \<Longrightarrow> d \<in> set ds \<Longrightarrow>
      same_files fo wfw open_files v (snd (dent_Info d v))"
    and readlink_files: "same_files fo wfw open_files w (snd (fs_Readlink fs n w))"
    and remove_files: "same_files fo wfw open_files w (snd (fs_Remove fs n w))"
    and rename_files: "same_files fo wfw open_files w (snd (fs_Rename fs n n' w))"
    and symlink_files: "same_files fo wfw open_files w (snd (fs_Symlink fs n n' w))"
    and truncate_files: "same_files fo wfw open_files w (snd (fs_Truncate fs n sz w))"
    and utimes_files: "same_files fo wfw open_files w (snd (fs_UtimesNano fs n ts w))"
    and readat_files: "same_files fo wfw open_files w (snd (f_ReadAt fo f len off w))"
    and seek_files: "same_files fo wfw open_files w (snd (f_Seek fo f off wh w))"
    and writeat_files: "same_files fo wfw open_files w (snd (f_WriteAt fo f bs off w))"
    and fstat_files: "same_files fo wfw open_files w (snd (f_Stat fo f w))"
    and sync_files: "same_files fo wfw open_files w (snd (f_Sync fo f w))"

end
