(* ===== verification/Satellite_Server.thy ===== *)
theory Satellite_Server
  imports Rpc_Types Open_Flags Fs_Interface
begin

text \<open>
  The satellite's RPC handlers (\<^verbatim>\<open>cmd/satellite/server/server.go\<close>): the state is the
  table of open files keyed by descriptor, every handler takes the state and the world and returns
  a result with the new ones. A handler's error is the text the RPC server sends back; a Go panic
  inside a handler ends the satellite and is the result \<open>Crash\<close>. Logging is left out.
\<close>

subsection \<open>State and environment\<close>

record 'f DockerFuseFSOps =
  fds :: "uintptr \<rightharpoonup> 'f"

definition NewDockerFuseFSOps :: "'f DockerFuseFSOps" where
  "NewDockerFuseFSOps = \<lparr> fds = Map.empty \<rparr>"

datatype 'a result = Ok 'a | Err string | Crash string

text \<open>
  What the handlers use of their surroundings: the constants of the system they run on, the text
  of an \<^verbatim>\<open>errno\<close>, the file system, the operations of an open file, and the three accessors
  of the third-party package \<^verbatim>\<open>containerd/sys\<close> that read a time of a
  \<^verbatim>\<open>Stat_t\<close>.
\<close>

record ('f, 'w) satellite_env =
  env_errno :: errno_names
  env_flags :: syscall_flags
  env_strerror :: "errno \<Rightarrow> string"
  dfFS :: "('f, 'w) fileSystem"
  fileOps :: "('f, 'w) file_ops"
  StatAtime :: "Stat_t \<Rightarrow> Timespec"
  StatMtime :: "Stat_t \<Rightarrow> Timespec"
  StatCtime :: "Stat_t \<Rightarrow> Timespec"

text \<open>\<^verbatim>\<open>return rpccommon.ErrnoToRPCErrorString(err)\<close>.\<close>

definition rpc_error :: "('f, 'w) satellite_env \<Rightarrow> goerror \<Rightarrow> 'a result" where
  "rpc_error env err = (case ErrnoToRPCErrorString (env_errno env) err of
     Val msg \<Rightarrow> Err msg | Panic m \<Rightarrow> Crash m)"

definition rpc_errno :: "('f, 'w) satellite_env \<Rightarrow> string \<Rightarrow> 'a result" where
  "rpc_errno env c = rpc_error env (Errno (env_errno env c))"

text \<open>A call that returns only an \<^verbatim>\<open>error\<close>, as the result of a handler.\<close>

definition unit_result :: "('f, 'w) satellite_env \<Rightarrow> goerror option \<Rightarrow> unit result" where
  "unit_result env r = (case r of Some err \<Rightarrow> rpc_error env err | None \<Rightarrow> Ok ())"

definition type_assertion_failed :: "'a result" where
  "type_assertion_failed = Crash ''interface conversion: interface is not *syscall.Stat_t''"

subsection \<open>Attributes\<close>

text \<open>The assignments from a \<^verbatim>\<open>Stat_t\<close> to a reply that \<^verbatim>\<open>Stat\<close> and
  \<^verbatim>\<open>Open\<close> share, with the conversions to 32 bits.\<close>

definition copy_stat :: "('f, 'w) satellite_env \<Rightarrow> Stat_t \<Rightarrow> string \<Rightarrow> StatReply" where
  "copy_stat env sys target = \<lparr>
     Mode = s_Mode sys,
     Nlink = ucast (s_Nlink sys),
     Ino = s_Ino sys,
     UID = s_Uid sys,
     GID = s_Gid sys,
     Atime = ts_Sec (StatAtime env sys),
     Mtime = ts_Sec (StatMtime env sys),
     Ctime = ts_Sec (StatCtime env sys),
     Size = s_Size sys,
     Blocks = s_Blocks sys,
     Blksize = ucast (s_Blksize sys),
     LinkTarget = target \<rparr>"

text \<open>\<^verbatim>\<open>reply.LinkTarget, err = dfFS.Readlink(path)\<close>, empty on an error.\<close>

definition link_target :: "('f, 'w) satellite_env \<Rightarrow> string \<Rightarrow> 'w \<Rightarrow> string \<times> 'w" where
  "link_target env p w = (case fs_Readlink (dfFS env) p w of
     (Inr t, w') \<Rightarrow> (t, w') | (Inl _, w') \<Rightarrow> ('''', w'))"

definition Stat :: "('f, 'w) satellite_env \<Rightarrow> StatRequest \<Rightarrow> 'f DockerFuseFSOps \<times> 'w
    \<Rightarrow> StatReply result \<times> 'f DockerFuseFSOps \<times> 'w" where
  "Stat env request = (\<lambda>(fso, w).
    case fs_Lstat (dfFS env) (st_FullPath request) w of
      (Inl err, w1) \<Rightarrow> (rpc_error env err, fso, w1)
    | (Inr info, w1) \<Rightarrow>
        (case fi_Sys info of
           None \<Rightarrow> (type_assertion_failed, fso, w1)
         | Some sys \<Rightarrow>
             (let (target, w2) = link_target env (st_FullPath request) w1
              in (Ok (copy_stat env sys target), fso, w2))))"

subsection \<open>Directories\<close>

text \<open>The loop of \<^verbatim>\<open>ReadDir\<close>: an entry whose file has vanished is skipped, any other
  error of \<^verbatim>\<open>Info\<close> ends the call with \<^verbatim>\<open>EIO\<close>.\<close>

fun read_entries :: "('f, 'w) satellite_env \<Rightarrow> 'w DirEnt list \<Rightarrow> DirEntry list \<Rightarrow> 'w
    \<Rightarrow> DirEntry list result \<times> 'w" where
  "read_entries env [] acc w = (Ok acc, w)"
| "read_entries env (d # ds) acc w =
    (case dent_Info d w of
       (Inl err, w1) \<Rightarrow>
         (if is_not_exist (env_errno env) err then read_entries env ds acc w1
          else (rpc_errno env ''EIO'', w1))
     | (Inr info, w1) \<Rightarrow>
         (case fi_Sys info of
            None \<Rightarrow> (type_assertion_failed, w1)
          | Some sys \<Rightarrow>
              read_entries env ds
                (acc @ [\<lparr> de_Mode = s_Mode sys, de_Name = dent_Name d, de_Ino = s_Ino sys \<rparr>]) w1))"

fun map_result :: "('a \<Rightarrow> 'b) \<Rightarrow> 'a result \<Rightarrow> 'b result" where
  "map_result f (Ok a) = Ok (f a)"
| "map_result f (Err m) = Err m"
| "map_result f (Crash m) = Crash m"

definition ReadDir :: "('f, 'w) satellite_env \<Rightarrow> ReadDirRequest \<Rightarrow> 'f DockerFuseFSOps \<times> 'w
    \<Rightarrow> ReadDirReply result \<times> 'f DockerFuseFSOps \<times> 'w" where
  "ReadDir env request = (\<lambda>(fso, w).
    case fs_ReadDir (dfFS env) (rd_FullPath request) w of
      (Inl err, w1) \<Rightarrow> (rpc_error env err, fso, w1)
    | (Inr files, w1) \<Rightarrow>
        (case read_entries env files [] w1 of
           (r, w2) \<Rightarrow> (map_result (\<lambda>es. \<lparr> DirEntries = es \<rparr>) r, fso, w2)))"

subsection \<open>Open files\<close>

definition Open :: "('f, 'w) satellite_env \<Rightarrow> OpenRequest \<Rightarrow> 'f DockerFuseFSOps \<times> 'w
    \<Rightarrow> OpenReply result \<times> 'f DockerFuseFSOps \<times> 'w" where
  "Open env request = (\<lambda>(fso, w).
    case fs_OpenFile (dfFS env) (op_FullPath request)
           (SAFlagsToSystem (env_flags env) (op_SAFlags request)) (op_Mode request) w of
      (Inl err, w1) \<Rightarrow> (rpc_error env err, fso, w1)
    | (Inr fd, w1) \<Rightarrow>
        (let uintptrFD = f_Fd (fileOps env) fd w1;
             w2 = (case fds fso uintptrFD of
                     Some stale \<Rightarrow> snd (f_Close (fileOps env) stale w1)
                   | None \<Rightarrow> w1);
             fso' = fso\<lparr> fds := (fds fso)(uintptrFD \<mapsto> fd) \<rparr>
         in (case f_Stat (fileOps env) fd w2 of
               (Inl err, w3) \<Rightarrow> (rpc_error env err, fso', w3)
             | (Inr info, w3) \<Rightarrow>
                 (case fi_Sys info of
                    None \<Rightarrow> (type_assertion_failed, fso', w3)
                  | Some sys \<Rightarrow>
                      (let (target, w4) = link_target env (op_FullPath request) w3
                       in (Ok \<lparr> op_FD = uintptrFD, op_StatReply = copy_stat env sys target \<rparr>,
                           fso', w4))))))"

definition Close :: "('f, 'w) satellite_env \<Rightarrow> CloseRequest \<Rightarrow> 'f DockerFuseFSOps \<times> 'w
    \<Rightarrow> unit result \<times> 'f DockerFuseFSOps \<times> 'w" where
  "Close env request = (\<lambda>(fso, w).
    case fds fso (cl_FD request) of
      None \<Rightarrow> (rpc_errno env ''EINVAL'', fso, w)
    | Some fd \<Rightarrow>
        (case f_Close (fileOps env) fd w of
           (r, w1) \<Rightarrow> (unit_result env r, fso\<lparr> fds := (fds fso)(cl_FD request := None) \<rparr>, w1)))"

text \<open>
  \<^verbatim>\<open>Read\<close>: \<^verbatim>\<open>make([]byte, n)\<close> panics for a negative length, the slice
  \<^verbatim>\<open>data[:n]\<close> for a count outside the buffer.
\<close>

definition Read :: "('f, 'w) satellite_env \<Rightarrow> ReadRequest \<Rightarrow> 'f DockerFuseFSOps \<times> 'w
    \<Rightarrow> ReadReply result \<times> 'f DockerFuseFSOps \<times> 'w" where
  "Read env request = (\<lambda>(fso, w).
    case fds fso (re_FD request) of
      None \<Rightarrow> (rpc_errno env ''EINVAL'', fso, w)
    | Some file \<Rightarrow>
        (if sint (re_Num request) < 0 then (Crash ''makeslice: len out of range'', fso, w)
         else
           (case f_ReadAt (fileOps env) file (nat (sint (re_Num request))) (re_Offset request) w of
              ((n, data, err), w1) \<Rightarrow>
                (case err of
                   Some e \<Rightarrow>
                     if Error (env_strerror env) e \<noteq> ''EOF'' \<or> n \<le> 0 then (rpc_error env e, fso, w1)
                     else if nat n \<le> length data then (Ok \<lparr> re_Data = take (nat n) data \<rparr>, fso, w1)
                     else (Crash ''slice bounds out of range'', fso, w1)
                 | None \<Rightarrow>
                     if 0 \<le> n \<and> nat n \<le> length data then (Ok \<lparr> re_Data = take (nat n) data \<rparr>, fso, w1)
                     else (Crash ''slice bounds out of range'', fso, w1)))))"

definition Seek :: "('f, 'w) satellite_env \<Rightarrow> SeekRequest \<Rightarrow> 'f DockerFuseFSOps \<times> 'w
    \<Rightarrow> SeekReply result \<times> 'f DockerFuseFSOps \<times> 'w" where
  "Seek env request = (\<lambda>(fso, w).
    case fds fso (sk_FD request) of
      None \<Rightarrow> (rpc_errno env ''EINVAL'', fso, w)
    | Some file \<Rightarrow>
        (case f_Seek (fileOps env) file (sk_Offset request) (sk_Whence request) w of
           ((n, Some err), w1) \<Rightarrow> (rpc_error env err, fso, w1)
         | ((n, None), w1) \<Rightarrow> (Ok \<lparr> sk_Num = n \<rparr>, fso, w1)))"

definition Write :: "('f, 'w) satellite_env \<Rightarrow> WriteRequest \<Rightarrow> 'f DockerFuseFSOps \<times> 'w
    \<Rightarrow> WriteReply result \<times> 'f DockerFuseFSOps \<times> 'w" where
  "Write env request = (\<lambda>(fso, w).
    case fds fso (wr_FD request) of
      None \<Rightarrow> (rpc_errno env ''EINVAL'', fso, w)
    | Some file \<Rightarrow>
        (case f_WriteAt (fileOps env) file (wr_Data request) (wr_Offset request) w of
           ((n, Some err), w1) \<Rightarrow> (rpc_error env err, fso, w1)
         | ((n, None), w1) \<Rightarrow> (Ok \<lparr> wr_Num = n \<rparr>, fso, w1)))"

definition Fsync :: "('f, 'w) satellite_env \<Rightarrow> FsyncRequest \<Rightarrow> 'f DockerFuseFSOps \<times> 'w
    \<Rightarrow> unit result \<times> 'f DockerFuseFSOps \<times> 'w" where
  "Fsync env request = (\<lambda>(fso, w).
    case fds fso (fy_FD request) of
      None \<Rightarrow> (rpc_errno env ''EINVAL'', fso, w)
    | Some file \<Rightarrow> (case f_Sync (fileOps env) file w of (r, w1) \<Rightarrow> (unit_result env r, fso, w1)))"

subsection \<open>Names\<close>

definition Unlink :: "('f, 'w) satellite_env \<Rightarrow> UnlinkRequest \<Rightarrow> 'f DockerFuseFSOps \<times> 'w
    \<Rightarrow> unit result \<times> 'f DockerFuseFSOps \<times> 'w" where
  "Unlink env request = (\<lambda>(fso, w).
    case fs_Remove (dfFS env) (ul_FullPath request) w of (r, w1) \<Rightarrow> (unit_result env r, fso, w1))"

definition Mkdir :: "('f, 'w) satellite_env \<Rightarrow> MkdirRequest \<Rightarrow> 'f DockerFuseFSOps \<times> 'w
    \<Rightarrow> MkdirReply result \<times> 'f DockerFuseFSOps \<times> 'w" where
  "Mkdir env request = (\<lambda>(fso, w).
    case fs_Mkdir (dfFS env) (md_FullPath request) (md_Mode request) w of
      (Some err, w1) \<Rightarrow> (rpc_error env err, fso, w1)
    | (None, w1) \<Rightarrow> Stat env \<lparr> st_FullPath = md_FullPath request \<rparr> (fso, w1))"

definition Rmdir :: "('f, 'w) satellite_env \<Rightarrow> RmdirRequest \<Rightarrow> 'f DockerFuseFSOps \<times> 'w
    \<Rightarrow> unit result \<times> 'f DockerFuseFSOps \<times> 'w" where
  "Rmdir env request = (\<lambda>(fso, w).
    case fs_Remove (dfFS env) (rm_FullPath request) w of (r, w1) \<Rightarrow> (unit_result env r, fso, w1))"

definition Rename :: "('f, 'w) satellite_env \<Rightarrow> RenameRequest \<Rightarrow> 'f DockerFuseFSOps \<times> 'w
    \<Rightarrow> unit result \<times> 'f DockerFuseFSOps \<times> 'w" where
  "Rename env request = (\<lambda>(fso, w).
    case fs_Rename (dfFS env) (rn_FullPath request) (rn_FullNewPath request) w of
      (r, w1) \<Rightarrow> (unit_result env r, fso, w1))"

definition Readlink :: "('f, 'w) satellite_env \<Rightarrow> ReadlinkRequest \<Rightarrow> 'f DockerFuseFSOps \<times> 'w
    \<Rightarrow> ReadlinkReply result \<times> 'f DockerFuseFSOps \<times> 'w" where
  "Readlink env request = (\<lambda>(fso, w).
    case fs_Readlink (dfFS env) (rl_FullPath request) w of
      (Inl err, w1) \<Rightarrow> (rpc_error env err, fso, w1)
    | (Inr linkTarget, w1) \<Rightarrow> (Ok \<lparr> rl_LinkTarget = linkTarget \<rparr>, fso, w1))"

definition Link :: "('f, 'w) satellite_env \<Rightarrow> LinkRequest \<Rightarrow> 'f DockerFuseFSOps \<times> 'w
    \<Rightarrow> unit result \<times> 'f DockerFuseFSOps \<times> 'w" where
  "Link env request = (\<lambda>(fso, w).
    case fs_Link (dfFS env) (ln_OldFullPath request) (ln_NewFullPath request) w of
      (r, w1) \<Rightarrow> (unit_result env r, fso, w1))"

definition Symlink :: "('f, 'w) satellite_env \<Rightarrow> SymlinkRequest \<Rightarrow> 'f DockerFuseFSOps \<times> 'w
    \<Rightarrow> unit result \<times> 'f DockerFuseFSOps \<times> 'w" where
  "Symlink env request = (\<lambda>(fso, w).
    case fs_Symlink (dfFS env) (sl_OldFullPath request) (sl_NewFullPath request) w of
      (r, w1) \<Rightarrow> (unit_result env r, fso, w1))"

subsection \<open>Setting attributes\<close>

text \<open>
  \<^verbatim>\<open>time.Time.UnixNano\<close>, an \<^verbatim>\<open>int64\<close> that wraps, and
  \<^verbatim>\<open>syscall.NsecToTimespec\<close>, which divides with Go's truncating operators and then
  makes the nanoseconds non-negative.
\<close>

definition UnixNano :: "Time \<Rightarrow> int64" where
  "UnixNano t = word_of_int (t_sec t * 1000000000 + t_nsec t)"

definition NsecToTimespec :: "int64 \<Rightarrow> Timespec" where
  "NsecToTimespec nsec =
    (let sec = sint nsec sdiv 1000000000;
         ns = sint nsec smod 1000000000
     in if ns < 0 then \<lparr> ts_Sec = word_of_int (sec - 1), ts_Nsec = word_of_int (ns + 1000000000) \<rparr>
        else \<lparr> ts_Sec = word_of_int sec, ts_Nsec = word_of_int ns \<rparr>)"

text \<open>The four steps of \<^verbatim>\<open>SetAttr\<close>; each is a call or nothing.\<close>

definition setattr_mode :: "('f, 'w) satellite_env \<Rightarrow> SetAttrRequest \<Rightarrow> 'w \<Rightarrow> goerror option \<times> 'w" where
  "setattr_mode env request w =
    (case GetMode request of
       (m, True) \<Rightarrow> fs_Chmod (dfFS env) (sa_FullPath request) m w
     | (_, False) \<Rightarrow> (None, w))"

definition setattr_owner :: "('f, 'w) satellite_env \<Rightarrow> SetAttrRequest \<Rightarrow> 'w \<Rightarrow> goerror option \<times> 'w" where
  "setattr_owner env request w =
    (let (uid, uok) = GetUID request; (gid, gok) = GetGID request
     in if uok \<or> gok then
          (let suid = (if uok then ucast uid else -1); sgid = (if gok then ucast gid else -1)
           in fs_Chown (dfFS env) (sa_FullPath request) suid sgid w)
        else (None, w))"

definition setattr_times :: "('f, 'w) satellite_env \<Rightarrow> SetAttrRequest \<Rightarrow> 'w \<Rightarrow> goerror option \<times> 'w" where
  "setattr_times env request w =
    (let (atime, aok) = GetATime request; (mtime, mok) = GetMTime request
     in if mok \<or> aok then
          (let ts0 = (if aok then NsecToTimespec (UnixNano atime) else \<lparr> ts_Sec = 0, ts_Nsec = UTIME_OMIT \<rparr>);
               ts1 = (if mok then NsecToTimespec (UnixNano mtime) else \<lparr> ts_Sec = 0, ts_Nsec = UTIME_OMIT \<rparr>)
           in fs_UtimesNano (dfFS env) (sa_FullPath request) [ts0, ts1] w)
        else (None, w))"

definition setattr_size :: "('f, 'w) satellite_env \<Rightarrow> SetAttrRequest \<Rightarrow> 'w \<Rightarrow> goerror option \<times> 'w" where
  "setattr_size env request w =
    (case GetSize request of
       (sz, True) \<Rightarrow> fs_Truncate (dfFS env) (sa_FullPath request) sz w
     | (_, False) \<Rightarrow> (None, w))"

definition SetAttr :: "('f, 'w) satellite_env \<Rightarrow> SetAttrRequest \<Rightarrow> 'f DockerFuseFSOps \<times> 'w
    \<Rightarrow> SetAttrReply result \<times> 'f DockerFuseFSOps \<times> 'w" where
  "SetAttr env request = (\<lambda>(fso, w).
    case setattr_mode env request w of (Some err, w1) \<Rightarrow> (rpc_error env err, fso, w1) | (None, w1) \<Rightarrow>
    (case setattr_owner env request w1 of (Some err, w2) \<Rightarrow> (rpc_error env err, fso, w2) | (None, w2) \<Rightarrow>
    (case setattr_times env request w2 of (Some err, w3) \<Rightarrow> (rpc_error env err, fso, w3) | (None, w3) \<Rightarrow>
    (case setattr_size env request w3 of (Some err, w4) \<Rightarrow> (rpc_error env err, fso, w4) | (None, w4) \<Rightarrow>
      Stat env \<lparr> st_FullPath = sa_FullPath request \<rparr> (fso, w4)))))"

subsection \<open>Shutdown\<close>

text \<open>
  \<^verbatim>\<open>CloseAllFDs\<close> ranges over the table and deletes the entry it has visited. Go visits
  the entries of a map in an unspecified order, which is the list \<open>order\<close> of the keys.
\<close>

fun CloseAllFDs :: "('f, 'w) satellite_env \<Rightarrow> uintptr list \<Rightarrow> 'f DockerFuseFSOps \<times> 'w
    \<Rightarrow> 'f DockerFuseFSOps \<times> 'w" where
  "CloseAllFDs env [] (fso, w) = (fso, w)"
| "CloseAllFDs env (k # order) (fso, w) =
    (case fds fso k of
       None \<Rightarrow> CloseAllFDs env order (fso, w)
     | Some fd \<Rightarrow> CloseAllFDs env order
         (fso\<lparr> fds := (fds fso)(k := None) \<rparr>, snd (f_Close (fileOps env) fd w)))"

lemmas handlers = Stat_def ReadDir_def Open_def Close_def Read_def Seek_def Write_def Fsync_def Unlink_def
  Mkdir_def Rmdir_def Rename_def Readlink_def Link_def Symlink_def SetAttr_def

lemmas setattr_steps = setattr_mode_def setattr_owner_def setattr_times_def setattr_size_def

end
