(* ===== verification/Fd_Table.thy ===== *)
theory Fd_Table
  imports Satellite_Server
begin

text \<open>
  The table of open files. The invariant of the serially executed satellite: the table holds
  exactly the files opened and not yet closed, each under its own descriptor. Every handler keeps
  it, so no descriptor leaks out of the table, the branch of \<^verbatim>\<open>Open\<close> for a stale
  descriptor is never taken, and shutting down closes every file.
\<close>

definition fd_inv :: "('f, 'w) satellite_env \<Rightarrow> ('w \<Rightarrow> bool) \<Rightarrow> ('w \<Rightarrow> 'f set) \<Rightarrow> 'f DockerFuseFSOps \<times> 'w \<Rightarrow> bool" where
  "fd_inv env wfw open_files = (\<lambda>(fso, w).
     wfw w \<and> (\<forall>k f. fds fso k = Some f \<longleftrightarrow> f \<in> open_files w \<and> f_Fd (fileOps env) f w = k))"

lemma fd_inv_iff:
  "fd_inv env wfw opn (fso, w) \<Longrightarrow> fds fso k = Some f \<longleftrightarrow> f \<in> opn w \<and> f_Fd (fileOps env) f w = k"
  by (simp add: fd_inv_def)

lemma fd_inv_wf: "fd_inv env wfw opn (fso, w) \<Longrightarrow> wfw w"
  by (simp add: fd_inv_def)

lemma fd_inv_same_files:
  "fd_inv env wfw opn (fso, w) \<Longrightarrow> same_files (fileOps env) wfw opn w w' \<Longrightarrow> fd_inv env wfw opn (fso, w')"
  by (auto simp: fd_inv_def same_files_def)

text \<open>A handler that leaves the table alone and touches no descriptor.\<close>

definition table_unchanged :: "('f, 'w) satellite_env \<Rightarrow> ('w \<Rightarrow> bool) \<Rightarrow> ('w \<Rightarrow> 'f set) \<Rightarrow>
    ('f DockerFuseFSOps \<times> 'w \<Rightarrow> 'a \<times> 'f DockerFuseFSOps \<times> 'w) \<Rightarrow> bool" where
  "table_unchanged env wfw opn h \<longleftrightarrow> (\<forall>fso w r fso' w'. h (fso, w) = (r, fso', w') \<longrightarrow>
     fso' = fso \<and> same_files (fileOps env) wfw opn w w')"

lemma table_unchanged_fd_inv:
  "table_unchanged env wfw opn h \<Longrightarrow> fd_inv env wfw opn st \<Longrightarrow> fd_inv env wfw opn (snd (h st))"
proof -
  assume h: "table_unchanged env wfw opn h" and inv: "fd_inv env wfw opn st"
  obtain fso w r fso' w' where st: "st = (fso, w)" and run: "h (fso, w) = (r, fso', w')"
    by (metis prod.collapse)
  from h run have "fso' = fso" "same_files (fileOps env) wfw opn w w'"
    unfolding table_unchanged_def by blast+
  with inv st run show ?thesis by (simp add: fd_inv_same_files)
qed

locale satellite_files =
  descriptor_files "dfFS env" "fileOps env" wfw open_files
  for env :: "('f, 'w) satellite_env" and wfw :: "'w \<Rightarrow> bool" and open_files :: "'w \<Rightarrow> 'f set"
begin

abbreviation same :: "'w \<Rightarrow> 'w \<Rightarrow> bool" where "same \<equiv> same_files (fileOps env) wfw open_files"

text \<open>The calls that keep the open files, in the form the handlers use them.\<close>

lemma chmod_same: "fs_Chmod (dfFS env) n m w = (r, w') \<Longrightarrow> same w w'"
  and chown_same: "fs_Chown (dfFS env) n u g w = (r, w') \<Longrightarrow> same w w'"
  and link_same: "fs_Link (dfFS env) n n' w = (r, w') \<Longrightarrow> same w w'"
  and mkdir_same: "fs_Mkdir (dfFS env) n m w = (r, w') \<Longrightarrow> same w w'"
  and remove_same: "fs_Remove (dfFS env) n w = (r, w') \<Longrightarrow> same w w'"
  and rename_same: "fs_Rename (dfFS env) n n' w = (r, w') \<Longrightarrow> same w w'"
  and symlink_same: "fs_Symlink (dfFS env) n n' w = (r, w') \<Longrightarrow> same w w'"
  and truncate_same: "fs_Truncate (dfFS env) n sz w = (r, w') \<Longrightarrow> same w w'"
  and utimes_same: "fs_UtimesNano (dfFS env) n ts w = (r, w') \<Longrightarrow> same w w'"
  and lstat_same: "fs_Lstat (dfFS env) n w = (i, w') \<Longrightarrow> same w w'"
  and readdir_same: "fs_ReadDir (dfFS env) n w = (ds, w') \<Longrightarrow> same w w'"
  and readlink_same: "fs_Readlink (dfFS env) n w = (t, w') \<Longrightarrow> same w w'"
  and readat_same: "f_ReadAt (fileOps env) f len off w = (x, w') \<Longrightarrow> same w w'"
  and seek_same: "f_Seek (fileOps env) f off wh w = (y, w') \<Longrightarrow> same w w'"
  and writeat_same: "f_WriteAt (fileOps env) f bs off w = (z, w') \<Longrightarrow> same w w'"
  and fstat_same: "f_Stat (fileOps env) f w = (i, w') \<Longrightarrow> same w w'"
  and sync_same: "f_Sync (fileOps env) f w = (r, w') \<Longrightarrow> same w w'"
  by (metis snd_conv chmod_files, metis snd_conv chown_files, metis snd_conv link_files,
    metis snd_conv mkdir_files, metis snd_conv remove_files, metis snd_conv rename_files,
    metis snd_conv symlink_files, metis snd_conv truncate_files, metis snd_conv utimes_files,
    metis snd_conv lstat_files, metis snd_conv readdir_files, metis snd_conv readlink_files,
    metis snd_conv readat_files, metis snd_conv seek_files, metis snd_conv writeat_files,
    metis snd_conv fstat_files, metis snd_conv sync_files)

lemmas calls_same = chmod_same chown_same link_same mkdir_same remove_same rename_same symlink_same
  truncate_same utimes_same lstat_same readdir_same readlink_same readat_same seek_same writeat_same
  fstat_same sync_same

lemma link_target_same: "link_target env p w = (t, w') \<Longrightarrow> same w w'"
  by (auto simp: link_target_def split: prod.splits sum.splits dest: readlink_same)

lemma Stat_unchanged: "table_unchanged env wfw open_files (Stat env req)"
  by (auto simp: table_unchanged_def Stat_def Let_def split: prod.splits sum.splits option.splits
    dest!: lstat_same link_target_same intro: same_files_trans)

lemma read_entries_same:
  "\<forall>d \<in> set ds. \<forall>v. same v (snd (dent_Info d v)) \<Longrightarrow> read_entries env ds acc w = (r, w') \<Longrightarrow> same w w'"
proof (induction ds arbitrary: acc w)
  case (Cons d ds)
  obtain x w1 where i: "dent_Info d w = (x, w1)" by fastforce
  with Cons.prems(1) have "same w w1" by (metis list.set_intros(1) snd_conv)
  moreover have "same w1 w'" if "read_entries env ds acc' w1 = (r, w')" for acc'
    using Cons.IH [OF _ that] Cons.prems(1) by simp
  ultimately show ?case
    using Cons.prems(2) i by (auto split: sum.splits option.splits if_splits intro: same_files_trans)
qed simp

lemma ReadDir_unchanged: "table_unchanged env wfw open_files (ReadDir env req)"
  unfolding table_unchanged_def
proof (intro allI impI)
  fix fso w r fso' w'
  assume run: "ReadDir env req (fso, w) = (r, fso', w')"
  obtain x w1 where rd: "fs_ReadDir (dfFS env) (rd_FullPath req) w = (x, w1)" by fastforce
  show "fso' = fso \<and> same w w'"
  proof (cases x)
    case (Inl err)
    with run rd show ?thesis by (auto simp: ReadDir_def dest: readdir_same)
  next
    case (Inr ds)
    obtain q w2 where re: "read_entries env ds [] w1 = (q, w2)" by fastforce
    have "\<forall>d \<in> set ds. \<forall>v. same v (snd (dent_Info d v))"
      using info_files rd Inr by blast
    then have "same w1 w2" using re by (rule read_entries_same)
    with run rd re Inr show ?thesis
      by (auto simp: ReadDir_def dest: readdir_same intro: same_files_trans)
  qed
qed

lemma Read_unchanged: "table_unchanged env wfw open_files (Read env req)"
  by (auto simp: table_unchanged_def Read_def split: prod.splits option.splits if_splits dest: readat_same)

lemma Seek_unchanged: "table_unchanged env wfw open_files (Seek env req)"
  by (auto simp: table_unchanged_def Seek_def split: prod.splits option.splits dest: seek_same)

lemma Write_unchanged: "table_unchanged env wfw open_files (Write env req)"
  by (auto simp: table_unchanged_def Write_def split: prod.splits option.splits dest: writeat_same)

lemma Fsync_unchanged: "table_unchanged env wfw open_files (Fsync env req)"
  by (auto simp: table_unchanged_def Fsync_def split: prod.splits option.splits dest: sync_same)

lemma Unlink_unchanged: "table_unchanged env wfw open_files (Unlink env req)"
  by (auto simp: table_unchanged_def Unlink_def split: prod.splits dest: remove_same)

lemma Rmdir_unchanged: "table_unchanged env wfw open_files (Rmdir env req)"
  by (auto simp: table_unchanged_def Rmdir_def split: prod.splits dest: remove_same)

lemma Rename_unchanged: "table_unchanged env wfw open_files (Rename env req)"
  by (auto simp: table_unchanged_def Rename_def split: prod.splits dest: rename_same)

lemma Readlink_unchanged: "table_unchanged env wfw open_files (Readlink env req)"
  by (auto simp: table_unchanged_def Readlink_def split: prod.splits sum.splits dest: readlink_same)

lemma Link_unchanged: "table_unchanged env wfw open_files (Link env req)"
  by (auto simp: table_unchanged_def Link_def split: prod.splits dest: link_same)

lemma Symlink_unchanged: "table_unchanged env wfw open_files (Symlink env req)"
  by (auto simp: table_unchanged_def Symlink_def split: prod.splits dest: symlink_same)

lemma Mkdir_unchanged: "table_unchanged env wfw open_files (Mkdir env req)"
  using Stat_unchanged unfolding table_unchanged_def Mkdir_def
  by (fastforce split: prod.splits option.splits dest: mkdir_same intro: same_files_trans)

lemma setattr_mode_same: "setattr_mode env req w = (r, w') \<Longrightarrow> same w w'"
  by (auto simp: setattr_mode_def split: prod.splits bool.splits dest: chmod_same)

lemma setattr_owner_same: "setattr_owner env req w = (r, w') \<Longrightarrow> same w w'"
  by (auto simp: setattr_owner_def Let_def split: prod.splits if_splits dest: chown_same)

lemma setattr_times_same: "setattr_times env req w = (r, w') \<Longrightarrow> same w w'"
  by (auto simp: setattr_times_def Let_def split: prod.splits if_splits dest: utimes_same)

lemma setattr_size_same: "setattr_size env req w = (r, w') \<Longrightarrow> same w w'"
  by (auto simp: setattr_size_def split: prod.splits bool.splits dest: truncate_same)

lemma SetAttr_unchanged: "table_unchanged env wfw open_files (SetAttr env req)"
  using Stat_unchanged unfolding table_unchanged_def SetAttr_def
  by (fastforce split: prod.splits option.splits
    dest: setattr_mode_same setattr_owner_same setattr_times_same setattr_size_same
    intro: same_files_trans)

lemmas unchanged = Stat_unchanged ReadDir_unchanged Read_unchanged Seek_unchanged Write_unchanged
  Fsync_unchanged Unlink_unchanged Rmdir_unchanged Rename_unchanged Readlink_unchanged Link_unchanged
  Symlink_unchanged Mkdir_unchanged SetAttr_unchanged

text \<open>\<^verbatim>\<open>Open\<close> on a new descriptor: the table has no entry for it.\<close>

lemma open_fresh:
  assumes "fd_inv env wfw open_files (fso, w)" and "fs_OpenFile (dfFS env) n fl p w = (Inr f, w')"
  shows "fds fso (f_Fd (fileOps env) f w') = None"
  using assms(1) open_ok [OF assms(2) fd_inv_wf [OF assms(1)]] unfolding fd_inv_def by (cases "fds fso (f_Fd (fileOps env) f w')") auto

lemma open_inserts:
  assumes "fd_inv env wfw open_files (fso, w)" and "fs_OpenFile (dfFS env) n fl p w = (Inr f, w')"
  shows "fd_inv env wfw open_files (fso\<lparr> fds := (fds fso)(f_Fd (fileOps env) f w' \<mapsto> f) \<rparr>, w')"
  using assms(1) open_ok [OF assms(2) fd_inv_wf [OF assms(1)]] unfolding fd_inv_def by (auto split: if_splits)

lemma Open_fd_inv: "fd_inv env wfw open_files st \<Longrightarrow> fd_inv env wfw open_files (snd (Open env req st))"
proof (cases st)
  case (Pair fso w)
  assume "fd_inv env wfw open_files st"
  with Pair have inv: "fd_inv env wfw open_files (fso, w)" by simp
  obtain x w1 where op: "fs_OpenFile (dfFS env) (op_FullPath req)
      (SAFlagsToSystem (env_flags env) (op_SAFlags req)) (op_Mode req) w = (x, w1)" by fastforce
  show ?thesis
  proof (cases x)
    case (Inl err)
    with op inv Pair show ?thesis
      by (auto simp: Open_def dest: open_err intro: fd_inv_same_files)
  next
    case (Inr f)
    note op' = op [unfolded Inr]
    show ?thesis
      using open_inserts [OF inv op'] open_fresh [OF inv op'] op' Pair
      by (auto simp: Open_def Let_def split: prod.splits sum.splits option.splits
        dest!: fstat_same link_target_same intro: fd_inv_same_files)
  qed
qed

lemma close_removes:
  assumes "fd_inv env wfw open_files (fso, w)" and "fds fso k = Some f"
    and "f_Close (fileOps env) f w = (r, w')"
  shows "fd_inv env wfw open_files (fso\<lparr> fds := (fds fso)(k := None) \<rparr>, w')"
proof -
  from assms(1,2) have f: "f \<in> open_files w" "f_Fd (fileOps env) f w = k"
    by (auto simp: fd_inv_def)
  have other: "f_Fd (fileOps env) g w \<noteq> k" if "g \<in> open_files w - {f}" for g
    using fd_inv_iff [OF assms(1), of k g] assms(2) that by auto
  from close_open [OF assms(3) fd_inv_wf [OF assms(1)] f(1)] assms(1) f other show ?thesis
    unfolding fd_inv_def by (auto split: if_splits)
qed

lemma Close_fd_inv: "fd_inv env wfw open_files st \<Longrightarrow> fd_inv env wfw open_files (snd (Close env req st))"
  by (cases st) (auto simp: Close_def split: option.splits prod.splits intro: close_removes)

lemma CloseAllFDs_fd_inv:
  "fd_inv env wfw open_files st \<Longrightarrow> fd_inv env wfw open_files (CloseAllFDs env order st)"
proof (induction order arbitrary: st)
  case (Cons k order)
  obtain fso w where st: "st = (fso, w)" by fastforce
  show ?case
  proof (cases "fds fso k")
    case None
    with Cons st show ?thesis by simp
  next
    case (Some f)
    obtain r w' where "f_Close (fileOps env) f w = (r, w')" by fastforce
    with Cons st Some show ?thesis using close_removes by simp
  qed
qed (simp add: split_paired_all)

end

text \<open>What a successful \<^verbatim>\<open>Open\<close> has done.\<close>

lemma Open_OkE:
  assumes "Open env req (fso, w) = (Ok reply, fso', w')"
  obtains f w1 where "fs_OpenFile (dfFS env) (op_FullPath req) (SAFlagsToSystem (env_flags env) (op_SAFlags req))
      (op_Mode req) w = (Inr f, w1)"
    and "op_FD reply = f_Fd (fileOps env) f w1" and "fds fso' = (fds fso)(f_Fd (fileOps env) f w1 \<mapsto> f)"
proof -
  obtain x w1 where op: "fs_OpenFile (dfFS env) (op_FullPath req) (SAFlagsToSystem (env_flags env) (op_SAFlags req))
      (op_Mode req) w = (x, w1)" by fastforce
  with assms obtain f where x: "x = Inr f" by (cases x) (auto simp: Open_def rpc_error_def split: go.splits)
  define w2 where "w2 = (case fds fso (f_Fd (fileOps env) f w1) of
    Some stale \<Rightarrow> snd (f_Close (fileOps env) stale w1) | None \<Rightarrow> w1)"
  obtain y w3 where st: "f_Stat (fileOps env) f w2 = (y, w3)" by fastforce
  obtain t w4 where lt: "link_target env (op_FullPath req) w3 = (t, w4)" by fastforce
  have "op_FD reply = f_Fd (fileOps env) f w1 \<and> fds fso' = (fds fso)(f_Fd (fileOps env) f w1 \<mapsto> f)"
    using assms op st lt unfolding x w2_def
    by (cases y) (auto simp: Open_def Let_def rpc_error_def type_assertion_failed_def split: option.splits go.splits)
  with op x that show thesis by blast
qed

lemma fds_CloseAllFDs: "fds (fst (CloseAllFDs env order (fso, w))) = (fds fso) |` (- set order)"
proof (induction order arbitrary: fso w)
  case (Cons k order)
  then show ?case
    by (cases "fds fso k") (auto simp: restrict_map_def fun_eq_iff)
qed (simp add: restrict_map_def)

end
