(* ===== verification/Rpc_Link.thy ===== *)
theory Rpc_Link
  imports Gob_Wire Fd_Table
begin

text \<open>
  The connection between client and satellite: Go's \<^verbatim>\<open>net/rpc\<close> over the standard input
  and output of the satellite. The server finds the service and the method of a request by name,
  decodes the argument into the type the method wants, runs the method, and sends the reply or the
  text of the error; a panic in a method ends the process. The client returns the reply, the text
  of the error, or an error of its own when the connection is down.
\<close>

subsection \<open>The server\<close>

text \<open>A registered method: decode, run, encode.\<close>

definition rpc_method :: "(gob \<Rightarrow> 'q option) \<Rightarrow> ('r \<Rightarrow> gob) \<Rightarrow> ('q \<Rightarrow> 's \<Rightarrow> 'r result \<times> 's) \<Rightarrow> gob \<Rightarrow> 's \<Rightarrow> gob result \<times> 's" where
  "rpc_method dec enc h args st = (case dec args of
     None \<Rightarrow> (Err ''gob: type mismatch in argument'', st)
   | Some request \<Rightarrow> (case h request st of (r, st') \<Rightarrow> (map_result enc r, st')))"

text \<open>The methods \<^verbatim>\<open>Register\<close> finds on \<^verbatim>\<open>*DockerFuseFSOps\<close>
  (\<^verbatim>\<open>CloseAllFDs\<close> does not have the form of a method of a service).\<close>

definition methods :: "('f, 'w) satellite_env \<Rightarrow>
    (string \<times> (gob \<Rightarrow> 'f DockerFuseFSOps \<times> 'w \<Rightarrow> gob result \<times> 'f DockerFuseFSOps \<times> 'w)) list" where
  "methods env = [
     (''Stat'', rpc_method dec_StatRequest enc_StatReply (Stat env)),
     (''ReadDir'', rpc_method dec_ReadDirRequest enc_ReadDirReply (ReadDir env)),
     (''Open'', rpc_method dec_OpenRequest enc_OpenReply (Open env)),
     (''Close'', rpc_method dec_CloseRequest enc_unit (Close env)),
     (''Read'', rpc_method dec_ReadRequest enc_ReadReply (Read env)),
     (''Seek'', rpc_method dec_SeekRequest enc_SeekReply (Seek env)),
     (''Write'', rpc_method dec_WriteRequest enc_WriteReply (Write env)),
     (''Unlink'', rpc_method dec_UnlinkRequest enc_unit (Unlink env)),
     (''Fsync'', rpc_method dec_FsyncRequest enc_unit (Fsync env)),
     (''Mkdir'', rpc_method dec_MkdirRequest enc_StatReply (Mkdir env)),
     (''Rmdir'', rpc_method dec_RmdirRequest enc_unit (Rmdir env)),
     (''Rename'', rpc_method dec_RenameRequest enc_unit (Rename env)),
     (''Readlink'', rpc_method dec_ReadlinkRequest enc_ReadlinkReply (Readlink env)),
     (''Link'', rpc_method dec_LinkRequest enc_unit (Link env)),
     (''Symlink'', rpc_method dec_SymlinkRequest enc_unit (Symlink env)),
     (''SetAttr'', rpc_method dec_SetAttrRequest enc_StatReply (SetAttr env))]"

text \<open>The name of a request is split at its last dot.\<close>

definition split_last_dot :: "string \<Rightarrow> (string \<times> string) option" where
  "split_last_dot s = (case dropWhile (\<lambda>c. c \<noteq> CHR ''.'') (rev s) of
     [] \<Rightarrow> None
   | _ # p \<Rightarrow> Some (rev p, rev (takeWhile (\<lambda>c. c \<noteq> CHR ''.'') (rev s))))"

definition serve :: "('f, 'w) satellite_env \<Rightarrow> string \<Rightarrow> gob \<Rightarrow> 'f DockerFuseFSOps \<times> 'w
    \<Rightarrow> gob result \<times> 'f DockerFuseFSOps \<times> 'w" where
  "serve env serviceMethod args st = (case split_last_dot serviceMethod of
     None \<Rightarrow> (Err (''rpc: service/method request ill-formed: '' @ serviceMethod), st)
   | Some (service, name) \<Rightarrow>
       if service \<noteq> ''DockerFuseFSOps'' then (Err (''rpc: can'' @ [CHR 0x27] @ ''t find service '' @ serviceMethod), st)
       else (case map_of (methods env) name of
          None \<Rightarrow> (Err (''rpc: can'' @ [CHR 0x27] @ ''t find method '' @ serviceMethod), st)
        | Some f \<Rightarrow> f args st))"

subsection \<open>The connection\<close>

datatype ('f, 'w) conn = Running "'f DockerFuseFSOps \<times> 'w" | Down 'w

definition Call :: "('f, 'w) satellite_env \<Rightarrow> string \<Rightarrow> gob \<Rightarrow> ('f, 'w) conn \<Rightarrow> (string + gob) \<times> ('f, 'w) conn" where
  "Call env serviceMethod args c = (case c of
     Down w \<Rightarrow> (Inl ''connection is shut down'', Down w)
   | Running st \<Rightarrow> (case serve env serviceMethod args st of
       (Ok g, st') \<Rightarrow> (Inr g, Running st')
     | (Err msg, st') \<Rightarrow> (Inl msg, Running st')
     | (Crash m, st') \<Rightarrow> (Inl ''unexpected EOF'', Down (snd st'))))"

text \<open>Closing the connection ends the satellite, which serves one connection.\<close>

definition Close_conn :: "('f, 'w) conn \<Rightarrow> ('f, 'w) conn" where
  "Close_conn c = (case c of Running st \<Rightarrow> Down (snd st) | Down w \<Rightarrow> Down w)"

subsection \<open>Requests that reach their method\<close>

lemma map_of_methods:
  "map_of (methods env) ''Stat'' = Some (rpc_method dec_StatRequest enc_StatReply (Stat env))"
  "map_of (methods env) ''ReadDir'' = Some (rpc_method dec_ReadDirRequest enc_ReadDirReply (ReadDir env))"
  "map_of (methods env) ''Open'' = Some (rpc_method dec_OpenRequest enc_OpenReply (Open env))"
  "map_of (methods env) ''Close'' = Some (rpc_method dec_CloseRequest enc_unit (Close env))"
  "map_of (methods env) ''Read'' = Some (rpc_method dec_ReadRequest enc_ReadReply (Read env))"
  "map_of (methods env) ''Seek'' = Some (rpc_method dec_SeekRequest enc_SeekReply (Seek env))"
  "map_of (methods env) ''Write'' = Some (rpc_method dec_WriteRequest enc_WriteReply (Write env))"
  "map_of (methods env) ''Unlink'' = Some (rpc_method dec_UnlinkRequest enc_unit (Unlink env))"
  "map_of (methods env) ''Fsync'' = Some (rpc_method dec_FsyncRequest enc_unit (Fsync env))"
  "map_of (methods env) ''Mkdir'' = Some (rpc_method dec_MkdirRequest enc_StatReply (Mkdir env))"
  "map_of (methods env) ''Rmdir'' = Some (rpc_method dec_RmdirRequest enc_unit (Rmdir env))"
  "map_of (methods env) ''Rename'' = Some (rpc_method dec_RenameRequest enc_unit (Rename env))"
  "map_of (methods env) ''Readlink'' = Some (rpc_method dec_ReadlinkRequest enc_ReadlinkReply (Readlink env))"
  "map_of (methods env) ''Link'' = Some (rpc_method dec_LinkRequest enc_unit (Link env))"
  "map_of (methods env) ''Symlink'' = Some (rpc_method dec_SymlinkRequest enc_unit (Symlink env))"
  "map_of (methods env) ''SetAttr'' = Some (rpc_method dec_SetAttrRequest enc_StatReply (SetAttr env))"
  by (simp_all add: methods_def)

lemma takeWhile_dropWhile_at:
  "\<forall>x \<in> set xs. P x \<Longrightarrow> \<not> P y \<Longrightarrow> takeWhile P (xs @ y # ys) = xs \<and> dropWhile P (xs @ y # ys) = y # ys"
  by (induction xs) auto

lemma split_last_dot_service:
  assumes "CHR ''.'' \<notin> set m"
  shows "split_last_dot (s @ CHR ''.'' # m) = Some (s, m)"
  using takeWhile_dropWhile_at [of "rev m" "\<lambda>c. c \<noteq> CHR ''.''" "CHR ''.''" "rev s"] assms
  by (fastforce simp: split_last_dot_def)

lemma serve_method:
  assumes "CHR ''.'' \<notin> set m" and "map_of (methods env) m = Some f"
  shows "serve env (''DockerFuseFSOps'' @ CHR ''.'' # m) = f"
  unfolding serve_def split_last_dot_service [OF assms(1)] using assms(2) by (simp add: fun_eq_iff)

lemma serve_methods:
  "serve env ''DockerFuseFSOps.Stat'' = rpc_method dec_StatRequest enc_StatReply (Stat env)"
  "serve env ''DockerFuseFSOps.ReadDir'' = rpc_method dec_ReadDirRequest enc_ReadDirReply (ReadDir env)"
  "serve env ''DockerFuseFSOps.Open'' = rpc_method dec_OpenRequest enc_OpenReply (Open env)"
  "serve env ''DockerFuseFSOps.Close'' = rpc_method dec_CloseRequest enc_unit (Close env)"
  "serve env ''DockerFuseFSOps.Read'' = rpc_method dec_ReadRequest enc_ReadReply (Read env)"
  "serve env ''DockerFuseFSOps.Seek'' = rpc_method dec_SeekRequest enc_SeekReply (Seek env)"
  "serve env ''DockerFuseFSOps.Write'' = rpc_method dec_WriteRequest enc_WriteReply (Write env)"
  "serve env ''DockerFuseFSOps.Unlink'' = rpc_method dec_UnlinkRequest enc_unit (Unlink env)"
  "serve env ''DockerFuseFSOps.Fsync'' = rpc_method dec_FsyncRequest enc_unit (Fsync env)"
  "serve env ''DockerFuseFSOps.Mkdir'' = rpc_method dec_MkdirRequest enc_StatReply (Mkdir env)"
  "serve env ''DockerFuseFSOps.Rmdir'' = rpc_method dec_RmdirRequest enc_unit (Rmdir env)"
  "serve env ''DockerFuseFSOps.Rename'' = rpc_method dec_RenameRequest enc_unit (Rename env)"
  "serve env ''DockerFuseFSOps.Readlink'' = rpc_method dec_ReadlinkRequest enc_ReadlinkReply (Readlink env)"
  "serve env ''DockerFuseFSOps.Link'' = rpc_method dec_LinkRequest enc_unit (Link env)"
  "serve env ''DockerFuseFSOps.Symlink'' = rpc_method dec_SymlinkRequest enc_unit (Symlink env)"
  "serve env ''DockerFuseFSOps.SetAttr'' = rpc_method dec_SetAttrRequest enc_StatReply (SetAttr env)"
  using map_of_methods [THEN serve_method [rotated], of env] by simp_all

lemma method_dec: "dec args = Some r \<Longrightarrow> rpc_method dec enc h args st = (map_result enc (fst (h r st)), snd (h r st))"
  by (simp add: rpc_method_def split: prod.splits)

lemma map_result_eq:
  "map_result f r = Ok y \<longleftrightarrow> (\<exists>x. r = Ok x \<and> y = f x)" "map_result f r = Err m \<longleftrightarrow> r = Err m"
  "map_result f r = Crash m \<longleftrightarrow> r = Crash m"
  by (cases r; auto)+

lemma Call_Running:
  "Call env s args (Running st) = (case serve env s args st of
     (Ok g, st') \<Rightarrow> (Inr g, Running st')
   | (Err msg, st') \<Rightarrow> (Inl msg, Running st')
   | (Crash m, st') \<Rightarrow> (Inl ''unexpected EOF'', Down (snd st')))"
  by (simp add: Call_def)

subsection \<open>The table of open files under any sequence of requests\<close>

definition conn_inv :: "('f, 'w) satellite_env \<Rightarrow> ('w \<Rightarrow> bool) \<Rightarrow> ('w \<Rightarrow> 'f set) \<Rightarrow> ('f, 'w) conn \<Rightarrow> bool" where
  "conn_inv env wfw opn c = (case c of Running st \<Rightarrow> fd_inv env wfw opn st | Down w \<Rightarrow> True)"

fun run_requests :: "('f, 'w) satellite_env \<Rightarrow> (string \<times> gob) list \<Rightarrow> ('f, 'w) conn \<Rightarrow> (string + gob) list \<times> ('f, 'w) conn" where
  "run_requests env [] c = ([], c)"
| "run_requests env ((s, args) # rs) c = (case Call env s args c of (x, c') \<Rightarrow>
     (case run_requests env rs c' of (xs, c'') \<Rightarrow> (x # xs, c'')))"

definition fd_keeps :: "('f, 'w) satellite_env \<Rightarrow> ('w \<Rightarrow> bool) \<Rightarrow> ('w \<Rightarrow> 'f set) \<Rightarrow>
    ('f DockerFuseFSOps \<times> 'w \<Rightarrow> 'a \<times> 'f DockerFuseFSOps \<times> 'w) \<Rightarrow> bool" where
  "fd_keeps env wfw opn h \<longleftrightarrow> (\<forall>st. fd_inv env wfw opn st \<longrightarrow> fd_inv env wfw opn (snd (h st)))"

lemma fd_keepsD: "fd_keeps env wfw opn h \<Longrightarrow> fd_inv env wfw opn st \<Longrightarrow> fd_inv env wfw opn (snd (h st))"
  unfolding fd_keeps_def by blast

lemma fd_keeps_unchanged: "table_unchanged env wfw opn h \<Longrightarrow> fd_keeps env wfw opn h"
  unfolding fd_keeps_def using table_unchanged_fd_inv by blast

lemma fd_keeps_method: "(\<And>r. fd_keeps env wfw opn (h r)) \<Longrightarrow> fd_keeps env wfw opn (rpc_method dec enc h args)"
  unfolding fd_keeps_def rpc_method_def by (simp add: case_prod_beta split: option.split del: split_paired_All)

context satellite_files
begin

lemma methods_keep: "list_all (\<lambda>(m, f). \<forall>args. fd_keeps env wfw open_files (f args)) (methods env)"
proof -
  have "fd_keeps env wfw open_files (Open env r)" "fd_keeps env wfw open_files (Close env r')" for r r'
    unfolding fd_keeps_def using Open_fd_inv Close_fd_inv by blast+
  then show ?thesis by (simp add: methods_def fd_keeps_method unchanged [THEN fd_keeps_unchanged])
qed

lemma serve_keeps: "fd_inv env wfw open_files st \<Longrightarrow> fd_inv env wfw open_files (snd (serve env s args st))"
proof -
  assume inv: "fd_inv env wfw open_files st"
  have "fd_inv env wfw open_files (snd (f args st))" if "map_of (methods env) m = Some f" for m f
    using methods_keep map_of_SomeD [OF that] inv by (fastforce simp: list_all_iff intro: fd_keepsD)
  with inv show ?thesis by (simp add: serve_def case_prod_beta split: option.split)
qed

lemma Call_conn_inv: "conn_inv env wfw open_files c \<Longrightarrow> conn_inv env wfw open_files (snd (Call env s args c))"
proof (cases c)
  case (Running st)
  assume "conn_inv env wfw open_files c"
  with Running have "fd_inv env wfw open_files (snd (serve env s args st))" by (simp add: conn_inv_def serve_keeps)
  with Running show ?thesis by (auto simp: Call_def conn_inv_def split: result.splits prod.splits)
qed (simp add: Call_def conn_inv_def)

lemma run_requests_conn_inv:
  "conn_inv env wfw open_files c \<Longrightarrow> conn_inv env wfw open_files (snd (run_requests env rs c))"
proof (induction rs arbitrary: c)
  case (Cons r rs)
  obtain s args where r: "r = (s, args)" by fastforce
  obtain x c' where c: "Call env s args c = (x, c')" by fastforce
  then have "conn_inv env wfw open_files c'" using Call_conn_inv [OF Cons.prems, of s args] by simp
  with Cons.IH [of c'] r c show ?case by (simp add: case_prod_beta)
qed simp

end

end
