(* ===== verification/Client_Calls.thy ===== *)
theory Client_Calls
  imports Client Rpc_Link
begin

text \<open>
  What every operation of the client has in common: it sends one request and reports what came of
  it. The operations are collected in a type, with the request each one sends, and the statement
  is proved once over the contract \<open>rpc_transport\<close> of the connection, which
  \<^verbatim>\<open>net/rpc\<close> to the satellite is shown to meet.
\<close>

datatype client_op =
    O_stat string
  | O_create string go_int FileMode
  | O_readDir string
  | O_open string go_int FileMode
  | O_close uintptr
  | O_read uintptr int64 go_int
  | O_seek uintptr int64 go_int
  | O_write uintptr int64 "byte list"
  | O_unlink string
  | O_fsync uintptr uint32
  | O_mkdir string FileMode
  | O_rmdir string
  | O_rename string string uint32
  | O_readlink string
  | O_link string string
  | O_symlink string string
  | O_setAttr string SetAttrIn

definition errno_part :: "('a \<Rightarrow> errno) \<Rightarrow> 'a go \<times> 's \<Rightarrow> errno go \<times> 's" where
  "errno_part f x = (case x of (Panic m, s) \<Rightarrow> (Panic m, s) | (Val v, s) \<Rightarrow> (Val (f v), s))"

text \<open>The \<^verbatim>\<open>errno\<close> an operation returns.\<close>

fun op_errno :: "client_env \<Rightarrow> 's DockerFuseClient \<Rightarrow> client_op \<Rightarrow> 's \<Rightarrow> errno go \<times> 's" where
  "op_errno E d (O_stat p) s = errno_part snd (stat E d p zero_statAttr s)"
| "op_errno E d (O_create p fl m) s = errno_part (snd \<circ> snd) (create E d p fl m zero_statAttr s)"
| "op_errno E d (O_readDir p) s = errno_part snd (readDir E d p s)"
| "op_errno E d (O_open p fl m) s = errno_part (snd \<circ> snd) (open_file E d p fl m s)"
| "op_errno E d (O_close fd) s = close E d (Some fd) s"
| "op_errno E d (O_read fd off n) s = errno_part snd (read E d (Some fd) off n s)"
| "op_errno E d (O_seek fd off wh) s = errno_part snd (seek E d (Some fd) off wh s)"
| "op_errno E d (O_write fd off bs) s = errno_part snd (write_file E d (Some fd) off bs s)"
| "op_errno E d (O_unlink p) s = unlink E d p s"
| "op_errno E d (O_fsync fd fl) s = fsync E d (Some fd) fl s"
| "op_errno E d (O_mkdir p m) s = errno_part snd (mkdir E d p m zero_statAttr s)"
| "op_errno E d (O_rmdir p) s = rmdir E d p s"
| "op_errno E d (O_rename p q fl) s = rename E d p q fl s"
| "op_errno E d (O_readlink p) s = errno_part snd (readlink E d p s)"
| "op_errno E d (O_link p q) s = link E d p q s"
| "op_errno E d (O_symlink p q) s = symlink E d p q s"
| "op_errno E d (O_setAttr p i) s = errno_part snd (setAttr E d p i zero_statAttr s)"

text \<open>The request it sends.\<close>

fun op_request :: "client_env \<Rightarrow> client_op \<Rightarrow> string \<times> gob" where
  "op_request E (O_stat p) = (''DockerFuseFSOps.Stat'', enc_StatRequest \<lparr> st_FullPath = p \<rparr>)"
| "op_request E (O_create p fl m) = (''DockerFuseFSOps.Open'', enc_OpenRequest \<lparr> op_FullPath = p,
     op_SAFlags = SystemToSAFlags (ce_flags E) fl, op_Mode = m \<rparr>)"
| "op_request E (O_readDir p) = (''DockerFuseFSOps.ReadDir'', enc_StatRequest \<lparr> st_FullPath = p \<rparr>)"
| "op_request E (O_open p fl m) = (''DockerFuseFSOps.Open'', enc_OpenRequest \<lparr> op_FullPath = p,
     op_SAFlags = SystemToSAFlags (ce_flags E) fl, op_Mode = m \<rparr>)"
| "op_request E (O_close fd) = (''DockerFuseFSOps.Close'', enc_CloseRequest \<lparr> cl_FD = fd \<rparr>)"
| "op_request E (O_read fd off n) = (''DockerFuseFSOps.Read'', enc_ReadRequest \<lparr> re_FD = fd, re_Offset = off, re_Num = n \<rparr>)"
| "op_request E (O_seek fd off wh) = (''DockerFuseFSOps.Seek'', enc_SeekRequest \<lparr> sk_FD = fd, sk_Offset = off, sk_Whence = wh \<rparr>)"
| "op_request E (O_write fd off bs) = (''DockerFuseFSOps.Write'', enc_WriteRequest \<lparr> wr_FD = fd, wr_Offset = off, wr_Data = bs \<rparr>)"
| "op_request E (O_unlink p) = (''DockerFuseFSOps.Unlink'', enc_UnlinkRequest \<lparr> ul_FullPath = p \<rparr>)"
| "op_request E (O_fsync fd fl) = (''DockerFuseFSOps.Fsync'', enc_FsyncRequest \<lparr> fy_FD = fd, fy_Flags = fl \<rparr>)"
| "op_request E (O_mkdir p m) = (''DockerFuseFSOps.Mkdir'', enc_MkdirRequest \<lparr> md_FullPath = p, md_Mode = m \<rparr>)"
| "op_request E (O_rmdir p) = (''DockerFuseFSOps.Rmdir'', enc_RmdirRequest \<lparr> rm_FullPath = p \<rparr>)"
| "op_request E (O_rename p q fl) = (''DockerFuseFSOps.Rename'', enc_RenameRequest \<lparr> rn_FullPath = p, rn_FullNewPath = q, rn_Flags = fl \<rparr>)"
| "op_request E (O_readlink p) = (''DockerFuseFSOps.Readlink'', enc_ReadlinkRequest \<lparr> rl_FullPath = p \<rparr>)"
| "op_request E (O_link p q) = (''DockerFuseFSOps.Link'', enc_LinkRequest \<lparr> ln_OldFullPath = p, ln_NewFullPath = q \<rparr>)"
| "op_request E (O_symlink p q) = (''DockerFuseFSOps.Symlink'', enc_SymlinkRequest \<lparr> sl_OldFullPath = p, sl_NewFullPath = q \<rparr>)"
| "op_request E (O_setAttr p i) = (''DockerFuseFSOps.SetAttr'', enc_SetAttrRequest (setAttr_request p i))"

fun is_read :: "client_op \<Rightarrow> bool" where
  "is_read (O_read fd off n) = True"
| "is_read _ = False"

subsection \<open>The contract of the connection\<close>

text \<open>The replies to a method have the type of its reply.\<close>

definition reply_types :: "(string \<times> (gob \<Rightarrow> bool)) list" where
  "reply_types = [
     (''DockerFuseFSOps.Stat'', \<lambda>g. dec_StatReply g \<noteq> None),
     (''DockerFuseFSOps.ReadDir'', \<lambda>g. dec_ReadDirReply g \<noteq> None),
     (''DockerFuseFSOps.Open'', \<lambda>g. dec_OpenReply g \<noteq> None),
     (''DockerFuseFSOps.Close'', \<lambda>g. dec_unit g \<noteq> None),
     (''DockerFuseFSOps.Read'', \<lambda>g. dec_ReadReply g \<noteq> None),
     (''DockerFuseFSOps.Seek'', \<lambda>g. dec_SeekReply g \<noteq> None),
     (''DockerFuseFSOps.Write'', \<lambda>g. dec_WriteReply g \<noteq> None),
     (''DockerFuseFSOps.Unlink'', \<lambda>g. dec_unit g \<noteq> None),
     (''DockerFuseFSOps.Fsync'', \<lambda>g. dec_unit g \<noteq> None),
     (''DockerFuseFSOps.Mkdir'', \<lambda>g. dec_StatReply g \<noteq> None),
     (''DockerFuseFSOps.Rmdir'', \<lambda>g. dec_unit g \<noteq> None),
     (''DockerFuseFSOps.Rename'', \<lambda>g. dec_unit g \<noteq> None),
     (''DockerFuseFSOps.Readlink'', \<lambda>g. dec_ReadlinkReply g \<noteq> None),
     (''DockerFuseFSOps.Link'', \<lambda>g. dec_unit g \<noteq> None),
     (''DockerFuseFSOps.Symlink'', \<lambda>g. dec_unit g \<noteq> None),
     (''DockerFuseFSOps.SetAttr'', \<lambda>g. dec_StatReply g \<noteq> None)]"

locale rpc_transport =
  fixes c :: "'s rpcClient"
  assumes reply_typed: "(m, P) \<in> set reply_types \<Longrightarrow> rc_Call c m args s = (Inr g, s') \<Longrightarrow> P g"
begin

lemma rpc_Call_typed:
  assumes "rpcClient d = Some c" and "(m, \<lambda>g. dec g \<noteq> None) \<in> set reply_types"
  shows "rpc_Call d m args dec s = (case rc_Call c m args s of
      (Inl err, s') \<Rightarrow> (Val (Inl err), s') | (Inr g, s') \<Rightarrow> (Val (Inr (the (dec g))), s'))"
  using assms(1) reply_typed [OF assms(2)] by (fastforce simp: rpc_Call_def split: prod.splits sum.splits option.splits)

lemma op_errno_request:
  assumes "rpcClient d = Some c"
  shows "op_errno E d op s = (case rc_Call c (fst (op_request E op)) (snd (op_request E op)) s of
      (Inl err, s') \<Rightarrow> (Val (if is_read op \<and> err = ''EOF'' then 0 else RPCErrorStringTOErrno (ce_errno E) err), s')
    | (Inr g, s') \<Rightarrow> (Val 0, s'))"
proof (cases op)
qed (simp_all add: client_op_defs errno_part_def rpc_Call_typed [OF assms] reply_types_def split: prod.splits sum.splits)

end

subsection \<open>The connection to the satellite\<close>

definition satellite_client :: "('f, 'w) satellite_env \<Rightarrow> ('f, 'w) conn rpcClient" where
  "satellite_client env = \<lparr> rc_Call = Call env, rc_Close = Close_conn \<rparr>"

lemma method_Ok: "rpc_method dec enc h args st = (Ok g, st') \<Longrightarrow> \<exists>r. g = enc r"
  by (auto simp: rpc_method_def map_result_eq split: option.splits prod.splits)

lemma Call_Inr: "Call env m args c = (Inr g, c') \<Longrightarrow> \<exists>st st'. serve env m args st = (Ok g, st')"
  by (auto simp: Call_def split: conn.splits prod.splits result.splits)

interpretation satlink: rpc_transport "satellite_client env" for env :: "('f, 'w) satellite_env"
proof
  fix m P args c g c'
  assume m: "(m, P) \<in> set reply_types" and "rc_Call (satellite_client env) m args c = (Inr g, c')"
  then obtain st st' where "serve env m args st = (Ok g, st')"
    by (auto simp: satellite_client_def dest!: Call_Inr)
  with m show "P g"
    by (auto simp: reply_types_def serve_methods dec_enc dest!: method_Ok)
qed

text \<open>The client over this connection, and what a call through it comes to: the handler runs on the
  request that was sent, and its result comes back.\<close>

definition mounted :: "('f, 'w) satellite_env \<Rightarrow> ('f, 'w) conn DockerFuseClient" where
  "mounted env = \<lparr> rpcClient = Some (satellite_client env), containerID = '''', satelliteFullRemotePath = '''' \<rparr>"

definition reply_of :: "'r result \<times> 'f DockerFuseFSOps \<times> 'w \<Rightarrow> (string + 'r) go \<times> ('f, 'w) conn" where
  "reply_of x = (case x of
     (Ok y, st') \<Rightarrow> (Val (Inr y), Running st')
   | (Err msg, st') \<Rightarrow> (Val (Inl msg), Running st')
   | (Crash m, st') \<Rightarrow> (Val (Inl ''unexpected EOF''), Down (snd st')))"

lemma mounted_call:
  assumes "serve env m = rpc_method dec enc h" and "dec args = Some r" and "\<And>y. dec' (enc y) = Some y"
  shows "rpc_Call (mounted env) m args dec' (Running st) = reply_of (h r st)"
  using assms by (auto simp: rpc_Call_def mounted_def satellite_client_def Call_Running rpc_method_def reply_of_def
    split: prod.splits result.splits)

lemma mounted_calls:
  "rpc_Call (mounted env) ''DockerFuseFSOps.Stat'' (enc_StatRequest r1) dec_StatReply (Running st) = reply_of (Stat env r1 st)"
  "rpc_Call (mounted env) ''DockerFuseFSOps.ReadDir'' (enc_StatRequest r1) dec_ReadDirReply (Running st)
     = reply_of (ReadDir env \<lparr> rd_FullPath = st_FullPath r1 \<rparr> st)"
  "rpc_Call (mounted env) ''DockerFuseFSOps.Open'' (enc_OpenRequest r3) dec_OpenReply (Running st) = reply_of (Open env r3 st)"
  "rpc_Call (mounted env) ''DockerFuseFSOps.Close'' (enc_CloseRequest r4) dec_unit (Running st) = reply_of (Close env r4 st)"
  "rpc_Call (mounted env) ''DockerFuseFSOps.Read'' (enc_ReadRequest r5) dec_ReadReply (Running st) = reply_of (Read env r5 st)"
  "rpc_Call (mounted env) ''DockerFuseFSOps.Seek'' (enc_SeekRequest r6) dec_SeekReply (Running st) = reply_of (Seek env r6 st)"
  "rpc_Call (mounted env) ''DockerFuseFSOps.Write'' (enc_WriteRequest r7) dec_WriteReply (Running st) = reply_of (Write env r7 st)"
  "rpc_Call (mounted env) ''DockerFuseFSOps.Unlink'' (enc_UnlinkRequest r8) dec_unit (Running st) = reply_of (Unlink env r8 st)"
  "rpc_Call (mounted env) ''DockerFuseFSOps.Fsync'' (enc_FsyncRequest r9) dec_unit (Running st) = reply_of (Fsync env r9 st)"
  "rpc_Call (mounted env) ''DockerFuseFSOps.Mkdir'' (enc_MkdirRequest r10) dec_StatReply (Running st) = reply_of (Mkdir env r10 st)"
  "rpc_Call (mounted env) ''DockerFuseFSOps.Rmdir'' (enc_RmdirRequest r11) dec_unit (Running st) = reply_of (Rmdir env r11 st)"
  "rpc_Call (mounted env) ''DockerFuseFSOps.Rename'' (enc_RenameRequest r12) dec_unit (Running st) = reply_of (Rename env r12 st)"
  "rpc_Call (mounted env) ''DockerFuseFSOps.Readlink'' (enc_ReadlinkRequest r13) dec_ReadlinkReply (Running st) = reply_of (Readlink env r13 st)"
  "rpc_Call (mounted env) ''DockerFuseFSOps.Link'' (enc_LinkRequest r14) dec_unit (Running st) = reply_of (Link env r14 st)"
  "rpc_Call (mounted env) ''DockerFuseFSOps.Symlink'' (enc_SymlinkRequest r15) dec_unit (Running st) = reply_of (Symlink env r15 st)"
  "rpc_Call (mounted env) ''DockerFuseFSOps.SetAttr'' (enc_SetAttrRequest r16) dec_StatReply (Running st) = reply_of (SetAttr env r16 st)"
  by (rule mounted_call [OF serve_methods(1)] mounted_call [OF serve_methods(2)] mounted_call [OF serve_methods(3)]
    mounted_call [OF serve_methods(4)] mounted_call [OF serve_methods(5)] mounted_call [OF serve_methods(6)]
    mounted_call [OF serve_methods(7)] mounted_call [OF serve_methods(8)] mounted_call [OF serve_methods(9)]
    mounted_call [OF serve_methods(10)] mounted_call [OF serve_methods(11)] mounted_call [OF serve_methods(12)]
    mounted_call [OF serve_methods(13)] mounted_call [OF serve_methods(14)] mounted_call [OF serve_methods(15)]
    mounted_call [OF serve_methods(16)]; simp add: dec_enc)+

end
