(* ===== verification/Os_Layer.thy ===== *)
theory Os_Layer
  imports Satellite_Server "HOL-Library.List_Lexorder" "HOL-Library.Char_ord"
begin

text \<open>
  The implementation \<^verbatim>\<open>osFS\<close> of the satellite's file-system interface
  (\<^verbatim>\<open>cmd/satellite/server/filesystem.go\<close>, lines 40-57): every method forwards to the Go
  packages \<^verbatim>\<open>os\<close> and \<^verbatim>\<open>syscall\<close>. What those packages do around a system call
  is modelled as far as the satellite can observe it: which error type a failure comes back in, the
  mode bits they drop, the loops around short reads and writes, the refusal of
  \<^verbatim>\<open>WriteAt\<close> on a file opened for appending, the state of an \<^verbatim>\<open>os.File\<close>
  object. The kernel of the container is the parameter \<open>K\<close>, a record of system calls over an
  abstract kernel state; a call interrupted by a signal is retried by \<^verbatim>\<open>os\<close>, so a field
  stands for the call's final result.
\<close>

subsection \<open>The kernel\<close>

record 'k kernel =
  k_chmod :: "string \<Rightarrow> uint32 \<Rightarrow> 'k \<Rightarrow> errno option \<times> 'k"
  k_chown :: "string \<Rightarrow> go_int \<Rightarrow> go_int \<Rightarrow> 'k \<Rightarrow> errno option \<times> 'k"
  k_link :: "string \<Rightarrow> string \<Rightarrow> 'k \<Rightarrow> errno option \<times> 'k"
  k_lstat :: "string \<Rightarrow> 'k \<Rightarrow> (errno + Stat_t) \<times> 'k"
  k_mkdir :: "string \<Rightarrow> uint32 \<Rightarrow> 'k \<Rightarrow> errno option \<times> 'k"
  k_open :: "string \<Rightarrow> go_int \<Rightarrow> uint32 \<Rightarrow> 'k \<Rightarrow> (errno + uintptr) \<times> 'k"
  k_readdir :: "string \<Rightarrow> 'k \<Rightarrow> (errno + string list) \<times> 'k"
  k_readlink :: "string \<Rightarrow> 'k \<Rightarrow> (errno + string) \<times> 'k"
  k_unlink :: "string \<Rightarrow> 'k \<Rightarrow> errno option \<times> 'k"
  k_rmdir :: "string \<Rightarrow> 'k \<Rightarrow> errno option \<times> 'k"
  k_rename :: "string \<Rightarrow> string \<Rightarrow> 'k \<Rightarrow> errno option \<times> 'k"
  k_symlink :: "string \<Rightarrow> string \<Rightarrow> 'k \<Rightarrow> errno option \<times> 'k"
  k_truncate :: "string \<Rightarrow> int64 \<Rightarrow> 'k \<Rightarrow> errno option \<times> 'k"
  k_utimensat :: "string \<Rightarrow> Timespec list \<Rightarrow> 'k \<Rightarrow> errno option \<times> 'k"
  k_close :: "uintptr \<Rightarrow> 'k \<Rightarrow> errno option \<times> 'k"
  k_pread :: "uintptr \<Rightarrow> nat \<Rightarrow> int64 \<Rightarrow> 'k \<Rightarrow> (errno + byte list) \<times> 'k"
  k_lseek :: "uintptr \<Rightarrow> int64 \<Rightarrow> go_int \<Rightarrow> 'k \<Rightarrow> (errno + int64) \<times> 'k"
  k_pwrite :: "uintptr \<Rightarrow> byte list \<Rightarrow> int64 \<Rightarrow> 'k \<Rightarrow> (errno + nat) \<times> 'k"
  k_fstat :: "uintptr \<Rightarrow> 'k \<Rightarrow> (errno + Stat_t) \<times> 'k"
  k_fsync :: "uintptr \<Rightarrow> 'k \<Rightarrow> errno option \<times> 'k"

subsection \<open>\<^verbatim>\<open>os.File\<close> objects\<close>

record os_file =
  of_name :: string
  of_sysfd :: "uintptr option"
  of_append :: bool

record 'k os_world =
  kern :: 'k
  objs :: "nat \<Rightarrow> os_file option"
  next_obj :: nat

definition sysfd :: "nat \<Rightarrow> 'k os_world \<Rightarrow> uintptr option" where
  "sysfd f w = (case objs w f of Some obj \<Rightarrow> of_sysfd obj | None \<Rightarrow> None)"

definition file_name :: "nat \<Rightarrow> 'k os_world \<Rightarrow> string" where
  "file_name f w = (case objs w f of Some obj \<Rightarrow> of_name obj | None \<Rightarrow> '''')"

definition append_mode :: "nat \<Rightarrow> 'k os_world \<Rightarrow> bool" where
  "append_mode f w = (case objs w f of Some obj \<Rightarrow> of_append obj | None \<Rightarrow> False)"

subsection \<open>File modes\<close>

text \<open>
  \<^verbatim>\<open>os.FileMode\<close> has the set-user-id, set-group-id and sticky bits at positions 23, 22 and
  20, the kernel at 11, 10 and 9; \<^verbatim>\<open>syscallMode\<close> converts.
\<close>

definition syscallMode :: "FileMode \<Rightarrow> uint32" where
  "syscallMode i =
    (i AND 0x1FF) OR (if bit i 23 then 0x800 else 0) OR (if bit i 22 then 0x400 else 0)
      OR (if bit i 20 then 0x200 else 0)"

subsection \<open>Calls on paths\<close>

definition path_call :: "string \<Rightarrow> string \<Rightarrow> ('k \<Rightarrow> errno option \<times> 'k) \<Rightarrow> 'k os_world
    \<Rightarrow> goerror option \<times> 'k os_world" where
  "path_call oper name call w = (case call (kern w) of
     (r, k') \<Rightarrow> (map_option (\<lambda>e. PathError oper name (Errno e)) r, w\<lparr> kern := k' \<rparr>))"

definition link_call :: "string \<Rightarrow> string \<Rightarrow> string \<Rightarrow> ('k \<Rightarrow> errno option \<times> 'k) \<Rightarrow> 'k os_world
    \<Rightarrow> goerror option \<times> 'k os_world" where
  "link_call oper old new call w = (case call (kern w) of
     (r, k') \<Rightarrow> (map_option (\<lambda>e. LinkError oper old new (Errno e)) r, w\<lparr> kern := k' \<rparr>))"

definition os_Lstat :: "'k kernel \<Rightarrow> string \<Rightarrow> 'k os_world \<Rightarrow> (goerror + FileInfo) \<times> 'k os_world" where
  "os_Lstat K name w = (case k_lstat K name (kern w) of
     (Inl e, k') \<Rightarrow> (Inl (PathError ''lstat'' name (Errno e)), w\<lparr> kern := k' \<rparr>)
   | (Inr st, k') \<Rightarrow> (Inr \<lparr> fi_Sys = Some st \<rparr>, w\<lparr> kern := k' \<rparr>))"

definition os_Readlink :: "'k kernel \<Rightarrow> string \<Rightarrow> 'k os_world \<Rightarrow> (goerror + string) \<times> 'k os_world" where
  "os_Readlink K name w = (case k_readlink K name (kern w) of
     (Inl e, k') \<Rightarrow> (Inl (PathError ''readlink'' name (Errno e)), w\<lparr> kern := k' \<rparr>)
   | (Inr t, k') \<Rightarrow> (Inr t, w\<lparr> kern := k' \<rparr>))"

text \<open>\<^verbatim>\<open>os.ReadDir\<close> sorts by name; \<^verbatim>\<open>Info\<close> of an entry is an
  \<^verbatim>\<open>lstat\<close> made when it is called.\<close>

definition os_ReadDir :: "'k kernel \<Rightarrow> string \<Rightarrow> 'k os_world
    \<Rightarrow> (goerror + 'k os_world DirEnt list) \<times> 'k os_world" where
  "os_ReadDir K name w = (case k_readdir K name (kern w) of
     (Inl e, k') \<Rightarrow> (Inl (PathError ''open'' name (Errno e)), w\<lparr> kern := k' \<rparr>)
   | (Inr ns, k') \<Rightarrow>
       (Inr (map (\<lambda>n. \<lparr> dent_Name = n, dent_Info = os_Lstat K (name @ ''/'' @ n) \<rparr>) (sort ns)),
        w\<lparr> kern := k' \<rparr>))"

text \<open>\<^verbatim>\<open>os.Remove\<close> tries \<^verbatim>\<open>unlink\<close>, then \<^verbatim>\<open>rmdir\<close>, and reports the
  second error unless it is \<^verbatim>\<open>ENOTDIR\<close>.\<close>

definition os_Remove :: "errno_names \<Rightarrow> 'k kernel \<Rightarrow> string \<Rightarrow> 'k os_world \<Rightarrow> goerror option \<times> 'k os_world" where
  "os_Remove syscall K name w = (case k_unlink K name (kern w) of
     (None, k1) \<Rightarrow> (None, w\<lparr> kern := k1 \<rparr>)
   | (Some e, k1) \<Rightarrow>
       (case k_rmdir K name k1 of
          (None, k2) \<Rightarrow> (None, w\<lparr> kern := k2 \<rparr>)
        | (Some e1, k2) \<Rightarrow>
            (Some (PathError ''remove'' name (Errno (if e1 \<noteq> syscall ''ENOTDIR'' then e1 else e))),
             w\<lparr> kern := k2 \<rparr>)))"

text \<open>
  \<^verbatim>\<open>os.Rename\<close> refuses a new name that is a directory, unless both names are the same file
  under different names.
\<close>

definition is_dir :: "Stat_t \<Rightarrow> bool" where
  "is_dir st \<longleftrightarrow> s_Mode st AND 0xF000 = 0x4000"

definition os_Rename :: "errno_names \<Rightarrow> 'k kernel \<Rightarrow> string \<Rightarrow> string \<Rightarrow> 'k os_world
    \<Rightarrow> goerror option \<times> 'k os_world" where
  "os_Rename syscall K old new w =
    (case k_lstat K new (kern w) of
       (Inr fi, k1) \<Rightarrow>
         if is_dir fi then
           (case k_lstat K old k1 of
              (Inl e, k2) \<Rightarrow> (Some (LinkError ''rename'' old new (Errno e)), w\<lparr> kern := k2 \<rparr>)
            | (Inr ofi, k2) \<Rightarrow>
                if new = old \<or> s_Ino fi \<noteq> s_Ino ofi
                then (Some (LinkError ''rename'' old new (Errno (syscall ''EEXIST''))), w\<lparr> kern := k2 \<rparr>)
                else link_call ''rename'' old new (k_rename K old new) (w\<lparr> kern := k2 \<rparr>))
         else link_call ''rename'' old new (k_rename K old new) (w\<lparr> kern := k1 \<rparr>)
     | (Inl _, k1) \<Rightarrow> link_call ''rename'' old new (k_rename K old new) (w\<lparr> kern := k1 \<rparr>))"

text \<open>\<^verbatim>\<open>syscall.UtimesNano\<close> returns a bare \<^verbatim>\<open>errno\<close> and wants two times.\<close>

definition syscall_UtimesNano :: "errno_names \<Rightarrow> 'k kernel \<Rightarrow> string \<Rightarrow> Timespec list \<Rightarrow> 'k os_world
    \<Rightarrow> goerror option \<times> 'k os_world" where
  "syscall_UtimesNano syscall K name ts w =
    (if length ts \<noteq> 2 then (Some (Errno (syscall ''EINVAL'')), w)
     else (case k_utimensat K name ts (kern w) of (r, k') \<Rightarrow> (map_option Errno r, w\<lparr> kern := k' \<rparr>)))"

subsection \<open>Opening and closing\<close>

definition O_CLOEXEC :: go_int where "O_CLOEXEC = 0x80000"

definition os_OpenFile :: "syscall_flags \<Rightarrow> 'k kernel \<Rightarrow> string \<Rightarrow> go_int \<Rightarrow> FileMode \<Rightarrow> 'k os_world
    \<Rightarrow> (goerror + nat) \<times> 'k os_world" where
  "os_OpenFile sc K name flag perm w =
    (case k_open K name (flag OR O_CLOEXEC) (syscallMode perm) (kern w) of
       (Inl e, k') \<Rightarrow> (Inl (PathError ''open'' name (Errno e)), w\<lparr> kern := k' \<rparr>)
     | (Inr d, k') \<Rightarrow>
         (Inr (next_obj w),
          \<lparr> kern = k',
            objs = (objs w)(next_obj w \<mapsto>
              \<lparr> of_name = name, of_sysfd = Some d, of_append = (flag AND sys_O_APPEND sc \<noteq> 0) \<rparr>),
            next_obj = Suc (next_obj w) \<rparr>))"

text \<open>Closing forgets the descriptor, whatever \<^verbatim>\<open>close(2)\<close> returns.\<close>

definition os_Close :: "'k kernel \<Rightarrow> nat \<Rightarrow> 'k os_world \<Rightarrow> goerror option \<times> 'k os_world" where
  "os_Close K f w = (case sysfd f w of
     None \<Rightarrow> (Some (PathError ''close'' (file_name f w) ErrClosed), w)
   | Some d \<Rightarrow>
       (case k_close K d (kern w) of
          (r, k') \<Rightarrow> (map_option (\<lambda>e. PathError ''close'' (file_name f w) (Errno e)) r,
            w\<lparr> kern := k', objs := (objs w)(f := map_option (\<lambda>obj. obj\<lparr> of_sysfd := None \<rparr>) (objs w f)) \<rparr>)))"

definition os_Fd :: "nat \<Rightarrow> 'k os_world \<Rightarrow> uintptr" where
  "os_Fd f w = (case sysfd f w of Some d \<Rightarrow> d | None \<Rightarrow> -1)"

subsection \<open>Reading and writing\<close>

text \<open>The loop of \<^verbatim>\<open>File.ReadAt\<close>: it ends when the buffer is full, at the end of the file
  or at an error.\<close>

function pread_loop :: "'k kernel \<Rightarrow> uintptr \<Rightarrow> nat \<Rightarrow> int64 \<Rightarrow> byte list \<Rightarrow> 'k
    \<Rightarrow> (byte list \<times> goerror option) \<times> 'k" where
  "pread_loop K d len off acc k =
    (if len = 0 then ((acc, None), k) else
     case k_pread K d len off k of
       (Inl e, k') \<Rightarrow> ((acc, Some (Errno e)), k')
     | (Inr bs, k') \<Rightarrow>
         if bs = [] then ((acc, Some EOF), k')
         else pread_loop K d (len - length bs) (off + of_nat (length bs)) (acc @ bs) k')"
  by pat_completeness auto
termination
  by (relation "measure (\<lambda>(K, d, len, off, acc, k). len)") auto

declare pread_loop.simps [simp del]

text \<open>\<^verbatim>\<open>wrapErr\<close>: \<^verbatim>\<open>io.EOF\<close> is returned as it is.\<close>

definition wrapErr :: "string \<Rightarrow> string \<Rightarrow> goerror \<Rightarrow> goerror" where
  "wrapErr oper name e = (if e = EOF then e else PathError oper name e)"

definition os_ReadAt :: "'k kernel \<Rightarrow> nat \<Rightarrow> nat \<Rightarrow> int64 \<Rightarrow> 'k os_world
    \<Rightarrow> (int \<times> byte list \<times> goerror option) \<times> 'k os_world" where
  "os_ReadAt K f len off w =
    (if sint off < 0 then
       ((0, replicate len 0, Some (PathError ''readat'' (file_name f w) (ErrorString ''negative offset''))), w)
     else if len = 0 then ((0, [], None), w)
     else (case sysfd f w of
        None \<Rightarrow> ((0, replicate len 0, Some (PathError ''read'' (file_name f w) ErrClosed)), w)
      | Some d \<Rightarrow>
          (case pread_loop K d len off [] (kern w) of
             ((bs, err), k') \<Rightarrow>
               ((int (length bs), bs @ replicate (len - length bs) 0,
                 map_option (wrapErr ''read'' (file_name f w)) err), w\<lparr> kern := k' \<rparr>))))"

function pwrite_loop :: "'k kernel \<Rightarrow> uintptr \<Rightarrow> byte list \<Rightarrow> int64 \<Rightarrow> nat \<Rightarrow> 'k
    \<Rightarrow> (nat \<times> goerror option) \<times> 'k" where
  "pwrite_loop K d bs off done k =
    (if bs = [] then ((done, None), k) else
     case k_pwrite K d bs off k of
       (Inl e, k') \<Rightarrow> ((done, Some (Errno e)), k')
     | (Inr n, k') \<Rightarrow>
         if n = 0 then ((done, Some (ErrorString ''unexpected EOF'')), k')
         else pwrite_loop K d (drop n bs) (off + of_nat n) (done + n) k')"
  by pat_completeness auto
termination
  by (relation "measure (\<lambda>(K, d, bs, off, done, k). length bs)") auto

declare pwrite_loop.simps [simp del]

definition errWriteAtInAppendMode :: goerror where
  "errWriteAtInAppendMode = ErrorString ''os: invalid use of WriteAt on file opened with O_APPEND''"

definition os_WriteAt :: "'k kernel \<Rightarrow> nat \<Rightarrow> byte list \<Rightarrow> int64 \<Rightarrow> 'k os_world
    \<Rightarrow> (go_int \<times> goerror option) \<times> 'k os_world" where
  "os_WriteAt K f bs off w =
    (if append_mode f w then ((0, Some errWriteAtInAppendMode), w)
     else if sint off < 0 then
       ((0, Some (PathError ''writeat'' (file_name f w) (ErrorString ''negative offset''))), w)
     else if bs = [] then ((0, None), w)
     else (case sysfd f w of
        None \<Rightarrow> ((0, Some (PathError ''write'' (file_name f w) ErrClosed)), w)
      | Some d \<Rightarrow>
          (case pwrite_loop K d bs off 0 (kern w) of
             ((n, err), k') \<Rightarrow>
               ((of_nat n, map_option (wrapErr ''write'' (file_name f w)) err), w\<lparr> kern := k' \<rparr>))))"

definition os_Seek :: "'k kernel \<Rightarrow> nat \<Rightarrow> int64 \<Rightarrow> go_int \<Rightarrow> 'k os_world
    \<Rightarrow> (int64 \<times> goerror option) \<times> 'k os_world" where
  "os_Seek K f off whence w = (case sysfd f w of
     None \<Rightarrow> ((0, Some (PathError ''seek'' (file_name f w) ErrClosed)), w)
   | Some d \<Rightarrow>
       (case k_lseek K d off whence (kern w) of
          (Inl e, k') \<Rightarrow> ((0, Some (PathError ''seek'' (file_name f w) (Errno e))), w\<lparr> kern := k' \<rparr>)
        | (Inr n, k') \<Rightarrow> ((n, None), w\<lparr> kern := k' \<rparr>)))"

definition os_Stat :: "'k kernel \<Rightarrow> nat \<Rightarrow> 'k os_world \<Rightarrow> (goerror + FileInfo) \<times> 'k os_world" where
  "os_Stat K f w = (case sysfd f w of
     None \<Rightarrow> (Inl (PathError ''stat'' (file_name f w) ErrClosed), w)
   | Some d \<Rightarrow>
       (case k_fstat K d (kern w) of
          (Inl e, k') \<Rightarrow> (Inl (PathError ''stat'' (file_name f w) (Errno e)), w\<lparr> kern := k' \<rparr>)
        | (Inr st, k') \<Rightarrow> (Inr \<lparr> fi_Sys = Some st \<rparr>, w\<lparr> kern := k' \<rparr>)))"

definition os_Sync :: "'k kernel \<Rightarrow> nat \<Rightarrow> 'k os_world \<Rightarrow> goerror option \<times> 'k os_world" where
  "os_Sync K f w = (case sysfd f w of
     None \<Rightarrow> (Some (PathError ''sync'' (file_name f w) ErrClosed), w)
   | Some d \<Rightarrow> path_call ''sync'' (file_name f w) (k_fsync K d) w)"

subsection \<open>The implementation of the interface\<close>

definition osFS :: "errno_names \<Rightarrow> syscall_flags \<Rightarrow> 'k kernel \<Rightarrow> (nat, 'k os_world) fileSystem" where
  "osFS syscall sc K = \<lparr>
     fs_Chmod = (\<lambda>n m. path_call ''chmod'' n (k_chmod K n (syscallMode m))),
     fs_Chown = (\<lambda>n u g. path_call ''chown'' n (k_chown K n u g)),
     fs_Link = (\<lambda>old new. link_call ''link'' old new (k_link K old new)),
     fs_Lstat = os_Lstat K,
     fs_Mkdir = (\<lambda>n p. path_call ''mkdir'' n (k_mkdir K n (syscallMode p))),
     fs_OpenFile = os_OpenFile sc K,
     fs_ReadDir = os_ReadDir K,
     fs_Readlink = os_Readlink K,
     fs_Remove = os_Remove syscall K,
     fs_Rename = os_Rename syscall K,
     fs_Symlink = (\<lambda>old new. link_call ''symlink'' old new (k_symlink K old new)),
     fs_Truncate = (\<lambda>n s. path_call ''truncate'' n (k_truncate K n s)),
     fs_UtimesNano = syscall_UtimesNano syscall K \<rparr>"

definition osFile :: "'k kernel \<Rightarrow> (nat, 'k os_world) file_ops" where
  "osFile K = \<lparr>
     f_Fd = os_Fd, f_Close = os_Close K, f_ReadAt = os_ReadAt K, f_Seek = os_Seek K,
     f_WriteAt = os_WriteAt K, f_Stat = os_Stat K, f_Sync = os_Sync K \<rparr>"

lemma osFile_sel [simp]:
  "f_Fd (osFile K) = os_Fd" "f_Close (osFile K) = os_Close K" "f_ReadAt (osFile K) = os_ReadAt K"
  "f_Seek (osFile K) = os_Seek K" "f_WriteAt (osFile K) = os_WriteAt K" "f_Stat (osFile K) = os_Stat K"
  "f_Sync (osFile K) = os_Sync K"
  by (simp_all add: osFile_def)

lemmas os_path_defs = path_call_def link_call_def os_Lstat_def os_Readlink_def os_ReadDir_def os_Remove_def
  os_Rename_def syscall_UtimesNano_def

lemmas os_file_defs = os_ReadAt_def os_WriteAt_def os_Seek_def os_Stat_def os_Sync_def

subsection \<open>Descriptors of a POSIX kernel\<close>

text \<open>
  The kernel hands out a descriptor that is not in use, frees it when it is closed, and changes
  its table of descriptors in no other call; it reads and writes at most what it was asked to.
\<close>

locale posix_kernel =
  fixes K :: "'k kernel" and kfds :: "'k \<Rightarrow> uintptr set"
  assumes k_open_ok: "k_open K n fl m k = (Inr d, k') \<Longrightarrow> d \<notin> kfds k \<and> kfds k' = insert d (kfds k)"
    and k_open_err: "k_open K n fl m k = (Inl e, k') \<Longrightarrow> kfds k' = kfds k"
    and k_close_fds: "d \<in> kfds k \<Longrightarrow> kfds (snd (k_close K d k)) = kfds k - {d}"
    and k_chmod_fds: "kfds (snd (k_chmod K n md k)) = kfds k"
    and k_chown_fds: "kfds (snd (k_chown K n u g k)) = kfds k"
    and k_link_fds: "kfds (snd (k_link K n n' k)) = kfds k"
    and k_lstat_fds: "kfds (snd (k_lstat K n k)) = kfds k"
    and k_mkdir_fds: "kfds (snd (k_mkdir K n md k)) = kfds k"
    and k_readdir_fds: "kfds (snd (k_readdir K n k)) = kfds k"
    and k_readlink_fds: "kfds (snd (k_readlink K n k)) = kfds k"
    and k_unlink_fds: "kfds (snd (k_unlink K n k)) = kfds k"
    and k_rmdir_fds: "kfds (snd (k_rmdir K n k)) = kfds k"
    and k_rename_fds: "kfds (snd (k_rename K n n' k)) = kfds k"
    and k_symlink_fds: "kfds (snd (k_symlink K n n' k)) = kfds k"
    and k_truncate_fds: "kfds (snd (k_truncate K n sz k)) = kfds k"
    and k_utimensat_fds: "kfds (snd (k_utimensat K n ts k)) = kfds k"
    and k_pread_fds: "kfds (snd (k_pread K d len off k)) = kfds k"
    and k_lseek_fds: "kfds (snd (k_lseek K d off wh k)) = kfds k"
    and k_pwrite_fds: "kfds (snd (k_pwrite K d bs off k)) = kfds k"
    and k_fstat_fds: "kfds (snd (k_fstat K d k)) = kfds k"
    and k_fsync_fds: "kfds (snd (k_fsync K d k)) = kfds k"
    and k_pread_length: "k_pread K d len off k = (Inr bs, k') \<Longrightarrow> length bs \<le> len"
    and k_pwrite_length: "k_pwrite K d bs off k = (Inr cnt, k') \<Longrightarrow> cnt \<le> length bs"
begin

lemmas kfds_simps = k_chmod_fds k_chown_fds k_link_fds k_lstat_fds k_mkdir_fds k_readdir_fds k_readlink_fds
  k_unlink_fds k_rmdir_fds k_rename_fds k_symlink_fds k_truncate_fds k_utimensat_fds k_pread_fds
  k_lseek_fds k_pwrite_fds k_fstat_fds k_fsync_fds

lemma pread_loop_fds: "kfds (snd (pread_loop K d len off acc k)) = kfds k"
proof (induction len arbitrary: off acc k rule: less_induct)
  case (less len)
  obtain x k' where r: "k_pread K d len off k = (x, k')" by fastforce
  then have "kfds k' = kfds k" using k_pread_fds [of d len off k] by simp
  with r less show ?case
    by (simp add: pread_loop.simps [of K d len] split: sum.splits)
qed

lemma pwrite_loop_fds: "kfds (snd (pwrite_loop K d bs off n k)) = kfds k"
proof (induction bs arbitrary: off n k rule: length_induct)
  case (1 bs)
  obtain x k' where r: "k_pwrite K d bs off k = (x, k')" by fastforce
  then have "kfds k' = kfds k" using k_pwrite_fds [of d bs off k] by simp
  with r 1 show ?case
    by (simp add: pwrite_loop.simps [of K d bs] split: sum.splits)
qed


text \<open>\<^verbatim>\<open>ReadAt\<close> over such a kernel returns a buffer of the length asked for and a count
  within it.\<close>

lemma pread_loop_length:
  "pread_loop K d len off acc k = ((bs, err), k') \<Longrightarrow> length bs \<le> length acc + len"
proof (induction len arbitrary: off acc k rule: less_induct)
  case (less len)
  show ?case
  proof (cases "len = 0")
    case True
    with less.prems show ?thesis by (simp add: pread_loop.simps)
  next
    case False
    obtain x k1 where r: "k_pread K d len off k = (x, k1)" by fastforce
    show ?thesis
    proof (cases x)
      case (Inl e)
      with False r less.prems show ?thesis by (simp add: pread_loop.simps [of K d len])
    next
      case (Inr cs)
      with r have "length cs \<le> len" using k_pread_length by blast
      with Inr False r less.prems less.IH [of "len - length cs"] show ?thesis
        by (cases "cs = []") (fastforce simp: pread_loop.simps [of K d len])+
    qed
  qed
qed

lemma os_ReadAt_bounds:
  assumes "os_ReadAt K f len off w = ((n, buf, err), w')"
  shows "0 \<le> n \<and> nat n \<le> length buf \<and> length buf = len"
proof (cases "sint off < 0 \<or> len = 0 \<or> sysfd f w = None")
  case True
  with assms show ?thesis by (auto simp: os_ReadAt_def split: if_splits)
next
  case False
  then obtain d where "sysfd f w = Some d" by auto
  moreover obtain bs e k' where r: "pread_loop K d len off [] (kern w) = ((bs, e), k')"
    by (metis prod.collapse)
  ultimately show ?thesis
    using False assms pread_loop_length [OF r] by (auto simp: os_ReadAt_def)
qed

end

subsection \<open>\<^verbatim>\<open>osFS\<close> over a POSIX kernel\<close>

text \<open>Well-formed worlds: objects not yet created are absent, the open ones own distinct
  descriptors, and the kernel's table holds these and the descriptors \<open>base\<close> that the process was
  started with, no others.\<close>

definition os_wf :: "uintptr set \<Rightarrow> ('k \<Rightarrow> uintptr set) \<Rightarrow> 'k os_world \<Rightarrow> bool" where
  "os_wf base kfds w \<longleftrightarrow>
     (\<forall>i \<ge> next_obj w. objs w i = None) \<and>
     (\<forall>i d. sysfd i w = Some d \<longrightarrow> d \<notin> base) \<and>
     (\<forall>i j d. sysfd i w = Some d \<longrightarrow> sysfd j w = Some d \<longrightarrow> i = j) \<and>
     kfds (kern w) = base \<union> {d. \<exists>i. sysfd i w = Some d}"

definition os_open :: "'k os_world \<Rightarrow> nat set" where
  "os_open w = {f. sysfd f w \<noteq> None}"

lemma sysfd_kern [simp]: "sysfd f (w\<lparr> kern := k \<rparr>) = sysfd f w"
  by (simp add: sysfd_def)

lemma os_same_kern:
  "kfds k' = kfds (kern w) \<Longrightarrow> same_files (osFile K) (os_wf base kfds) os_open w (w\<lparr> kern := k' \<rparr>)"
  by (simp add: same_files_def os_wf_def os_open_def osFile_def os_Fd_def)

locale os_files = posix_kernel K kfds
  for K :: "'k kernel" and kfds :: "'k \<Rightarrow> uintptr set" +
  fixes base :: "uintptr set" and syscall :: errno_names and sc :: syscall_flags
begin

lemma same_kern: "kfds k' = kfds (kern w) \<Longrightarrow> same_files (osFile K) (os_wf base kfds) os_open w (w\<lparr> kern := k' \<rparr>)"
  by (rule os_same_kern)

lemma k_fds_after:
  "k_lstat K n k = (x, k') \<Longrightarrow> kfds k' = kfds k" "k_readdir K n k = (y, k') \<Longrightarrow> kfds k' = kfds k"
  "k_readlink K n k = (t, k') \<Longrightarrow> kfds k' = kfds k" "k_unlink K n k = (r, k') \<Longrightarrow> kfds k' = kfds k"
  "k_rmdir K n k = (r, k') \<Longrightarrow> kfds k' = kfds k" "k_rename K n n' k = (r, k') \<Longrightarrow> kfds k' = kfds k"
  "k_utimensat K n ts k = (r, k') \<Longrightarrow> kfds k' = kfds k"
  "k_lseek K d off wh k = (z, k') \<Longrightarrow> kfds k' = kfds k" "k_fstat K d k = (x, k') \<Longrightarrow> kfds k' = kfds k"
  "pread_loop K d len off acc k = (u, k') \<Longrightarrow> kfds k' = kfds k"
  "pwrite_loop K d bs off m k = (v, k') \<Longrightarrow> kfds k' = kfds k"
  using k_lstat_fds k_readdir_fds k_readlink_fds k_unlink_fds k_rmdir_fds k_rename_fds k_utimensat_fds
    k_lseek_fds k_fstat_fds pread_loop_fds pwrite_loop_fds by (metis snd_conv)+

lemma path_call_same:
  assumes "\<And>k. kfds (snd (call k)) = kfds k"
  shows "same_files (osFile K) (os_wf base kfds) os_open w (snd (path_call oper n call w))"
  using assms [of "kern w"] by (auto simp: path_call_def split: prod.splits intro: same_kern)

lemma link_call_same:
  assumes "\<And>k. kfds (snd (call k)) = kfds k"
  shows "same_files (osFile K) (os_wf base kfds) os_open w (snd (link_call oper n n' call w))"
  using assms [of "kern w"] by (auto simp: link_call_def split: prod.splits intro: same_kern)

lemma lstat_same: "same_files (osFile K) (os_wf base kfds) os_open w (snd (os_Lstat K n w))"
  by (auto simp: os_Lstat_def split: prod.splits sum.splits dest: k_fds_after intro: same_kern)

lemma readdir_same: "same_files (osFile K) (os_wf base kfds) os_open w (snd (os_ReadDir K n w))"
  by (auto simp: os_ReadDir_def split: prod.splits sum.splits dest: k_fds_after intro: same_kern)

lemma readlink_same: "same_files (osFile K) (os_wf base kfds) os_open w (snd (os_Readlink K n w))"
  by (auto simp: os_Readlink_def split: prod.splits sum.splits dest: k_fds_after intro: same_kern)

lemma remove_same: "same_files (osFile K) (os_wf base kfds) os_open w (snd (os_Remove syscall K n w))"
  by (auto simp: os_Remove_def split: prod.splits option.splits dest!: k_fds_after intro: same_kern)

lemma rename_same: "same_files (osFile K) (os_wf base kfds) os_open w (snd (os_Rename syscall K n n' w))"
proof -
  have step: "same_files (osFile K) (os_wf base kfds) os_open w
      (snd (link_call ''rename'' a b (k_rename K a b) (w\<lparr> kern := k' \<rparr>)))" if "kfds k' = kfds (kern w)" for k' a b
    by (rule same_files_trans [OF same_kern [OF that] link_call_same]) (rule k_rename_fds)
  show ?thesis
    unfolding os_Rename_def
    by (auto split: prod.splits sum.splits dest!: k_fds_after intro: same_kern step)
qed

lemma utimes_same: "same_files (osFile K) (os_wf base kfds) os_open w (snd (syscall_UtimesNano syscall K n ts w))"
  by (auto simp: syscall_UtimesNano_def split: prod.splits dest: k_fds_after intro: same_kern)

lemma readat_same: "same_files (osFile K) (os_wf base kfds) os_open w (snd (os_ReadAt K f len off w))"
  by (auto simp: os_ReadAt_def split: prod.splits option.splits dest: k_fds_after intro: same_kern)

lemma writeat_same: "same_files (osFile K) (os_wf base kfds) os_open w (snd (os_WriteAt K f bs off w))"
  by (auto simp: os_WriteAt_def split: prod.splits option.splits dest: k_fds_after intro: same_kern)

lemma seek_same: "same_files (osFile K) (os_wf base kfds) os_open w (snd (os_Seek K f off wh w))"
  by (auto simp: os_Seek_def split: prod.splits option.splits sum.splits dest: k_fds_after intro: same_kern)

lemma stat_same: "same_files (osFile K) (os_wf base kfds) os_open w (snd (os_Stat K f w))"
  by (auto simp: os_Stat_def split: prod.splits option.splits sum.splits dest: k_fds_after intro: same_kern)

lemma sync_same: "same_files (osFile K) (os_wf base kfds) os_open w (snd (os_Sync K f w))"
  by (auto simp: os_Sync_def k_fsync_fds split: option.splits intro: path_call_same)

lemmas os_calls_same = lstat_same readdir_same readlink_same remove_same rename_same utimes_same readat_same
  writeat_same seek_same stat_same sync_same

lemma os_open_ok:
  assumes "os_OpenFile sc K n fl p w = (Inr f, w')" and "os_wf base kfds w"
  shows "os_wf base kfds w' \<and> f \<notin> os_open w \<and> os_open w' = insert f (os_open w) \<and>
     (\<forall>g \<in> os_open w. os_Fd g w' = os_Fd g w \<and> os_Fd g w \<noteq> os_Fd f w')"
proof -
  obtain d k' where op: "k_open K n (fl OR O_CLOEXEC) (syscallMode p) (kern w) = (Inr d, k')"
    using assms(1) by (auto simp: os_OpenFile_def split: prod.splits sum.splits)
  note fresh = k_open_ok [OF op]
  have w': "f = next_obj w" "kern w' = k'" "next_obj w' = Suc (next_obj w)"
    "\<And>i. sysfd i w' = (if i = next_obj w then Some d else sysfd i w)"
    "\<And>i. i \<noteq> next_obj w \<Longrightarrow> objs w' i = objs w i"
    using assms(1) op by (auto simp: os_OpenFile_def sysfd_def)
  have none: "sysfd (next_obj w) w = None"
    using assms(2) by (simp add: os_wf_def sysfd_def)
  have fds: "d \<noteq> d'" if "sysfd i w = Some d'" for i d'
    using that fresh assms(2) by (auto simp: os_wf_def)
  have "{d. \<exists>i. sysfd i w' = Some d} = insert d {d. \<exists>i. sysfd i w = Some d}"
    using none by (auto simp: w'(4)) (metis option.distinct(1))
  then have "os_wf base kfds w'"
    using assms(2) fresh fds unfolding os_wf_def w'(2,3,4)
    by (auto simp: w'(5) split: if_splits)
  moreover have "f \<notin> os_open w" "os_open w' = insert f (os_open w)"
    using none by (auto simp: os_open_def w')
  moreover have "os_Fd g w' = os_Fd g w \<and> os_Fd g w \<noteq> os_Fd f w'" if "g \<in> os_open w" for g
    using that none fds [of g d] by (auto simp: os_open_def os_Fd_def w')
  ultimately show ?thesis by blast
qed

lemma os_close_open:
  assumes "os_Close K f w = (r, w')" and "os_wf base kfds w" and "f \<in> os_open w"
  shows "os_wf base kfds w' \<and> os_open w' = os_open w - {f} \<and>
     (\<forall>g \<in> os_open w - {f}. os_Fd g w' = os_Fd g w)"
proof -
  from assms(3) obtain d where d: "sysfd f w = Some d" by (auto simp: os_open_def)
  with assms(2) have "d \<in> kfds (kern w)" by (auto simp: os_wf_def)
  moreover obtain q k1 where kc: "k_close K d (kern w) = (q, k1)" by fastforce
  ultimately have k1: "kfds k1 = kfds (kern w) - {d}" using k_close_fds by (metis snd_conv)
  have eq: "w' = w\<lparr> kern := k1, objs := (objs w)(f := map_option (\<lambda>obj. obj\<lparr> of_sysfd := None \<rparr>) (objs w f)) \<rparr>"
    using assms(1) d kc by (simp add: os_Close_def)
  have k: "kfds (kern w') = kfds (kern w) - {d}" by (simp add: eq k1)
  have w': "next_obj w' = next_obj w" "\<And>i. sysfd i w' = (if i = f then None else sysfd i w)"
    "\<And>i. objs w' i = None \<longleftrightarrow> objs w i = None"
    by (simp_all add: eq sysfd_def split: option.split)
  have "{e. \<exists>i. sysfd i w' = Some e} = {e. \<exists>i. sysfd i w = Some e} - {d}"
    using assms(2) d by (auto simp: w'(2) os_wf_def) (metis option.inject)
  moreover have "d \<notin> base" using assms(2) d by (auto simp: os_wf_def)
  ultimately have "os_wf base kfds w'"
    using assms(2) d unfolding os_wf_def k w' by (auto split: if_splits)
  then show ?thesis by (auto simp: os_open_def os_Fd_def w')
qed

end

sublocale os_files \<subseteq> os: descriptor_files "osFS syscall sc K" "osFile K" "os_wf base kfds" os_open
proof (unfold_locales, goal_cases)
  case (1 n fl p w f w')
  then show ?case using os_open_ok by (simp add: osFS_def)
next
  case (2 n fl p w e w')
  then show ?case
    by (auto simp: osFS_def os_OpenFile_def split: prod.splits sum.splits dest!: k_open_err intro: same_kern)
next
  case (3 f w r w')
  then show ?case using os_close_open by simp
next
  case (10 n w ds w' d v)
  then obtain m where "dent_Info d = os_Lstat K (n @ ''/'' @ m)"
    by (auto simp: osFS_def os_ReadDir_def split: prod.splits sum.splits)
  then show ?case by (simp add: lstat_same)
qed (simp_all add: osFS_def kfds_simps path_call_same link_call_same os_calls_same)

context os_files
begin

lemma osFS_descriptor_files: "descriptor_files (osFS syscall sc K) (osFile K) (os_wf base kfds) os_open"
  by (rule os.descriptor_files_axioms)

end

end
