(* ===== verification/Os_Data.thy ===== *)
theory Os_Data
  imports Os_Layer "HOL-Library.Sublist"
begin

text \<open>
  The bytes of a file. A kernel may transfer fewer bytes than it was asked to; the loops of
  \<^verbatim>\<open>os.File\<close> make up for it. The locale \<open>file_data\<close> states what a kernel promises
  of a single \<^verbatim>\<open>pread\<close> and \<^verbatim>\<open>pwrite\<close>, and the lemmas derive what
  \<^verbatim>\<open>ReadAt\<close> and \<^verbatim>\<open>WriteAt\<close> promise the satellite.
\<close>

subsection \<open>Overwriting\<close>

definition overwrite :: "byte list \<Rightarrow> nat \<Rightarrow> byte list \<Rightarrow> byte list" where
  "overwrite data off bs = take off (data @ replicate (off - length data) 0) @ bs @ drop (off + length bs) data"

lemma length_overwrite: "length (overwrite data off bs) = max (length data) (off + length bs)"
  by (simp add: overwrite_def)

lemma take_drop_overwrite: "take (length bs) (drop off (overwrite data off bs)) = bs"
proof -
  have "length (take off (data @ replicate (off - length data) 0)) = off" by simp
  then show ?thesis by (simp add: overwrite_def)
qed

lemma overwrite_Nil: "off \<le> length data \<Longrightarrow> overwrite data off [] = data"
  by (simp add: overwrite_def)

lemma overwrite_append:
  "overwrite (overwrite data off bs) (off + length bs) cs = overwrite data off (bs @ cs)"
proof -
  define p where "p = take off (data @ replicate (off - length data) 0)"
  have p: "length p = off" by (simp add: p_def)
  have ow: "overwrite data off xs = p @ xs @ drop (off + length xs) data" for xs
    by (simp add: overwrite_def p_def)
  have "overwrite (overwrite data off bs) (off + length bs) cs
      = take (off + length bs) (overwrite data off bs) @ cs @ drop (off + length bs + length cs) (overwrite data off bs)"
    by (simp add: overwrite_def [of "overwrite data off bs"] length_overwrite)
  then show ?thesis by (simp add: ow p add.commute add.left_commute)
qed

subsection \<open>The contract\<close>

locale file_data =
  fixes K :: "'k kernel" and contents :: "'k \<Rightarrow> uintptr \<Rightarrow> byte list option"
  assumes pread_data: "k_pread K d len off k = (Inr bs, k') \<Longrightarrow> contents k d = Some data \<Longrightarrow> 0 \<le> sint off \<Longrightarrow>
      0 < len \<Longrightarrow> contents k' d = Some data \<and> length bs \<le> len \<and> prefix bs (drop (nat (sint off)) data) \<and>
      (bs = [] \<longrightarrow> length data \<le> nat (sint off))"
    and pwrite_data: "k_pwrite K d bs off k = (Inr n, k') \<Longrightarrow> contents k d = Some data \<Longrightarrow> 0 \<le> sint off \<Longrightarrow>
      bs \<noteq> [] \<Longrightarrow> 0 < n \<and> n \<le> length bs \<and> contents k' d = Some (overwrite data (nat (sint off)) (take n bs))"
begin

text \<open>Advancing an offset within the range of \<^verbatim>\<open>int64\<close>.\<close>

lemma sint_advance:
  assumes "0 \<le> sint (off :: int64)" and "sint off + int n < 2 ^ 63"
  shows "sint (off + of_nat n) = sint off + int n"
proof -
  have "off + of_nat n = word_of_int (sint off + int n)" by (simp add: wi_hom_syms)
  moreover have "sint (word_of_int (sint off + int n) :: int64) = sint off + int n"
    using assms by (simp only: sint_sbintrunc') (simp add: signed_take_bit_int_eq_self)
  ultimately show ?thesis by (simp only:)
qed

text \<open>After a short transfer the loop goes on behind the bytes it has read.\<close>

lemma read_advance:
  assumes "prefix cs (drop (nat (sint off)) data)" and "cs \<noteq> []" and "0 \<le> sint (off :: int64)" and "length data < 2 ^ 63"
    and "length cs \<le> len"
  shows "0 \<le> sint (off + of_nat (length cs))" and "nat (sint (off + of_nat (length cs))) = nat (sint off) + length cs"
    and "nat (sint off) + length cs \<le> length data"
    and "cs @ drop (nat (sint off) + length cs) data = drop (nat (sint off)) data"
    and "take len (drop (nat (sint off)) data) = cs @ take (len - length cs) (drop (nat (sint off) + length cs) data)"
proof -
  from assms(1) obtain z where z: "drop (nat (sint off)) data = cs @ z" by (auto simp: prefix_def)
  show le: "nat (sint off) + length cs \<le> length data"
    using prefix_length_le [OF assms(1)] assms(2) by (cases cs) simp_all
  then have "sint off + int (length cs) < 2 ^ 63" using assms(3,4) by simp
  then have "sint (off + of_nat (length cs)) = sint off + int (length cs)" using sint_advance assms(3) by blast
  with assms(3) show "0 \<le> sint (off + of_nat (length cs))" "nat (sint (off + of_nat (length cs))) = nat (sint off) + length cs"
    by simp_all
  have "drop (length cs) (drop (nat (sint off)) data) = z" unfolding z by simp
  then have z': "drop (nat (sint off) + length cs) data = z" by (simp only: drop_drop add.commute)
  with z show "cs @ drop (nat (sint off) + length cs) data = drop (nat (sint off)) data" by simp
  show "take len (drop (nat (sint off)) data) = cs @ take (len - length cs) (drop (nat (sint off) + length cs) data)"
    using assms(5) unfolding z z' by simp
qed

text \<open>The loop of \<^verbatim>\<open>ReadAt\<close>: the bytes asked for, the end of the file, or an error of the
  kernel.\<close>

lemma pread_loop_data:
  assumes "pread_loop K d len off acc k = ((bs, err), k')" and "contents k d = Some data"
    and "0 \<le> sint off" and "length data < 2 ^ 63"
  shows "(err = None \<and> bs = acc @ take len (drop (nat (sint off)) data) \<and> len \<le> length data - nat (sint off)) \<or>
     (err = Some EOF \<and> bs = acc @ drop (nat (sint off)) data \<and> length data - nat (sint off) < len) \<or>
     (\<exists>e len' off' k1 k2. err = Some (Errno e) \<and> contents k1 d = Some data \<and> k_pread K d len' off' k1 = (Inl e, k2))"
  using assms
proof (induction len arbitrary: off acc k rule: less_induct)
  case (less len)
  show ?case
  proof (cases "len = 0")
    case True
    with less.prems(1) show ?thesis by (simp add: pread_loop.simps)
  next
    case False
    obtain x k1 where r: "k_pread K d len off k = (x, k1)" by fastforce
    show ?thesis
    proof (cases x)
      case (Inl e)
      with False r less.prems(1) have "err = Some (Errno e)" by (simp add: pread_loop.simps [of K d len])
      with r Inl less.prems(2) show ?thesis by blast
    next
      case (Inr cs)
      with r False have cs: "contents k1 d = Some data" "length cs \<le> len" "prefix cs (drop (nat (sint off)) data)"
        "cs = [] \<longrightarrow> length data \<le> nat (sint off)"
        using pread_data [OF _ less.prems(2,3)] by auto
      show ?thesis
      proof (cases "cs = []")
        case True
        with False r Inr cs(4) less.prems(1) show ?thesis by (simp add: pread_loop.simps [of K d len])
      next
        case cons: False
        note adv = read_advance [OF cs(3) cons less.prems(3,4) cs(2)]
        have loop: "pread_loop K d (len - length cs) (off + of_nat (length cs)) (acc @ cs) k1 = ((bs, err), k')"
          using False r Inr cons less.prems(1) by (simp add: pread_loop.simps [of K d len])
        show ?thesis
          using less.IH [OF _ loop cs(1) _ less.prems(4)] False cons cs(2) adv(1,3)
          unfolding adv(2) adv(5) by (auto simp: adv(4))
      qed
    qed
  qed
qed

lemma pread_loop_keeps:
  "contents k d = Some data \<Longrightarrow> 0 \<le> sint off \<Longrightarrow> pread_loop K d len off acc k = ((bs, None), k') \<or>
     pread_loop K d len off acc k = ((bs, Some EOF), k') \<Longrightarrow> length data < 2 ^ 63 \<Longrightarrow> contents k' d = Some data"
proof (induction len arbitrary: off acc k rule: less_induct)
  case (less len)
  obtain x k1 where r: "k_pread K d len off k = (x, k1)" by fastforce
  show ?case
  proof (cases "len = 0 \<or> (\<exists>e. x = Inl e)")
    case True
    with less.prems r show ?thesis by (auto simp: pread_loop.simps [of K d len] split: if_splits)
  next
    case False
    then obtain cs where x: "x = Inr cs" by (cases x) auto
    have cs: "contents k1 d = Some data" "prefix cs (drop (nat (sint off)) data)"
      using pread_data [OF r [unfolded x] less.prems(1,2)] False by auto
    show ?thesis
    proof (cases "cs = []")
      case True
      with False less.prems(3) r x cs show ?thesis by (auto simp: pread_loop.simps [of K d len])
    next
      case cons: False
      have "nat (sint off) + length cs \<le> length data"
        using prefix_length_le [OF cs(2)] cons by (cases cs) simp_all
      then have "0 \<le> sint (off + of_nat (length cs))"
        using sint_advance [of off "length cs"] less.prems(2,4) by simp
      moreover have "pread_loop K d len off acc k = pread_loop K d (len - length cs) (off + of_nat (length cs)) (acc @ cs) k1"
        using False r x cons by (simp add: pread_loop.simps [of K d len])
      ultimately show ?thesis
        using less.IH [of "len - length cs", OF _ cs(1)] less.prems(3,4) False cons by simp
    qed
  qed
qed

text \<open>The loop of \<^verbatim>\<open>WriteAt\<close> writes everything or stops at an error of the kernel.\<close>

lemma pwrite_loop_data:
  assumes "pwrite_loop K d bs off m k = ((n, err), k')" and "contents k d = Some data"
    and "0 \<le> sint off" and "sint off + int (length bs) < 2 ^ 63" and "bs \<noteq> []"
  shows "(err = None \<and> n = m + length bs \<and> contents k' d = Some (overwrite data (nat (sint off)) bs)) \<or>
     (\<exists>e bs' off' k1 k2. err = Some (Errno e) \<and> contents k1 d \<noteq> None \<and> k_pwrite K d bs' off' k1 = (Inl e, k2))"
  using assms
proof (induction bs arbitrary: off m k data rule: length_induct)
  case (1 bs)
  obtain x k1 where r: "k_pwrite K d bs off k = (x, k1)" by fastforce
  show ?case
  proof (cases x)
    case (Inl e)
    with r 1(2,6) have "err = Some (Errno e)" by (simp add: pwrite_loop.simps [of K d bs])
    with r Inl 1(3) show ?thesis by blast
  next
    case (Inr i)
    with r have i: "0 < i" "i \<le> length bs" "contents k1 d = Some (overwrite data (nat (sint off)) (take i bs))"
      using pwrite_data [OF _ 1(3,4,6)] by auto
    have loop: "pwrite_loop K d (drop i bs) (off + of_nat i) (m + i) k1 = ((n, err), k')"
      using r Inr i 1(2,6) by (simp add: pwrite_loop.simps [of K d bs])
    show ?thesis
    proof (cases "i = length bs")
      case True
      with loop i show ?thesis by (simp add: pwrite_loop.simps [of K d "[]"])
    next
      case False
      have adv: "sint (off + of_nat i) = sint off + int i"
        using sint_advance [of off i] i(2) 1(4,5) by simp
      then have adv': "nat (sint (off + of_nat i)) = nat (sint off) + length (take i bs)"
        using 1(4) i(2) by simp
      have ow: "overwrite (overwrite data (nat (sint off)) (take i bs)) (nat (sint (off + of_nat i))) (drop i bs)
          = overwrite data (nat (sint off)) bs"
        unfolding adv' overwrite_append by simp
      have "length (drop i bs) < length bs" "drop i bs \<noteq> []" "m + i + length (drop i bs) = m + length bs"
        "sint (off + of_nat i) + int (length (drop i bs)) < 2 ^ 63" "0 \<le> sint (off + of_nat i)"
        using i False 1(4,5) adv by simp_all
      with 1(1) loop i(3) show ?thesis unfolding ow [symmetric] by metis
    qed
  qed
qed

end

end
