(* ===== verification/Mem_Kernel.thy ===== *)
theory Mem_Kernel
  imports Os_Data Fd_Table
begin

text \<open>
  A small executable kernel that meets the contract \<open>posix_kernel\<close>: files, directories and
  symbolic links with data and attributes under full path names (one flat name space), hard links,
  a table of descriptors with a limit, offsets, and the \<^verbatim>\<open>errno\<close> values of Linux. A
  single \<^verbatim>\<open>pread\<close> or \<^verbatim>\<open>pwrite\<close> transfers at most four bytes. The
  concrete runs of the development are evaluated on the satellite over this kernel; the theorems
  hold for any kernel with the contract.
\<close>

record mem_node =
  n_mode :: uint32
  n_uid :: uint32
  n_gid :: uint32
  n_atime :: Timespec
  n_mtime :: Timespec
  n_data :: "byte list"
  n_target :: string

record mem =
  names :: "(string \<times> nat) list"
  inodes :: "nat \<Rightarrow> mem_node option"
  next_ino :: nat
  descs :: "uintptr \<Rightarrow> (nat \<times> int64) option"
  nofile :: nat

abbreviation S_IFMT :: uint32 where "S_IFMT \<equiv> 0xF000"

lemma linux_errnos [simp]:
  "linux_errno ''EPERM'' = 1" "linux_errno ''ENOENT'' = 2" "linux_errno ''EIO'' = 5"
  "linux_errno ''EBADF'' = 9" "linux_errno ''EEXIST'' = 17" "linux_errno ''ENOTDIR'' = 20"
  "linux_errno ''EISDIR'' = 21" "linux_errno ''EINVAL'' = 22" "linux_errno ''EMFILE'' = 24"
  "linux_errno ''ENOTEMPTY'' = 39"
  by (simp_all add: errno_const_def linux_errno_table_def)

lemma linux_syms [simp]:
  "ErrnoToSym linux_errno 1 = ''EPERM''" "ErrnoToSym linux_errno 2 = ''ENOENT''" "ErrnoToSym linux_errno 5 = ''EIO''"
  "ErrnoToSym linux_errno 9 = ''EBADF''" "ErrnoToSym linux_errno 17 = ''EEXIST''"
  "ErrnoToSym linux_errno 20 = ''ENOTDIR''" "ErrnoToSym linux_errno 21 = ''EISDIR''"
  "ErrnoToSym linux_errno 22 = ''EINVAL''" "ErrnoToSym linux_errno 24 = ''EMFILE''"
  "ErrnoToSym linux_errno 39 = ''ENOTEMPTY''"
  by (simp_all add: linux_err.ErrnoToSym_listed ErrnoToSym_cases_def flip: linux_errnos)

definition mem_find :: "string \<Rightarrow> mem \<Rightarrow> (nat \<times> mem_node) option" where
  "mem_find p k = (case map_of (names k) p of
     None \<Rightarrow> None | Some i \<Rightarrow> map_option (Pair i) (inodes k i))"

definition mem_stat :: "mem \<Rightarrow> nat \<Rightarrow> mem_node \<Rightarrow> Stat_t" where
  "mem_stat k i nd = \<lparr>
     s_Ino = of_nat i, s_Nlink = of_nat (length (filter (\<lambda>(p, j). j = i) (names k))),
     s_Mode = n_mode nd, s_Uid = n_uid nd, s_Gid = n_gid nd,
     s_Size = of_nat (length (n_data nd)), s_Blksize = 4096,
     s_Blocks = of_nat ((length (n_data nd) + 511) div 512),
     s_Atim = n_atime nd, s_Mtim = n_mtime nd, s_Ctim = n_mtime nd \<rparr>"

definition on_node :: "string \<Rightarrow> (mem_node \<Rightarrow> mem_node) \<Rightarrow> mem \<Rightarrow> errno option \<times> mem" where
  "on_node p f k = (case mem_find p k of
     None \<Rightarrow> (Some (linux_errno ''ENOENT''), k)
   | Some (i, nd) \<Rightarrow> (None, k\<lparr> inodes := (inodes k)(i \<mapsto> f nd) \<rparr>))"

definition new_node :: "string \<Rightarrow> mem_node \<Rightarrow> mem \<Rightarrow> mem" where
  "new_node p nd k = k\<lparr> names := names k @ [(p, next_ino k)], inodes := (inodes k)(next_ino k \<mapsto> nd),
     next_ino := Suc (next_ino k) \<rparr>"

definition blank_node :: mem_node where
  "blank_node = \<lparr> n_mode = 0, n_uid = 0, n_gid = 0, n_atime = \<lparr> ts_Sec = 0, ts_Nsec = 0 \<rparr>,
     n_mtime = \<lparr> ts_Sec = 0, ts_Nsec = 0 \<rparr>, n_data = [], n_target = '''' \<rparr>"

definition mem_create :: "string \<Rightarrow> mem_node \<Rightarrow> mem \<Rightarrow> errno option \<times> mem" where
  "mem_create p nd k = (if map_of (names k) p \<noteq> None then (Some (linux_errno ''EEXIST''), k)
     else (None, new_node p nd k))"

definition mem_desc :: "uintptr \<Rightarrow> mem \<Rightarrow> (nat \<times> int64 \<times> mem_node) option" where
  "mem_desc d k = (case descs k d of None \<Rightarrow> None
     | Some (i, off) \<Rightarrow> map_option (\<lambda>nd. (i, off, nd)) (inodes k i))"

definition mem_alloc :: "nat \<Rightarrow> mem \<Rightarrow> (errno + uintptr) \<times> mem" where
  "mem_alloc i k = (case find (\<lambda>d. descs k d = None) (map of_nat [3..<nofile k]) of
     None \<Rightarrow> (Inl (linux_errno ''EMFILE''), k)
   | Some d \<Rightarrow> (Inr d, k\<lparr> descs := (descs k)(d \<mapsto> (i, 0)) \<rparr>))"

definition mem_open :: "string \<Rightarrow> go_int \<Rightarrow> uint32 \<Rightarrow> mem \<Rightarrow> (errno + uintptr) \<times> mem" where
  "mem_open p fl m k = (case mem_find p k of
     None \<Rightarrow> if fl AND 0x40 = 0 then (Inl (linux_errno ''ENOENT''), k)
       else (case mem_alloc (next_ino k) k of
               (Inl e, k') \<Rightarrow> (Inl e, k')
             | (Inr d, k') \<Rightarrow> (Inr d, new_node p (blank_node\<lparr> n_mode := 0x8000 OR m \<rparr>) k'))
   | Some (i, nd) \<Rightarrow>
       if fl AND 0x40 \<noteq> 0 \<and> fl AND 0x80 \<noteq> 0 then (Inl (linux_errno ''EEXIST''), k)
       else if n_mode nd AND S_IFMT = 0x4000 \<and> fl AND 0x3 \<noteq> 0 then (Inl (linux_errno ''EISDIR''), k)
       else mem_alloc i (if fl AND 0x200 \<noteq> 0 then k\<lparr> inodes := (inodes k)(i \<mapsto> nd\<lparr> n_data := [] \<rparr>) \<rparr> else k))"

definition mem_close :: "uintptr \<Rightarrow> mem \<Rightarrow> errno option \<times> mem" where
  "mem_close d k = (if descs k d = None then (Some (linux_errno ''EBADF''), k)
     else (None, k\<lparr> descs := (descs k)(d := None) \<rparr>))"

definition mem_pread :: "uintptr \<Rightarrow> nat \<Rightarrow> int64 \<Rightarrow> mem \<Rightarrow> (errno + byte list) \<times> mem" where
  "mem_pread d len off k = (case mem_desc d k of
     None \<Rightarrow> (Inl (linux_errno ''EBADF''), k)
   | Some (i, _, nd) \<Rightarrow> if n_mode nd AND S_IFMT = 0x4000 then (Inl (linux_errno ''EISDIR''), k)
       else (Inr (take (min len 4) (drop (nat (sint off)) (n_data nd))), k))"

definition mem_pwrite :: "uintptr \<Rightarrow> byte list \<Rightarrow> int64 \<Rightarrow> mem \<Rightarrow> (errno + nat) \<times> mem" where
  "mem_pwrite d bs off k = (case mem_desc d k of
     None \<Rightarrow> (Inl (linux_errno ''EBADF''), k)
   | Some (i, _, nd) \<Rightarrow> (Inr (min (length bs) 4),
       k\<lparr> inodes := (inodes k)(i \<mapsto> nd\<lparr> n_data := overwrite (n_data nd) (nat (sint off)) (take 4 bs) \<rparr>) \<rparr>))"

definition mem_lseek :: "uintptr \<Rightarrow> int64 \<Rightarrow> go_int \<Rightarrow> mem \<Rightarrow> (errno + int64) \<times> mem" where
  "mem_lseek d off wh k = (case mem_desc d k of
     None \<Rightarrow> (Inl (linux_errno ''EBADF''), k)
   | Some (i, pos, nd) \<Rightarrow>
       (let base = (if wh = 0 then 0 else if wh = 1 then sint pos else int (length (n_data nd)));
            new = base + sint off
        in if wh > 2 \<or> new < 0 then (Inl (linux_errno ''EINVAL''), k) else (Inr (word_of_int new), k)))"

definition mem_unlink :: "string \<Rightarrow> mem \<Rightarrow> errno option \<times> mem" where
  "mem_unlink p k = (case mem_find p k of
     None \<Rightarrow> (Some (linux_errno ''ENOENT''), k)
   | Some (i, nd) \<Rightarrow> if n_mode nd AND S_IFMT = 0x4000 then (Some (linux_errno ''EISDIR''), k)
       else (None, k\<lparr> names := filter (\<lambda>(q, _). q \<noteq> p) (names k) \<rparr>))"

definition below :: "string \<Rightarrow> string \<Rightarrow> bool" where
  "below p q \<longleftrightarrow> HasPrefix q (p @ ''/'')"

definition mem_rmdir :: "string \<Rightarrow> mem \<Rightarrow> errno option \<times> mem" where
  "mem_rmdir p k = (case mem_find p k of
     None \<Rightarrow> (Some (linux_errno ''ENOENT''), k)
   | Some (i, nd) \<Rightarrow> if n_mode nd AND S_IFMT \<noteq> 0x4000 then (Some (linux_errno ''ENOTDIR''), k)
       else if list_ex (\<lambda>(q, _). below p q) (names k) then (Some (linux_errno ''ENOTEMPTY''), k)
       else (None, k\<lparr> names := filter (\<lambda>(q, _). q \<noteq> p) (names k) \<rparr>))"

definition mem_rename :: "string \<Rightarrow> string \<Rightarrow> mem \<Rightarrow> errno option \<times> mem" where
  "mem_rename p q k = (case map_of (names k) p of
     None \<Rightarrow> (Some (linux_errno ''ENOENT''), k)
   | Some i \<Rightarrow> (None, k\<lparr> names := filter (\<lambda>(r, _). r \<noteq> p \<and> r \<noteq> q) (names k) @ [(q, i)] \<rparr>))"

definition mem_link :: "string \<Rightarrow> string \<Rightarrow> mem \<Rightarrow> errno option \<times> mem" where
  "mem_link p q k = (case map_of (names k) p of
     None \<Rightarrow> (Some (linux_errno ''ENOENT''), k)
   | Some i \<Rightarrow> if map_of (names k) q \<noteq> None then (Some (linux_errno ''EEXIST''), k)
       else (None, k\<lparr> names := names k @ [(q, i)] \<rparr>))"

definition mem_readlink :: "string \<Rightarrow> mem \<Rightarrow> (errno + string) \<times> mem" where
  "mem_readlink p k = (case mem_find p k of
     None \<Rightarrow> (Inl (linux_errno ''ENOENT''), k)
   | Some (i, nd) \<Rightarrow> if n_mode nd AND S_IFMT = 0xA000 then (Inr (n_target nd), k)
       else (Inl (linux_errno ''EINVAL''), k))"

definition mem_readdir :: "string \<Rightarrow> mem \<Rightarrow> (errno + string list) \<times> mem" where
  "mem_readdir p k = (case mem_find p k of
     None \<Rightarrow> (Inl (linux_errno ''ENOENT''), k)
   | Some (i, nd) \<Rightarrow> if n_mode nd AND S_IFMT \<noteq> 0x4000 then (Inl (linux_errno ''ENOTDIR''), k)
       else (Inr (filter (\<lambda>q. CHR ''/'' \<notin> set q)
          (map (\<lambda>(q, _). drop (Suc (length p)) q) (filter (\<lambda>(q, _). below p q) (names k)))), k))"

definition set_time :: "Timespec \<Rightarrow> Timespec \<Rightarrow> Timespec" where
  "set_time new old = (if ts_Nsec new = UTIME_OMIT then old else new)"

definition mem_kernel :: "mem kernel" where
  "mem_kernel = \<lparr>
     k_chmod = (\<lambda>p m. on_node p (\<lambda>nd. nd\<lparr> n_mode := (n_mode nd AND S_IFMT) OR (m AND 0xFFF) \<rparr>)),
     k_chown = (\<lambda>p u g. on_node p (\<lambda>nd. nd\<lparr> n_uid := (if u = -1 then n_uid nd else ucast u),
        n_gid := (if g = -1 then n_gid nd else ucast g) \<rparr>)),
     k_link = mem_link,
     k_lstat = (\<lambda>p k. (case mem_find p k of None \<Rightarrow> Inl (linux_errno ''ENOENT'')
        | Some (i, nd) \<Rightarrow> Inr (mem_stat k i nd), k)),
     k_mkdir = (\<lambda>p m. mem_create p (blank_node\<lparr> n_mode := 0x4000 OR m \<rparr>)),
     k_open = mem_open,
     k_readdir = mem_readdir,
     k_readlink = mem_readlink,
     k_unlink = mem_unlink,
     k_rmdir = mem_rmdir,
     k_rename = mem_rename,
     k_symlink = (\<lambda>target p. mem_create p (blank_node\<lparr> n_mode := 0xA1FF, n_target := target \<rparr>)),
     k_truncate = (\<lambda>p sz k. if sint sz < 0 then (Some (linux_errno ''EINVAL''), k)
        else on_node p (\<lambda>nd. nd\<lparr> n_data := take (nat (sint sz)) (n_data nd
          @ replicate (nat (sint sz) - length (n_data nd)) 0) \<rparr>) k),
     k_utimensat = (\<lambda>p ts. on_node p (\<lambda>nd. nd\<lparr> n_atime := set_time (ts ! 0) (n_atime nd),
        n_mtime := set_time (ts ! 1) (n_mtime nd) \<rparr>)),
     k_close = mem_close,
     k_pread = mem_pread,
     k_lseek = mem_lseek,
     k_pwrite = mem_pwrite,
     k_fstat = (\<lambda>d k. (case mem_desc d k of None \<Rightarrow> Inl (linux_errno ''EBADF'')
        | Some (i, _, nd) \<Rightarrow> Inr (mem_stat k i nd), k)),
     k_fsync = (\<lambda>d k. (if descs k d = None then Some (linux_errno ''EBADF'') else None, k)) \<rparr>"

definition mem_fds :: "mem \<Rightarrow> uintptr set" where
  "mem_fds k = dom (descs k)"

lemmas mem_defs = on_node_def new_node_def mem_create_def mem_open_def mem_close_def mem_pread_def
  mem_pwrite_def mem_lseek_def mem_unlink_def mem_rmdir_def mem_rename_def mem_link_def mem_readlink_def
  mem_readdir_def

lemma mem_alloc_Inr:
  "mem_alloc i k = (Inr d, k') \<Longrightarrow> descs k d = None \<and> k' = k\<lparr> descs := (descs k)(d \<mapsto> (i, 0)) \<rparr>"
  by (auto simp: mem_alloc_def find_Some_iff split: option.splits)

lemma mem_alloc_Inl: "mem_alloc i k = (Inl e, k') \<Longrightarrow> k' = k"
  by (auto simp: mem_alloc_def split: option.splits)

lemma mem_open_Inr: "mem_open p fl m k = (Inr d, k') \<Longrightarrow> d \<notin> mem_fds k \<and> mem_fds k' = insert d (mem_fds k)"
  by (fastforce simp: mem_open_def mem_fds_def new_node_def split: option.splits prod.splits sum.splits if_splits
    dest!: mem_alloc_Inr)

lemma mem_open_Inl: "mem_open p fl m k = (Inl e, k') \<Longrightarrow> mem_fds k' = mem_fds k"
  by (auto simp: mem_open_def mem_fds_def split: option.splits prod.splits sum.splits if_splits
    dest!: mem_alloc_Inl)

interpretation memk: os_files mem_kernel mem_fds "{}" linux_errno linux_flags
proof (unfold_locales, goal_cases)
  case (1 n fl m k d k')
  then show ?case using mem_open_Inr by (simp add: mem_kernel_def)
next
  case (2 n fl m k e k')
  then show ?case using mem_open_Inl by (simp add: mem_kernel_def)
qed (auto simp: mem_kernel_def mem_fds_def mem_defs Let_def dom_def split: option.splits prod.splits if_splits)

text \<open>The bytes behind a descriptor of a file that is not a directory.\<close>

definition mem_contents :: "mem \<Rightarrow> uintptr \<Rightarrow> byte list option" where
  "mem_contents k d = (case mem_desc d k of
     None \<Rightarrow> None
   | Some (i, _, nd) \<Rightarrow> if n_mode nd AND S_IFMT = 0x4000 then None else Some (n_data nd))"

interpretation memk: file_data mem_kernel mem_contents
proof (unfold_locales, goal_cases)
  case (1 d len off k bs k' data)
  then have "bs = take (min len 4) (drop (nat (sint off)) data)" "k' = k"
    by (auto simp: mem_kernel_def mem_pread_def mem_contents_def split: option.splits if_splits)
  with 1 show ?case by (simp add: take_is_prefix)
next
  case (2 d bs off k n k' data)
  have "take (min (length bs) 4) bs = take 4 bs" by (simp add: min_def)
  with 2 show ?case
    by (auto simp: mem_kernel_def mem_pwrite_def mem_contents_def mem_desc_def
      split: option.splits if_splits prod.splits)
qed

subsection \<open>The satellite over this kernel\<close>

definition os_env :: "'k kernel \<Rightarrow> (nat, 'k os_world) satellite_env" where
  "os_env K = \<lparr> env_errno = linux_errno, env_flags = linux_flags, env_strerror = (\<lambda>_. ''errno''),
     dfFS = osFS linux_errno linux_flags K, fileOps = osFile K,
     StatAtime = s_Atim, StatMtime = s_Mtim, StatCtime = s_Ctim \<rparr>"

lemma os_env_sel [simp]:
  "env_errno (os_env K) = linux_errno" "env_flags (os_env K) = linux_flags"
  "dfFS (os_env K) = osFS linux_errno linux_flags K" "fileOps (os_env K) = osFile K"
  by (simp_all add: os_env_def)

lemma os_env_satellite_files: "posix_kernel K kfds \<Longrightarrow> satellite_files (os_env K) (os_wf base kfds) os_open"
  unfolding satellite_files_def os_env_sel by (intro os_files.osFS_descriptor_files) (simp add: os_files_def)

interpretation memsat: satellite_files "os_env mem_kernel" "os_wf {} mem_fds" os_open
  using memk.os.descriptor_files_axioms by (simp add: satellite_files_def os_env_def)

definition mem0 :: mem where
  "mem0 = \<lparr> names = [(''/'', 2), (''/a'', 11), (''/b'', 12), (''/d'', 13), (''/l'', 14), (''/d/x'', 15)],
     inodes = (\<lambda>_. None)(
       2 \<mapsto> blank_node\<lparr> n_mode := 0x41ED \<rparr>,
       11 \<mapsto> blank_node\<lparr> n_mode := 0x81A4, n_data := [104, 101, 108, 108, 111] \<rparr>,
       12 \<mapsto> blank_node\<lparr> n_mode := 0x81A4, n_data := [98] \<rparr>,
       13 \<mapsto> blank_node\<lparr> n_mode := 0x41ED \<rparr>,
       14 \<mapsto> blank_node\<lparr> n_mode := 0xA1FF, n_target := ''/a'' \<rparr>,
       15 \<mapsto> blank_node\<lparr> n_mode := 0x81A4, n_data := [120, 121] \<rparr>),
     next_ino = 20, descs = (\<lambda>_. None), nofile = 8 \<rparr>"

definition world0 :: "mem os_world" where
  "world0 = \<lparr> kern = mem0, objs = (\<lambda>_. None), next_obj = 0 \<rparr>"

lemma fd_inv_start: "fd_inv (os_env mem_kernel) (os_wf {} mem_fds) os_open (NewDockerFuseFSOps, world0)"
  by (simp add: fd_inv_def os_wf_def os_open_def sysfd_def world0_def mem0_def mem_fds_def NewDockerFuseFSOps_def)

text \<open>The equations a concrete run evaluates.\<close>

lemmas mem_run = handlers os_env_def osFS_def os_OpenFile_def os_path_defs os_file_defs os_Close_def os_Fd_def
  mem_kernel_def mem_defs mem_find_def mem_desc_def mem_alloc_def mem_stat_def world0_def mem0_def
  NewDockerFuseFSOps_def sysfd_def file_name_def append_mode_def link_target_def copy_stat_def
  O_CLOEXEC_def syscallMode_def SAFlagsToSystem_def linux_flags_def sa_flag_defs blank_node_def
  upt_conv_Cons Let_def rpc_error_def rpc_errno_def unit_result_def pread_loop.simps pwrite_loop.simps
  wrapErr_def overwrite_def

end
