(* ===== verification/Node_Props.thy ===== *)
theory Node_Props
  imports Fuse_Node Client_Calls Mem_Kernel
begin

text \<open>
  Properties of the nodes: the paths they stand for, the file types they report, and what becomes
  of file handles.
\<close>

subsection \<open>A mounted container\<close>

definition root_node :: "client_env \<Rightarrow> ('f, 'w) satellite_env \<Rightarrow> string \<Rightarrow> ('f, 'w) conn Node" where
  "root_node E env path = NewNode (client_interface E (mounted env)) path ''''"

definition posix_fuse :: fuse_consts where
  "posix_fuse = \<lparr> S_IFDIR = 0x4000, S_IFLNK = 0xA000, S_IFIFO = 0x1000, S_IFREG = 0x8000, FOPEN_DIRECT_IO = 1 \<rparr>"

definition linux_client :: client_env where
  "linux_client = \<lparr> ce_errno = linux_errno, ce_flags = linux_flags \<rparr>"

text \<open>The equations that evaluate an operation from the node down to the handler.\<close>

lemmas stack_run = root_node_def NewNode_def client_interface_def client_op_defs mounted_calls
  go_then_def child_path_def linux_client_def

subsection \<open>Paths\<close>

text \<open>Looking up one name after the other; the result is the last node.\<close>

fun lookups :: "fuse_consts \<Rightarrow> 's Node \<Rightarrow> string list \<Rightarrow> 's \<Rightarrow> 's Node option \<times> 's" where
  "lookups fc node [] s = (Some node, s)"
| "lookups fc node (n # ns) s = (case Node_Lookup fc node n (FuseAttr zero_statAttr) s of
     (Val (Some (child, _), _, _), s') \<Rightarrow> lookups fc child ns s'
   | (_, s') \<Rightarrow> (None, s'))"

lemma Node_Lookup_child:
  assumes "Node_Lookup fc node n out s = (Val (Some (child, st), e, out'), s')"
  shows "node_fullPath child = child_path (node_fullPath node) n \<and> fuseDockerClient child = fuseDockerClient node"
  using assms by (auto simp: Node_Lookup_def go_then_def NewNode_def child_path_def Let_def
    split: prod.splits go.splits if_splits)

lemma lookups_path:
  "lookups fc node ns s = (Some nd, s') \<Longrightarrow>
   node_fullPath nd = foldl child_path (node_fullPath node) ns \<and> fuseDockerClient nd = fuseDockerClient node"
  by (induction ns arbitrary: node s)
    (auto split: prod.splits go.splits option.splits dest!: Node_Lookup_child)


definition mem_root :: "string \<Rightarrow> (nat, mem os_world) conn Node" where
  "mem_root = root_node linux_client (os_env mem_kernel)"


text \<open>C35. \<^verbatim>\<open>Rename\<close> sends the new name as a path relative to the root of the mount, without
  the path of the mount: \<^verbatim>\<open>Inode.Path(nil)\<close> is relative (its elements joined by slashes),
  while the old name is sent as a full path. The satellite resolves it against its working
  directory.\<close>

theorem rename_target_is_relative:
  assumes "emb_Path newParent = join_with ''/'' es" and "\<forall>e \<in> set es. plain e" and "plain newName"
  shows "\<exists>q. Node_Rename node name newParent newName flags s
      = i_rename (fuseDockerClient node) (child_path (node_fullPath node) name) q flags s \<and>
    q = join_with ''/'' (es @ [newName]) \<and> hd q \<noteq> CHR ''/''"
proof -
  define fs where "fs = es @ [newName]"
  have fs: "fs \<noteq> []" "\<forall>e \<in> set fs. plain e" using assms(2,3) by (auto simp: fs_def)
  have join: "Join [emb_Path newParent, newName] = Clean (join_with ''/'' fs)"
  proof (cases "es = []")
    case True
    with assms(1,3) show ?thesis by (simp add: Join_def fs_def plain_def)
  next
    case False
    have "hd es \<noteq> []" using False assms(2) by (auto simp: plain_def)
    then have "emb_Path newParent \<noteq> []" using join_with_hd [OF False, of "''/''"] assms(1) by simp
    with False assms(1) show ?thesis by (simp add: Join_def fs_def join_with_append)
  qed
  have clean: "Clean (join_with ''/'' fs) = join_with ''/'' fs"
    using Clean_relative_path [of fs 0 fs] fs by simp
  have "hd fs \<noteq> []" "CHR ''/'' \<notin> set (hd fs)" using fs by (auto simp: plain_def)
  then have "hd (join_with ''/'' fs) \<noteq> CHR ''/''" using join_with_hd [OF fs(1), of "''/''"] by auto
  with join clean show ?thesis by (simp add: Node_Rename_def child_path_def fs_def Let_def)
qed

definition mount_parent :: "'s Node \<Rightarrow> 's InodeEmbedder" where
  "mount_parent root = \<lparr> emb_node = Some root, emb_Mode = 0x4000, emb_Path = '''' \<rparr>"

theorem rename_target_is_relative_witness:
  "case snd (Node_Rename (mem_root ''/d'') ''x'' (mount_parent (mem_root ''/d'')) ''y'' 0
      (Running (NewDockerFuseFSOps, world0))) of
     Running (fso, w) \<Rightarrow> map_of (names (kern w)) ''y'' = Some 15 \<and> map_of (names (kern w)) ''/d/y'' = None
   | Down w \<Rightarrow> False"
proof -
  have "Node_Rename (mem_root ''/d'') ''x'' (mount_parent (mem_root ''/d'')) ''y'' 0 s
      = i_rename (fuseDockerClient (mem_root ''/d'')) (child_path (node_fullPath (mem_root ''/d'')) ''x'') ''y'' 0 s" for s
    using rename_target_is_relative [of "mount_parent (mem_root ''/d'')" "[]" "''y''" "mem_root ''/d''" "''x''" 0 s]
    by (simp add: mount_parent_def plain_def)
  moreover have "case snd (i_rename (fuseDockerClient (mem_root ''/d'')) (child_path (node_fullPath (mem_root ''/d'')) ''x'') ''y'' 0
      (Running (NewDockerFuseFSOps, world0))) of
     Running (fso, w) \<Rightarrow> map_of (names (kern w)) ''y'' = Some 15 \<and> map_of (names (kern w)) ''/d/y'' = None
   | Down w \<Rightarrow> False"
  proof -
    have "Clean (Join [''/d'', ''x'']) = ''/d/x''" by code_simp
    then show ?thesis
      by (simp add: mem_root_def stack_run reply_of_def Rename_def unit_result_def os_env_def osFS_def os_Rename_def link_call_def
        mem_kernel_def mem_find_def mem_rename_def world0_def mem0_def)
  qed
  ultimately show ?thesis by simp
qed

subsection \<open>File types\<close>

text \<open>C38. \<^verbatim>\<open>Lookup\<close> reports directories, symbolic links, named pipes and regular files as
  what they are. Block devices and sockets, whose type contains the bit of a directory, become
  directories, and character devices regular files.\<close>

theorem lookup_file_types:
  assumes "S_IFDIR fc = 0x4000" and "S_IFLNK fc = 0xA000" and "S_IFIFO fc = 0x1000" and "S_IFREG fc = 0x8000"
  shows "(m AND 0xF000 = 0x4000 \<longrightarrow> stable_mode fc m = S_IFDIR fc) \<and>
    (m AND 0xF000 = 0xA000 \<longrightarrow> stable_mode fc m = S_IFLNK fc) \<and>
    (m AND 0xF000 = 0x1000 \<longrightarrow> stable_mode fc m = S_IFIFO fc) \<and>
    (m AND 0xF000 = 0x8000 \<longrightarrow> stable_mode fc m = S_IFREG fc) \<and>
    (m AND 0xF000 = 0x6000 \<longrightarrow> stable_mode fc m = S_IFDIR fc) \<and>
    (m AND 0xF000 = 0xC000 \<longrightarrow> stable_mode fc m = S_IFDIR fc) \<and>
    (m AND 0xF000 = 0x2000 \<longrightarrow> stable_mode fc m = S_IFREG fc)"
proof -
  have "m AND 0x4000 = (m AND 0xF000) AND 0x4000" "m AND 0xA000 = (m AND 0xF000) AND 0xA000"
    "m AND 0x1000 = (m AND 0xF000) AND 0x1000"
    by (simp_all add: and.assoc)
  then show ?thesis using assms by (auto simp: stable_mode_def)
qed

theorem lookup_file_types_witness:
  "stable_mode posix_fuse 0xC1ED = 0x4000 \<and> stable_mode posix_fuse 0x81A4 = 0x8000"
  using lookup_file_types [of posix_fuse "0xC1ED"] lookup_file_types [of posix_fuse "0x81A4"]
  by (simp add: posix_fuse_def)

subsection \<open>File handles\<close>

text \<open>Closing through the whole stack.\<close>

lemma root_close:
  "i_close (fuseDockerClient (root_node E env p)) (Some fd) (Running st) =
    errno_only E (reply_of (Close env \<lparr> cl_FD = fd \<rparr> st))"
  by (simp add: root_node_def NewNode_def client_interface_def close_def with_fd_def mounted_calls)

lemma client_EINVAL:
  assumes "errno_consts (env_errno env)"
  shows "rpc_errno env ''EINVAL'' = Err ''errno: EINVAL''" "RPCErrorStringTOErrno client ''errno: EINVAL'' = client ''EINVAL''"
proof -
  have m: "(''EINVAL'', ''EINVAL'') \<in> set ErrnoToSym_cases" by (simp add: ErrnoToSym_cases_def)
  show "rpc_errno env ''EINVAL'' = Err ''errno: EINVAL''"
    using errno_consts.ErrnoToSym_listed [OF assms m] by (simp add: rpc_errno_def rpc_error_def)
  show "RPCErrorStringTOErrno client ''errno: EINVAL'' = client ''EINVAL''"
    using RPCErrorStringTOErrno_errno [of client "''EINVAL''"] SymToErrno_ErrnoToSym_cases [OF m, of client] by simp
qed

lemma Close_absent: "fds fso fd = None \<Longrightarrow> Close env \<lparr> cl_FD = fd \<rparr> (fso, w) = (rpc_errno env ''EINVAL'', fso, w)"
  by (simp add: Close_def)

lemma fds_after_Close: "fds (fst (snd (Close env \<lparr> cl_FD = fd \<rparr> (fso, w)))) = (fds fso)(fd := None)"
  by (auto simp: Close_def split: option.splits prod.splits)

lemma root_read_absent:
  assumes "errno_consts (env_errno env)" and "errno_consts (ce_errno E)" and "fds fso fd = None"
  shows "Node_Read (root_node E env p) (Some fd) n off (Running (fso, w)) = (Val (None, ce_errno E ''EINVAL''), Running (fso, w))"
proof -
  have "ce_errno E ''EINVAL'' \<noteq> 0"
    using errno_consts.RPCErrorStringTOErrno_nonzero [OF assms(2), of "''errno: EINVAL''"] client_EINVAL(2) [OF assms(1)] by simp
  then show ?thesis by (simp add: Node_Read_def stack_run reply_of_def Read_def assms(3) client_EINVAL [OF assms(1)])
qed

lemma root_close_absent:
  assumes "errno_consts (env_errno env)" and "fds fso fd = None"
  shows "i_close (fuseDockerClient (root_node E env p)) (Some fd) (Running (fso, w)) = (Val (ce_errno E ''EINVAL''), Running (fso, w))"
  by (simp add: root_close reply_of_def errno_only_def on_result_def Close_absent assms(2) client_EINVAL [OF assms(1)])

lemma root_close_removes:
  assumes "i_close (fuseDockerClient (root_node E env p)) (Some fd) (Running st) = (Val e, Running st')"
  shows "fds (fst st') fd = None"
proof -
  obtain r fso' w' where c: "Close env \<lparr> cl_FD = fd \<rparr> (fst st, snd st) = (r, fso', w')" by (metis prod.collapse)
  with assms have "st' = (fso', w')" by (auto simp: root_close reply_of_def errno_only_def on_result_def split: result.splits)
  then show ?thesis using fds_after_Close [of env fd "fst st" "snd st"] c by simp
qed

lemma root_open:
  assumes "Node_Open fc (root_node E env q) flags (Running st0) = (Val (Some fd, fl, e), Running st)"
  shows "\<exists>f. fds (fst st) fd = Some f"
proof -
  obtain fso0 w0 where st0: "st0 = (fso0, w0)" by fastforce
  obtain reply fso w where "Open env \<lparr> op_FullPath = q, op_SAFlags = SystemToSAFlags (ce_flags E) (ucast flags), op_Mode = flags \<rparr> (fso0, w0)
      = (Ok reply, fso, w)" "op_FD reply = fd" "st = (fso, w)"
    using assms by (auto simp: st0 Node_Open_def stack_run reply_of_def split: prod.splits result.splits)
  then show ?thesis by (auto elim!: Open_OkE)
qed

text \<open>C39. Both \<^verbatim>\<open>Flush\<close> and \<^verbatim>\<open>Release\<close> close the remote file, so the second
  of them finds it gone: \<^verbatim>\<open>Release\<close> after \<^verbatim>\<open>Flush\<close> reports
  \<^verbatim>\<open>EINVAL\<close>, and so does a read through another descriptor of the same open file, which
  \<^verbatim>\<open>Flush\<close> does not end.\<close>

theorem flush_ends_the_handle:
  assumes "errno_consts (env_errno env)" and "errno_consts (ce_errno E)"
    and "Node_Flush (root_node E env p) (Some fd) (Running st) = (Val e, Running st')"
  shows "Node_Release (root_node E env p) (Some fd) (Running st') = (Val (ce_errno E ''EINVAL''), Running st') \<and>
    Node_Read (root_node E env p) (Some fd) n off (Running st') = (Val (None, ce_errno E ''EINVAL''), Running st')"
proof -
  have "fds (fst st') fd = None" using assms(3) by (simp add: Node_Flush_def root_close_removes)
  then show ?thesis
    using root_close_absent [OF assms(1), of "fst st'" fd E p "snd st'"]
      root_read_absent [OF assms(1,2), of "fst st'" fd p n off "snd st'"] by (simp add: Node_Release_def)
qed

text \<open>C40. Descriptors are reused: when the number of a flushed handle has been given to another
  file in between, the late \<^verbatim>\<open>Release\<close> of the first handle closes that other file, and
  reading it through its own handle, still in use, fails with \<^verbatim>\<open>EINVAL\<close>.\<close>

theorem late_release_closes_another_file:
  assumes "errno_consts (env_errno env)" and "errno_consts (ce_errno E)"
    and "Node_Flush (root_node E env p) (Some fd) (Running st0) = (Val e0, Running st1)"
    and "Node_Open fc (root_node E env q) flags (Running st1) = (Val (Some fd, fl, e1), Running st2)"
    and "Node_Release (root_node E env p) (Some fd) (Running st2) = (Val e2, Running st3)"
  shows "fds (fst st1) fd = None \<and> (\<exists>f. fds (fst st2) fd = Some f) \<and> fds (fst st3) fd = None \<and>
    Node_Read (root_node E env q) (Some fd) n off (Running st3) = (Val (None, ce_errno E ''EINVAL''), Running st3)"
proof -
  have gone: "fds (fst st3) fd = None" "fds (fst st1) fd = None"
    using assms(3,5) by (simp_all add: Node_Flush_def Node_Release_def root_close_removes)
  then show ?thesis
    using root_open [OF assms(4)] root_read_absent [OF assms(1,2) gone(1), of q n off "snd st3"] by simp
qed

text \<open>A run: open one file, flush it, open another, release the first.\<close>

lemma mem_reuse_run:
  obtains st0 st1 st2 st3 e0 e2 where
    "Node_Flush (mem_root ''/a'') (Some 3) (Running st0) = (Val e0, Running st1)"
    and "Node_Open posix_fuse (mem_root ''/b'') 0 (Running st1) = (Val (Some 3, 1, 0), Running st2)"
    and "Node_Release (mem_root ''/a'') (Some 3) (Running st2) = (Val e2, Running st3)"
proof -
  define st0 where "st0 = snd (Open (os_env mem_kernel) \<lparr> op_FullPath = ''/a'', op_SAFlags = 0, op_Mode = 0 \<rparr> (NewDockerFuseFSOps, world0))"
  define st1 where "st1 = snd (Close (os_env mem_kernel) \<lparr> cl_FD = 3 \<rparr> st0)"
  define st2 where "st2 = snd (Open (os_env mem_kernel) \<lparr> op_FullPath = ''/b'', op_SAFlags = 0, op_Mode = 0 \<rparr> st1)"
  define st3 where "st3 = snd (Close (os_env mem_kernel) \<lparr> cl_FD = 3 \<rparr> st2)"
  have c0: "Close (os_env mem_kernel) \<lparr> cl_FD = 3 \<rparr> st0 = (Ok (), st1)"
    by (simp add: st1_def st0_def mem_run)
  have o1: "\<exists>reply. Open (os_env mem_kernel) \<lparr> op_FullPath = ''/b'', op_SAFlags = 0, op_Mode = 0 \<rparr> st1 = (Ok reply, st2) \<and> op_FD reply = 3"
    by (simp add: st2_def st1_def st0_def mem_run)
  have c2: "Close (os_env mem_kernel) \<lparr> cl_FD = 3 \<rparr> st2 = (Ok (), st3)"
    by (simp add: st3_def st2_def st1_def st0_def mem_run)
  have "Node_Flush (mem_root ''/a'') (Some 3) (Running st0) = (Val 0, Running st1)"
    using c0 by (simp add: Node_Flush_def mem_root_def root_close reply_of_def errno_only_def on_result_def)
  moreover have "Node_Open posix_fuse (mem_root ''/b'') 0 (Running st1) = (Val (Some 3, 1, 0), Running st2)"
    using o1 by (auto simp: Node_Open_def mem_root_def stack_run reply_of_def posix_fuse_def SystemToSAFlags_def linux_flags_def sa_flag_defs)
  moreover have "Node_Release (mem_root ''/a'') (Some 3) (Running st2) = (Val 0, Running st3)"
    using c2 by (simp add: Node_Release_def mem_root_def root_close reply_of_def errno_only_def on_result_def)
  ultimately show thesis by (rule that)
qed

theorem flush_ends_the_handle_witness:
  "\<exists>st. Node_Release (mem_root ''/a'') (Some 3) (Running st) = (Val 22, Running st)"
proof (rule mem_reuse_run)
  fix st0 st1 e0
  assume "Node_Flush (mem_root ''/a'') (Some 3) (Running st0) = (Val e0, Running st1)"
  from flush_ends_the_handle [OF _ _ this [unfolded mem_root_def]]
  have "Node_Release (mem_root ''/a'') (Some 3) (Running st1) = (Val 22, Running st1)"
    by (simp add: mem_root_def linux_client_def linux_err.errno_consts_axioms)
  then show ?thesis by (rule exI)
qed

theorem late_release_closes_another_file_witness:
  "\<exists>st. Node_Read (mem_root ''/b'') (Some 3) 1 0 (Running st) = (Val (None, 22), Running st)"
proof (rule mem_reuse_run)
  fix st0 st1 st2 st3 e0 e2
  assume "Node_Flush (mem_root ''/a'') (Some 3) (Running st0) = (Val e0, Running st1)"
    and "Node_Open posix_fuse (mem_root ''/b'') 0 (Running st1) = (Val (Some 3, 1, 0), Running st2)"
    and "Node_Release (mem_root ''/a'') (Some 3) (Running st2) = (Val e2, Running st3)"
  note run = this [unfolded mem_root_def]
  have "errno_consts (env_errno (os_env mem_kernel))" "errno_consts (ce_errno linux_client)"
    by (simp_all add: linux_client_def linux_err.errno_consts_axioms)
  from late_release_closes_another_file [OF this run, of 1 0]
  have "Node_Read (mem_root ''/b'') (Some 3) 1 0 (Running st3) = (Val (None, 22), Running st3)"
    by (simp add: mem_root_def linux_client_def)
  then show ?thesis by (rule exI)
qed

end
