(* ===== verification/Satellite_Data.thy ===== *)
theory Satellite_Data
  imports Mem_Kernel
begin

text \<open>
  The satellite over \<^verbatim>\<open>osFS\<close>: what its handlers do to the bytes and the modes of the
  files of the container, for any kernel with the contracts of \<open>posix_kernel\<close> and
  \<open>file_data\<close>.
\<close>

lemma rpc_error_Errno:
  "errno_of err = Some e \<Longrightarrow> rpc_error (os_env K) err = Err (''errno: '' @ ErrnoToSym linux_errno e)"
  by (simp add: rpc_error_def ErrnoToRPCErrorString_errno_of)

lemma rpc_error_EOF: "rpc_error (os_env K) EOF = Err ''EOF''"
  by (simp add: rpc_error_def ErrnoToRPCErrorString_no_errno errno_of_def)

lemma SAFlagsToSystem_append:
  assumes "open_flag_consts sc" and "x AND O_APPEND = O_APPEND"
  shows "SAFlagsToSystem sc x AND sys_O_APPEND sc \<noteq> 0"
proof -
  have "has_flag (SAFlagsToSystem sc x) (sys_of sc F_APPEND)"
    unfolding open_flag_consts.from_SA [OF assms(1)] has_flag_flag_or [OF open_flag_consts.flags_disjoint [OF assms(1)]]
    using assms(2) by (simp add: has_flag_def all_flags_def)
  moreover have "sys_of sc F_APPEND \<noteq> 0"
    using open_flag_consts.flags_disjoint [OF assms(1)] by (simp add: disjoint_flags_def del: sys_of.simps)
  ultimately show ?thesis by (simp add: has_flag_def)
qed

text \<open>After the file is opened, \<^verbatim>\<open>Open\<close> only looks at it.\<close>

lemma Open_os_objs:
  assumes "os_OpenFile linux_flags K (op_FullPath req) (SAFlagsToSystem linux_flags (op_SAFlags req)) (op_Mode req) w
      = (Inr f, w1)"
    and "Open (os_env K) req (fso, w) = (r, fso', w')" and "fds fso (os_Fd f w1) = None"
  shows "objs w' = objs w1"
proof -
  obtain y w2 where st: "os_Stat K f w1 = (y, w2)" by fastforce
  obtain t w3 where lt: "link_target (os_env K) (op_FullPath req) w2 = (t, w3)" by fastforce
  have "objs w2 = objs w1" using st by (auto simp: os_Stat_def split: option.splits prod.splits sum.splits)
  moreover have "objs w3 = objs w2"
    using lt by (auto simp: link_target_def osFS_def os_Readlink_def split: prod.splits sum.splits)
  ultimately show ?thesis
    using assms st lt by (auto simp: Open_def osFS_def Let_def split: sum.splits option.splits)
qed

subsection \<open>Reading\<close>

lemma Read_contents:
  assumes "file_data K contents" and "fds fso (re_FD req) = Some f" and "sysfd f w = Some d"
    and "contents (kern w) d = Some data" and "length data < 2 ^ 63"
    and "0 \<le> sint (re_Offset req)" and "0 < sint (re_Num req)"
  obtains (data) k' where "nat (sint (re_Offset req)) < length data" and "contents k' d = Some data"
      and "Read (os_env K) req (fso, w) =
        (Ok \<lparr> re_Data = take (nat (sint (re_Num req))) (drop (nat (sint (re_Offset req))) data) \<rparr>, fso, w\<lparr> kern := k' \<rparr>)"
    | (eof) k' where "length data \<le> nat (sint (re_Offset req))" and "contents k' d = Some data"
      and "Read (os_env K) req (fso, w) = (Err ''EOF'', fso, w\<lparr> kern := k' \<rparr>)"
    | (failed) e len off k1 k2 k' where "contents k1 d = Some data" and "k_pread K d len off k1 = (Inl e, k2)"
      and "Read (os_env K) req (fso, w) = (Err (''errno: '' @ ErrnoToSym linux_errno e), fso, w\<lparr> kern := k' \<rparr>)"
proof -
  define len off where "len = nat (sint (re_Num req))" and "off = nat (sint (re_Offset req))"
  obtain bs err k' where loop: "pread_loop K d len (re_Offset req) [] (kern w) = ((bs, err), k')"
    by (metis prod.collapse)
  have at: "os_ReadAt K f len (re_Offset req) w = ((int (length bs), bs @ replicate (len - length bs) 0,
      map_option (wrapErr ''read'' (file_name f w)) err), w\<lparr> kern := k' \<rparr>)"
    using assms(3,6,7) loop by (simp add: os_ReadAt_def len_def)
  have run: "Read (os_env K) req (fso, w) = (case map_option (wrapErr ''read'' (file_name f w)) err of
       Some e \<Rightarrow> if Error (env_strerror (os_env K)) e \<noteq> ''EOF'' \<or> bs = [] then (rpc_error (os_env K) e, fso, w\<lparr> kern := k' \<rparr>)
         else (Ok \<lparr> re_Data = bs \<rparr>, fso, w\<lparr> kern := k' \<rparr>)
     | None \<Rightarrow> (Ok \<lparr> re_Data = bs \<rparr>, fso, w\<lparr> kern := k' \<rparr>))"
    using assms(2,7) at by (simp add: Read_def len_def split: option.splits)
  have len: "0 < len" using assms(7) by (simp add: len_def)
  have keeps: "contents k' d = Some data" if "err = None \<or> err = Some EOF"
    using file_data.pread_loop_keeps [OF assms(1,4,6) _ assms(5)] loop that by blast
  consider "err = None" "bs = take len (drop off data)" "len \<le> length data - off"
    | "err = Some EOF" "bs = drop off data" "length data - off < len"
    | e len' off' k1 k2 where "err = Some (Errno e)" "contents k1 d = Some data" "k_pread K d len' off' k1 = (Inl e, k2)"
    using file_data.pread_loop_data [OF assms(1) loop assms(4,6,5)] unfolding off_def by auto
  then show thesis
  proof cases
    case 1
    with run len keeps data show thesis by (simp add: len_def off_def)
  next
    case 2
    then have "bs = take len (drop off data)" by simp
    with 2 run keeps data eof show thesis
      by (cases "off < length data") (simp_all add: wrapErr_def rpc_error_EOF len_def off_def)
  next
    case (3 e)
    have "errno_of (PathError ''read'' (file_name f w) (Errno e)) = Some e" by (simp add: errno_of_def)
    then have "Read (os_env K) req (fso, w) = (Err (''errno: '' @ ErrnoToSym linux_errno e), fso, w\<lparr> kern := k' \<rparr>)"
      using 3(1) run by (simp add: wrapErr_def rpc_error_Errno)
    with 3(2,3) failed show thesis by blast
  qed
qed


definition opened_world :: "string \<Rightarrow> uint16 \<Rightarrow> nat DockerFuseFSOps \<times> mem os_world" where
  "opened_world p fl = snd (Open (os_env mem_kernel) \<lparr> op_FullPath = p, op_SAFlags = fl, op_Mode = 0 \<rparr>
     (NewDockerFuseFSOps, world0))"

text \<open>The states after opening \<^verbatim>\<open>/a\<close>.\<close>

lemma opened_rdwr:
  assumes "st = opened_world ''/a'' O_RDWR"
  shows "fds (fst st) 3 = Some 0" "sysfd 0 (snd st) = Some 3" "\<not> append_mode 0 (snd st)"
    "mem_contents (kern (snd st)) 3 = Some [104, 101, 108, 108, 111]"
  unfolding assms by (simp_all add: opened_world_def mem_contents_def mem_run)


subsection \<open>Writing\<close>

lemma Write_contents:
  assumes "file_data K contents" and "fds fso (wr_FD req) = Some f" and "sysfd f w = Some d"
    and "\<not> append_mode f w" and "contents (kern w) d = Some data" and "wr_Data req \<noteq> []"
    and "0 \<le> sint (wr_Offset req)" and "sint (wr_Offset req) + int (length (wr_Data req)) < 2 ^ 63"
  obtains (stored) k' where "contents k' d = Some (overwrite data (nat (sint (wr_Offset req))) (wr_Data req))"
      and "Write (os_env K) req (fso, w) = (Ok \<lparr> wr_Num = of_nat (length (wr_Data req)) \<rparr>, fso, w\<lparr> kern := k' \<rparr>)"
    | (failed) e bs off k1 k2 k' where "contents k1 d \<noteq> None" and "k_pwrite K d bs off k1 = (Inl e, k2)"
      and "Write (os_env K) req (fso, w) = (Err (''errno: '' @ ErrnoToSym linux_errno e), fso, w\<lparr> kern := k' \<rparr>)"
proof -
  obtain n err k' where loop: "pwrite_loop K d (wr_Data req) (wr_Offset req) 0 (kern w) = ((n, err), k')"
    by (metis prod.collapse)
  have run: "Write (os_env K) req (fso, w) = (case map_option (wrapErr ''write'' (file_name f w)) err of
       Some e \<Rightarrow> (rpc_error (os_env K) e, fso, w\<lparr> kern := k' \<rparr>)
     | None \<Rightarrow> (Ok \<lparr> wr_Num = of_nat n \<rparr>, fso, w\<lparr> kern := k' \<rparr>))"
    using assms(2,3,4,6,7) loop by (simp add: Write_def os_WriteAt_def split: option.splits)
  consider "err = None" "n = length (wr_Data req)"
      "contents k' d = Some (overwrite data (nat (sint (wr_Offset req))) (wr_Data req))"
    | e bs' off' k1 k2 where "err = Some (Errno e)" "contents k1 d \<noteq> None" "k_pwrite K d bs' off' k1 = (Inl e, k2)"
    using file_data.pwrite_loop_data [OF assms(1) loop assms(5,7,8,6)] unfolding add_0 by blast
  then show thesis
  proof cases
    case 1
    with run stored show thesis by simp
  next
    case (2 e)
    have "errno_of (PathError ''write'' (file_name f w) (Errno e)) = Some e" by (simp add: errno_of_def)
    then have "Write (os_env K) req (fso, w) = (Err (''errno: '' @ ErrnoToSym linux_errno e), fso, w\<lparr> kern := k' \<rparr>)"
      using 2(1) run by (simp add: wrapErr_def rpc_error_Errno)
    with 2(2,3) failed show thesis by blast
  qed
qed



text \<open>C31. Every write through a descriptor opened with \<^verbatim>\<open>O_APPEND\<close> fails, with a text the
  client turns into \<^verbatim>\<open>EIO\<close>, and writes nothing: \<^verbatim>\<open>os.File.WriteAt\<close> refuses
  such files.\<close>

theorem append_writes_fail:
  assumes "Open (os_env K) req (fso, w) = (Ok reply, fso', w')" and "op_SAFlags req AND O_APPEND = O_APPEND"
    and "fds fso (op_FD reply) = None" and "wr_FD wr = op_FD reply"
  shows "\<exists>msg. Write (os_env K) wr (fso', w') = (Err msg, fso', w') \<and> RPCErrorStringTOErrno client msg = client ''EIO''"
proof -
  obtain f w1 where op: "os_OpenFile linux_flags K (op_FullPath req) (SAFlagsToSystem linux_flags (op_SAFlags req))
        (op_Mode req) w = (Inr f, w1)"
    and fd: "op_FD reply = os_Fd f w1" "fds fso' = (fds fso)(os_Fd f w1 \<mapsto> f)"
    using assms(1) by (auto simp: osFS_def elim!: Open_OkE)
  have "append_mode f w1" using op SAFlagsToSystem_append [OF linux_of.open_flag_consts_axioms assms(2)]
    by (auto simp: os_OpenFile_def append_mode_def split: prod.splits sum.splits)
  moreover have "objs w' = objs w1"
    using Open_os_objs [OF op assms(1)] assms(3) fd(1) by simp
  ultimately have "Write (os_env K) wr (fso', w') = (rpc_error (os_env K) errWriteAtInAppendMode, fso', w')"
    using assms(4) fd by (simp add: Write_def os_WriteAt_def append_mode_def)
  moreover have "rpc_error (os_env K) errWriteAtInAppendMode
      = Err (''unknown error: os: invalid use of WriteAt on file opened with O_APPEND'')"
    by (simp add: rpc_error_def errWriteAtInAppendMode_def)
  moreover have "RPCErrorStringTOErrno client ''unknown error: os: invalid use of WriteAt on file opened with O_APPEND''
      = client ''EIO''"
    by (simp add: RPCErrorStringTOErrno_def HasPrefix_def)
  ultimately show ?thesis by auto
qed

theorem append_writes_fail_witness:
  "\<exists>msg. Write (os_env mem_kernel) \<lparr> wr_FD = 3, wr_Offset = 5, wr_Data = [33] \<rparr> (opened_world ''/a'' (O_WRONLY OR O_APPEND))
     = (Err msg, opened_world ''/a'' (O_WRONLY OR O_APPEND)) \<and> RPCErrorStringTOErrno linux_errno msg = 5"
proof -
  define req where "req = \<lparr> op_FullPath = ''/a'', op_SAFlags = O_WRONLY OR O_APPEND, op_Mode = 0 \<rparr>"
  have "case fst (Open (os_env mem_kernel) req (NewDockerFuseFSOps, world0)) of Ok r \<Rightarrow> op_FD r = 3 | _ \<Rightarrow> False"
    unfolding req_def by code_simp
  then obtain reply fso' w' where o: "Open (os_env mem_kernel) req (NewDockerFuseFSOps, world0) = (Ok reply, fso', w')"
    and fd: "op_FD reply = 3"
    by (cases "Open (os_env mem_kernel) req (NewDockerFuseFSOps, world0)") (auto split: result.splits)
  have "op_SAFlags req AND O_APPEND = O_APPEND" by (simp add: req_def sa_flag_defs)
  with append_writes_fail [OF o, of "\<lparr> wr_FD = 3, wr_Offset = 5, wr_Data = [33] \<rparr>" linux_errno] fd o
  show ?thesis by (simp add: opened_world_def req_def NewDockerFuseFSOps_def)
qed



subsection \<open>Modes\<close>

text \<open>C33. Of a mode in the encoding of the kernel only the nine permission bits take effect:
  \<^verbatim>\<open>chmod\<close>, \<^verbatim>\<open>mkdir\<close> and \<^verbatim>\<open>open\<close> read it as an
  \<^verbatim>\<open>os.FileMode\<close>, which has the set-user-id, set-group-id and sticky bits elsewhere, so a
  request to set them is dropped.\<close>

theorem special_mode_bits_dropped:
  assumes "m < 2 ^ 16"
  shows "setattr_mode (os_env K) (SetMode m r) = path_call ''chmod'' (sa_FullPath r) (k_chmod K (sa_FullPath r) (m AND 0x1FF)) \<and>
    fs_Mkdir (dfFS (os_env K)) p m = path_call ''mkdir'' p (k_mkdir K p (m AND 0x1FF)) \<and>
    fs_OpenFile (dfFS (os_env K)) p fl m = fs_OpenFile (dfFS (os_env K)) p fl (m AND 0x1FF)"
proof -
  have "\<not> bit m n" if "16 \<le> n" for n
  proof -
    have "take_bit 16 (unat m) = unat m" using assms by (simp add: word_less_nat_alt take_bit_nat_eq_self_iff)
    then have "\<not> bit (unat m) n" using that by (metis bit_take_bit_iff not_less)
    then show ?thesis using bit_imp_le_length by (auto simp: bit_unsigned_iff)
  qed
  then have m: "syscallMode m = m AND 0x1FF" "syscallMode (m AND 0x1FF) = m AND 0x1FF"
    by (simp_all add: syscallMode_def bit_and_iff and.assoc)
  have "GetMode (SetMode m r) = (m, True)" by (rule mode_attr.get_put)
  moreover have "sa_FullPath (SetMode m r) = sa_FullPath r" by (simp add: SetMode_def)
  ultimately show ?thesis
    by (simp add: setattr_mode_def osFS_def m os_OpenFile_def fun_eq_iff)
qed

theorem special_mode_bits_dropped_witness:
  "setattr_mode (os_env mem_kernel) (SetMode 0xDED (new_SetAttrRequest ''/a''))
     = path_call ''chmod'' ''/a'' (k_chmod mem_kernel ''/a'' 0x1ED)"
  using special_mode_bits_dropped [of "0xDED" mem_kernel "new_SetAttrRequest ''/a''" "''/a''" 0]
  by (simp add: new_SetAttrRequest_def)

subsection \<open>A leak\<close>

text \<open>C34. When the file opens but cannot be examined, \<^verbatim>\<open>Open\<close> reports the error and
  keeps the file open and in its table, under a descriptor that no reply ever names.\<close>

theorem open_leaks_when_stat_fails:
  assumes "satellite_files env wfw opn" and "fd_inv env wfw opn (fso, w)"
    and "fs_OpenFile (dfFS env) (op_FullPath req) (SAFlagsToSystem (env_flags env) (op_SAFlags req)) (op_Mode req) w = (Inr f, w1)"
    and "f_Stat (fileOps env) f w1 = (Inl err, w2)"
  shows "Open env req (fso, w) = (rpc_error env err, fso\<lparr> fds := (fds fso)(f_Fd (fileOps env) f w1 \<mapsto> f) \<rparr>, w2) \<and>
    f \<notin> opn w \<and> f \<in> opn w2"
proof -
  have fresh: "fds fso (f_Fd (fileOps env) f w1) = None"
    using satellite_files.open_fresh [OF assms(1,2,3)] .
  have new: "f \<notin> opn w" "opn w1 = insert f (opn w)" "wfw w1"
    using descriptor_files.open_ok [OF assms(1) [unfolded satellite_files_def] assms(3) fd_inv_wf [OF assms(2)]] by auto
  moreover have "opn w2 = opn w1"
    using satellite_files.fstat_same [OF assms(1,4)] new(3) by (simp add: same_files_def)
  ultimately show ?thesis using assms(3,4) fresh by (simp add: Open_def Let_def)
qed

text \<open>The kernel with a device whose inodes cannot be read.\<close>

definition faulty_kernel :: "mem kernel" where
  "faulty_kernel = mem_kernel\<lparr> k_fstat := (\<lambda>d k. (Inl (linux_errno ''EIO''), k)) \<rparr>"

interpretation faulty: os_files faulty_kernel mem_fds "{}" linux_errno linux_flags
  using memk.os_files_axioms by (simp add: faulty_kernel_def os_files_def posix_kernel_def)

interpretation faultysat: satellite_files "os_env faulty_kernel" "os_wf {} mem_fds" os_open
  using faulty.os.descriptor_files_axioms by (simp add: satellite_files_def)

theorem open_leaks_when_stat_fails_witness:
  "\<exists>fso' w'. Open (os_env faulty_kernel) \<lparr> op_FullPath = ''/a'', op_SAFlags = O_RDONLY, op_Mode = 0 \<rparr>
      (NewDockerFuseFSOps, world0) = (Err ''errno: EIO'', fso', w') \<and> fds fso' 3 = Some 0 \<and> 0 \<in> os_open w'"
proof -
  define req where "req = \<lparr> op_FullPath = ''/a'', op_SAFlags = O_RDONLY, op_Mode = 0 \<rparr>"
  have inv: "fd_inv (os_env faulty_kernel) (os_wf {} mem_fds) os_open (NewDockerFuseFSOps, world0)"
    by (simp add: fd_inv_def os_wf_def os_open_def sysfd_def world0_def mem0_def mem_fds_def NewDockerFuseFSOps_def)
  obtain w1 where op: "fs_OpenFile (dfFS (os_env faulty_kernel)) (op_FullPath req)
      (SAFlagsToSystem (env_flags (os_env faulty_kernel)) (op_SAFlags req)) (op_Mode req) world0 = (Inr 0, w1)"
    and fd: "os_Fd 0 w1 = 3" and sysfd: "sysfd 0 w1 = Some 3"
    by (simp add: faulty_kernel_def req_def mem_run)
  have st: "f_Stat (fileOps (os_env faulty_kernel)) 0 w1 = (Inl (PathError ''stat'' (file_name 0 w1) (Errno 5)), w1)"
    by (simp add: os_Stat_def sysfd faulty_kernel_def)
  from open_leaks_when_stat_fails [OF faultysat.satellite_files_axioms inv op st] fd show ?thesis
    by (simp add: req_def rpc_error_Errno errno_of_def)
qed

end
