(* ===== verification/Satellite_Props.thy ===== *)
theory Satellite_Props
  imports Mem_Kernel
begin

text \<open>
  Properties of single handlers of the satellite, over any file system with the contract of
  \<open>descriptor_files\<close> or, where the Go packages matter, over \<^verbatim>\<open>osFS\<close> and any kernel.
\<close>

subsection \<open>Times\<close>

lemma sdiv_smod_floor:
  fixes x :: int
  shows "(if x smod 1000000000 < 0 then (x sdiv 1000000000 - 1, x smod 1000000000 + 1000000000)
     else (x sdiv 1000000000, x smod 1000000000)) = (x div 1000000000, x mod 1000000000)"
proof (cases "x \<ge> 0")
  case True
  then have "x sdiv 1000000000 = x div 1000000000" "x smod 1000000000 = x mod 1000000000"
    by (cases "x = 0"; simp add: signed_divide_int_def signed_modulo_int_def sgn_if)+
  then show ?thesis by (simp add: not_less)
next
  case False
  define y where "y = - x"
  have y: "0 < y" "x = - y" using False by (auto simp: y_def)
  then have sd: "x sdiv 1000000000 = - (y div 1000000000)"
    by (simp add: signed_divide_int_def sgn_if)
  have sm: "x smod 1000000000 = - (y mod 1000000000)"
    using y by (simp add: signed_modulo_int_def sgn_if)
  show ?thesis
  proof (cases "y mod 1000000000 = 0")
    case True
    then show ?thesis using y sd sm by (simp add: zmod_zminus1_eq_if zdiv_zminus1_eq_if)
  next
    case False
    moreover have "0 \<le> y mod 1000000000" by simp
    ultimately have "0 < y mod 1000000000" by linarith
    then show ?thesis using y sd sm False by (simp add: zmod_zminus1_eq_if zdiv_zminus1_eq_if)
  qed
qed

lemma NsecToTimespec_floor:
  "NsecToTimespec x = \<lparr> ts_Sec = word_of_int (sint x div 1000000000), ts_Nsec = word_of_int (sint x mod 1000000000) \<rparr>"
proof (cases "sint x smod 1000000000 < 0")
  case True
  with sdiv_smod_floor [of "sint x"]
  have "sint x sdiv 1000000000 - 1 = sint x div 1000000000" "sint x smod 1000000000 + 1000000000 = sint x mod 1000000000"
    by simp_all
  with True show ?thesis by (simp only: NsecToTimespec_def Let_def if_True)
next
  case False
  with sdiv_smod_floor [of "sint x"]
  have "sint x sdiv 1000000000 = sint x div 1000000000" "sint x smod 1000000000 = sint x mod 1000000000"
    by simp_all
  with False show ?thesis by (simp only: NsecToTimespec_def Let_def if_False)
qed

lemma sint_word_of_int64:
  "- (2 ^ 63) \<le> (x::int) \<Longrightarrow> x < 2 ^ 63 \<Longrightarrow> sint (word_of_int x :: int64) = x"
  by (simp add: sint_sbintrunc' signed_take_bit_int_eq_self)


lemma NsecToTimespec_bounds: "0 \<le> sint (ts_Nsec (NsecToTimespec x)) \<and> sint (ts_Nsec (NsecToTimespec x)) < 1000000000"
proof -
  have "0 \<le> sint x mod 1000000000" "sint x mod 1000000000 < 1000000000" by simp_all
  then show ?thesis by (simp add: NsecToTimespec_floor sint_word_of_int64)
qed



subsection \<open>Setting attributes\<close>

text \<open>The calls a \<^verbatim>\<open>SetAttr\<close> request asks for, as data, and their execution up to the
  first failure: the specification of the handler.\<close>

datatype fs_call = Chmod FileMode | Chown go_int go_int | Utimes "Timespec list" | Truncate int64

fun run_call :: "('f, 'w) satellite_env \<Rightarrow> string \<Rightarrow> fs_call \<Rightarrow> 'w \<Rightarrow> goerror option \<times> 'w" where
  "run_call env p (Chmod m) w = fs_Chmod (dfFS env) p m w"
| "run_call env p (Chown u g) w = fs_Chown (dfFS env) p u g w"
| "run_call env p (Utimes ts) w = fs_UtimesNano (dfFS env) p ts w"
| "run_call env p (Truncate n) w = fs_Truncate (dfFS env) p n w"

fun run_calls :: "('f, 'w) satellite_env \<Rightarrow> string \<Rightarrow> fs_call list \<Rightarrow> 'w \<Rightarrow> goerror option \<times> 'w" where
  "run_calls env p [] w = (None, w)"
| "run_calls env p (c # cs) w = (case run_call env p c w of
     (Some err, w') \<Rightarrow> (Some err, w') | (None, w') \<Rightarrow> run_calls env p cs w')"

definition opt_or :: "'a \<times> bool \<Rightarrow> ('a \<Rightarrow> 'b) \<Rightarrow> 'b \<Rightarrow> 'b" where
  "opt_or x f d = (if snd x then f (fst x) else d)"

definition time_or_omit :: "Time \<times> bool \<Rightarrow> Timespec" where
  "time_or_omit x = opt_or x (\<lambda>t. NsecToTimespec (UnixNano t)) \<lparr> ts_Sec = 0, ts_Nsec = UTIME_OMIT \<rparr>"

definition setattr_plan :: "SetAttrRequest \<Rightarrow> fs_call list" where
  "setattr_plan r =
     opt_or (GetMode r) (\<lambda>m. [Chmod m]) [] @
     (if snd (GetUID r) \<or> snd (GetGID r) then [Chown (opt_or (GetUID r) ucast (-1)) (opt_or (GetGID r) ucast (-1))] else []) @
     (if snd (GetATime r) \<or> snd (GetMTime r) then [Utimes [time_or_omit (GetATime r), time_or_omit (GetMTime r)]] else []) @
     opt_or (GetSize r) (\<lambda>s. [Truncate s]) []"

lemma run_calls_append: "run_calls env p (cs @ ds) w = (case run_calls env p cs w of
     (Some err, w') \<Rightarrow> (Some err, w') | (None, w') \<Rightarrow> run_calls env p ds w')"
  by (induction cs arbitrary: w) (auto split: prod.splits option.splits)

lemma run_calls_single: "run_calls env p [c] w = run_call env p c w"
  by (auto split: prod.splits option.splits)

lemma setattr_mode_plan:
  "setattr_mode env r w = run_calls env (sa_FullPath r) (opt_or (GetMode r) (\<lambda>m. [Chmod m]) []) w"
  by (auto simp: setattr_mode_def opt_or_def run_calls_single simp del: run_calls.simps(2)
    split: prod.splits bool.splits)

lemma setattr_size_plan:
  "setattr_size env r w = run_calls env (sa_FullPath r) (opt_or (GetSize r) (\<lambda>s. [Truncate s]) []) w"
  by (auto simp: setattr_size_def opt_or_def run_calls_single simp del: run_calls.simps(2)
    split: prod.splits bool.splits)

lemma setattr_owner_plan:
  "setattr_owner env r w = run_calls env (sa_FullPath r)
     (if snd (GetUID r) \<or> snd (GetGID r) then [Chown (opt_or (GetUID r) ucast (-1)) (opt_or (GetGID r) ucast (-1))] else []) w"
  by (auto simp: setattr_owner_def opt_or_def run_calls_single Let_def simp del: run_calls.simps(2)
    split: prod.splits)

lemma setattr_times_plan:
  "setattr_times env r w = run_calls env (sa_FullPath r)
     (if snd (GetATime r) \<or> snd (GetMTime r) then [Utimes [time_or_omit (GetATime r), time_or_omit (GetMTime r)]] else []) w"
  by (auto simp: setattr_times_def opt_or_def time_or_omit_def run_calls_single Let_def simp del: run_calls.simps(2)
    split: prod.splits)

text \<open>\<^verbatim>\<open>SetAttr\<close> performs the calls its request asks for, in the order mode, owner,
  times, size, stops at the first one that fails and reports its error, and otherwise reports the
  attributes of the file after all of them.\<close>

lemma SetAttr_run_calls:
  "SetAttr env r (fso, w) =
    (case run_calls env (sa_FullPath r) (setattr_plan r) w of
       (Some err, w') \<Rightarrow> (rpc_error env err, fso, w')
     | (None, w') \<Rightarrow> Stat env \<lparr> st_FullPath = sa_FullPath r \<rparr> (fso, w'))"
  unfolding SetAttr_def setattr_plan_def run_calls_append setattr_mode_plan setattr_owner_plan
    setattr_times_plan setattr_size_plan
  by (auto split: prod.splits option.splits simp del: run_calls.simps(2))



subsection \<open>Directories\<close>

text \<open>The results of the \<^verbatim>\<open>Info\<close> calls of a directory's entries, one after the other.\<close>

fun info_results :: "'w DirEnt list \<Rightarrow> 'w \<Rightarrow> (goerror + FileInfo) list \<times> 'w" where
  "info_results [] w = ([], w)"
| "info_results (d # ds) w = (case dent_Info d w of (x, w1) \<Rightarrow>
     (case info_results ds w1 of (xs, w2) \<Rightarrow> (x # xs, w2)))"

definition vanished :: "errno_names \<Rightarrow> goerror + FileInfo \<Rightarrow> bool" where
  "vanished syscall x = (case x of Inl err \<Rightarrow> is_not_exist syscall err | Inr _ \<Rightarrow> False)"

definition has_sys :: "goerror + FileInfo \<Rightarrow> bool" where
  "has_sys x = (case x of Inl _ \<Rightarrow> False | Inr info \<Rightarrow> fi_Sys info \<noteq> None)"

definition entries_of :: "'w DirEnt \<times> (goerror + FileInfo) \<Rightarrow> DirEntry list" where
  "entries_of dx = (case snd dx of
     Inl _ \<Rightarrow> []
   | Inr info \<Rightarrow> (case fi_Sys info of
       None \<Rightarrow> []
     | Some sys \<Rightarrow> [\<lparr> de_Mode = s_Mode sys, de_Name = dent_Name (fst dx), de_Ino = s_Ino sys \<rparr>]))"

lemma read_entries_survivors:
  "info_results ds w = (xs, w') \<Longrightarrow> \<forall>x \<in> set xs. vanished (env_errno env) x \<or> has_sys x \<Longrightarrow>
   read_entries env ds acc w = (Ok (acc @ concat (map entries_of (zip ds xs))), w')"
proof (induction ds arbitrary: acc w xs)
  case (Cons d ds)
  obtain x w1 where i: "dent_Info d w = (x, w1)" by fastforce
  obtain ys where ys: "info_results ds w1 = (ys, w')" "xs = x # ys"
    using Cons.prems(1) i by (auto split: prod.splits)
  note IH = Cons.IH [OF ys(1)]
  have x: "vanished (env_errno env) x \<or> has_sys x" and rest: "\<forall>x \<in> set ys. vanished (env_errno env) x \<or> has_sys x"
    using Cons.prems(2) ys(2) by auto
  show ?case
  proof (cases x)
    case (Inl err)
    with x i ys IH rest show ?thesis by (simp add: vanished_def has_sys_def entries_of_def)
  next
    case (Inr info)
    with x obtain sys where "info = \<lparr> fi_Sys = Some sys \<rparr>"
      by (cases info) (auto simp: vanished_def has_sys_def)
    with Inr i ys IH rest show ?thesis by (simp add: entries_of_def)
  qed
qed simp

text \<open>C29. \<^verbatim>\<open>ReadDir\<close> reports, in the order of the directory, one entry with name, inode
  number and mode for every file that still exists when it is looked at, and leaves out those that
  vanished in between.\<close>

theorem readdir_lists_survivors:
  assumes "fs_ReadDir (dfFS env) (rd_FullPath req) w = (Inr ds, w1)"
    and "info_results ds w1 = (xs, w2)"
    and "\<forall>x \<in> set xs. vanished (env_errno env) x \<or> has_sys x"
  shows "ReadDir env req (fso, w) = (Ok \<lparr> DirEntries = concat (map entries_of (zip ds xs)) \<rparr>, fso, w2)"
  using read_entries_survivors [OF assms(2,3), of "[]"] assms(1) by (simp add: ReadDir_def)

text \<open>A directory with an entry that is gone by the time it is looked at.\<close>

definition racy_env :: "(nat, mem os_world) satellite_env" where
  "racy_env = (os_env mem_kernel)\<lparr> dfFS := (osFS linux_errno linux_flags mem_kernel)\<lparr> fs_ReadDir := (\<lambda>p w.
     (Inr [\<lparr> dent_Name = ''gone'', dent_Info = os_Lstat mem_kernel ''/d/gone'' \<rparr>,
           \<lparr> dent_Name = ''x'', dent_Info = os_Lstat mem_kernel ''/d/x'' \<rparr>], w)) \<rparr> \<rparr>"

theorem readdir_lists_survivors_witness:
  "fst (ReadDir racy_env \<lparr> rd_FullPath = ''/d'' \<rparr> (NewDockerFuseFSOps, world0))
     = Ok \<lparr> DirEntries = [\<lparr> de_Mode = 0x81A4, de_Name = ''x'', de_Ino = 15 \<rparr>] \<rparr>"
proof -
  define ds where "ds = projr (fst (fs_ReadDir (dfFS racy_env) ''/d'' world0))"
  define xs where "xs = fst (info_results ds world0)"
  define w2 where "w2 = snd (info_results ds world0)"
  have a: "fs_ReadDir (dfFS racy_env) (rd_FullPath \<lparr> rd_FullPath = ''/d'' \<rparr>) world0 = (Inr ds, world0)"
    by (simp add: ds_def racy_env_def)
  have b: "info_results ds world0 = (xs, w2)" by (simp add: xs_def w2_def)
  have c: "\<forall>x \<in> set xs. vanished (env_errno racy_env) x \<or> has_sys x"
    unfolding xs_def ds_def by code_simp
  have e: "concat (map entries_of (zip ds xs)) = [\<lparr> de_Mode = 0x81A4, de_Name = ''x'', de_Ino = 15 \<rparr>]"
    unfolding xs_def ds_def by code_simp
  show ?thesis by (simp add: readdir_lists_survivors [OF a b c] e)
qed

subsection \<open>Open files\<close>

text \<open>Once a descriptor has been closed, with or without an error, every use of its number
  fails with \<^verbatim>\<open>EINVAL\<close> and has no effect until the number is opened again.\<close>

theorem closed_descriptor_is_invalid:
  assumes "snd (Close env \<lparr> cl_FD = k \<rparr> st) = st'"
    and "re_FD r = k" and "wr_FD wr = k" and "sk_FD s = k" and "fy_FD y = k" and "cl_FD c = k"
  shows "Read env r st' = (rpc_errno env ''EINVAL'', st') \<and> Write env wr st' = (rpc_errno env ''EINVAL'', st') \<and>
    Seek env s st' = (rpc_errno env ''EINVAL'', st') \<and> Fsync env y st' = (rpc_errno env ''EINVAL'', st') \<and>
    Close env c st' = (rpc_errno env ''EINVAL'', st')"
proof -
  obtain fso w where st': "st' = (fso, w)" by fastforce
  have "fds fso k = None"
    using assms(1) st' by (cases st) (auto simp: Close_def split: option.splits prod.splits)
  with assms(2-) st' show ?thesis
    by (simp add: Read_def Write_def Seek_def Fsync_def Close_def)
qed

definition opened_a :: "nat DockerFuseFSOps \<times> mem os_world" where
  "opened_a = snd (Open (os_env mem_kernel) \<lparr> op_FullPath = ''/a'', op_SAFlags = O_RDWR, op_Mode = 0 \<rparr>
     (NewDockerFuseFSOps, world0))"

theorem closed_descriptor_is_invalid_witness:
  "fst (Read (os_env mem_kernel) \<lparr> re_FD = 3, re_Offset = 0, re_Num = 2 \<rparr> opened_a) = Ok \<lparr> re_Data = [104, 101] \<rparr> \<and>
   fst (Read (os_env mem_kernel) \<lparr> re_FD = 3, re_Offset = 0, re_Num = 2 \<rparr>
     (snd (Close (os_env mem_kernel) \<lparr> cl_FD = 3 \<rparr> opened_a))) = Err ''errno: EINVAL''"
proof
  show "fst (Read (os_env mem_kernel) \<lparr> re_FD = 3, re_Offset = 0, re_Num = 2 \<rparr> opened_a) = Ok \<lparr> re_Data = [104, 101] \<rparr>"
    by code_simp
  have "(rpc_errno (os_env mem_kernel) ''EINVAL'' :: ReadReply result) = Err ''errno: EINVAL''"
    by (simp add: rpc_errno_def rpc_error_def os_env_def)
  then show "fst (Read (os_env mem_kernel) \<lparr> re_FD = 3, re_Offset = 0, re_Num = 2 \<rparr>
     (snd (Close (os_env mem_kernel) \<lparr> cl_FD = 3 \<rparr> opened_a))) = Err ''errno: EINVAL''"
    using closed_descriptor_is_invalid [OF refl, of "\<lparr> re_FD = 3, re_Offset = 0, re_Num = 2 \<rparr>" 3
      "\<lparr> wr_FD = 3, wr_Offset = 0, wr_Data = [] \<rparr>" "\<lparr> sk_FD = 3, sk_Offset = 0, sk_Whence = 0 \<rparr>"
      "\<lparr> fy_FD = 3, fy_Flags = 0 \<rparr>" "\<lparr> cl_FD = 3 \<rparr>" "os_env mem_kernel" opened_a] by simp
qed

text \<open>A successful \<^verbatim>\<open>Open\<close> adds exactly one entry to the table, a file that was not
  open before, under a descriptor the table did not have: the branch that closes a stale file is
  not taken.\<close>

theorem open_adds_fresh_descriptor:
  assumes "satellite_files env wfw opn" and "fd_inv env wfw opn (fso, w)"
    and "Open env req (fso, w) = (Ok reply, fso', w')"
  shows "fds fso (op_FD reply) = None \<and>
    (\<exists>f. f \<notin> opn w \<and> fds fso' = (fds fso)(op_FD reply \<mapsto> f) \<and> opn w' = insert f (opn w)) \<and>
    fd_inv env wfw opn (fso', w')"
proof -
  obtain x w1 where op: "fs_OpenFile (dfFS env) (op_FullPath req)
      (SAFlagsToSystem (env_flags env) (op_SAFlags req)) (op_Mode req) w = (x, w1)" by fastforce
  with assms(3) obtain f where x: "x = Inr f"
    by (cases x) (auto simp: Open_def rpc_error_def split: go.splits)
  note op' = op [unfolded x]
  have fresh: "fds fso (f_Fd (fileOps env) f w1) = None"
    using satellite_files.open_fresh [OF assms(1,2) op'] .
  have new: "f \<notin> opn w" "opn w1 = insert f (opn w)" "wfw w1"
    using descriptor_files.open_ok [OF assms(1) [unfolded satellite_files_def] op' fd_inv_wf [OF assms(2)]] by auto
  obtain y w2 where st: "f_Stat (fileOps env) f w1 = (y, w2)" by fastforce
  obtain t w3 where lt: "link_target env (op_FullPath req) w2 = (t, w3)" by fastforce
  obtain info sys where y: "y = Inr info" "fi_Sys info = Some sys"
    using assms(3) op' fresh st
    by (auto simp: Open_def Let_def rpc_error_def type_assertion_failed_def split: sum.splits option.splits go.splits)
  have r: "op_FD reply = f_Fd (fileOps env) f w1" "fso' = fso\<lparr> fds := (fds fso)(f_Fd (fileOps env) f w1 \<mapsto> f) \<rparr>" "w' = w3"
    using assms(3) op' fresh st lt y by (auto simp: Open_def Let_def)
  have "same_files (fileOps env) wfw opn w1 w'"
    using satellite_files.fstat_same [OF assms(1) st] satellite_files.link_target_same [OF assms(1) lt] r(3)
    by (simp add: same_files_trans)
  with new(3) have "opn w' = opn w1" by (simp add: same_files_def)
  moreover have "fd_inv env wfw opn (fso', w')"
    using satellite_files.Open_fd_inv [OF assms(1,2), of req] assms(3) by simp
  ultimately show ?thesis using r(1,2) new fresh by auto
qed

theorem open_adds_fresh_descriptor_witness:
  "fds (fst (snd (Open (os_env mem_kernel) \<lparr> op_FullPath = ''/b'', op_SAFlags = O_RDONLY, op_Mode = 0 \<rparr> opened_a))) 4 \<noteq> None
   \<and> fds (fst opened_a) 4 = None \<and> fds (fst opened_a) 3 \<noteq> None"
proof -
  define req where "req = \<lparr> op_FullPath = ''/b'', op_SAFlags = O_RDONLY, op_Mode = 0 \<rparr>"
  have inv: "fd_inv (os_env mem_kernel) (os_wf {} mem_fds) os_open (fst opened_a, snd opened_a)"
    using memsat.Open_fd_inv [OF fd_inv_start] by (simp add: opened_a_def)
  obtain reply fso' w' where run: "Open (os_env mem_kernel) req (fst opened_a, snd opened_a) = (Ok reply, fso', w')"
    and fd: "op_FD reply = 4"
  proof -
    have "case fst (Open (os_env mem_kernel) req opened_a) of Ok reply \<Rightarrow> op_FD reply = 4 | _ \<Rightarrow> False"
      unfolding req_def by code_simp
    then show thesis using that
      by (cases "Open (os_env mem_kernel) req opened_a") (auto split: result.splits)
  qed
  have "fds (fst opened_a) 3 \<noteq> None" by code_simp
  with open_adds_fresh_descriptor [OF memsat.satellite_files_axioms inv run] fd run show ?thesis
    by (auto simp: req_def)
qed

text \<open>Shutting down closes every open file and empties the table, in whatever order the
  entries are visited.\<close>

theorem shutdown_closes_everything:
  assumes "satellite_files env wfw opn" and "fd_inv env wfw opn (fso, w)" and "set order = dom (fds fso)"
  shows "fds (fst (CloseAllFDs env order (fso, w))) = Map.empty \<and> opn (snd (CloseAllFDs env order (fso, w))) = {}"
proof -
  have e: "fds (fst (CloseAllFDs env order (fso, w))) = Map.empty"
    using assms(3) by (auto simp: fds_CloseAllFDs restrict_map_def fun_eq_iff)
  have "fd_inv env wfw opn (CloseAllFDs env order (fso, w))"
    by (rule satellite_files.CloseAllFDs_fd_inv [OF assms(1,2)])
  with e show ?thesis
    by (cases "CloseAllFDs env order (fso, w)") (auto simp: fd_inv_def)
qed

theorem shutdown_closes_everything_witness:
  "fds (fst opened_a) 3 \<noteq> None \<and> os_open (snd (CloseAllFDs (os_env mem_kernel) [3] opened_a)) = {}"
proof -
  have inv: "fd_inv (os_env mem_kernel) (os_wf {} mem_fds) os_open (fst opened_a, snd opened_a)"
    using memsat.Open_fd_inv [OF fd_inv_start] by (simp add: opened_a_def)
  have t: "fds (fst opened_a) = [3 \<mapsto> 0]"
    by (simp add: opened_a_def Open_def os_env_def osFS_def os_OpenFile_def mem_kernel_def mem_open_def
      mem_find_def mem_alloc_def world0_def mem0_def NewDockerFuseFSOps_def SAFlagsToSystem_def sa_flag_defs
      linux_flags_def O_CLOEXEC_def upt_conv_Cons os_Fd_def sysfd_def os_Stat_def mem_desc_def link_target_def
      os_Readlink_def mem_readlink_def blank_node_def Let_def)
  show ?thesis
    using shutdown_closes_everything [OF memsat.satellite_files_axioms inv, of "[3]"] t by simp
qed

end
