(* ===== verification/End_To_End.thy ===== *)
theory End_To_End
  imports Node_Props Satellite_Data Satellite_Props
begin

text \<open>
  Properties of the whole path from a FUSE request to the kernel of the container: node, client,
  connection, satellite, \<^verbatim>\<open>os\<close> package, system call.
\<close>

subsection \<open>Data\<close>

lemma root_read:
  "i_read (fuseDockerClient (root_node E env p)) (Some fd) off n (Running st) =
    on_result (reply_of (Read env \<lparr> re_FD = fd, re_Offset = off, re_Num = n \<rparr> st))
      (\<lambda>err. if err = ''EOF'' then ([], 0) else ([], RPCErrorStringTOErrno (ce_errno E) err))
      (\<lambda>reply. (re_Data reply, 0))"
  by (simp add: root_node_def NewNode_def client_interface_def read_def with_fd_def mounted_calls)

lemma root_write:
  "i_write (fuseDockerClient (root_node E env p)) (Some fd) off bs (Running st) =
    on_result (reply_of (Write env \<lparr> wr_FD = fd, wr_Offset = off, wr_Data = bs \<rparr> st))
      (\<lambda>err. (0, RPCErrorStringTOErrno (ce_errno E) err)) (\<lambda>reply. (wr_Num reply, 0))"
  by (simp add: root_node_def NewNode_def client_interface_def write_file_def with_fd_def mounted_calls)

text \<open>A file of the container open under a handle.\<close>

definition open_handle :: "('k \<Rightarrow> uintptr \<Rightarrow> byte list option) \<Rightarrow> uintptr \<Rightarrow> uintptr \<Rightarrow> byte list \<Rightarrow>
    nat DockerFuseFSOps \<times> 'k os_world \<Rightarrow> bool" where
  "open_handle contents fd d data = (\<lambda>(fso, w). \<exists>f. fds fso fd = Some f \<and> sysfd f w = Some d \<and> \<not> append_mode f w \<and>
     contents (kern w) d = Some data)"

lemma append_mode_kern [simp]: "append_mode f (w\<lparr> kern := k \<rparr>) = append_mode f w"
  by (simp add: append_mode_def)

lemma sint_of_nat: "n < 2 ^ 63 \<Longrightarrow> sint (of_nat n :: go_int) = int n"
  using sint_word_of_int64 [of "int n"] by simp

lemma ucast_of_nat_32: "(ucast (of_nat n :: go_int) :: uint32) = of_nat n"
  by transfer (simp add: take_bit_eq_mod mod_mod_cancel)

lemma node_read_contents:
  assumes "file_data K contents" and "\<And>len ofs k. contents k d \<noteq> None \<Longrightarrow> \<exists>bs k'. k_pread K d len ofs k = (Inr bs, k')"
    and "open_handle contents fd d data st" and "length data < 2 ^ 63"
    and "0 \<le> sint off" and "0 < n" and "n < 2 ^ 63"
  shows "\<exists>st'. Node_Read (root_node E (os_env K) p) (Some fd) n off (Running st)
      = (Val (Some (take n (drop (nat (sint off)) data)), 0), Running st') \<and> open_handle contents fd d data st'"
proof -
  define req where "req = \<lparr> re_FD = fd, re_Offset = off, re_Num = of_nat n \<rparr>"
  obtain fso w f where st: "st = (fso, w)" and f: "fds fso fd = Some f" "sysfd f w = Some d" "\<not> append_mode f w"
    and c: "contents (kern w) d = Some data"
    using assms(3) by (auto simp: open_handle_def)
  have n: "sint (re_Num req) = int n" using assms(7) by (simp add: req_def sint_of_nat)
  show ?thesis
  proof (rule Read_contents [OF assms(1), of fso req f w d data])
    fix k'
    assume "contents k' d = Some data" and "Read (os_env K) req (fso, w)
      = (Ok \<lparr> re_Data = take (nat (sint (re_Num req))) (drop (nat (sint (re_Offset req))) data) \<rparr>, fso, w\<lparr> kern := k' \<rparr>)"
    then show ?thesis using f n
      by (intro exI [of _ "(fso, w\<lparr> kern := k' \<rparr>)"])
        (simp add: Node_Read_def root_read st req_def reply_of_def on_result_def go_then_def open_handle_def)
  next
    fix k'
    assume "contents k' d = Some data" and "Read (os_env K) req (fso, w) = (Err ''EOF'', fso, w\<lparr> kern := k' \<rparr>)"
      and "length data \<le> nat (sint (re_Offset req))"
    then show ?thesis using f
      by (intro exI [of _ "(fso, w\<lparr> kern := k' \<rparr>)"])
        (simp add: Node_Read_def root_read st req_def reply_of_def on_result_def go_then_def open_handle_def)
  next
    fix e len o' k1 k2
    assume "contents k1 d = Some data" "k_pread K d len o' k1 = (Inl e, k2)"
    with assms(2) [of k1 len o'] show ?thesis by simp
  qed (use f c n assms in \<open>simp_all add: req_def\<close>)
qed

lemma node_write_contents:
  assumes "file_data K contents" and "\<And>bs ofs k. contents k d \<noteq> None \<Longrightarrow> \<exists>i k'. k_pwrite K d bs ofs k = (Inr i, k')"
    and "open_handle contents fd d data st" and "bs \<noteq> []" and "length bs < 2 ^ 32"
    and "0 \<le> sint off" and "sint off + int (length bs) < 2 ^ 63"
  shows "\<exists>st'. Node_Write (root_node E (os_env K) p) (Some fd) bs off (Running st)
      = (Val (of_nat (length bs), 0), Running st') \<and> open_handle contents fd d (overwrite data (nat (sint off)) bs) st'"
proof -
  define req where "req = \<lparr> wr_FD = fd, wr_Offset = off, wr_Data = bs \<rparr>"
  obtain fso w f where st: "st = (fso, w)" and f: "fds fso fd = Some f" "sysfd f w = Some d" "\<not> append_mode f w"
    and c: "contents (kern w) d = Some data"
    using assms(3) by (auto simp: open_handle_def)
  show ?thesis
  proof (rule Write_contents [OF assms(1), of fso req f w d data])
    fix k'
    assume "contents k' d = Some (overwrite data (nat (sint (wr_Offset req))) (wr_Data req))"
      and "Write (os_env K) req (fso, w) = (Ok \<lparr> wr_Num = of_nat (length (wr_Data req)) \<rparr>, fso, w\<lparr> kern := k' \<rparr>)"
    then show ?thesis using f
      by (intro exI [of _ "(fso, w\<lparr> kern := k' \<rparr>)"])
        (simp add: Node_Write_def root_write ucast_of_nat_32 st req_def reply_of_def on_result_def go_then_def open_handle_def)
  next
    fix e bs' o' k1 k2
    assume "contents k1 d \<noteq> None" "k_pwrite K d bs' o' k1 = (Inl e, k2)"
    with assms(2) [of k1 bs' o'] show ?thesis by simp
  qed (use f c assms in \<open>simp_all add: req_def\<close>)
qed


text \<open>What has been written through the mount is read back: after a successful write a read of
  as many bytes at the same offset returns the bytes written.\<close>

theorem mounted_write_then_read:
  assumes "file_data K contents" and "\<forall>len ofs k. contents k d \<noteq> None \<longrightarrow> (\<exists>bs k'. k_pread K d len ofs k = (Inr bs, k'))"
    and "\<forall>bs ofs k. contents k d \<noteq> None \<longrightarrow> (\<exists>i k'. k_pwrite K d bs ofs k = (Inr i, k'))"
    and "open_handle contents fd d data st" and "length data < 2 ^ 63" and "bs \<noteq> []" and "length bs < 2 ^ 32"
    and "0 \<le> sint off" and "sint off + int (length bs) < 2 ^ 63"
  shows "\<exists>st' st''. Node_Write (root_node E (os_env K) p) (Some fd) bs off (Running st)
       = (Val (of_nat (length bs), 0), Running st') \<and>
     Node_Read (root_node E (os_env K) q) (Some fd) (length bs) off (Running st') = (Val (Some bs, 0), Running st'')"
proof -
  obtain st' where w: "Node_Write (root_node E (os_env K) p) (Some fd) bs off (Running st) = (Val (of_nat (length bs), 0), Running st')"
    and h: "open_handle contents fd d (overwrite data (nat (sint off)) bs) st'"
    using node_write_contents [OF assms(1) _ assms(4,6-9)] assms(3) by blast
  have "length (overwrite data (nat (sint off)) bs) < 2 ^ 63"
    using assms(5,8,9) by (simp add: length_overwrite) 
  moreover have "0 < length bs" "length bs < 2 ^ 63" using assms(6,7) by auto
  ultimately obtain st'' where "Node_Read (root_node E (os_env K) q) (Some fd) (length bs) off (Running st')
      = (Val (Some (take (length bs) (drop (nat (sint off)) (overwrite data (nat (sint off)) bs))), 0), Running st'')"
    using node_read_contents [OF assms(1) _ h _ assms(8)] assms(2) by blast
  with w show ?thesis by (simp add: take_drop_overwrite)
qed

text \<open>On the container of \<^const>\<open>world0\<close>, with \<^verbatim>\<open>/a\<close> open under the
  descriptor 3.\<close>

lemma open_handle_a: "open_handle mem_contents 3 3 [104, 101, 108, 108, 111] (opened_world ''/a'' O_RDWR)"
  using opened_rdwr [OF refl] by (auto simp: open_handle_def split: prod.split)

lemma mem_pread_ok: "\<forall>len ofs k. mem_contents k d \<noteq> None \<longrightarrow> (\<exists>bs k'. k_pread mem_kernel d len ofs k = (Inr bs, k'))"
  by (auto simp: mem_kernel_def mem_pread_def mem_contents_def split: option.splits)

lemma mem_pwrite_ok: "\<forall>bs ofs k. mem_contents k d \<noteq> None \<longrightarrow> (\<exists>i k'. k_pwrite mem_kernel d bs ofs k = (Inr i, k'))"
  by (auto simp: mem_kernel_def mem_pwrite_def mem_contents_def split: option.splits)


theorem mounted_write_then_read_witness:
  "\<exists>st' st''. Node_Write (mem_root ''/a'') (Some 3) [1, 2, 3, 4, 5] 3 (Running (opened_world ''/a'' O_RDWR)) = (Val (5, 0), Running st') \<and>
     Node_Read (mem_root ''/a'') (Some 3) 5 3 (Running st') = (Val (Some [1, 2, 3, 4, 5], 0), Running st'')"
proof -
  have len: "length [1, 2, 3, 4, 5 :: byte] = 5" by simp
  show ?thesis
    using mounted_write_then_read [OF memk.file_data_axioms mem_pread_ok mem_pwrite_ok open_handle_a, of "[1, 2, 3, 4, 5]" 3
      linux_client "''/a''" "''/a''", unfolded len]
    by (simp add: mem_root_def)
qed

subsection \<open>Attributes\<close>

text \<open>The calls that the attributes of a FUSE request ask for.\<close>

definition input_plan :: "SetAttrIn \<Rightarrow> fs_call list" where
  "input_plan inp =
     opt_or (in_Mode inp) (\<lambda>m. [Chmod m]) [] @
     (if snd (in_UID inp) \<or> snd (in_GID inp) then [Chown (opt_or (in_UID inp) ucast (-1)) (opt_or (in_GID inp) ucast (-1))] else []) @
     (if snd (in_ATime inp) \<or> snd (in_MTime inp) then [Utimes [time_or_omit (in_ATime inp), time_or_omit (in_MTime inp)]] else []) @
     opt_or (in_Size inp) (\<lambda>s. [Truncate s]) []"

lemmas get_set = get_set_attr [of "A_Mode v" for v, simplified] get_set_attr [of "A_UID v" for v, simplified]
  get_set_attr [of "A_GID v" for v, simplified] get_set_attr [of "A_ATime v" for v, simplified]
  get_set_attr [of "A_MTime v" for v, simplified] get_set_attr [of "A_Size v" for v, simplified]

lemma get_set_if: "g (set_if x f r) = (if snd x then g (f (fst x) r) else g r)"
  by (simp add: set_if_def)

lemma get_setAttr_request:
  "GetMode (setAttr_request p inp) = (if snd (in_Mode inp) then (fst (in_Mode inp), True) else (0, False))"
  "GetUID (setAttr_request p inp) = (if snd (in_UID inp) then (fst (in_UID inp), True) else (0, False))"
  "GetGID (setAttr_request p inp) = (if snd (in_GID inp) then (fst (in_GID inp), True) else (0, False))"
  "GetATime (setAttr_request p inp) = (if snd (in_ATime inp) then (fst (in_ATime inp), True) else (zero_Time, False))"
  "GetMTime (setAttr_request p inp) = (if snd (in_MTime inp) then (fst (in_MTime inp), True) else (zero_Time, False))"
  "GetSize (setAttr_request p inp) = (if snd (in_Size inp) then (fst (in_Size inp), True) else (0, False))"
  by (simp_all add: setAttr_request_def Let_def get_set get_set_if [where g = GetMode] get_set_if [where g = GetUID]
    get_set_if [where g = GetGID] get_set_if [where g = GetATime] get_set_if [where g = GetMTime] get_set_if [where g = GetSize])

lemma sa_FullPath_request: "sa_FullPath (setAttr_request p inp) = p"
  by (simp add: setAttr_request_def Let_def set_if_def sattr_set_defs new_SetAttrRequest_def)

lemma opt_or_if: "opt_or (if snd x then (fst x, True) else (v, False)) f e = opt_or x f e"
  by (simp add: opt_or_def)

lemma setattr_plan_request: "setattr_plan (setAttr_request p inp) = input_plan inp"
  unfolding setattr_plan_def input_plan_def get_setAttr_request time_or_omit_def opt_or_if by simp

text \<open>C5. Setting attributes through the mount performs exactly the changes FUSE asks for, in the
  order mode, owner, times, size, up to the first one that fails, whose error is reported; then the
  attributes reported are those of the file, as if it were examined afterwards.\<close>

theorem mounted_setattr_runs_plan:
  "setAttr E (mounted env) p inp out (Running (fso, w)) =
    (case run_calls env p (input_plan inp) w of
       (Some err, w') \<Rightarrow> on_result (reply_of (rpc_error env err, fso, w'))
          (\<lambda>msg. (out, RPCErrorStringTOErrno (ce_errno E) msg)) (\<lambda>reply. (fill_attr reply (LinkTarget reply), 0))
     | (None, w') \<Rightarrow> stat E (mounted env) p out (Running (fso, w')))"
  by (simp add: setAttr_def stat_def mounted_calls SetAttr_run_calls sa_FullPath_request setattr_plan_request
    split: prod.split option.split)

subsection \<open>Errors\<close>

text \<open>C4. Every operation of the client sends one request and reports success exactly when it got
  a reply, with the exception of the end of the file for reads; otherwise it reports the error
  that its text denotes.\<close>

theorem client_reports_outcome:
  assumes "rpc_transport c" and "errno_consts (ce_errno E)" and "rpcClient d = Some c"
    and "rc_Call c (fst (op_request E op)) (snd (op_request E op)) s = (x, s')"
  shows "\<exists>e. op_errno E d op s = (Val e, s') \<and>
    (e = 0 \<longleftrightarrow> (\<exists>g. x = Inr g) \<or> is_read op \<and> x = Inl ''EOF'') \<and>
    (\<forall>msg. x = Inl msg \<and> e \<noteq> 0 \<longrightarrow> e = RPCErrorStringTOErrno (ce_errno E) msg)"
  using rpc_transport.op_errno_request [OF assms(1,3), of E op s] assms(4)
    errno_consts.RPCErrorStringTOErrno_nonzero [OF assms(2)]
  by (cases x) auto

lemma mounted_op_errno:
  "op_errno E (mounted env) op (Running st) = (case serve env (fst (op_request E op)) (snd (op_request E op)) st of
     (Ok g, st') \<Rightarrow> (Val 0, Running st')
   | (Err msg, st') \<Rightarrow> (Val (if is_read op \<and> msg = ''EOF'' then 0 else RPCErrorStringTOErrno (ce_errno E) msg), Running st')
   | (Crash m, st') \<Rightarrow> (Val (RPCErrorStringTOErrno (ce_errno E) ''unexpected EOF''), Down (snd st')))"
  using satlink.op_errno_request [of "mounted env" env E op "Running st"]
  by (auto simp: mounted_def satellite_client_def Call_Running split: prod.splits result.splits)

lemma mounted_op_down: "op_errno E (mounted env) op (Down w) = (Val (ce_errno E ''EIO''), Down w)"
  using satlink.op_errno_request [of "mounted env" env E op "Down w"]
  by (simp add: mounted_def satellite_client_def Call_def RPCErrorStringTOErrno_def HasPrefix_def)

text \<open>The error with which the kernel refuses an operation on a path, where one of its system calls
  decides: of the two calls of \<^verbatim>\<open>os.Remove\<close> the second one, unless it only says that the
  file is not a directory.\<close>

definition call_error :: "(errno + 'a) \<times> 'k \<Rightarrow> errno option" where
  "call_error x = (case fst x of Inl e \<Rightarrow> Some e | Inr _ \<Rightarrow> None)"

definition remove_error :: "'k kernel \<Rightarrow> string \<Rightarrow> 'k \<Rightarrow> errno option" where
  "remove_error K p k = (case k_unlink K p k of
     (None, k1) \<Rightarrow> None
   | (Some e, k1) \<Rightarrow> map_option (\<lambda>e1. if e1 \<noteq> linux_errno ''ENOTDIR'' then e1 else e) (fst (k_rmdir K p k1)))"

fun kernel_error :: "client_env \<Rightarrow> 'k kernel \<Rightarrow> client_op \<Rightarrow> 'k \<Rightarrow> errno option" where
  "kernel_error E K (O_stat p) k = call_error (k_lstat K p k)"
| "kernel_error E K (O_readDir p) k = call_error (k_readdir K p k)"
| "kernel_error E K (O_open p fl m) k =
     call_error (k_open K p (SAFlagsToSystem linux_flags (SystemToSAFlags (ce_flags E) fl) OR O_CLOEXEC) (syscallMode m) k)"
| "kernel_error E K (O_create p fl m) k =
     call_error (k_open K p (SAFlagsToSystem linux_flags (SystemToSAFlags (ce_flags E) fl) OR O_CLOEXEC) (syscallMode m) k)"
| "kernel_error E K (O_mkdir p m) k = fst (k_mkdir K p (syscallMode m) k)"
| "kernel_error E K (O_unlink p) k = remove_error K p k"
| "kernel_error E K (O_rmdir p) k = remove_error K p k"
| "kernel_error E K (O_readlink p) k = call_error (k_readlink K p k)"
| "kernel_error E K (O_link p q) k = fst (k_link K p q k)"
| "kernel_error E K (O_symlink p q) k = fst (k_symlink K p q k)"
| "kernel_error E K _ k = None"

lemma serve_kernel_error:
  assumes "kernel_error E K op (kern w) = Some e"
  shows "\<exists>w'. serve (os_env K) (fst (op_request E op)) (snd (op_request E op)) (fso, w)
      = (Err (''errno: '' @ ErrnoToSym linux_errno e), fso, w')"
proof (cases op)
qed (use assms in \<open>auto simp: serve_methods rpc_method_def dec_enc handlers osFS_def os_OpenFile_def os_path_defs
  call_error_def remove_error_def rpc_error_def assert_Errno_def unit_result_def map_result_eq split: prod.splits sum.splits option.splits\<close>)


lemma error_text_translate:
  assumes "errno_consts server"
  shows "c \<in> fst ` set ErrnoToSym_cases \<Longrightarrow> RPCErrorStringTOErrno client (''errno: '' @ ErrnoToSym server (server c)) = client c"
    and "e \<notin> server ` fst ` set ErrnoToSym_cases \<Longrightarrow> RPCErrorStringTOErrno client (''errno: '' @ ErrnoToSym server e) = client ''EIO''"
  by (auto simp: errno_consts.ErrnoToSym_listed [OF assms] errno_consts.ErrnoToSym_unlisted [OF assms]
    RPCErrorStringTOErrno_errno SymToErrno_ErrnoToSym_cases SymToErrno_EIO simp del: append.simps)

text \<open>C9. An operation on a path that the container's kernel refuses reports the reason: the
  constant of the same name on the client's system, when the codec lists it, and
  \<^verbatim>\<open>EIO\<close> otherwise. The satellite keeps running with its table of files as it was.\<close>

theorem mounted_kernel_error:
  assumes "kernel_error E K op (kern w) = Some e"
  shows "\<exists>e' w'. op_errno E (mounted (os_env K)) op (Running (fso, w)) = (Val e', Running (fso, w')) \<and>
    (\<forall>c \<in> fst ` set ErrnoToSym_cases. e = linux_errno c \<longrightarrow> e' = ce_errno E c) \<and>
    (e \<notin> linux_errno ` fst ` set ErrnoToSym_cases \<longrightarrow> e' = ce_errno E ''EIO'')"
proof -
  obtain w' where "serve (os_env K) (fst (op_request E op)) (snd (op_request E op)) (fso, w)
      = (Err (''errno: '' @ ErrnoToSym linux_errno e), fso, w')"
    using serve_kernel_error [OF assms] by blast
  then have "op_errno E (mounted (os_env K)) op (Running (fso, w))
      = (Val (RPCErrorStringTOErrno (ce_errno E) (''errno: '' @ ErrnoToSym linux_errno e)), Running (fso, w'))"
    by (simp add: mounted_op_errno)
  moreover note error_text_translate [OF linux_err.errno_consts_axioms, where client = "ce_errno E"]
  ultimately show ?thesis
    by (intro exI [of _ "RPCErrorStringTOErrno (ce_errno E) (''errno: '' @ ErrnoToSym linux_errno e)"] exI [of _ w'])
      (simp del: append.simps)
qed

definition darwin_client :: client_env where
  "darwin_client = \<lparr> ce_errno = darwin_errno, ce_flags = darwin_flags \<rparr>"

theorem mounted_kernel_error_witness:
  "\<exists>w'. op_errno darwin_client (mounted (os_env mem_kernel)) (O_rmdir ''/d'') (Running (NewDockerFuseFSOps, world0))
     = (Val 66, Running (NewDockerFuseFSOps, w'))"
proof -
  have "kernel_error darwin_client mem_kernel (O_rmdir ''/d'') (kern world0) = Some (linux_errno ''ENOTEMPTY'')"
    by (simp add: remove_error_def mem_kernel_def mem_defs mem_find_def world0_def mem0_def below_def HasPrefix_def blank_node_def)
  moreover have "''ENOTEMPTY'' \<in> fst ` set ErrnoToSym_cases"
    by (simp add: ErrnoToSym_cases_def)
  moreover have "darwin_errno ''ENOTEMPTY'' = 66"
    by (simp add: errno_const_def darwin_errno_table_def)
  ultimately have r: "darwin_errno ''ENOTEMPTY'' = 66" "''ENOTEMPTY'' \<in> fst ` set ErrnoToSym_cases"
    "kernel_error darwin_client mem_kernel (O_rmdir ''/d'') (kern world0) = Some (linux_errno ''ENOTEMPTY'')" by blast+
  from mounted_kernel_error [OF r(3), of NewDockerFuseFSOps] obtain e' w'
    where "op_errno darwin_client (mounted (os_env mem_kernel)) (O_rmdir ''/d'') (Running (NewDockerFuseFSOps, world0))
      = (Val e', Running (NewDockerFuseFSOps, w'))" and "e' = ce_errno darwin_client ''ENOTEMPTY''"
    using r(2) by blast
  with r(1) show ?thesis by (intro exI [of _ w']) (simp add: darwin_client_def)
qed

theorem client_reports_outcome_witness:
  "\<exists>e c. op_errno linux_client (mounted (os_env mem_kernel)) (O_close 9) (Running (NewDockerFuseFSOps, world0)) = (Val e, c) \<and> e \<noteq> 0"
proof -
  let ?op = "O_close 9" and ?env = "os_env mem_kernel" and ?s = "Running (NewDockerFuseFSOps, world0)"
  have "rc_Call (satellite_client ?env) (fst (op_request linux_client ?op)) (snd (op_request linux_client ?op)) ?s
      = (Inl ''errno: EINVAL'', ?s)"
    by (simp add: satellite_client_def Call_Running serve_methods rpc_method_def dec_enc mem_run)
  from client_reports_outcome [OF satlink.rpc_transport_axioms _ _ this, of "mounted ?env"]
  show ?thesis by (auto simp: linux_client_def linux_err.errno_consts_axioms mounted_def)
qed

subsection \<open>A crash of the satellite\<close>

text \<open>A sequence of operations, and their results.\<close>

fun run_ops :: "client_env \<Rightarrow> 's DockerFuseClient \<Rightarrow> client_op list \<Rightarrow> 's \<Rightarrow> errno go list \<times> 's" where
  "run_ops E d [] s = ([], s)"
| "run_ops E d (op # ops) s = (case op_errno E d op s of (e, s') \<Rightarrow>
     (case run_ops E d ops s' of (es, s'') \<Rightarrow> (e # es, s'')))"

text \<open>C20. When an operation brings the satellite down it reports \<^verbatim>\<open>EIO\<close>, and so does
  every operation from then on, without effect on the container: the client never connects
  again.\<close>

theorem crash_is_permanent:
  assumes "op_errno E (mounted env) op (Running st) = (r, Down w)"
  shows "r = Val (ce_errno E ''EIO'') \<and>
    run_ops E (mounted env) ops (Down w) = (replicate (length ops) (Val (ce_errno E ''EIO'')), Down w)"
proof
  show "r = Val (ce_errno E ''EIO'')"
    using assms by (auto simp: mounted_op_errno RPCErrorStringTOErrno_def HasPrefix_def split: prod.splits result.splits)
  show "run_ops E (mounted env) ops (Down w) = (replicate (length ops) (Val (ce_errno E ''EIO'')), Down w)"
    by (induction ops) (simp_all add: mounted_op_down)
qed

theorem crash_is_permanent_witness:
  "\<exists>w. op_errno linux_client (mounted (os_env mem_kernel)) (O_read 3 (-1) 1) (Running (opened_world ''/a'' O_RDWR)) = (Val 5, Down w) \<and>
     run_ops linux_client (mounted (os_env mem_kernel)) [O_stat ''/a'', O_unlink ''/b''] (Down w) = ([Val 5, Val 5], Down w)"
proof -
  have "\<exists>m st. Read (os_env mem_kernel) \<lparr> re_FD = 3, re_Offset = -1, re_Num = 1 \<rparr> (opened_world ''/a'' O_RDWR) = (Crash m, st)"
    using opened_rdwr [OF refl] by (cases "opened_world ''/a'' O_RDWR") (simp add: Read_def os_ReadAt_def rpc_error_def assert_Errno_def)
  then obtain r w where run: "op_errno linux_client (mounted (os_env mem_kernel)) (O_read 3 (-1) 1) (Running (opened_world ''/a'' O_RDWR)) = (r, Down w)"
    by (auto simp: mounted_op_errno serve_methods rpc_method_def dec_enc simp del: op_errno.simps)
  from crash_is_permanent [OF run, of "[O_stat ''/a'', O_unlink ''/b'']"] run show ?thesis
    by (intro exI [of _ w]) (simp add: linux_client_def)
qed

subsection \<open>Descriptors\<close>

text \<open>C3. Whatever requests the satellite is sent, one after the other, its table holds exactly the
  files that are open, each under its own descriptor, and the process has no descriptor open besides
  these and the ones it was started with: none leaks.\<close>

theorem no_descriptor_leaks:
  assumes "posix_kernel K kfds" and "objs w = (\<lambda>_. None)"
    and "run_requests (os_env K) rs (Running (NewDockerFuseFSOps, w)) = (xs, Running (fso', w'))"
  shows "kfds (kern w') = kfds (kern w) \<union> dom (fds fso') \<and> dom (fds fso') \<inter> kfds (kern w) = {} \<and>
    (\<forall>fd f. fds fso' fd = Some f \<longleftrightarrow> sysfd f w' = Some fd)"
proof -
  have "conn_inv (os_env K) (os_wf (kfds (kern w)) kfds) os_open (Running (NewDockerFuseFSOps, w))"
    using assms(2) by (simp add: conn_inv_def fd_inv_def os_wf_def os_open_def sysfd_def NewDockerFuseFSOps_def)
  from satellite_files.run_requests_conn_inv [OF os_env_satellite_files [OF assms(1)] this, of rs] assms(3)
  have inv: "fd_inv (os_env K) (os_wf (kfds (kern w)) kfds) os_open (fso', w')"
    by (simp add: conn_inv_def)
  then have tab: "fds fso' fd = Some f \<longleftrightarrow> sysfd f w' = Some fd" for fd f
    by (auto simp: fd_inv_def os_open_def os_Fd_def)
  then have "dom (fds fso') = {d. \<exists>i. sysfd i w' = Some d}" by auto
  with fd_inv_wf [OF inv] tab show ?thesis by (auto simp: os_wf_def)
qed

theorem no_descriptor_leaks_witness:
  "\<exists>xs fso' w'. run_requests (os_env mem_kernel)
      [(''DockerFuseFSOps.Open'', enc_OpenRequest \<lparr> op_FullPath = ''/a'', op_SAFlags = 0, op_Mode = 0 \<rparr>),
       (''DockerFuseFSOps.Open'', enc_OpenRequest \<lparr> op_FullPath = ''/b'', op_SAFlags = 0, op_Mode = 0 \<rparr>),
       (''DockerFuseFSOps.Close'', enc_CloseRequest \<lparr> cl_FD = 3 \<rparr>)] (Running (NewDockerFuseFSOps, world0))
      = (xs, Running (fso', w')) \<and> mem_fds (kern w') = dom (fds fso') \<and> fds fso' 4 = Some 1 \<and> fds fso' 3 = None"
proof -
  let ?rs = "[(''DockerFuseFSOps.Open'', enc_OpenRequest \<lparr> op_FullPath = ''/a'', op_SAFlags = 0, op_Mode = 0 \<rparr>),
       (''DockerFuseFSOps.Open'', enc_OpenRequest \<lparr> op_FullPath = ''/b'', op_SAFlags = 0, op_Mode = 0 \<rparr>),
       (''DockerFuseFSOps.Close'', enc_CloseRequest \<lparr> cl_FD = 3 \<rparr>)]"
  obtain xs fso' w' where run: "run_requests (os_env mem_kernel) ?rs (Running (NewDockerFuseFSOps, world0)) = (xs, Running (fso', w'))"
    and f: "fds fso' 4 = Some 1" "fds fso' 3 = None"
    by (simp add: Call_Running serve_methods rpc_method_def dec_enc mem_run)
  moreover have "mem_fds (kern w') = dom (fds fso')"
    using no_descriptor_leaks [OF memk.posix_kernel_axioms _ run] by (simp add: world0_def mem0_def mem_fds_def)
  ultimately show ?thesis by blast
qed

subsection \<open>Directories\<close>

lemma read_entries_quiet:
  assumes "\<forall>n \<in> set ns. k_lstat K (p @ ''/'' @ n) (kern w) = (Inr (st n), kern w)"
  shows "read_entries (os_env K) (map (\<lambda>n. \<lparr> dent_Name = n, dent_Info = os_Lstat K (p @ ''/'' @ n) \<rparr>) ns) acc w
     = (Ok (acc @ map (\<lambda>n. \<lparr> de_Mode = s_Mode (st n), de_Name = n, de_Ino = s_Ino (st n) \<rparr>) ns), w)"
  using assms by (induction ns arbitrary: acc) (simp_all add: os_Lstat_def)

text \<open>C21. Listing a directory through the mount shows the names in the container's directory, in
  order and with their types, except the files whose inode number is at most 2 (the roots of most
  file systems, so everything mounted in that directory).\<close>

theorem mounted_readdir:
  assumes "k_readdir K p (kern w) = (Inr ns, kern w)"
    and "\<forall>n \<in> set ns. k_lstat K (p @ ''/'' @ n) (kern w) = (Inr (st n), kern w)"
  shows "Node_Readdir (root_node E (os_env K) p) (Running (fso, w)) =
    (Val (Some (map (\<lambda>n. \<lparr> fe_Mode = s_Mode (st n), fe_Ino = s_Ino (st n), fe_Name = n \<rparr>)
       (filter (\<lambda>n. 2 < s_Ino (st n)) (sort ns))), 0), Running (fso, w))"
proof -
  have "ReadDir (os_env K) \<lparr> rd_FullPath = p \<rparr> (fso, w)
      = (Ok \<lparr> DirEntries = map (\<lambda>n. \<lparr> de_Mode = s_Mode (st n), de_Name = n, de_Ino = s_Ino (st n) \<rparr>) (sort ns) \<rparr>, fso, w)"
    using read_entries_quiet [of "sort ns" K p w st "[]"] assms by (simp add: ReadDir_def osFS_def os_ReadDir_def)
  then show ?thesis
    by (simp add: Node_Readdir_def root_node_def NewNode_def client_interface_def readDir_def mounted_calls reply_of_def
      on_result_def go_then_def visible_entries_def filter_map comp_def)
qed

text \<open>A directory with a file \<^verbatim>\<open>x\<close> and a mount point \<^verbatim>\<open>m\<close>.\<close>

definition mem_mount :: mem where
  "mem_mount = mem0\<lparr> names := names mem0 @ [(''/d/m'', 2)] \<rparr>"

theorem mounted_readdir_witness:
  "fst (Node_Readdir (mem_root ''/d'') (Running (NewDockerFuseFSOps, world0\<lparr> kern := mem_mount \<rparr>)))
     = Val (Some [\<lparr> fe_Mode = 0x81A4, fe_Ino = 15, fe_Name = ''x'' \<rparr>], 0)"
proof -
  let ?w = "world0\<lparr> kern := mem_mount \<rparr>"
  define st where "st n = projr (fst (k_lstat mem_kernel (''/d'' @ ''/'' @ n) mem_mount))" for n
  have a: "k_readdir mem_kernel ''/d'' (kern ?w) = (Inr [''x'', ''m''], kern ?w)"
    by (simp add: mem_kernel_def mem_readdir_def mem_find_def mem_mount_def mem0_def below_def HasPrefix_def blank_node_def)
  have b: "\<forall>n \<in> set [''x'', ''m'']. k_lstat mem_kernel (''/d'' @ ''/'' @ n) (kern ?w) = (Inr (st n), kern ?w)"
    by (simp add: st_def mem_kernel_def mem_find_def mem_mount_def mem0_def)
  have c: "s_Ino (st ''x'') = 15" "s_Mode (st ''x'') = 0x81A4" "s_Ino (st ''m'') = 2"
    by (simp_all add: st_def mem_kernel_def mem_find_def mem_mount_def mem0_def mem_stat_def blank_node_def)
  have d: "sort [''x'', ''m''] = [''m'', ''x'']" by code_simp
  show ?thesis
    using mounted_readdir [where st = st, OF a b, of linux_client NewDockerFuseFSOps] c
    unfolding d by (simp add: mem_root_def)
qed

end
