(* ===== verification/File_Sessions.thy ===== *)
theory File_Sessions
  imports End_To_End
begin

text \<open>
  Reading and writing through the mount, any number of times and through any number of handles: the
  container's files behave like a store of byte arrays. The locale \<open>file_store\<close> refines
  \<open>file_data\<close>: descriptors stand for files, several descriptors may stand for the same one, and a
  write changes no other file. The specification is an interpreter of the same requests on a map from
  files to bytes; the theorem is a functional refinement over whole sessions.
\<close>

subsection \<open>Files behind descriptors\<close>

definition store_contents :: "('k \<Rightarrow> uintptr \<Rightarrow> 'i option) \<Rightarrow> ('k \<Rightarrow> 'i \<Rightarrow> byte list) \<Rightarrow> 'k \<Rightarrow> uintptr \<Rightarrow> byte list option" where
  "store_contents file_of bytes k d = map_option (bytes k) (file_of k d)"

locale file_store =
  fixes K :: "'k kernel" and file_of :: "'k \<Rightarrow> uintptr \<Rightarrow> 'i option" and bytes :: "'k \<Rightarrow> 'i \<Rightarrow> byte list"
  assumes pread_keeps: "k_pread K d len off k = (r, k') \<Longrightarrow> file_of k' = file_of k \<and> bytes k' = bytes k"
    and pread_bytes: "k_pread K d len off k = (Inr bs, k') \<Longrightarrow> file_of k d = Some i \<Longrightarrow> 0 \<le> sint off \<Longrightarrow> 0 < len \<Longrightarrow>
      length bs \<le> len \<and> prefix bs (drop (nat (sint off)) (bytes k i)) \<and> (bs = [] \<longrightarrow> length (bytes k i) \<le> nat (sint off))"
    and pwrite_keeps: "k_pwrite K d bs off k = (s, k') \<Longrightarrow>
      file_of k' = file_of k \<and> (\<forall>j. file_of k d \<noteq> Some j \<longrightarrow> bytes k' j = bytes k j)"
    and pwrite_bytes: "k_pwrite K d bs off k = (Inr n, k') \<Longrightarrow> file_of k d = Some i \<Longrightarrow> 0 \<le> sint off \<Longrightarrow> bs \<noteq> [] \<Longrightarrow>
      0 < n \<and> n \<le> length bs \<and> bytes k' i = overwrite (bytes k i) (nat (sint off)) (take n bs)"

sublocale file_store \<subseteq> store: file_data K "store_contents file_of bytes"
proof (unfold_locales, goal_cases)
  case (1 d len off k bs k' data)
  then show ?case using pread_keeps [OF 1(1)] pread_bytes [OF 1(1)] by (auto simp: store_contents_def)
next
  case (2 d bs off k n k' data)
  then show ?case using pwrite_keeps [OF 2(1)] pwrite_bytes [OF 2(1)] by (auto simp: store_contents_def)
qed

subsection \<open>What a session keeps\<close>

text \<open>What every single transfer keeps the loops keep, and so do the handlers.\<close>

lemma pread_loop_pres:
  assumes "\<And>len off k. P k \<Longrightarrow> P (snd (k_pread K d len off k))" and "P k"
  shows "P (snd (pread_loop K d len off acc k))"
  using assms(2)
proof (induction len arbitrary: off acc k rule: less_induct)
  case (less len)
  obtain x k1 where r: "k_pread K d len off k = (x, k1)" by fastforce
  then have "P k1" using assms(1) [OF less.prems, of len off] by simp
  with less r show ?case by (auto simp: pread_loop.simps [of K d len] split: sum.splits)
qed

lemma pwrite_loop_pres:
  assumes "\<And>bs off k. P k \<Longrightarrow> P (snd (k_pwrite K d bs off k))" and "P k"
  shows "P (snd (pwrite_loop K d bs off m k))"
  using assms(2)
proof (induction bs arbitrary: off m k rule: length_induct)
  case (1 bs)
  obtain x k1 where r: "k_pwrite K d bs off k = (x, k1)" by fastforce
  then have "P k1" using assms(1) [OF 1(2), of bs off] by simp
  with 1 r show ?case by (auto simp: pwrite_loop.simps [of K d bs] split: sum.splits)
qed

lemma Read_pres:
  assumes "fds fso (re_FD req) = Some f" and "sysfd f w = Some d" and "P (kern w)"
    and "\<And>len off k. P k \<Longrightarrow> P (snd (k_pread K d len off k))"
  shows "\<exists>k'. snd (Read (os_env K) req (fso, w)) = (fso, w\<lparr> kern := k' \<rparr>) \<and> P k'"
proof -
  have "\<exists>k'. snd (os_ReadAt K f len off w) = w\<lparr> kern := k' \<rparr> \<and> P k'" for len off
  proof -
    obtain x k' where l: "pread_loop K d len off [] (kern w) = (x, k')" by fastforce
    then have "P k'" using pread_loop_pres [of P K d "kern w" len off "[]"] assms(3,4) by simp
    with assms(2,3) l show ?thesis by (auto simp: os_ReadAt_def split: prod.splits intro: exI [of _ "kern w"])
  qed
  then obtain n bs err k' where "os_ReadAt K f (nat (sint (re_Num req))) (re_Offset req) w = ((n, bs, err), w\<lparr> kern := k' \<rparr>)" "P k'"
    by (metis prod.collapse)
  with assms(1,3) show ?thesis
    by (cases "sint (re_Num req) < 0"; cases err) (auto simp: Read_def intro: exI [of _ "kern w"])
qed

lemma Write_pres:
  assumes "fds fso (wr_FD req) = Some f" and "sysfd f w = Some d" and "P (kern w)"
    and "\<And>bs off k. P k \<Longrightarrow> P (snd (k_pwrite K d bs off k))"
  shows "\<exists>k'. snd (Write (os_env K) req (fso, w)) = (fso, w\<lparr> kern := k' \<rparr>) \<and> P k'"
proof -
  have "\<exists>k'. snd (os_WriteAt K f bs off w) = w\<lparr> kern := k' \<rparr> \<and> P k'" for bs off
  proof -
    obtain x k' where l: "pwrite_loop K d bs off 0 (kern w) = (x, k')" by fastforce
    then have "P k'" using pwrite_loop_pres [of P K d "kern w" bs off 0] assms(3,4) by simp
    with assms(2,3) l show ?thesis by (auto simp: os_WriteAt_def split: prod.splits intro: exI [of _ "kern w"])
  qed
  then obtain n err k' where "os_WriteAt K f (wr_Data req) (wr_Offset req) w = ((n, err), w\<lparr> kern := k' \<rparr>)" "P k'"
    by (metis prod.collapse)
  with assms(1) show ?thesis by (cases err) (auto simp: Write_def)
qed

subsection \<open>Sessions\<close>

text \<open>The requests of a session with their handles, and what FUSE gets for them.\<close>

datatype io_req = IO_read uintptr nat int64 | IO_write uintptr "byte list" int64

datatype io_reply = Data "byte list option" errno | Count uint32 errno

fun mount_io :: "'s Node \<Rightarrow> io_req \<Rightarrow> 's \<Rightarrow> io_reply go \<times> 's" where
  "mount_io node (IO_read fd n off) s = go_then (Node_Read node (Some fd) n off s) (\<lambda>(bs, e) s'. (Val (Data bs e), s'))"
| "mount_io node (IO_write fd bs off) s = go_then (Node_Write node (Some fd) bs off s) (\<lambda>(n, e) s'. (Val (Count n e), s'))"

text \<open>Every request is made through the node of a path.\<close>

fun mount_session :: "client_env \<Rightarrow> ('f, 'w) satellite_env \<Rightarrow> (string \<times> io_req) list \<Rightarrow> ('f, 'w) conn
    \<Rightarrow> io_reply go list \<times> ('f, 'w) conn" where
  "mount_session E env [] c = ([], c)"
| "mount_session E env ((p, r) # rs) c = (case mount_io (root_node E env p) r c of (x, c') \<Rightarrow>
     (case mount_session E env rs c' of (xs, c'') \<Rightarrow> (x # xs, c'')))"

text \<open>The specification: \<open>handles\<close> names the file of a handle, \<open>einval\<close> is the error of a handle that
  is not open.\<close>

fun spec_io :: "errno \<Rightarrow> (uintptr \<rightharpoonup> 'i) \<Rightarrow> io_req \<Rightarrow> ('i \<Rightarrow> byte list) \<Rightarrow> io_reply \<times> ('i \<Rightarrow> byte list)" where
  "spec_io einval handles (IO_read fd n off) store = (case handles fd of
     None \<Rightarrow> (Data None einval, store)
   | Some i \<Rightarrow> (Data (Some (take n (drop (nat (sint off)) (store i)))) 0, store))"
| "spec_io einval handles (IO_write fd bs off) store = (case handles fd of
     None \<Rightarrow> (Count 0 einval, store)
   | Some i \<Rightarrow> (Count (of_nat (length bs)) 0, store(i := overwrite (store i) (nat (sint off)) bs)))"

fun spec_session :: "errno \<Rightarrow> (uintptr \<rightharpoonup> 'i) \<Rightarrow> io_req list \<Rightarrow> ('i \<Rightarrow> byte list) \<Rightarrow> io_reply list \<times> ('i \<Rightarrow> byte list)" where
  "spec_session einval handles [] store = ([], store)"
| "spec_session einval handles (r # rs) store = (case spec_io einval handles r store of (x, store') \<Rightarrow>
     (case spec_session einval handles rs store' of (xs, store'') \<Rightarrow> (x # xs, store'')))"

text \<open>The file behind a handle, unless it was opened for appending.\<close>

definition handle_file :: "('k \<Rightarrow> uintptr \<Rightarrow> 'i option) \<Rightarrow> nat DockerFuseFSOps \<times> 'k os_world \<Rightarrow> uintptr \<Rightarrow> 'i option" where
  "handle_file file_of st fd = (case fds (fst st) fd of
     None \<Rightarrow> None
   | Some f \<Rightarrow> if append_mode f (snd st) then None
       else (case sysfd f (snd st) of None \<Rightarrow> None | Some d \<Rightarrow> file_of (kern (snd st)) d))"

text \<open>Requests within the bounds of \<^verbatim>\<open>int64\<close>, through handles that are closed or stand for a file.\<close>

fun io_fd :: "io_req \<Rightarrow> uintptr" where
  "io_fd (IO_read fd n off) = fd"
| "io_fd (IO_write fd bs off) = fd"

fun io_bounds :: "io_req \<Rightarrow> bool" where
  "io_bounds (IO_read fd n off) \<longleftrightarrow> 0 \<le> sint off \<and> 0 < n \<and> n < 2 ^ 63"
| "io_bounds (IO_write fd bs off) \<longleftrightarrow> 0 \<le> sint off \<and> bs \<noteq> [] \<and> length bs < 2 ^ 32 \<and> sint off + int (length bs) < 2 ^ 63"

definition kernel_answers :: "'k kernel \<Rightarrow> ('k \<Rightarrow> uintptr \<Rightarrow> 'i option) \<Rightarrow> bool" where
  "kernel_answers K file_of \<longleftrightarrow> (\<forall>k d. file_of k d \<noteq> None \<longrightarrow>
     (\<forall>len off. \<exists>bs k'. k_pread K d len off k = (Inr bs, k')) \<and> (\<forall>bs off. \<exists>n k'. k_pwrite K d bs off k = (Inr n, k')))"

lemma handle_fileE:
  assumes "handle_file file_of (fso, w) fd = Some i"
  obtains f d where "fds fso fd = Some f" "\<not> append_mode f w" "sysfd f w = Some d" "file_of (kern w) d = Some i"
  using assms by (auto simp: handle_file_def split: option.splits if_splits)

lemma handle_file_kern: "file_of k' = file_of (kern w) \<Longrightarrow> handle_file file_of (fso, w\<lparr> kern := k' \<rparr>) = handle_file file_of (fso, w)"
  by (auto simp: handle_file_def fun_eq_iff split: option.split)

text \<open>The state after a request is the one its handler leaves.\<close>

lemma Node_Read_state:
  "Node_Read (root_node E env p) (Some fd) n off (Running st) = (x, Running st') \<Longrightarrow>
   st' = snd (Read env \<lparr> re_FD = fd, re_Offset = off, re_Num = of_nat n \<rparr> st)"
  by (auto simp: Node_Read_def root_read reply_of_def on_result_def go_then_def split: prod.splits result.splits if_splits)

lemma Node_Write_state:
  "Node_Write (root_node E env p) (Some fd) bs off (Running st) = (x, Running st') \<Longrightarrow>
   st' = snd (Write env \<lparr> wr_FD = fd, wr_Offset = off, wr_Data = bs \<rparr> st)"
  by (auto simp: Node_Write_def root_write reply_of_def on_result_def go_then_def split: prod.splits result.splits)

lemma root_write_absent:
  assumes "errno_consts (env_errno env)" and "fds fso fd = None"
  shows "Node_Write (root_node E env p) (Some fd) bs off (Running (fso, w)) = (Val (0, ce_errno E ''EINVAL''), Running (fso, w))"
  by (simp add: Node_Write_def root_write reply_of_def on_result_def go_then_def Write_def assms(2) client_EINVAL [OF assms(1)])

context file_store
begin

lemma handle_open:
  "fds fso fd = Some f \<Longrightarrow> \<not> append_mode f w \<Longrightarrow> sysfd f w = Some d \<Longrightarrow> file_of (kern w) d = Some i \<Longrightarrow>
   open_handle (store_contents file_of bytes) fd d (bytes (kern w) i) (fso, w)"
  by (auto simp: open_handle_def store_contents_def)

lemma mount_read:
  assumes "kernel_answers K file_of" and "handle_file file_of (fso, w) fd = Some i" and "io_bounds (IO_read fd n off)"
    and "length (bytes (kern w) i) < 2 ^ 63"
  shows "\<exists>k'. Node_Read (root_node E (os_env K) p) (Some fd) n off (Running (fso, w))
      = (Val (Some (take n (drop (nat (sint off)) (bytes (kern w) i))), 0), Running (fso, w\<lparr> kern := k' \<rparr>)) \<and>
    file_of k' = file_of (kern w) \<and> bytes k' = bytes (kern w)"
proof -
  from handle_fileE [OF assms(2)] obtain f d where f: "fds fso fd = Some f" "\<not> append_mode f w" "sysfd f w = Some d"
    "file_of (kern w) d = Some i" by blast
  let ?P = "\<lambda>k. file_of k = file_of (kern w) \<and> bytes k = bytes (kern w)"
  let ?req = "\<lparr> re_FD = fd, re_Offset = off, re_Num = of_nat n \<rparr>"
  have "?P (snd (k_pread K d len o' k))" if "?P k" for len o' k
    using that pread_keeps [of d len o' k] by (metis prod.collapse)
  then obtain k' where k': "snd (Read (os_env K) ?req (fso, w)) = (fso, w\<lparr> kern := k' \<rparr>)" "?P k'"
    using Read_pres [of fso ?req f w d ?P K] f by auto
  have answers: "\<exists>bs k'. k_pread K d len ofs k = (Inr bs, k')" if "store_contents file_of bytes k d \<noteq> None" for len ofs k
    using assms(1) that by (auto simp: kernel_answers_def store_contents_def)
  obtain st' where r: "Node_Read (root_node E (os_env K) p) (Some fd) n off (Running (fso, w))
      = (Val (Some (take n (drop (nat (sint off)) (bytes (kern w) i))), 0), Running st')"
    using node_read_contents [OF store.file_data_axioms answers handle_open [OF f] assms(4), of off n E p] assms(3)
    unfolding io_bounds.simps by blast
  then have "st' = (fso, w\<lparr> kern := k' \<rparr>)" using Node_Read_state [OF r] k'(1) by simp
  with r k'(2) show ?thesis by blast
qed

lemma mount_write:
  assumes "kernel_answers K file_of" and "handle_file file_of (fso, w) fd = Some i" and "io_bounds (IO_write fd bs off)"
  shows "\<exists>k'. Node_Write (root_node E (os_env K) p) (Some fd) bs off (Running (fso, w))
      = (Val (of_nat (length bs), 0), Running (fso, w\<lparr> kern := k' \<rparr>)) \<and>
    file_of k' = file_of (kern w) \<and> bytes k' = (bytes (kern w))(i := overwrite (bytes (kern w) i) (nat (sint off)) bs)"
proof -
  from handle_fileE [OF assms(2)] obtain f d where f: "fds fso fd = Some f" "\<not> append_mode f w" "sysfd f w = Some d"
    "file_of (kern w) d = Some i" by blast
  let ?P = "\<lambda>k. file_of k = file_of (kern w) \<and> (\<forall>j. j \<noteq> i \<longrightarrow> bytes k j = bytes (kern w) j)"
  let ?req = "\<lparr> wr_FD = fd, wr_Offset = off, wr_Data = bs \<rparr>"
  have "?P (snd (k_pwrite K d cs o' k))" if "?P k" for cs o' k
    using that pwrite_keeps [of d cs o' k] f(4) by (metis option.inject prod.collapse)
  then obtain k' where k': "snd (Write (os_env K) ?req (fso, w)) = (fso, w\<lparr> kern := k' \<rparr>)" "?P k'"
    using Write_pres [of fso ?req f w d ?P K] f by auto
  have answers: "\<exists>n k'. k_pwrite K d cs ofs k = (Inr n, k')" if "store_contents file_of bytes k d \<noteq> None" for cs ofs k
    using assms(1) that by (auto simp: kernel_answers_def store_contents_def)
  obtain st' where w: "Node_Write (root_node E (os_env K) p) (Some fd) bs off (Running (fso, w)) = (Val (of_nat (length bs), 0), Running st')"
    and o: "open_handle (store_contents file_of bytes) fd d (overwrite (bytes (kern w) i) (nat (sint off)) bs) st'"
    using node_write_contents [OF store.file_data_axioms answers handle_open [OF f], of bs off E p] assms(3)
    unfolding io_bounds.simps by blast
  have st': "st' = (fso, w\<lparr> kern := k' \<rparr>)" using Node_Write_state [OF w] k'(1) by simp
  with o f k' have "bytes k' i = overwrite (bytes (kern w) i) (nat (sint off)) bs"
    by (auto simp: open_handle_def store_contents_def)
  with k'(2) have "bytes k' = (bytes (kern w))(i := overwrite (bytes (kern w) i) (nat (sint off)) bs)" by auto
  with w st' k'(2) show ?thesis by blast
qed

lemma mount_io_spec:
  assumes "kernel_answers K file_of" and "errno_consts (ce_errno E)" and "io_bounds r"
    and "fds fso (io_fd r) = None \<or> handle_file file_of (fso, w) (io_fd r) \<noteq> None" and "\<forall>i. length (bytes (kern w) i) < 2 ^ 63"
  shows "\<exists>k'. mount_io (root_node E (os_env K) p) r (Running (fso, w))
      = (Val (fst (spec_io (ce_errno E ''EINVAL'') (handle_file file_of (fso, w)) r (bytes (kern w)))), Running (fso, w\<lparr> kern := k' \<rparr>)) \<and>
    file_of k' = file_of (kern w) \<and> bytes k' = snd (spec_io (ce_errno E ''EINVAL'') (handle_file file_of (fso, w)) r (bytes (kern w)))"
proof (cases "handle_file file_of (fso, w) (io_fd r)")
  case None
  with assms(4) have "fds fso (io_fd r) = None" by blast
  with None root_read_absent [of "os_env K" E fso] root_write_absent [of "os_env K" fso] assms(2)
  show ?thesis
    by (intro exI [of _ "kern w"], cases r) (simp_all add: go_then_def linux_err.errno_consts_axioms)
next
  case (Some i)
  show ?thesis
  proof (cases r)
    case (IO_read fd n off)
    then obtain k' where "Node_Read (root_node E (os_env K) p) (Some fd) n off (Running (fso, w))
        = (Val (Some (take n (drop (nat (sint off)) (bytes (kern w) i))), 0), Running (fso, w\<lparr> kern := k' \<rparr>))"
      "file_of k' = file_of (kern w)" "bytes k' = bytes (kern w)"
      using mount_read [OF assms(1), of fso w fd i n off E p] Some assms(3,5) by auto
    with IO_read Some show ?thesis by (intro exI [of _ k']) (simp add: go_then_def)
  next
    case (IO_write fd bs off)
    then obtain k' where "Node_Write (root_node E (os_env K) p) (Some fd) bs off (Running (fso, w))
        = (Val (of_nat (length bs), 0), Running (fso, w\<lparr> kern := k' \<rparr>))"
      "file_of k' = file_of (kern w)" "bytes k' = (bytes (kern w))(i := overwrite (bytes (kern w) i) (nat (sint off)) bs)"
      using mount_write [OF assms(1), of fso w fd i bs off E p] Some assms(3) by auto
    with IO_write Some show ?thesis by (intro exI [of _ k']) (simp add: go_then_def)
  qed
qed

end

lemma spec_io_bounds:
  assumes "io_bounds r" and "\<forall>i. length (store i) < 2 ^ 63"
  shows "length (snd (spec_io einval handles r store) i) < 2 ^ 63"
proof (cases r)
  case (IO_write fd bs off)
  with assms(1) have "0 \<le> sint off" "sint off + int (length bs) < 2 ^ 63" by simp_all
  then have "nat (sint off) + length bs < 2 ^ 63" by simp
  with IO_write assms(2) show ?thesis by (auto simp: length_overwrite split: option.split)
qed (use assms(2) in \<open>auto split: option.split\<close>)

context file_store
begin

lemma mount_session_spec:
  assumes "kernel_answers K file_of" and "errno_consts (ce_errno E)" and "\<forall>i. length (bytes (kern w) i) < 2 ^ 63"
    and "\<forall>(p, r) \<in> set rs. io_bounds r \<and> (fds fso (io_fd r) = None \<or> handle_file file_of (fso, w) (io_fd r) \<noteq> None)"
  shows "\<exists>replies w'. spec_session (ce_errno E ''EINVAL'') (handle_file file_of (fso, w)) (map snd rs) (bytes (kern w))
      = (replies, bytes (kern w')) \<and> mount_session E (os_env K) rs (Running (fso, w)) = (map Val replies, Running (fso, w'))"
  using assms(3,4)
proof (induction rs arbitrary: w)
  case Nil
  then show ?case by auto
next
  case (Cons pr rs)
  obtain p r where pr: "pr = (p, r)" by fastforce
  let ?h = "handle_file file_of (fso, w)"
  obtain x store where spec: "spec_io (ce_errno E ''EINVAL'') ?h r (bytes (kern w)) = (x, store)" by fastforce
  obtain k' where io: "mount_io (root_node E (os_env K) p) r (Running (fso, w)) = (Val x, Running (fso, w\<lparr> kern := k' \<rparr>))"
    and k': "file_of k' = file_of (kern w)" "bytes k' = store"
    using mount_io_spec [OF assms(1,2), of r fso w p] Cons.prems spec pr by auto
  have h: "handle_file file_of (fso, w\<lparr> kern := k' \<rparr>) = ?h" by (rule handle_file_kern [OF k'(1)])
  have "\<forall>i. length (store i) < 2 ^ 63"
    using spec_io_bounds [of r "bytes (kern w)" "ce_errno E ''EINVAL''" ?h] Cons.prems pr spec by simp
  then obtain replies w' where "spec_session (ce_errno E ''EINVAL'') ?h (map snd rs) store = (replies, bytes (kern w'))"
    "mount_session E (os_env K) rs (Running (fso, w\<lparr> kern := k' \<rparr>)) = (map Val replies, Running (fso, w'))"
    using Cons.IH [of "w\<lparr> kern := k' \<rparr>"] Cons.prems(2) h k'(2) by auto
  with pr spec io show ?case by (intro exI [of _ "x # replies"] exI [of _ w']) simp
qed

end


subsection \<open>The store of the executable kernel\<close>

definition mem_file :: "mem \<Rightarrow> uintptr \<Rightarrow> nat option" where
  "mem_file k d = (case mem_desc d k of
     None \<Rightarrow> None
   | Some (i, _, nd) \<Rightarrow> if n_mode nd AND S_IFMT = 0x4000 then None else Some i)"

definition mem_bytes :: "mem \<Rightarrow> nat \<Rightarrow> byte list" where
  "mem_bytes k i = (case inodes k i of
     None \<Rightarrow> []
   | Some nd \<Rightarrow> if n_mode nd AND S_IFMT = 0x4000 then [] else n_data nd)"

interpretation memstore: file_store mem_kernel mem_file mem_bytes
proof (unfold_locales, goal_cases)
  case (1 d len off k r k')
  then have "k' = k" by (auto simp: mem_kernel_def mem_pread_def split: option.splits if_splits)
  then show ?case by simp
next
  case (2 d len off k bs k' i)
  then have "bs = take (min len 4) (drop (nat (sint off)) (mem_bytes k i))"
    by (auto simp: mem_kernel_def mem_pread_def mem_file_def mem_bytes_def mem_desc_def split: option.splits if_splits)
  with 2 show ?case by (simp add: take_is_prefix)
next
  case (3 d bs off k s k')
  then show ?case
    by (auto simp: mem_kernel_def mem_pwrite_def mem_file_def mem_bytes_def mem_desc_def fun_eq_iff split: option.splits if_splits prod.splits)
next
  case (4 d bs off k n k' i)
  have "take (min (length bs) 4) bs = take 4 bs" by (simp add: min_def)
  with 4 show ?case
    by (auto simp: mem_kernel_def mem_pwrite_def mem_file_def mem_bytes_def mem_desc_def split: option.splits if_splits prod.splits)
qed

lemma mem_answers: "kernel_answers mem_kernel mem_file"
  by (auto simp: kernel_answers_def mem_kernel_def mem_pread_def mem_pwrite_def mem_file_def split: option.splits if_splits)

text \<open>The container of \<^const>\<open>world0\<close> with \<^verbatim>\<open>/a\<close> open twice, under the descriptors 3
  and 4.\<close>

definition twice_open :: "nat DockerFuseFSOps \<times> mem os_world" where
  "twice_open = snd (Open (os_env mem_kernel) \<lparr> op_FullPath = ''/a'', op_SAFlags = O_RDWR, op_Mode = 0 \<rparr> (opened_world ''/a'' O_RDWR))"

lemma twice_open_state:
  "handle_file mem_file twice_open 3 = Some 11" "handle_file mem_file twice_open 4 = Some 11" "fds (fst twice_open) 9 = None"
  "mem_bytes (kern (snd twice_open)) = mem_bytes mem0"
  by (simp_all add: twice_open_def opened_world_def handle_file_def mem_file_def mem_bytes_def fun_eq_iff mem_run)


end
