(* ===== verification/Mounted_Names.thy ===== *)
theory Mounted_Names
  imports End_To_End
begin

text \<open>
  The operations on names and attributes through the mount: each one comes to the system calls of the
  container's kernel that the package \<^verbatim>\<open>os\<close> makes for it, with the same effect and the
  translated result.
\<close>

subsection \<open>Names\<close>

text \<open>The system calls of an operation on names, their result and the kernel they leave. Of an existing
  file \<^verbatim>\<open>Stat\<close> reads the link target, too, whatever its type.\<close>

definition stat_call :: "'k kernel \<Rightarrow> string \<Rightarrow> 'k \<Rightarrow> errno option \<times> 'k" where
  "stat_call K p k = (case k_lstat K p k of
     (Inl e, k1) \<Rightarrow> (Some e, k1)
   | (Inr _, k1) \<Rightarrow> (None, snd (k_readlink K p k1)))"

definition remove_call :: "'k kernel \<Rightarrow> string \<Rightarrow> 'k \<Rightarrow> errno option \<times> 'k" where
  "remove_call K p k = (case k_unlink K p k of
     (None, k1) \<Rightarrow> (None, k1)
   | (Some e, k1) \<Rightarrow> (case k_rmdir K p k1 of
       (None, k2) \<Rightarrow> (None, k2)
     | (Some e1, k2) \<Rightarrow> (Some (if e1 \<noteq> linux_errno ''ENOTDIR'' then e1 else e), k2)))"

text \<open>A directory is not replaced, although \<^verbatim>\<open>rename(2)\<close> would replace an empty one.\<close>

definition rename_call :: "'k kernel \<Rightarrow> string \<Rightarrow> string \<Rightarrow> 'k \<Rightarrow> errno option \<times> 'k" where
  "rename_call K p q k = (case k_lstat K q k of
     (Inl _, k1) \<Rightarrow> k_rename K p q k1
   | (Inr new, k1) \<Rightarrow>
       if \<not> is_dir new then k_rename K p q k1
       else (case k_lstat K p k1 of
          (Inl e, k2) \<Rightarrow> (Some e, k2)
        | (Inr old, k2) \<Rightarrow> if q = p \<or> s_Ino new \<noteq> s_Ino old then (Some (linux_errno ''EEXIST''), k2) else k_rename K p q k2))"

fun name_call :: "'k kernel \<Rightarrow> client_op \<Rightarrow> 'k \<Rightarrow> (errno option \<times> 'k) option" where
  "name_call K (O_stat p) k = Some (stat_call K p k)"
| "name_call K (O_unlink p) k = Some (remove_call K p k)"
| "name_call K (O_rmdir p) k = Some (remove_call K p k)"
| "name_call K (O_mkdir p m) k = Some (case k_mkdir K p (syscallMode m) k of
     (Some e, k1) \<Rightarrow> (Some e, k1) | (None, k1) \<Rightarrow> stat_call K p k1)"
| "name_call K (O_rename p q fl) k = Some (rename_call K p q k)"
| "name_call K (O_readlink p) k = Some (case k_readlink K p k of (Inl e, k1) \<Rightarrow> (Some e, k1) | (Inr _, k1) \<Rightarrow> (None, k1))"
| "name_call K (O_link p q) k = Some (k_link K p q k)"
| "name_call K (O_symlink p q) k = Some (k_symlink K p q k)"
| "name_call K _ k = None"

definition outcome :: "errno option \<Rightarrow> 'a result \<Rightarrow> bool" where
  "outcome e r = (case e of None \<Rightarrow> \<exists>x. r = Ok x | Some e \<Rightarrow> r = Err (''errno: '' @ ErrnoToSym linux_errno e))"

lemma serve_name_call:
  assumes "name_call K op (kern w) = Some (e, k')"
  shows "\<exists>r. serve (os_env K) (fst (op_request E op)) (snd (op_request E op)) (fso, w) = (r, fso, w\<lparr> kern := k' \<rparr>) \<and> outcome e r"
proof (cases op)
qed (use assms in \<open>auto simp: serve_methods rpc_method_def dec_enc handlers osFS_def os_path_defs link_target_def stat_call_def
  remove_call_def rename_call_def outcome_def rpc_error_def assert_Errno_def unit_result_def
  split: prod.splits sum.splits option.splits if_splits\<close>)

lemma mounted_name_call:
  assumes "name_call K op (kern w) = Some (e, k')"
  shows "op_errno E (mounted (os_env K)) op (Running (fso, w)) = (Val (case e of None \<Rightarrow> 0
      | Some x \<Rightarrow> RPCErrorStringTOErrno (ce_errno E) (''errno: '' @ ErrnoToSym linux_errno x)), Running (fso, w\<lparr> kern := k' \<rparr>))"
proof -
  obtain r where r: "serve (os_env K) (fst (op_request E op)) (snd (op_request E op)) (fso, w) = (r, fso, w\<lparr> kern := k' \<rparr>)" "outcome e r"
    using serve_name_call [OF assms] by blast
  have "\<not> is_read op" using assms by (cases op) auto
  with r show ?thesis by (cases e) (auto simp: mounted_op_errno outcome_def simp del: append.simps)
qed



text \<open>C36. The flags of \<^verbatim>\<open>renameat2(2)\<close> are sent and ignored: a rename that must not replace
  its target, or that exchanges two files, is carried out as a plain rename.\<close>

theorem rename_ignores_flags:
  "Node_Rename (root_node E env p) name newParent newName flags (Running st)
   = Node_Rename (root_node E env p) name newParent newName 0 (Running st)"
  by (simp add: Node_Rename_def root_node_def NewNode_def client_interface_def rename_def mounted_calls Rename_def Let_def split: prod.split)

subsection \<open>Attributes\<close>

definition attr_of :: "Stat_t \<Rightarrow> fuse_Attr" where
  "attr_of st = \<lparr> a_Ino = s_Ino st, a_Size = s_Size st, a_Blocks = s_Blocks st, a_Atime = ts_Sec (s_Atim st),
     a_Mtime = ts_Sec (s_Mtim st), a_Ctime = ts_Sec (s_Ctim st), a_Mode = s_Mode st, a_Nlink = ucast (s_Nlink st),
     a_Uid = s_Uid st, a_Gid = s_Gid st \<rparr>"

lemma root_stat:
  assumes "k_lstat K q (kern w) = (Inr st, k1)" and "k_readlink K q k1 = (y, k2)"
  shows "i_stat (fuseDockerClient (root_node E (os_env K) p)) q attr (Running (fso, w))
    = (Val (\<lparr> FuseAttr = attr_of st, attr_LinkTarget = (case y of Inl _ \<Rightarrow> '''' | Inr t \<Rightarrow> t) \<rparr>, 0), Running (fso, w\<lparr> kern := k2 \<rparr>))"
  using assms
  by (simp add: root_node_def NewNode_def client_interface_def stat_def mounted_calls Stat_def osFS_def os_Lstat_def os_Readlink_def
    link_target_def copy_stat_def reply_of_def on_result_def fill_attr_def attr_of_def os_env_def split: sum.split)

text \<open>C24. The attributes reported for a file, by \<^verbatim>\<open>Getattr\<close> and to whoever looks it up, are those
  of the file in the container: type, permissions, owner, size and inode number unchanged, the times
  without their fractions of a second, and the number of links in 32 bits.\<close>

theorem mounted_attributes:
  assumes "k_lstat K q (kern w) = (Inr st, k1)" and "k_readlink K q k1 = (y, k2)" and "q = child_path p name"
  shows "Node_Getattr (root_node E (os_env K) q) fh out (Running (fso, w)) = (Val (0, attr_of st), Running (fso, w\<lparr> kern := k2 \<rparr>)) \<and>
    (\<exists>node sa. Node_Lookup fc (root_node E (os_env K) p) name out (Running (fso, w))
        = (Val (Some (node, sa), 0, attr_of st), Running (fso, w\<lparr> kern := k2 \<rparr>)) \<and>
      node_fullPath node = q \<and> sattr_Ino sa = s_Ino st)"
proof
  have "node_fullPath (root_node E (os_env K) q) = q" for q by (simp add: root_node_def NewNode_def)
  then show "Node_Getattr (root_node E (os_env K) q) fh out (Running (fso, w)) = (Val (0, attr_of st), Running (fso, w\<lparr> kern := k2 \<rparr>))"
    by (simp add: Node_Getattr_def root_stat [OF assms(1,2)] go_then_def)
  have "Clean (Join [node_fullPath (root_node E (os_env K) p), name]) = q"
    using assms(3) by (simp add: root_node_def NewNode_def child_path_def)
  then show "\<exists>node sa. Node_Lookup fc (root_node E (os_env K) p) name out (Running (fso, w))
        = (Val (Some (node, sa), 0, attr_of st), Running (fso, w\<lparr> kern := k2 \<rparr>)) \<and> node_fullPath node = q \<and> sattr_Ino sa = s_Ino st"
    by (simp add: Node_Lookup_def root_stat [OF assms(1,2)] go_then_def NewNode_def attr_of_def)
qed

theorem mounted_attributes_witness:
  "\<exists>c. Node_Getattr (mem_root ''/d/x'') None (FuseAttr zero_statAttr) (Running (NewDockerFuseFSOps, world0))
     = (Val (0, (FuseAttr zero_statAttr)\<lparr> a_Ino := 15, a_Size := 2, a_Blocks := 1, a_Mode := 0x81A4, a_Nlink := 1 \<rparr>), c)"
proof -
  define st where "st = projr (fst (k_lstat mem_kernel ''/d/x'' mem0))"
  obtain y k2 where k: "k_lstat mem_kernel ''/d/x'' (kern world0) = (Inr st, kern world0)" "k_readlink mem_kernel ''/d/x'' (kern world0) = (y, k2)"
    by (simp add: st_def mem_kernel_def mem_find_def world0_def mem0_def mem_readlink_def)
  have path: "''/d/x'' = child_path ''/d'' ''x''" by code_simp
  have "attr_of st = (FuseAttr zero_statAttr)\<lparr> a_Ino := 15, a_Size := 2, a_Blocks := 1, a_Mode := 0x81A4, a_Nlink := 1 \<rparr>"
    by (simp add: st_def attr_of_def zero_statAttr_def mem_kernel_def mem_find_def mem0_def mem_stat_def blank_node_def)
  then show ?thesis
    using mounted_attributes [OF k path, of linux_client None "FuseAttr zero_statAttr" NewDockerFuseFSOps] by (auto simp: mem_root_def)
qed



end
