(* ===== verification/Handler_Steps.thy ===== *)
theory Handler_Steps
  imports Rpc_Link Mem_Kernel
begin

text \<open>
  The handlers as they really run. \<^verbatim>\<open>net/rpc\<close> starts a goroutine for every request, so the
  handlers of \<^verbatim>\<open>server.go\<close> interleave, and the table \<^verbatim>\<open>fds\<close> is shared
  without a lock. Each of the sixteen handlers, and \<^verbatim>\<open>CloseAllFDs\<close>, which a signal starts
  in a goroutine of its own, is split into its accesses to the table and its calls of the interfaces
  of \<^verbatim>\<open>filesystem.go\<close>, each an atomic step; this is the best case, since Go leaves
  unsynchronised accesses to a map undefined. Shown here: a handler that runs alone does what its
  sequential definition does, and every interleaving ends.
\<close>

subsection \<open>Handlers in steps\<close>

text \<open>Where a handler is: before the call or the access to the table it makes next.\<close>

datatype ('f, 'w) pc =
    Stat_call string
  | Stat_link string Stat_t
  | ReadDir_call ReadDirRequest
  | ReadDir_entry "'w DirEnt list" "DirEntry list"
  | Open_call OpenRequest
  | Open_fd OpenRequest 'f
  | Open_table OpenRequest 'f uintptr
  | Open_stale OpenRequest 'f uintptr 'f
  | Open_store OpenRequest 'f uintptr
  | Open_stat OpenRequest 'f uintptr
  | Open_link OpenRequest 'f uintptr Stat_t
  | Close_table CloseRequest
  | Close_call CloseRequest 'f
  | Close_delete CloseRequest "goerror option"
  | Read_table ReadRequest
  | Read_call ReadRequest 'f
  | Seek_table SeekRequest
  | Seek_call SeekRequest 'f
  | Write_table WriteRequest
  | Write_call WriteRequest 'f
  | Unlink_call UnlinkRequest
  | Fsync_table FsyncRequest
  | Fsync_call FsyncRequest 'f
  | Mkdir_call MkdirRequest
  | Rmdir_call RmdirRequest
  | Rename_call RenameRequest
  | Readlink_call ReadlinkRequest
  | Link_call LinkRequest
  | Symlink_call SymlinkRequest
  | SetAttr_mode SetAttrRequest
  | SetAttr_owner SetAttrRequest
  | SetAttr_times SetAttrRequest
  | SetAttr_size SetAttrRequest
  | Range_next "uintptr list"
  | Range_close uintptr 'f "uintptr list"
  | Range_delete uintptr "uintptr list"
  | Finished "gob result"
  | Exited

text \<open>The states of all handlers, the table and the world.\<close>

type_synonym ('f, 'w) system = "('f, 'w) pc list \<times> 'f DockerFuseFSOps \<times> 'w"

definition read_result :: "('f, 'w) satellite_env \<Rightarrow> int \<times> byte list \<times> goerror option \<Rightarrow> ReadReply result" where
  "read_result env x = (case x of (n, data, err) \<Rightarrow>
     (case err of
        Some e \<Rightarrow>
          if Error (env_strerror env) e \<noteq> ''EOF'' \<or> n \<le> 0 then rpc_error env e
          else if nat n \<le> length data then Ok \<lparr> re_Data = take (nat n) data \<rparr>
          else Crash ''slice bounds out of range''
      | None \<Rightarrow>
          if 0 \<le> n \<and> nat n \<le> length data then Ok \<lparr> re_Data = take (nat n) data \<rparr>
          else Crash ''slice bounds out of range''))"

text \<open>The lookup all operations on an open file start with, and a call that only returns an error.\<close>

definition table_step :: "('f, 'w) satellite_env \<Rightarrow> uintptr \<Rightarrow> ('f \<Rightarrow> ('f, 'w) pc) \<Rightarrow> 'f DockerFuseFSOps \<times> 'w
    \<Rightarrow> ('f, 'w) pc \<times> 'f DockerFuseFSOps \<times> 'w" where
  "table_step env k next st = (case fds (fst st) k of
     None \<Rightarrow> (Finished (rpc_errno env ''EINVAL''), st)
   | Some f \<Rightarrow> (next f, st))"

definition unit_step :: "('f, 'w) satellite_env \<Rightarrow> ('w \<Rightarrow> goerror option \<times> 'w) \<Rightarrow> 'f DockerFuseFSOps \<times> 'w
    \<Rightarrow> ('f, 'w) pc \<times> 'f DockerFuseFSOps \<times> 'w" where
  "unit_step env call st = (case call (snd st) of
     (err, w') \<Rightarrow> (Finished (map_result enc_unit (unit_result env err)), fst st, w'))"

text \<open>A call after which the handler goes on, unless it fails.\<close>

definition check_step :: "('f, 'w) satellite_env \<Rightarrow> ('w \<Rightarrow> goerror option \<times> 'w) \<Rightarrow> ('f, 'w) pc \<Rightarrow> 'f DockerFuseFSOps \<times> 'w
    \<Rightarrow> ('f, 'w) pc \<times> 'f DockerFuseFSOps \<times> 'w" where
  "check_step env call next st = (case call (snd st) of
     (Some err, w') \<Rightarrow> (Finished (rpc_error env err), fst st, w')
   | (None, w') \<Rightarrow> (next, fst st, w'))"

fun hstep :: "('f, 'w) satellite_env \<Rightarrow> ('f, 'w) pc \<Rightarrow> 'f DockerFuseFSOps \<times> 'w \<Rightarrow> ('f, 'w) pc \<times> 'f DockerFuseFSOps \<times> 'w" where
  "hstep env (Stat_call p) (fso, w) =
    (case fs_Lstat (dfFS env) p w of
       (Inl err, w') \<Rightarrow> (Finished (rpc_error env err), fso, w')
     | (Inr info, w') \<Rightarrow>
         (case fi_Sys info of
            None \<Rightarrow> (Finished type_assertion_failed, fso, w')
          | Some sys \<Rightarrow> (Stat_link p sys, fso, w')))"
| "hstep env (Stat_link p sys) (fso, w) =
    (let (target, w') = link_target env p w in (Finished (Ok (enc_StatReply (copy_stat env sys target))), fso, w'))"
| "hstep env (ReadDir_call r) (fso, w) =
    (case fs_ReadDir (dfFS env) (rd_FullPath r) w of
       (Inl err, w') \<Rightarrow> (Finished (rpc_error env err), fso, w')
     | (Inr files, w') \<Rightarrow> (ReadDir_entry files [], fso, w'))"
| "hstep env (ReadDir_entry [] acc) (fso, w) = (Finished (Ok (enc_ReadDirReply \<lparr> DirEntries = acc \<rparr>)), fso, w)"
| "hstep env (ReadDir_entry (d # ds) acc) (fso, w) =
    (case dent_Info d w of
       (Inl err, w') \<Rightarrow>
         (if is_not_exist (env_errno env) err then (ReadDir_entry ds acc, fso, w')
          else (Finished (rpc_errno env ''EIO''), fso, w'))
     | (Inr info, w') \<Rightarrow>
         (case fi_Sys info of
            None \<Rightarrow> (Finished type_assertion_failed, fso, w')
          | Some sys \<Rightarrow> (ReadDir_entry ds
              (acc @ [\<lparr> de_Mode = s_Mode sys, de_Name = dent_Name d, de_Ino = s_Ino sys \<rparr>]), fso, w')))"
| "hstep env (Open_call r) (fso, w) =
    (case fs_OpenFile (dfFS env) (op_FullPath r) (SAFlagsToSystem (env_flags env) (op_SAFlags r)) (op_Mode r) w of
       (Inl err, w') \<Rightarrow> (Finished (rpc_error env err), fso, w')
     | (Inr fd, w') \<Rightarrow> (Open_fd r fd, fso, w'))"
| "hstep env (Open_fd r fd) (fso, w) = (Open_table r fd (f_Fd (fileOps env) fd w), fso, w)"
| "hstep env (Open_table r fd k) (fso, w) =
    (case fds fso k of
       Some stale \<Rightarrow> (Open_stale r fd k stale, fso, w)
     | None \<Rightarrow> (Open_store r fd k, fso, w))"
| "hstep env (Open_stale r fd k stale) (fso, w) = (Open_store r fd k, fso, snd (f_Close (fileOps env) stale w))"
| "hstep env (Open_store r fd k) (fso, w) = (Open_stat r fd k, fso\<lparr> fds := (fds fso)(k \<mapsto> fd) \<rparr>, w)"
| "hstep env (Open_stat r fd k) (fso, w) =
    (case f_Stat (fileOps env) fd w of
       (Inl err, w') \<Rightarrow> (Finished (rpc_error env err), fso, w')
     | (Inr info, w') \<Rightarrow>
         (case fi_Sys info of
            None \<Rightarrow> (Finished type_assertion_failed, fso, w')
          | Some sys \<Rightarrow> (Open_link r fd k sys, fso, w')))"
| "hstep env (Open_link r fd k sys) (fso, w) =
    (let (target, w') = link_target env (op_FullPath r) w
     in (Finished (Ok (enc_OpenReply \<lparr> op_FD = k, op_StatReply = copy_stat env sys target \<rparr>)), fso, w'))"
| "hstep env (Close_table r) st = table_step env (cl_FD r) (Close_call r) st"
| "hstep env (Close_call r fd) (fso, w) =
    (case f_Close (fileOps env) fd w of (err, w') \<Rightarrow> (Close_delete r err, fso, w'))"
| "hstep env (Close_delete r err) (fso, w) =
    (Finished (map_result enc_unit (unit_result env err)), fso\<lparr> fds := (fds fso)(cl_FD r := None) \<rparr>, w)"
| "hstep env (Read_table r) st = table_step env (re_FD r) (Read_call r) st"
| "hstep env (Read_call r file) (fso, w) =
    (if sint (re_Num r) < 0 then (Finished (Crash ''makeslice: len out of range''), fso, w)
     else (case f_ReadAt (fileOps env) file (nat (sint (re_Num r))) (re_Offset r) w of
        (x, w') \<Rightarrow> (Finished (map_result enc_ReadReply (read_result env x)), fso, w')))"
| "hstep env (Seek_table r) st = table_step env (sk_FD r) (Seek_call r) st"
| "hstep env (Seek_call r file) (fso, w) =
    (case f_Seek (fileOps env) file (sk_Offset r) (sk_Whence r) w of
       ((n, Some err), w') \<Rightarrow> (Finished (rpc_error env err), fso, w')
     | ((n, None), w') \<Rightarrow> (Finished (Ok (enc_SeekReply \<lparr> sk_Num = n \<rparr>)), fso, w'))"
| "hstep env (Write_table r) st = table_step env (wr_FD r) (Write_call r) st"
| "hstep env (Write_call r file) (fso, w) =
    (case f_WriteAt (fileOps env) file (wr_Data r) (wr_Offset r) w of
       ((n, Some err), w') \<Rightarrow> (Finished (rpc_error env err), fso, w')
     | ((n, None), w') \<Rightarrow> (Finished (Ok (enc_WriteReply \<lparr> wr_Num = n \<rparr>)), fso, w'))"
| "hstep env (Unlink_call r) st = unit_step env (fs_Remove (dfFS env) (ul_FullPath r)) st"
| "hstep env (Fsync_table r) st = table_step env (fy_FD r) (Fsync_call r) st"
| "hstep env (Fsync_call r file) st = unit_step env (f_Sync (fileOps env) file) st"
| "hstep env (Mkdir_call r) st =
    check_step env (fs_Mkdir (dfFS env) (md_FullPath r) (md_Mode r)) (Stat_call (md_FullPath r)) st"
| "hstep env (Rmdir_call r) st = unit_step env (fs_Remove (dfFS env) (rm_FullPath r)) st"
| "hstep env (Rename_call r) st = unit_step env (fs_Rename (dfFS env) (rn_FullPath r) (rn_FullNewPath r)) st"
| "hstep env (Readlink_call r) (fso, w) =
    (case fs_Readlink (dfFS env) (rl_FullPath r) w of
       (Inl err, w') \<Rightarrow> (Finished (rpc_error env err), fso, w')
     | (Inr linkTarget, w') \<Rightarrow> (Finished (Ok (enc_ReadlinkReply \<lparr> rl_LinkTarget = linkTarget \<rparr>)), fso, w'))"
| "hstep env (Link_call r) st = unit_step env (fs_Link (dfFS env) (ln_OldFullPath r) (ln_NewFullPath r)) st"
| "hstep env (Symlink_call r) st = unit_step env (fs_Symlink (dfFS env) (sl_OldFullPath r) (sl_NewFullPath r)) st"
| "hstep env (SetAttr_mode r) st = check_step env (setattr_mode env r) (SetAttr_owner r) st"
| "hstep env (SetAttr_owner r) st = check_step env (setattr_owner env r) (SetAttr_times r) st"
| "hstep env (SetAttr_times r) st = check_step env (setattr_times env r) (SetAttr_size r) st"
| "hstep env (SetAttr_size r) st = check_step env (setattr_size env r) (Stat_call (sa_FullPath r)) st"
| "hstep env (Range_next []) st = (Exited, st)"
| "hstep env (Range_next (k # order)) (fso, w) =
    (case fds fso k of
       None \<Rightarrow> (Range_next order, fso, w)
     | Some fd \<Rightarrow> (Range_close k fd order, fso, w))"
| "hstep env (Range_close k fd order) (fso, w) = (Range_delete k order, fso, snd (f_Close (fileOps env) fd w))"
| "hstep env (Range_delete k order) (fso, w) = (Range_next order, fso\<lparr> fds := (fds fso)(k := None) \<rparr>, w)"
| "hstep env (Finished x) st = (Finished x, st)"
| "hstep env Exited st = (Exited, st)"

text \<open>
  Why a handler ends: it lists a directory at most once, and apart from the length of that list it
  has a bounded number of steps left.
\<close>

fun listings :: "('f, 'w) pc \<Rightarrow> nat" where
  "listings (ReadDir_call _) = 1"
| "listings _ = 0"

fun weight :: "('f, 'w) pc \<Rightarrow> nat" where
  "weight (Stat_call _) = 2"
| "weight (Stat_link _ _) = 1"
| "weight (ReadDir_call _) = 1"
| "weight (ReadDir_entry ds _) = Suc (length ds)"
| "weight (Open_call _) = 7"
| "weight (Open_fd _ _) = 6"
| "weight (Open_table _ _ _) = 5"
| "weight (Open_stale _ _ _ _) = 4"
| "weight (Open_store _ _ _) = 3"
| "weight (Open_stat _ _ _) = 2"
| "weight (Open_link _ _ _ _) = 1"
| "weight (Close_table _) = 3"
| "weight (Close_call _ _) = 2"
| "weight (Close_delete _ _) = 1"
| "weight (Read_table _) = 2"
| "weight (Read_call _ _) = 1"
| "weight (Seek_table _) = 2"
| "weight (Seek_call _ _) = 1"
| "weight (Write_table _) = 2"
| "weight (Write_call _ _) = 1"
| "weight (Unlink_call _) = 1"
| "weight (Fsync_table _) = 2"
| "weight (Fsync_call _ _) = 1"
| "weight (Mkdir_call _) = 3"
| "weight (Rmdir_call _) = 1"
| "weight (Rename_call _) = 1"
| "weight (Readlink_call _) = 1"
| "weight (Link_call _) = 1"
| "weight (Symlink_call _) = 1"
| "weight (SetAttr_mode _) = 6"
| "weight (SetAttr_owner _) = 5"
| "weight (SetAttr_times _) = 4"
| "weight (SetAttr_size _) = 3"
| "weight (Range_next order) = 3 * length order + 1"
| "weight (Range_close _ _ order) = 3 * length order + 3"
| "weight (Range_delete _ order) = 3 * length order + 2"
| "weight (Finished _) = 0"
| "weight Exited = 0"

lemma weight_0: "weight p = 0 \<longleftrightarrow> (\<exists>x. p = Finished x) \<or> p = Exited"
  by (cases p) auto

lemma hstep_weight:
  assumes "weight p \<noteq> 0" and "hstep env p st = (p', st')"
  shows "listings p' < listings p \<or> listings p' = listings p \<and> weight p' < weight p"
  using assms
  by (cases "(env, p, st)" rule: hstep.cases)
    (auto simp: table_step_def unit_step_def check_step_def Let_def split: option.splits prod.splits sum.splits if_splits)

subsection \<open>A handler that runs alone\<close>

function run_alone :: "('f, 'w) satellite_env \<Rightarrow> ('f, 'w) pc \<Rightarrow> 'f DockerFuseFSOps \<times> 'w \<Rightarrow> ('f, 'w) pc \<times> 'f DockerFuseFSOps \<times> 'w" where
  "run_alone env p st = (if weight p = 0 then (p, st) else (case hstep env p st of (p', st') \<Rightarrow> run_alone env p' st'))"
  by pat_completeness auto

termination
proof (relation "measures [\<lambda>(env, p, st). listings p, \<lambda>(env, p, st). weight p]", goal_cases)
  case (2 env p st p' st')
  then have "listings p' < listings p \<or> listings p' = listings p \<and> weight p' < weight p"
    using hstep_weight [of p env st p' st'] by simp
  then show ?case by auto
qed simp

text \<open>The handler a request starts.\<close>

definition start :: "string \<Rightarrow> gob \<Rightarrow> ('f, 'w) pc option" where
  "start m args =
    (if m = ''DockerFuseFSOps.Stat'' then map_option (\<lambda>r. Stat_call (st_FullPath r)) (dec_StatRequest args)
     else if m = ''DockerFuseFSOps.ReadDir'' then map_option ReadDir_call (dec_ReadDirRequest args)
     else if m = ''DockerFuseFSOps.Open'' then map_option Open_call (dec_OpenRequest args)
     else if m = ''DockerFuseFSOps.Close'' then map_option Close_table (dec_CloseRequest args)
     else if m = ''DockerFuseFSOps.Read'' then map_option Read_table (dec_ReadRequest args)
     else if m = ''DockerFuseFSOps.Seek'' then map_option Seek_table (dec_SeekRequest args)
     else if m = ''DockerFuseFSOps.Write'' then map_option Write_table (dec_WriteRequest args)
     else if m = ''DockerFuseFSOps.Unlink'' then map_option Unlink_call (dec_UnlinkRequest args)
     else if m = ''DockerFuseFSOps.Fsync'' then map_option Fsync_table (dec_FsyncRequest args)
     else if m = ''DockerFuseFSOps.Mkdir'' then map_option Mkdir_call (dec_MkdirRequest args)
     else if m = ''DockerFuseFSOps.Rmdir'' then map_option Rmdir_call (dec_RmdirRequest args)
     else if m = ''DockerFuseFSOps.Rename'' then map_option Rename_call (dec_RenameRequest args)
     else if m = ''DockerFuseFSOps.Readlink'' then map_option Readlink_call (dec_ReadlinkRequest args)
     else if m = ''DockerFuseFSOps.Link'' then map_option Link_call (dec_LinkRequest args)
     else if m = ''DockerFuseFSOps.Symlink'' then map_option Symlink_call (dec_SymlinkRequest args)
     else if m = ''DockerFuseFSOps.SetAttr'' then map_option SetAttr_mode (dec_SetAttrRequest args)
     else None)"

lemma map_result_error [simp]:
  "map_result enc (rpc_error env err) = rpc_error env err" "map_result enc (rpc_errno env c) = rpc_errno env c"
  "map_result enc type_assertion_failed = type_assertion_failed"
  by (simp_all add: rpc_error_def rpc_errno_def type_assertion_failed_def split: go.split)

text \<open>One step of \<open>run_alone\<close>; its equation would be unfolded without end.\<close>

declare run_alone.simps [simp del]

lemma run_alone_Finished [simp]: "run_alone env (Finished x) st = (Finished x, st)"
  by (simp add: run_alone.simps)

lemma run_alone_Exited [simp]: "run_alone env Exited st = (Exited, st)"
  by (simp add: run_alone.simps)

lemma run_alone_step: "weight p \<noteq> 0 \<Longrightarrow> run_alone env p st = run_alone env (fst (hstep env p st)) (snd (hstep env p st))"
  by (subst run_alone.simps) (simp add: case_prod_beta)

definition finished :: "('r \<Rightarrow> gob) \<Rightarrow> 'r result \<times> 's \<Rightarrow> ('f, 'w) pc \<times> 's" where
  "finished enc x = (Finished (map_result enc (fst x)), snd x)"

lemma finished_simps [simp]: "finished enc (r, st) = (Finished (map_result enc r), st)"
  by (simp add: finished_def)

lemmas step_defs = table_step_def unit_step_def check_step_def

lemma alone_Stat: "run_alone env (Stat_call p) st = finished enc_StatReply (Stat env \<lparr> st_FullPath = p \<rparr> st)"
  by (cases st) (simp add: Stat_def Let_def run_alone_step [of "Stat_call p"] run_alone_step [of "Stat_link p s" for s]
    split: prod.split sum.split option.split)

lemma alone_entries:
  "run_alone env (ReadDir_entry ds acc) (fso, w)
   = (case read_entries env ds acc w of (r, w') \<Rightarrow> (Finished (map_result (\<lambda>es. enc_ReadDirReply \<lparr> DirEntries = es \<rparr>) r), fso, w'))"
proof (induction ds arbitrary: acc w)
  case Nil
  then show ?case by (simp add: run_alone_step)
next
  case (Cons d ds)
  then show ?case
    by (simp add: run_alone_step [of "ReadDir_entry (d # ds) acc"] split: prod.split sum.split option.split)
qed

lemma map_result_map_result: "map_result f (map_result g r) = map_result (\<lambda>x. f (g x)) r"
  by (cases r) simp_all

lemma alone_ReadDir: "run_alone env (ReadDir_call r) st = finished enc_ReadDirReply (ReadDir env r st)"
  by (cases st) (simp add: ReadDir_def run_alone_step [of "ReadDir_call r"] alone_entries map_result_map_result
    split: prod.split sum.split)

lemma alone_Open: "run_alone env (Open_call r) st = finished enc_OpenReply (Open env r st)"
  by (cases st) (simp add: Open_def Let_def run_alone_step [of "Open_call r"] run_alone_step [of "Open_fd r f" for f]
    run_alone_step [of "Open_table r f k" for f k] run_alone_step [of "Open_stale r f k s" for f k s]
    run_alone_step [of "Open_store r f k" for f k] run_alone_step [of "Open_stat r f k" for f k]
    run_alone_step [of "Open_link r f k s" for f k s] split: prod.split sum.split option.split)

lemma alone_Close: "run_alone env (Close_table r) st = finished enc_unit (Close env r st)"
  by (cases st) (simp add: Close_def step_defs run_alone_step [of "Close_table r"] run_alone_step [of "Close_call r f" for f]
    run_alone_step [of "Close_delete r e" for e] split: prod.split option.split)

lemma alone_Read: "run_alone env (Read_table r) st = finished enc_ReadReply (Read env r st)"
  by (cases st) (simp add: Read_def step_defs read_result_def run_alone_step [of "Read_table r"]
    run_alone_step [of "Read_call r f" for f] split: prod.split option.split)

lemma alone_Seek: "run_alone env (Seek_table r) st = finished enc_SeekReply (Seek env r st)"
  by (cases st) (simp add: Seek_def step_defs run_alone_step [of "Seek_table r"] run_alone_step [of "Seek_call r f" for f]
    split: prod.split option.split)

lemma alone_Write: "run_alone env (Write_table r) st = finished enc_WriteReply (Write env r st)"
  by (cases st) (simp add: Write_def step_defs run_alone_step [of "Write_table r"] run_alone_step [of "Write_call r f" for f]
    split: prod.split option.split)

lemma alone_Fsync: "run_alone env (Fsync_table r) st = finished enc_unit (Fsync env r st)"
  by (cases st) (simp add: Fsync_def step_defs run_alone_step [of "Fsync_table r"] run_alone_step [of "Fsync_call r f" for f]
    split: prod.split option.split)

lemma alone_call:
  "run_alone env (Unlink_call ul) st = finished enc_unit (Unlink env ul st)"
  "run_alone env (Rmdir_call rm) st = finished enc_unit (Rmdir env rm st)"
  "run_alone env (Rename_call rn) st = finished enc_unit (Rename env rn st)"
  "run_alone env (Readlink_call rl) st = finished enc_ReadlinkReply (Readlink env rl st)"
  "run_alone env (Link_call ln) st = finished enc_unit (Link env ln st)"
  "run_alone env (Symlink_call sl) st = finished enc_unit (Symlink env sl st)"
  by (cases st; simp add: run_alone_step step_defs Unlink_def Rmdir_def Rename_def Readlink_def Link_def Symlink_def
    split: prod.split sum.split)+

lemma alone_Mkdir: "run_alone env (Mkdir_call r) st = finished enc_StatReply (Mkdir env r st)"
  by (cases st) (simp add: Mkdir_def step_defs run_alone_step [of "Mkdir_call r"] alone_Stat split: prod.split option.split)

lemma alone_SetAttr: "run_alone env (SetAttr_mode r) st = finished enc_StatReply (SetAttr env r st)"
  by (cases st) (simp add: SetAttr_def step_defs run_alone_step [of "SetAttr_mode r"] run_alone_step [of "SetAttr_owner r"]
    run_alone_step [of "SetAttr_times r"] run_alone_step [of "SetAttr_size r"] alone_Stat split: prod.split option.split)

lemmas alone = alone_Stat alone_ReadDir alone_Open alone_Close alone_Read alone_Seek alone_Write alone_Fsync
  alone_call alone_Mkdir alone_SetAttr

lemma alone_CloseAllFDs: "run_alone env (Range_next order) st = (Exited, CloseAllFDs env order st)"
proof (induction order arbitrary: st)
  case Nil
  then show ?case by (cases st) (simp add: run_alone_step)
next
  case (Cons k order)
  then show ?case
    by (cases st) (simp add: run_alone_step [of "Range_next (k # order)"] run_alone_step [of "Range_close k f order" for f]
      run_alone_step [of "Range_delete k order"] split: option.split)
qed

lemma StatRequest_eta: "\<lparr> st_FullPath = st_FullPath r \<rparr> = r"
  by (cases r) simp

lemma start_alone:
  assumes "start m args = Some p"
  shows "run_alone env p st = (Finished (fst (serve env m args st)), snd (serve env m args st))"
  using assms unfolding start_def
  by (auto simp: alone StatRequest_eta serve_methods rpc_method_def finished_def split: if_splits prod.splits)



subsection \<open>Handlers that interleave\<close>

text \<open>A panic in a handler ends the process, and so does the end of \<^verbatim>\<open>shutdown\<close>.\<close>

definition ended :: "('f, 'w) pc list \<Rightarrow> bool" where
  "ended ts \<longleftrightarrow> list_ex (\<lambda>p. case p of Finished (Crash _) \<Rightarrow> True | Exited \<Rightarrow> True | _ \<Rightarrow> False) ts"

inductive run_step :: "('f, 'w) satellite_env \<Rightarrow> ('f, 'w) system \<Rightarrow> ('f, 'w) system \<Rightarrow> bool" for env where
  step: "i < length ts \<Longrightarrow> weight (ts ! i) \<noteq> 0 \<Longrightarrow> \<not> ended ts \<Longrightarrow> hstep env (ts ! i) st = (p, st')
    \<Longrightarrow> run_step env (ts, st) (ts[i := p], st')"

inductive_cases run_stepE: "run_step env (ts, st) s'"

lemma sum_list_update_less:
  "i < length xs \<Longrightarrow> f y < (f (xs ! i) :: nat) \<Longrightarrow> sum_list (map f (xs[i := y])) < sum_list (map f xs)"
  "i < length xs \<Longrightarrow> f y = (f (xs ! i) :: nat) \<Longrightarrow> sum_list (map f (xs[i := y])) = sum_list (map f xs)"
  by (induction xs arbitrary: i) (auto split: nat.splits simp: nth_Cons')

lemma run_step_decreases:
  "run_step env s s' \<Longrightarrow> (s', s) \<in> measures [\<lambda>(ts, st). sum_list (map listings ts), \<lambda>(ts, st). sum_list (map weight ts)]"
proof (erule run_step.cases)
  fix i ts st p st'
  assume s: "s = (ts, st)" "s' = (ts[i := p], st')" and i: "i < length ts"
    and step: "weight (ts ! i) \<noteq> 0" "hstep env (ts ! i) st = (p, st')"
  show ?thesis
    using hstep_weight [OF step] sum_list_update_less [OF i, of listings p] sum_list_update_less(1) [OF i, of weight p]
    unfolding s by auto
qed

lemma run_step_wf: "wf {(s', s). run_step env s s'}"
proof -
  have "wf (measures [\<lambda>(ts, st). sum_list (map listings ts), \<lambda>(ts, st). sum_list (map weight ts)])" by simp
  then show ?thesis by (rule wf_subset) (use run_step_decreases in blast)
qed

lemma run_step_progress:
  assumes "p \<in> set ts" "weight p \<noteq> 0" "\<not> ended ts"
  shows "\<exists>s. run_step env (ts, st) s"
proof -
  from assms obtain i where "i < length ts" "ts ! i = p" by (auto simp: in_set_conv_nth)
  moreover obtain q st' where "hstep env p st = (q, st')" by (cases "hstep env p st")
  ultimately have "run_step env (ts, st) (ts[i := q], st')" using assms by (auto intro: run_step.step)
  then show ?thesis by (rule exI)
qed

lemma run_steps_weight:
  assumes "(run_step env ^^ n) (ts, st) (ts', st')" and "sum_list (map listings ts) = 0"
  shows "sum_list (map listings ts') = 0 \<and> n + sum_list (map weight ts') \<le> sum_list (map weight ts)"
  using assms
proof (induction n arbitrary: ts' st')
  case (Suc n)
  then obtain ts1 st1 where "(run_step env ^^ n) (ts, st) (ts1, st1)" "run_step env (ts1, st1) (ts', st')"
    by (metis relpowp_Suc_E prod.collapse)
  with Suc.IH [of ts1 st1] Suc.prems(2) run_step_decreases [of env "(ts1, st1)" "(ts', st')"] show ?case by fastforce
qed simp



end
