(* ===== verification/Handler_Order.thy ===== *)
theory Handler_Order
  imports Handler_Steps Satellite_Data
begin

text \<open>
  The handlers that make a single call of the file system, after a lookup in the table or without
  one: under every interleaving, and whenever their requests arrive, they take effect one after the
  other, in the order in which they finish. Their linearization point is their last step.
\<close>

definition single_call_methods :: "string list" where
  "single_call_methods = [''DockerFuseFSOps.Read'', ''DockerFuseFSOps.Seek'', ''DockerFuseFSOps.Write'',
     ''DockerFuseFSOps.Unlink'', ''DockerFuseFSOps.Fsync'', ''DockerFuseFSOps.Rmdir'', ''DockerFuseFSOps.Rename'',
     ''DockerFuseFSOps.Readlink'', ''DockerFuseFSOps.Link'', ''DockerFuseFSOps.Symlink'']"

fun single :: "('f, 'w) pc \<Rightarrow> bool" where
  "single (Read_table _) = True"
| "single (Read_call _ _) = True"
| "single (Seek_table _) = True"
| "single (Seek_call _ _) = True"
| "single (Write_table _) = True"
| "single (Write_call _ _) = True"
| "single (Unlink_call _) = True"
| "single (Fsync_table _) = True"
| "single (Fsync_call _ _) = True"
| "single (Rmdir_call _) = True"
| "single (Rename_call _) = True"
| "single (Readlink_call _) = True"
| "single (Link_call _) = True"
| "single (Symlink_call _) = True"
| "single (Finished _) = True"
| "single _ = False"

text \<open>Such a handler leaves the table alone, and a step that is not its last one depends on nothing but
  the table.\<close>

lemma single_step:
  assumes "single p" and "weight p \<noteq> 0" and "hstep env p (fso, w) = (p', st')"
  shows "single p' \<and> fst st' = fso \<and> (weight p' \<noteq> 0 \<longrightarrow> st' = (fso, w) \<and> (\<forall>v. hstep env p (fso, v) = (p', fso, v)))"
  using assms
  by (cases p) (auto simp: step_defs split: option.splits prod.splits sum.splits if_splits)

lemma single_start: "start m args = Some p \<Longrightarrow> m \<in> set single_call_methods \<Longrightarrow> single p \<and> weight p \<noteq> 0"
  by (auto simp: start_def single_call_methods_def split: if_splits)

subsection \<open>Histories\<close>

text \<open>
  A history of the satellite from a state on: the requests in the order of their arrival, the
  indices of those whose handlers have finished, in the order in which they did, and where all
  handlers are.
\<close>

inductive history :: "('f, 'w) satellite_env \<Rightarrow> 'f DockerFuseFSOps \<times> 'w \<Rightarrow> (string \<times> gob) list \<Rightarrow> nat list
    \<Rightarrow> ('f, 'w) system \<Rightarrow> bool" for env st0 where
  init: "history env st0 [] [] ([], st0)"
| arrive: "history env st0 rs order (ts, st) \<Longrightarrow> start m args = Some p
    \<Longrightarrow> history env st0 (rs @ [(m, args)]) order (ts @ [p], st)"
| work: "history env st0 rs order (ts, st) \<Longrightarrow> i < length ts \<Longrightarrow> weight (ts ! i) \<noteq> 0 \<Longrightarrow> \<not> ended ts
    \<Longrightarrow> hstep env (ts ! i) st = (p, st')
    \<Longrightarrow> history env st0 rs (if weight p = 0 then order @ [i] else order) (ts[i := p], st')"

text \<open>The requests served one after the other.\<close>

fun serve_all :: "('f, 'w) satellite_env \<Rightarrow> (string \<times> gob) list \<Rightarrow> 'f DockerFuseFSOps \<times> 'w
    \<Rightarrow> gob result list \<times> 'f DockerFuseFSOps \<times> 'w" where
  "serve_all env [] st = ([], st)"
| "serve_all env ((m, args) # rs) st = (case serve env m args st of (x, st') \<Rightarrow>
     (case serve_all env rs st' of (xs, st'') \<Rightarrow> (x # xs, st'')))"

lemma serve_all_snoc:
  "serve_all env (rs @ [(m, args)]) st = (case serve_all env rs st of (xs, st') \<Rightarrow>
     (case serve env m args st' of (x, st'') \<Rightarrow> (xs @ [x], st'')))"
  by (induction env rs st rule: serve_all.induct) (auto split: prod.splits)

definition serve_nth :: "('f, 'w) satellite_env \<Rightarrow> (string \<times> gob) list \<Rightarrow> nat \<Rightarrow> 'f DockerFuseFSOps \<times> 'w
    \<Rightarrow> gob result \<times> 'f DockerFuseFSOps \<times> 'w" where
  "serve_nth env rs i st = serve env (fst (rs ! i)) (snd (rs ! i)) st"

text \<open>What is known at every moment: the finished requests have the effect and the replies of the
  sequential satellite, and a handler on its way still has the whole effect of its request before it.\<close>

definition order_inv :: "('f, 'w) satellite_env \<Rightarrow> 'f DockerFuseFSOps \<times> 'w \<Rightarrow> (string \<times> gob) list \<Rightarrow> nat list
    \<Rightarrow> ('f, 'w) system \<Rightarrow> bool" where
  "order_inv env st0 rs order = (\<lambda>(ts, st).
     length ts = length rs \<and> fst st = fst st0 \<and> (\<forall>p \<in> set ts. single p) \<and> distinct order \<and>
     (\<forall>j. j \<in> set order \<longleftrightarrow> j < length ts \<and> weight (ts ! j) = 0) \<and>
     snd (serve_all env (map ((!) rs) order) st0) = st \<and>
     map Finished (fst (serve_all env (map ((!) rs) order) st0)) = map ((!) ts) order \<and>
     (\<forall>i < length ts. weight (ts ! i) \<noteq> 0 \<longrightarrow> (\<forall>w. run_alone env (ts ! i) (fst st0, w)
        = (Finished (fst (serve_nth env rs i (fst st0, w))), snd (serve_nth env rs i (fst st0, w))))))"

lemma order_invD:
  assumes "order_inv env st0 rs order (ts, st)"
  shows "length ts = length rs" "fst st = fst st0" "p \<in> set ts \<Longrightarrow> single p" "distinct order"
    "j \<in> set order \<longleftrightarrow> j < length ts \<and> weight (ts ! j) = 0" "snd (serve_all env (map ((!) rs) order) st0) = st"
    "map Finished (fst (serve_all env (map ((!) rs) order) st0)) = map ((!) ts) order"
    "i < length ts \<Longrightarrow> weight (ts ! i) \<noteq> 0 \<Longrightarrow> run_alone env (ts ! i) (fst st0, w)
        = (Finished (fst (serve_nth env rs i (fst st0, w))), snd (serve_nth env rs i (fst st0, w)))"
  using assms unfolding order_inv_def by auto

lemma order_invI:
  assumes "length ts = length rs" "fst st = fst st0" "\<And>p. p \<in> set ts \<Longrightarrow> single p" "distinct order"
    "\<And>j. j \<in> set order \<longleftrightarrow> j < length ts \<and> weight (ts ! j) = 0" "snd (serve_all env (map ((!) rs) order) st0) = st"
    "map Finished (fst (serve_all env (map ((!) rs) order) st0)) = map ((!) ts) order"
    "\<And>i w. i < length ts \<Longrightarrow> weight (ts ! i) \<noteq> 0 \<Longrightarrow> run_alone env (ts ! i) (fst st0, w)
        = (Finished (fst (serve_nth env rs i (fst st0, w))), snd (serve_nth env rs i (fst st0, w)))"
  shows "order_inv env st0 rs order (ts, st)"
  unfolding order_inv_def using assms by simp

lemma order_inv_arrive:
  assumes inv: "order_inv env st0 rs order (ts, st)" and p: "start m args = Some p" "m \<in> set single_call_methods"
  shows "order_inv env st0 (rs @ [(m, args)]) order (ts @ [p], st)"
proof -
  note inv' = order_invD [OF inv]
  have small: "\<forall>i \<in> set order. i < length rs" using inv'(1,5) by auto
  then have eq: "map ((!) (rs @ [(m, args)])) order = map ((!) rs) order" "map ((!) (ts @ [p])) order = map ((!) ts) order"
    using inv'(1) by (auto simp: nth_append)
  show ?thesis
  proof (rule order_invI)
    fix i w assume "i < length (ts @ [p])" "weight ((ts @ [p]) ! i) \<noteq> 0"
    then show "run_alone env ((ts @ [p]) ! i) (fst st0, w) = (Finished (fst (serve_nth env (rs @ [(m, args)]) i (fst st0, w))),
      snd (serve_nth env (rs @ [(m, args)]) i (fst st0, w)))"
      using inv'(1) inv'(8) [of i w] start_alone [OF p(1)]
      by (cases "i < length ts") (auto simp: nth_append serve_nth_def less_Suc_eq)
  next
    show "j \<in> set order \<longleftrightarrow> j < length (ts @ [p]) \<and> weight ((ts @ [p]) ! j) = 0" for j
      using inv'(5) [of j] single_start [OF p] by (cases "j < length ts") (auto simp: nth_append less_Suc_eq)
  qed (use inv'(1-4,6,7) single_start [OF p] in \<open>auto simp: eq\<close>)
qed

lemma order_inv_work:
  assumes inv: "order_inv env st0 rs order (ts, st)" and i: "i < length ts" "weight (ts ! i) \<noteq> 0"
    and step: "hstep env (ts ! i) st = (p, st')"
  shows "order_inv env st0 rs (if weight p = 0 then order @ [i] else order) (ts[i := p], st')"
proof -
  note inv' = order_invD [OF inv]
  obtain w where st: "st = (fst st0, w)" using inv'(2) by (cases st) simp
  have single: "single (ts ! i)" using inv'(3) i(1) by simp
  note s = single_step [OF single i(2) step [unfolded st]]
  have i': "i \<notin> set order" using inv'(5) i by simp
  have same: "map ((!) (ts[i := p])) order = map ((!) ts) order"
    using i' by (intro map_cong refl nth_list_update_neq) blast
  have others: "run_alone env (ts[i := p] ! j) (fst st0, v) = (Finished (fst (serve_nth env rs j (fst st0, v))),
      snd (serve_nth env rs j (fst st0, v)))" if "j < length ts" "weight (ts[i := p] ! j) \<noteq> 0" for j v
  proof (cases "j = i")
    case True
    with that i s have "hstep env (ts ! i) (fst st0, v) = (p, fst st0, v)" by simp
    with inv'(8) [OF i, of v] run_alone_step [OF i(2), of env "(fst st0, v)"] True i show ?thesis by simp
  qed (use that inv'(8) [of j v] in simp)
  have singles: "\<forall>q \<in> set (ts[i := p]). single q" using s inv'(3) set_update_subset_insert [of ts i p] by blast
  show ?thesis
  proof (cases "weight p = 0")
    case False
    have "order_inv env st0 rs order (ts[i := p], st')"
    proof (rule order_invI)
      show "j \<in> set order \<longleftrightarrow> j < length (ts[i := p]) \<and> weight (ts[i := p] ! j) = 0" for j
        using inv'(5) [of j] i False by (cases "j = i") auto
    qed (use False inv'(1,2,4,6,7) s st singles others in \<open>simp_all add: same\<close>)
    with False show ?thesis by simp
  next
    case True
    then have "run_alone env (ts ! i) st = (p, st')"
      using run_alone_step [OF i(2), of env st] step by (simp add: run_alone.simps)
    with inv'(8) [OF i, of w] st have serve: "p = Finished (fst (serve_nth env rs i st))" "st' = snd (serve_nth env rs i st)"
      by simp_all
    have all: "serve_all env (map ((!) rs) order @ [rs ! i]) st0
        = (fst (serve_all env (map ((!) rs) order) st0) @ [fst (serve_nth env rs i st)], st')"
      using serve_all_snoc [of env "map ((!) rs) order" "fst (rs ! i)" "snd (rs ! i)" st0] inv'(6) serve(2)
      by (simp add: serve_nth_def case_prod_beta)
    have "order_inv env st0 rs (order @ [i]) (ts[i := p], st')"
    proof (rule order_invI)
      show "j \<in> set (order @ [i]) \<longleftrightarrow> j < length (ts[i := p]) \<and> weight (ts[i := p] ! j) = 0" for j
        using inv'(5) [of j] i True by (cases "j = i") auto
    next
      show "map Finished (fst (serve_all env (map ((!) rs) (order @ [i])) st0)) = map ((!) (ts[i := p])) (order @ [i])"
        unfolding map_append same using inv'(7) i by (simp add: all serve(1) [symmetric])
    qed (use inv'(1,4) s i' singles others in \<open>simp_all add: all\<close>)
    with True show ?thesis by simp
  qed
qed

lemma history_order_inv:
  assumes "history env st0 rs order s" and "\<forall>r \<in> set rs. fst r \<in> set single_call_methods"
  shows "order_inv env st0 rs order s"
  using assms
proof (induction rule: history.induct)
  case init
  then show ?case by (simp add: order_inv_def)
next
  case (arrive rs order ts st m args p)
  then show ?case by (auto intro: order_inv_arrive)
next
  case (work rs order ts st i p st')
  then show ?case by (intro order_inv_work) auto
qed



end
