(* ===== verification/Concurrent_Handlers.thy ===== *)
theory Concurrent_Handlers
  imports Handler_Steps
begin

text \<open>
  The handlers of \<^verbatim>\<open>Handler_Steps\<close> interleaved. As long as nothing is closed no open
  file is lost; handlers that make a single call take effect one after the other, in the order in
  which they finish; closing a file races with opening and with reading others.
\<close>

subsection \<open>The satellite under a stream of requests\<close>

text \<open>A step of the satellite: of a handler, a new request that \<open>allowed\<close> admits, or a step of another
  process of the container, which cannot touch the files the satellite has open.\<close>

inductive sys_step :: "('f, 'w) satellite_env \<Rightarrow> ('w \<Rightarrow> bool) \<Rightarrow> ('w \<Rightarrow> 'f set) \<Rightarrow> (string \<Rightarrow> bool)
    \<Rightarrow> ('f, 'w) system \<Rightarrow> ('f, 'w) system \<Rightarrow> bool"
  for env wfw opn allowed where
  handler: "run_step env s s' \<Longrightarrow> sys_step env wfw opn allowed s s'"
| request: "start m args = Some p \<Longrightarrow> allowed m \<Longrightarrow> sys_step env wfw opn allowed (ts, st) (ts @ [p], st)"
| other: "same_files (fileOps env) wfw opn w w' \<Longrightarrow> sys_step env wfw opn allowed (ts, fso, w) (ts, fso, w')"

inductive_cases sys_stepE: "sys_step env wfw opn allowed (ts, fso, w) s'"

subsection \<open>Without \<open>Close\<close> nothing is lost\<close>

text \<open>The file a handler has opened and not stored yet.\<close>

fun pending :: "('f, 'w) pc \<Rightarrow> 'f option" where
  "pending (Open_fd _ f) = Some f"
| "pending (Open_table _ f _) = Some f"
| "pending (Open_stale _ f _ _) = Some f"
| "pending (Open_store _ f _) = Some f"
| "pending _ = None"

fun pc_ok :: "('f, 'w) satellite_env \<Rightarrow> ('w \<Rightarrow> bool) \<Rightarrow> ('w \<Rightarrow> 'f set) \<Rightarrow> 'f DockerFuseFSOps \<Rightarrow> 'w \<Rightarrow> ('f, 'w) pc \<Rightarrow> bool" where
  "pc_ok env wfw opn fso w (ReadDir_entry ds _) =
     (\<forall>d \<in> set ds. \<forall>v. same_files (fileOps env) wfw opn v (snd (dent_Info d v)))"
| "pc_ok env wfw opn fso w (Open_table _ f k) = (k = f_Fd (fileOps env) f w)"
| "pc_ok env wfw opn fso w (Open_store _ f k) = (k = f_Fd (fileOps env) f w)"
| "pc_ok env wfw opn fso w (Open_stat _ f k) = (fds fso k = Some f)"
| "pc_ok env wfw opn fso w (Open_link _ f k _) = (fds fso k = Some f)"
| "pc_ok env wfw opn fso w (Open_stale _ _ _ _) = False"
| "pc_ok env wfw opn fso w (Close_table _) = False"
| "pc_ok env wfw opn fso w (Close_call _ _) = False"
| "pc_ok env wfw opn fso w (Close_delete _ _) = False"
| "pc_ok env wfw opn fso w (Range_next _) = False"
| "pc_ok env wfw opn fso w (Range_close _ _ _) = False"
| "pc_ok env wfw opn fso w (Range_delete _ _) = False"
| "pc_ok env wfw opn fso w _ = True"

text \<open>The table and the pending files: what is open is in the table under its descriptor or pending,
  no two files share a descriptor, and no two handlers a pending file.\<close>

definition tab_inv :: "('f, 'w) satellite_env \<Rightarrow> ('w \<Rightarrow> bool) \<Rightarrow> ('w \<Rightarrow> 'f set) \<Rightarrow> 'f option list \<Rightarrow> 'f DockerFuseFSOps \<Rightarrow> 'w \<Rightarrow> bool" where
  "tab_inv env wfw opn ps fso w \<longleftrightarrow>
     wfw w \<and> (\<forall>f \<in> opn w. \<forall>g \<in> opn w. f_Fd (fileOps env) f w = f_Fd (fileOps env) g w \<longrightarrow> f = g) \<and>
     (\<forall>k f. fds fso k = Some f \<longrightarrow> f \<in> opn w \<and> f_Fd (fileOps env) f w = k) \<and>
     (\<forall>f \<in> opn w. fds fso (f_Fd (fileOps env) f w) = Some f \<or> Some f \<in> set ps) \<and>
     (\<forall>f. Some f \<in> set ps \<longrightarrow> f \<in> opn w \<and> fds fso (f_Fd (fileOps env) f w) = None) \<and>
     (\<forall>i < length ps. \<forall>j < length ps. ps ! i = ps ! j \<longrightarrow> ps ! i \<noteq> None \<longrightarrow> i = j)"

lemma tab_invD:
  assumes "tab_inv env wfw opn ps fso w"
  shows "wfw w"
    and "f \<in> opn w \<Longrightarrow> g \<in> opn w \<Longrightarrow> f_Fd (fileOps env) f w = f_Fd (fileOps env) g w \<Longrightarrow> f = g"
    and "fds fso k = Some f \<Longrightarrow> f \<in> opn w \<and> f_Fd (fileOps env) f w = k"
    and "f \<in> opn w \<Longrightarrow> fds fso (f_Fd (fileOps env) f w) = Some f \<or> Some f \<in> set ps"
    and "Some f \<in> set ps \<Longrightarrow> f \<in> opn w \<and> fds fso (f_Fd (fileOps env) f w) = None"
    and "i < length ps \<Longrightarrow> j < length ps \<Longrightarrow> ps ! i = ps ! j \<Longrightarrow> ps ! i \<noteq> None \<Longrightarrow> i = j"
  using assms unfolding tab_inv_def by blast+

lemma tab_invI:
  assumes "wfw w"
    and "\<And>f g. f \<in> opn w \<Longrightarrow> g \<in> opn w \<Longrightarrow> f_Fd (fileOps env) f w = f_Fd (fileOps env) g w \<Longrightarrow> f = g"
    and "\<And>k f. fds fso k = Some f \<Longrightarrow> f \<in> opn w \<and> f_Fd (fileOps env) f w = k"
    and "\<And>f. f \<in> opn w \<Longrightarrow> fds fso (f_Fd (fileOps env) f w) = Some f \<or> Some f \<in> set ps"
    and "\<And>f. Some f \<in> set ps \<Longrightarrow> f \<in> opn w \<and> fds fso (f_Fd (fileOps env) f w) = None"
    and "\<And>i j. i < length ps \<Longrightarrow> j < length ps \<Longrightarrow> ps ! i = ps ! j \<Longrightarrow> ps ! i \<noteq> None \<Longrightarrow> i = j"
  shows "tab_inv env wfw opn ps fso w"
  using assms unfolding tab_inv_def by blast

lemma in_set_update: "i < length ps \<Longrightarrow> x \<in> set (ps[i := y]) \<longleftrightarrow> x = y \<or> (\<exists>j < length ps. j \<noteq> i \<and> ps ! j = x)"
  by (auto simp: in_set_conv_nth nth_list_update)

definition shared_inv :: "('f, 'w) satellite_env \<Rightarrow> ('w \<Rightarrow> bool) \<Rightarrow> ('w \<Rightarrow> 'f set) \<Rightarrow> ('f, 'w) system \<Rightarrow> bool" where
  "shared_inv env wfw opn = (\<lambda>(ts, fso, w).
     tab_inv env wfw opn (map pending ts) fso w \<and> (\<forall>p \<in> set ts. pc_ok env wfw opn fso w p))"

lemma tab_inv_same:
  assumes "tab_inv env wfw opn ps fso w" and "same_files (fileOps env) wfw opn w w'"
  shows "tab_inv env wfw opn ps fso w'"
proof -
  note inv = tab_invD [OF assms(1)]
  have w': "wfw w'" "opn w' = opn w" "\<And>f. f \<in> opn w \<Longrightarrow> f_Fd (fileOps env) f w' = f_Fd (fileOps env) f w"
    using inv(1) assms(2) by (auto simp: same_files_def)
  show ?thesis
  proof (rule tab_invI)
    fix f assume "Some f \<in> set ps"
    with inv(5) [of f] show "f \<in> opn w' \<and> fds fso (f_Fd (fileOps env) f w') = None" by (simp add: w')
  next
    fix k f assume "fds fso k = Some f"
    with inv(3) [of k f] show "f \<in> opn w' \<and> f_Fd (fileOps env) f w' = k" by (auto simp: w')
  qed (use inv(2,4,6) in \<open>auto simp: w'\<close>)
qed

lemma tab_inv_open:
  assumes "tab_inv env wfw opn ps fso w" and "i < length ps" and "ps ! i = None"
    and "wfw w'" and "f \<notin> opn w" and "opn w' = insert f (opn w)"
    and "\<forall>g \<in> opn w. f_Fd (fileOps env) g w' = f_Fd (fileOps env) g w \<and> f_Fd (fileOps env) g w \<noteq> f_Fd (fileOps env) f w'"
  shows "tab_inv env wfw opn (ps[i := Some f]) fso w'"
proof -
  note inv = tab_invD [OF assms(1)]
  have new: "fds fso (f_Fd (fileOps env) f w') = None"
    using inv(3) assms(7) by (cases "fds fso (f_Fd (fileOps env) f w')") auto
  have old: "Some g \<in> set (ps[i := Some f]) \<longleftrightarrow> g = f \<or> Some g \<in> set ps" for g
    using assms(2,3) unfolding in_set_update [OF assms(2)] unfolding in_set_conv_nth by (metis option.distinct(1) option.inject)
  have fresh: "j < length ps \<Longrightarrow> ps ! j \<noteq> Some f" for j using inv(5) [of f] assms(5) nth_mem by metis
  show ?thesis
  proof (rule tab_invI)
    fix g h assume "g \<in> opn w'" "h \<in> opn w'" "f_Fd (fileOps env) g w' = f_Fd (fileOps env) h w'"
    then show "g = h" using inv(2) [of g h] assms(6,7) by auto
  next
    fix k g assume "fds fso k = Some g"
    with inv(3) [of k g] assms(6,7) show "g \<in> opn w' \<and> f_Fd (fileOps env) g w' = k" by simp
  next
    fix g assume "g \<in> opn w'"
    then show "fds fso (f_Fd (fileOps env) g w') = Some g \<or> Some g \<in> set (ps[i := Some f])"
      using inv(4) [of g] assms(6,7) by (auto simp: old)
  next
    fix g assume "Some g \<in> set (ps[i := Some f])"
    then show "g \<in> opn w' \<and> fds fso (f_Fd (fileOps env) g w') = None"
      using inv(5) [of g] assms(6,7) new by (auto simp: old)
  next
    fix j l assume "j < length (ps[i := Some f])" "l < length (ps[i := Some f])"
      "ps[i := Some f] ! j = ps[i := Some f] ! l" "ps[i := Some f] ! j \<noteq> None"
    then show "j = l" using inv(6) [of j l] fresh [of j] fresh [of l] assms(2) by (cases "j = i"; cases "l = i") auto
  qed (rule assms(4))
qed

lemma tab_inv_store:
  assumes "tab_inv env wfw opn ps fso w" and "i < length ps" and "ps ! i = Some f" and "k = f_Fd (fileOps env) f w"
  shows "tab_inv env wfw opn (ps[i := None]) (fso\<lparr> fds := (fds fso)(k \<mapsto> f) \<rparr>) w"
proof -
  note inv = tab_invD [OF assms(1)]
  have f: "f \<in> opn w" "fds fso k = None" using inv(5) [of f] assms(2-4) by (auto simp: in_set_conv_nth)
  have "j = i" if "j < length ps" "ps ! j = Some f" for j using inv(6) [of j i] that assms(2,3) by simp
  then have rest: "Some g \<in> set (ps[i := None]) \<longleftrightarrow> g \<noteq> f \<and> Some g \<in> set ps" for g
    using assms(3) unfolding in_set_update [OF assms(2)] unfolding in_set_conv_nth by auto
  show ?thesis
  proof (rule tab_invI)
    fix g assume "g \<in> opn w"
    then show "fds (fso\<lparr> fds := (fds fso)(k \<mapsto> f) \<rparr>) (f_Fd (fileOps env) g w) = Some g \<or> Some g \<in> set (ps[i := None])"
      using inv(4) [of g] inv(2) [of g f] f assms(4) by (auto simp: rest)
  next
    fix g assume "Some g \<in> set (ps[i := None])"
    then show "g \<in> opn w \<and> fds (fso\<lparr> fds := (fds fso)(k \<mapsto> f) \<rparr>) (f_Fd (fileOps env) g w) = None"
      using inv(5) [of g] inv(2) [of g f] f assms(4) by (auto simp: rest)
  next
    fix j l assume "j < length (ps[i := None])" "l < length (ps[i := None])"
      "ps[i := None] ! j = ps[i := None] ! l" "ps[i := None] ! j \<noteq> None"
    then show "j = l" using inv(6) [of j l] assms(2) by (cases "j = i"; cases "l = i") auto
  qed (use inv(1,2,3) f assms(4) in \<open>auto split: if_splits\<close>)
qed

lemma pc_ok_world:
  assumes "pc_ok env wfw opn fso w p" and "\<And>f. pending p = Some f \<Longrightarrow> f_Fd (fileOps env) f w' = f_Fd (fileOps env) f w"
  shows "pc_ok env wfw opn fso w' p"
  using assms by (cases p) auto

lemma pc_ok_store:
  assumes "pc_ok env wfw opn fso w p" and "fds fso k = None"
  shows "pc_ok env wfw opn (fso\<lparr> fds := (fds fso)(k \<mapsto> f) \<rparr>) w p"
  using assms by (cases p) auto

lemma tab_inv_pending:
  "tab_inv env wfw opn (map pending ts) fso w \<Longrightarrow> p \<in> set ts \<Longrightarrow> pending p = Some f \<Longrightarrow>
   f \<in> opn w \<and> fds fso (f_Fd (fileOps env) f w) = None"
  using tab_invD(5) [of env wfw opn "map pending ts" fso w f] by (metis image_eqI list.set_map)

lemma shared_inv_same:
  assumes "shared_inv env wfw opn (ts, fso, w)" and "same_files (fileOps env) wfw opn w w'"
  shows "shared_inv env wfw opn (ts, fso, w')"
proof -
  have inv: "tab_inv env wfw opn (map pending ts) fso w" and ok: "\<forall>p \<in> set ts. pc_ok env wfw opn fso w p"
    using assms(1) by (auto simp: shared_inv_def)
  then have "\<forall>f \<in> opn w. f_Fd (fileOps env) f w' = f_Fd (fileOps env) f w"
    using assms(2) by (auto simp: same_files_def tab_inv_def)
  with inv ok have "\<forall>p \<in> set ts. pc_ok env wfw opn fso w' p" using tab_inv_pending pc_ok_world by metis
  with tab_inv_same [OF inv assms(2)] show ?thesis by (simp add: shared_inv_def)
qed

text \<open>A step that leaves the table, the open files and the pending file of its handler as they are.\<close>

lemma shared_inv_goto:
  assumes "shared_inv env wfw opn (ts, fso, w)" and "i < length ts"
    and "same_files (fileOps env) wfw opn w w'" and "pending p = pending (ts ! i)" and "pc_ok env wfw opn fso w' p"
  shows "shared_inv env wfw opn (ts[i := p], fso, w')"
proof -
  have "map pending (ts[i := p]) = map pending ts"
    using assms(2,4) by (simp add: map_update list_update_same_conv)
  with shared_inv_same [OF assms(1,3)] assms(5) show ?thesis
    by (auto simp: shared_inv_def dest!: set_update_subset_insert [THEN subsetD])
qed

context satellite_files
begin

lemma shared_inv_update:
  assumes "tab_inv env wfw open_files ((map pending ts)[i := pending p]) fso' w'" and "\<forall>q \<in> set ts. pc_ok env wfw open_files fso' w' q"
    and "pc_ok env wfw open_files fso' w' p"
  shows "shared_inv env wfw open_files (ts[i := p], fso', w')"
  using assms by (auto simp: shared_inv_def map_update dest!: set_update_subset_insert [THEN subsetD])

lemma opened_inv:
  assumes inv: "shared_inv env wfw open_files (ts, fso, w)" and i: "i < length ts" "pending (ts ! i) = None"
    and call: "fs_OpenFile (dfFS env) n fl m w = (Inr fd, w')"
  shows "shared_inv env wfw open_files (ts[i := Open_fd r fd], fso, w')"
proof (rule shared_inv_update)
  have tab: "tab_inv env wfw open_files (map pending ts) fso w" and ok: "\<forall>p \<in> set ts. pc_ok env wfw open_files fso w p" and wf: "wfw w"
    using inv by (auto simp: shared_inv_def tab_inv_def)
  note new = open_ok [OF call wf]
  then show "tab_inv env wfw open_files ((map pending ts)[i := pending (Open_fd r fd)]) fso w'"
    using i by (simp, intro tab_inv_open [OF tab]) auto
  show "\<forall>q \<in> set ts. pc_ok env wfw open_files fso w' q"
  proof
    fix q assume q: "q \<in> set ts"
    show "pc_ok env wfw open_files fso w' q"
    proof (rule pc_ok_world [of env wfw open_files fso w])
      show "f_Fd (fileOps env) f w' = f_Fd (fileOps env) f w" if "pending q = Some f" for f
        using new tab_inv_pending [OF tab q that] by blast
    qed (use ok q in blast)
  qed
qed simp

lemma stored_inv:
  assumes inv: "shared_inv env wfw open_files (ts, fso, w)" and i: "i < length ts" and p: "ts ! i = Open_store r fd k"
  shows "shared_inv env wfw open_files (ts[i := Open_stat r fd k], fso\<lparr> fds := (fds fso)(k \<mapsto> fd) \<rparr>, w)"
proof (rule shared_inv_update)
  have tab: "tab_inv env wfw open_files (map pending ts) fso w" and ok: "\<forall>p \<in> set ts. pc_ok env wfw open_files fso w p"
    and k: "k = f_Fd (fileOps env) fd w"
    using inv i p nth_mem [OF i] by (auto simp: shared_inv_def)
  then have free: "fds fso k = None" using tab_inv_pending [OF tab nth_mem [OF i]] p by simp
  show "tab_inv env wfw open_files ((map pending ts)[i := pending (Open_stat r fd k)]) (fso\<lparr> fds := (fds fso)(k \<mapsto> fd) \<rparr>) w"
    using i p k by (simp, intro tab_inv_store [OF tab]) auto
  show "\<forall>q \<in> set ts. pc_ok env wfw open_files (fso\<lparr> fds := (fds fso)(k \<mapsto> fd) \<rparr>) w q"
    using ok free by (intro ballI pc_ok_store) auto
qed simp

text \<open>The steps that leave the table and the open files as they are.\<close>

lemma unit_step_same:
  assumes "unit_step env call (fso, w) = (p, fso', w')" and "\<And>r v. call w = (r, v) \<Longrightarrow> same w v"
  shows "fso' = fso \<and> same w w' \<and> (\<exists>x. p = Finished x)"
  using assms by (auto simp: unit_step_def split: prod.splits)

lemma check_step_same:
  assumes "check_step env call next (fso, w) = (p, fso', w')" and "\<And>r v. call w = (r, v) \<Longrightarrow> same w v"
  shows "fso' = fso \<and> same w w' \<and> (p = next \<or> (\<exists>x. p = Finished x))"
  using assms by (auto simp: check_step_def split: prod.splits option.splits)

lemma hstep_entry_same:
  assumes "hstep env (ReadDir_entry ds acc) (fso, w) = (p, fso', w')" and "pc_ok env wfw open_files fso w (ReadDir_entry ds acc)"
  shows "fso' = fso \<and> same w w' \<and> pending p = None \<and> pc_ok env wfw open_files fso w' p"
proof (cases ds)
  case (Cons d ds')
  obtain x v where i: "dent_Info d w = (x, v)" by fastforce
  with assms(2) Cons have "same w v" by (metis list.set_intros(1) pc_ok.simps(1) snd_conv)
  with assms Cons i show ?thesis by (auto split: sum.splits option.splits if_splits)
qed (use assms in auto)

lemma hstep_ReadDir_same:
  assumes "hstep env (ReadDir_call r) (fso, w) = (p, fso', w')"
  shows "fso' = fso \<and> same w w' \<and> pending p = None \<and> pc_ok env wfw open_files fso w' p"
proof -
  obtain x v where rd: "fs_ReadDir (dfFS env) (rd_FullPath r) w = (x, v)" by fastforce
  show ?thesis
  proof (cases x)
    case (Inr ds)
    have "\<forall>d \<in> set ds. \<forall>v. same v (snd (dent_Info d v))" using info_files rd Inr by blast
    with assms rd Inr readdir_same show ?thesis by auto
  qed (use assms rd readdir_same in auto)
qed

text \<open>The last step of a call, and a step that goes on after one.\<close>

lemmas finishing_steps = unit_step_same [OF _ remove_same] unit_step_same [OF _ rename_same]
  unit_step_same [OF _ link_same] unit_step_same [OF _ symlink_same] unit_step_same [OF _ sync_same]

lemmas checked_steps = check_step_same [OF _ mkdir_same] check_step_same [OF _ setattr_mode_same]
  check_step_same [OF _ setattr_owner_same] check_step_same [OF _ setattr_times_same] check_step_same [OF _ setattr_size_same]

lemma hstep_quiet:
  assumes step: "hstep env q (fso, w) = (p, fso', w')" and me: "pc_ok env wfw open_files fso w q"
    and free: "\<And>f. pending q = Some f \<Longrightarrow> fds fso (f_Fd (fileOps env) f w) = None"
    and q: "\<And>r. q \<noteq> Open_call r" "\<And>r fd k. q \<noteq> Open_store r fd k"
  shows "fso' = fso \<and> same w w' \<and> pending p = pending q \<and> pc_ok env wfw open_files fso w' p"
proof (cases q)
  case (ReadDir_call r)
  with hstep_ReadDir_same [OF step [unfolded ReadDir_call]] show ?thesis by simp
next
  case (ReadDir_entry ds acc)
  with hstep_entry_same [OF step [unfolded ReadDir_entry] me [unfolded ReadDir_entry]] show ?thesis by simp
qed (use step me free q in \<open>auto simp: table_step_def split: option.splits prod.splits sum.splits if_splits
  dest: checked_steps finishing_steps calls_same link_target_same\<close>)

lemma hstep_inv:
  assumes inv: "shared_inv env wfw open_files (ts, fso, w)" and i: "i < length ts"
    and step: "hstep env (ts ! i) (fso, w) = (p, fso', w')"
  shows "shared_inv env wfw open_files (ts[i := p], fso', w')"
proof -
  have me: "pc_ok env wfw open_files fso w (ts ! i)" and tab: "tab_inv env wfw open_files (map pending ts) fso w"
    using inv nth_mem [OF i] by (auto simp: shared_inv_def)
  note free = tab_inv_pending [OF tab nth_mem [OF i]]
  have goto: ?thesis if "fso' = fso \<and> same w w' \<and> pending p = pending (ts ! i) \<and> pc_ok env wfw open_files fso w' p"
    using that shared_inv_goto [OF inv i] by simp
  show ?thesis
  proof (cases "\<exists>r. ts ! i = Open_call r")
    case True
    then obtain r where r: "ts ! i = Open_call r" by blast
    obtain x w1 where call: "fs_OpenFile (dfFS env) (op_FullPath r) (SAFlagsToSystem (env_flags env) (op_SAFlags r)) (op_Mode r) w = (x, w1)"
      by fastforce
    show ?thesis
    proof (cases x)
      case (Inl e)
      with step r call open_err [of _ _ _ w e w1] show ?thesis by (intro goto) auto
    next
      case (Inr fd)
      with step r call opened_inv [OF inv i] show ?thesis by auto
    qed
  next
    case no_call: False
    show ?thesis
    proof (cases "\<exists>r fd k. ts ! i = Open_store r fd k")
      case True
      with step stored_inv [OF inv i] show ?thesis by auto
    next
      case False
      with no_call free show ?thesis by (intro goto hstep_quiet [OF step me]) auto
    qed
  qed
qed

lemma start_ok: "start m args = Some p \<Longrightarrow> m \<noteq> ''DockerFuseFSOps.Close'' \<Longrightarrow> pending p = None \<and> pc_ok env wfw open_files fso w p"
  by (auto simp: start_def split: if_splits)

lemma sys_step_inv:
  assumes "sys_step env wfw open_files (\<lambda>m. m \<noteq> ''DockerFuseFSOps.Close'') s s'" and "shared_inv env wfw open_files s"
  shows "shared_inv env wfw open_files s'"
  using assms
proof (cases rule: sys_step.cases)
  case handler
  then show ?thesis
  proof (cases rule: run_step.cases)
    case (step i ts st p st')
    then show ?thesis using assms(2) by (cases st; cases st') (auto intro: hstep_inv)
  qed
next
  case (request m args p ts st)
  note ok = start_ok [OF request(3,4)]
  obtain fso w where st: "st = (fso, w)" by fastforce
  have "tab_inv env wfw open_files (map pending ts) fso w" using assms(2) request st by (simp add: shared_inv_def)
  note inv = tab_invD [OF this]
  have "tab_inv env wfw open_files (map pending ts @ [None]) fso w"
  proof (rule tab_invI)
    fix j l assume "j < length (map pending ts @ [None])" "l < length (map pending ts @ [None])"
      "(map pending ts @ [None]) ! j = (map pending ts @ [None]) ! l" "(map pending ts @ [None]) ! j \<noteq> None"
    then show "j = l" using inv(6) [of j l] by (auto simp: nth_append split: if_splits)
  qed (use inv(1-5) in auto)
  then show ?thesis using assms(2) request st ok by (simp add: shared_inv_def)
next
  case (other w w' ts fso)
  then show ?thesis using shared_inv_same [of env wfw open_files ts fso w w'] assms(2) by simp
qed

lemma sys_steps_inv:
  "(sys_step env wfw open_files (\<lambda>m. m \<noteq> ''DockerFuseFSOps.Close''))\<^sup>*\<^sup>* s s' \<Longrightarrow> shared_inv env wfw open_files s \<Longrightarrow>
   shared_inv env wfw open_files s'"
  by (induction rule: rtranclp_induct) (auto intro: sys_step_inv)

end


subsection \<open>Schedules\<close>

text \<open>The handlers in the order of a schedule.\<close>

fun exec :: "('f, 'w) satellite_env \<Rightarrow> nat list \<Rightarrow> ('f, 'w) system \<Rightarrow> ('f, 'w) system" where
  "exec env [] s = s"
| "exec env (i # sched) (ts, st) =
    (if i < length ts \<and> weight (ts ! i) \<noteq> 0 \<and> \<not> ended ts
     then (case hstep env (ts ! i) st of (p, st') \<Rightarrow> exec env sched (ts[i := p], st')) else (ts, st))"

lemma exec_steps: "(run_step env)\<^sup>*\<^sup>* s (exec env sched s)"
proof (induction env sched s rule: exec.induct)
  case (2 env i sched ts st)
  show ?case
  proof (cases "i < length ts \<and> weight (ts ! i) \<noteq> 0 \<and> \<not> ended ts")
    case True
    obtain p st' where h: "hstep env (ts ! i) st = (p, st')" by (cases "hstep env (ts ! i) st")
    with True have "run_step env (ts, st) (ts[i := p], st')" by (intro run_step.step) auto
    with 2 True h show ?thesis by (auto intro: converse_rtranclp_into_rtranclp)
  qed auto
qed simp

subsection \<open>Races with \<open>Close\<close>\<close>

text \<open>C18. \<^verbatim>\<open>Close\<close> closes the file first and deletes the entry of the table last. When the
  kernel hands the freed descriptor to a file that is opened in between, the deletion hits the entry
  of that file: \<^verbatim>\<open>Open\<close> reports success and a descriptor, the file is open, and it is in
  no table: the client cannot use it, and nothing will ever close it.\<close>

theorem close_open_race:
  assumes "fds fso d = Some f" and "sysfd f w = Some d" and "objs w (next_obj w) = None"
    and "k_close K d (kern w) = (r, k1)"
    and "k_open K (op_FullPath req) (SAFlagsToSystem linux_flags (op_SAFlags req) OR O_CLOEXEC) (syscallMode (op_Mode req)) k1 = (Inr d, k2)"
    and "k_fstat K d k2 = (Inr stt, k3)"
  shows "\<exists>x reply fso' w'. (run_step (os_env K))\<^sup>*\<^sup>* ([Close_table \<lparr> cl_FD = d \<rparr>, Open_call req], fso, w)
      ([Finished x, Finished (Ok (enc_OpenReply reply))], fso', w') \<and>
    op_FD reply = d \<and> fds fso' d = None \<and> sysfd (next_obj w) w' = Some d"
proof -
  obtain obj where obj: "objs w f = Some obj" "of_sysfd obj = Some d"
    using assms(2) by (auto simp: sysfd_def split: option.splits)
  with assms(3) have f: "f \<noteq> next_obj w" "next_obj w \<noteq> f" by auto
  obtain y k4 where rl: "k_readlink K (op_FullPath req) k3 = (y, k4)" by fastforce
  define s where "s = exec (os_env K) [0, 0, 1, 1, 1, 1, 1, 1, 1, 0] ([Close_table \<lparr> cl_FD = d \<rparr>, Open_call req], fso, w)"
  have "\<exists>x reply fso' w'. s = ([Finished x, Finished (Ok (enc_OpenReply reply))], fso', w') \<and>
      op_FD reply = d \<and> fds fso' d = None \<and> sysfd (next_obj w) w' = Some d"
    by (cases y; simp add: s_def ended_def table_step_def assms obj f rl osFS_def os_OpenFile_def os_Close_def
      os_Fd_def sysfd_def os_Stat_def link_target_def os_Readlink_def; intro exI conjI, rule refl, simp)
  with exec_steps show ?thesis unfolding s_def by metis
qed

text \<open>C19. \<^verbatim>\<open>Read\<close> looks up its file and then reads it. When the file is closed in between,
  by \<^verbatim>\<open>Close\<close> or by \<^verbatim>\<open>CloseAllFDs\<close> after a signal,
  \<^verbatim>\<open>ReadAt\<close> reports the closed file in a \<^verbatim>\<open>PathError\<close> without an
  \<^verbatim>\<open>errno\<close>, on which \<^verbatim>\<open>ErrnoToRPCErrorString\<close> panics: the satellite dies.\<close>

theorem read_close_race:
  assumes "fds fso d = Some f" and "sysfd f w = Some d" and "0 \<le> sint off" and "0 < sint num"
    and "closer = Close_table \<lparr> cl_FD = d \<rparr> \<or> closer = Range_next (d # order)"
  shows "\<exists>m x st'. (run_step (os_env K))\<^sup>*\<^sup>* ([Read_table \<lparr> re_FD = d, re_Offset = off, re_Num = num \<rparr>, closer], fso, w)
      ([Finished (Crash m), x], st')"
proof -
  define s where "s = exec (os_env K) [0, 1, 1, 0] ([Read_table \<lparr> re_FD = d, re_Offset = off, re_Num = num \<rparr>, closer], fso, w)"
  have "\<exists>m x st'. s = ([Finished (Crash m), x], st')"
    using assms by (cases "k_close K d (kern w)") (auto simp: s_def ended_def table_step_def os_Close_def os_ReadAt_def
      read_result_def rpc_error_def assert_Errno_def sysfd_def split: option.splits)
  with exec_steps show ?thesis unfolding s_def by metis
qed

text \<open>Both races happen on the container of \<^const>\<open>world0\<close> with \<^verbatim>\<open>/a\<close> open under the
  descriptor 3.\<close>

definition race_state :: "nat DockerFuseFSOps \<times> mem os_world" where
  "race_state = snd (Open (os_env mem_kernel) \<lparr> op_FullPath = ''/a'', op_SAFlags = 0, op_Mode = 0 \<rparr> (NewDockerFuseFSOps, world0))"

lemma race_state_a:
  "fds (fst race_state) 3 = Some 0" "sysfd 0 (snd race_state) = Some 3" "objs (snd race_state) (next_obj (snd race_state)) = None"
  "next_obj (snd race_state) = 1"
  by (simp_all add: race_state_def mem_run)

theorem close_open_race_witness:
  "\<exists>x reply fso' w'. (run_step (os_env mem_kernel))\<^sup>*\<^sup>*
      ([Close_table \<lparr> cl_FD = 3 \<rparr>, Open_call \<lparr> op_FullPath = ''/b'', op_SAFlags = 0, op_Mode = 0 \<rparr>], race_state)
      ([Finished x, Finished (Ok (enc_OpenReply reply))], fso', w') \<and>
    op_FD reply = 3 \<and> fds fso' 3 = None \<and> sysfd 1 w' = Some 3"
proof -
  let ?req = "\<lparr> op_FullPath = ''/b'', op_SAFlags = 0, op_Mode = 0 \<rparr>"
  obtain k1 k2 k3 stt where k: "k_close mem_kernel 3 (kern (snd race_state)) = (None, k1)"
    "k_open mem_kernel (op_FullPath ?req) (SAFlagsToSystem linux_flags (op_SAFlags ?req) OR O_CLOEXEC) (syscallMode (op_Mode ?req)) k1 = (Inr 3, k2)"
    "k_fstat mem_kernel 3 k2 = (Inr stt, k3)"
    by (simp add: race_state_def mem_run)
  show ?thesis using close_open_race [OF race_state_a(1-3) k] by (simp add: race_state_a(4))
qed

theorem read_close_race_witness:
  "(\<exists>m x st'. (run_step (os_env mem_kernel))\<^sup>*\<^sup>*
     ([Read_table \<lparr> re_FD = 3, re_Offset = 0, re_Num = 1 \<rparr>, Close_table \<lparr> cl_FD = 3 \<rparr>], race_state) ([Finished (Crash m), x], st')) \<and>
   (\<exists>m x st'. (run_step (os_env mem_kernel))\<^sup>*\<^sup>*
     ([Read_table \<lparr> re_FD = 3, re_Offset = 0, re_Num = 1 \<rparr>, Range_next [3]], race_state) ([Finished (Crash m), x], st'))"
  using read_close_race [OF race_state_a(1,2), of 0 1 "Close_table \<lparr> cl_FD = 3 \<rparr>" "[]" mem_kernel]
    read_close_race [OF race_state_a(1,2), of 0 1 "Range_next [3]" "[]" mem_kernel] by simp


end
