(* ===== verification/Go_Flag.thy ===== *)
theory Go_Flag
  imports Df_Prelude
begin

text \<open>
  The Go package \<^verbatim>\<open>flag\<close> as the two programs use it: flags that set a Boolean or a string
  variable, declared under one name or several, and the parser of the command line.
\<close>

subsection \<open>Parsing\<close>

text \<open>A flag sets a variable; \<open>'b\<close> and \<open>'s\<close> are the Boolean and the string variables of the program,
  \<open>'v\<close> is the record of their values.\<close>

datatype ('b, 's) flag_var = BoolVar 'b | StringVar 's

record ('b, 's, 'v) FlagSet =
  formal :: "(string \<times> ('b, 's) flag_var) list"
  set_BoolVar :: "'b \<Rightarrow> bool \<Rightarrow> 'v \<Rightarrow> 'v"
  set_StringVar :: "'s \<Rightarrow> string \<Rightarrow> 'v \<Rightarrow> 'v"

definition ParseBool :: "string \<Rightarrow> bool option" where
  "ParseBool s =
    (if s \<in> {''1'', ''t'', ''T'', ''TRUE'', ''true'', ''True''} then Some True
     else if s \<in> {''0'', ''f'', ''F'', ''FALSE'', ''false'', ''False''} then Some False
     else None)"

text \<open>The name of a flag and its value, if the argument has one.\<close>

definition flag_parts :: "string \<Rightarrow> string \<times> string option" where
  "flag_parts s =
    (let name = takeWhile (\<lambda>c. c \<noteq> CHR ''='') s
     in (name, if CHR ''='' \<in> set s then Some (drop (Suc (length name)) s) else None))"

text \<open>\<^verbatim>\<open>parseOne\<close>, for one argument: the arguments that are left and the values, or the
  status with which the process ends, 2 for a bad argument and 0 for a request for help; nothing when
  the argument is not a flag.\<close>

definition flag_step :: "('b, 's, 'v) FlagSet \<Rightarrow> string \<times> string option \<Rightarrow> string list \<Rightarrow> 'v \<Rightarrow> nat + string list \<times> 'v" where
  "flag_step F x args v = (case map_of (formal F) (fst x) of
     None \<Rightarrow> Inl (if fst x = ''help'' \<or> fst x = ''h'' then 0 else 2)
   | Some (BoolVar f) \<Rightarrow>
       (case snd x of
          None \<Rightarrow> Inr (args, set_BoolVar F f True v)
        | Some val \<Rightarrow> (case ParseBool val of None \<Rightarrow> Inl 2 | Some b \<Rightarrow> Inr (args, set_BoolVar F f b v)))
   | Some (StringVar f) \<Rightarrow>
       (case snd x of
          Some val \<Rightarrow> Inr (args, set_StringVar F f val v)
        | None \<Rightarrow> (case args of [] \<Rightarrow> Inl 2 | val # args' \<Rightarrow> Inr (args', set_StringVar F f val v))))"

definition parseOne :: "('b, 's, 'v) FlagSet \<Rightarrow> string \<Rightarrow> string list \<Rightarrow> 'v \<Rightarrow> (nat + string list \<times> 'v) option" where
  "parseOne F s args v =
    (if length s < 2 \<or> hd s \<noteq> CHR ''-'' \<or> s = ''--'' then None
     else
       (let name = drop (if s ! 1 = CHR ''-'' then 2 else 1) s
        in if name = [] \<or> hd name = CHR ''-'' \<or> hd name = CHR ''='' then Some (Inl 2)
           else Some (flag_step F (flag_parts name) args v)))"

lemma parseOne_args: "parseOne F s args v = Some (Inr (args', v')) \<Longrightarrow> length args' \<le> length args"
  by (auto simp: parseOne_def flag_step_def Let_def split: if_splits option.splits flag_var.splits list.splits)

function Parse :: "('b, 's, 'v) FlagSet \<Rightarrow> string list \<Rightarrow> 'v \<Rightarrow> nat + 'v" where
  "Parse F [] v = Inr v"
| "Parse F (s # args) v = (case parseOne F s args v of
     None \<Rightarrow> Inr v
   | Some (Inl status) \<Rightarrow> Inl status
   | Some (Inr (args', v')) \<Rightarrow> Parse F args' v')"
  by pat_completeness auto
termination
  by (relation "measure (\<lambda>(F, args, v). length args)") (auto dest: parseOne_args)

subsection \<open>Spellings of a flag\<close>

text \<open>What \<^const>\<open>Parse\<close> does after the first argument.\<close>

definition parse_rest :: "('b, 's, 'v) FlagSet \<Rightarrow> nat + string list \<times> 'v \<Rightarrow> nat + 'v" where
  "parse_rest F x = (case x of Inl status \<Rightarrow> Inl status | Inr (args', v') \<Rightarrow> Parse F args' v')"

lemma parseOne_flag:
  assumes "name \<noteq> []" and "hd name \<noteq> CHR ''-''" and "hd name \<noteq> CHR ''=''"
  shows "parseOne F (CHR ''-'' # name) args v = Some (flag_step F (flag_parts name) args v)"
    and "parseOne F (CHR ''-'' # CHR ''-'' # name) args v = Some (flag_step F (flag_parts name) args v)"
  using assms by (cases name; simp add: parseOne_def)+

lemma flag_parts_name:
  assumes "CHR ''='' \<notin> set n"
  shows "flag_parts n = (n, None)" and "flag_parts (n @ CHR ''='' # v) = (n, Some v)"
proof -
  have "takeWhile (\<lambda>c. c \<noteq> CHR ''='') n = n" "takeWhile (\<lambda>c. c \<noteq> CHR ''='') (n @ CHR ''='' # v) = n"
    using assms by (induction n) auto
  with assms show "flag_parts n = (n, None)" "flag_parts (n @ CHR ''='' # v) = (n, Some v)"
    by (simp_all add: flag_parts_def)
qed

definition plain_name :: "string \<Rightarrow> bool" where
  "plain_name m \<longleftrightarrow> m \<noteq> [] \<and> hd m \<noteq> CHR ''-'' \<and> hd m \<noteq> CHR ''='' \<and> CHR ''='' \<notin> set m"

lemma Parse_flag:
  assumes "plain_name n"
  shows "Parse F ((CHR ''-'' # n) # args) v = parse_rest F (flag_step F (n, None) args v)"
    and "Parse F ((CHR ''-'' # CHR ''-'' # n) # args) v = parse_rest F (flag_step F (n, None) args v)"
    and "Parse F ((CHR ''-'' # n @ CHR ''='' # val) # args) v = parse_rest F (flag_step F (n, Some val) args v)"
    and "Parse F ((CHR ''-'' # CHR ''-'' # n @ CHR ''='' # val) # args) v = parse_rest F (flag_step F (n, Some val) args v)"
  using assms by (simp_all add: plain_name_def parseOne_flag flag_parts_name parse_rest_def split: sum.split)

lemma flag_step_names: "map_of (formal F) n' = map_of (formal F) n \<Longrightarrow> map_of (formal F) n \<noteq> None \<Longrightarrow>
    flag_step F (n', x) args v = flag_step F (n, x) args v"
  unfolding flag_step_def fst_conv snd_conv by (cases "map_of (formal F) n") simp_all

lemma flag_step_next:
  "map_of (formal F) n = Some (StringVar f) \<Longrightarrow> flag_step F (n, None) (val # args) v = flag_step F (n, Some val) args v"
  by (simp add: flag_step_def)

text \<open>Two names of a flag, one dash or two, and the two ways to give a value.\<close>

lemma Parse_spellings:
  assumes "plain_name n" "plain_name n'" and "map_of (formal F) n \<noteq> None" "map_of (formal F) n' = map_of (formal F) n"
  shows "Parse F ((CHR ''-'' # n) # args) v = Parse F ((CHR ''-'' # n') # args) v"
    and "Parse F ((CHR ''-'' # CHR ''-'' # n) # args) v = Parse F ((CHR ''-'' # n') # args) v"
    and "Parse F ((CHR ''-'' # n @ CHR ''='' # val) # args) v = Parse F ((CHR ''-'' # n' @ CHR ''='' # val) # args) v"
    and "Parse F ((CHR ''-'' # CHR ''-'' # n @ CHR ''='' # val) # args) v = Parse F ((CHR ''-'' # n' @ CHR ''='' # val) # args) v"
    and "map_of (formal F) n = Some (StringVar f) \<Longrightarrow>
      Parse F ((CHR ''-'' # n) # val # args) v = Parse F ((CHR ''-'' # n @ CHR ''='' # val) # args) v"
  unfolding Parse_flag [OF assms(1)] Parse_flag [OF assms(2)] flag_step_names [OF assms(4,3)]
  by (simp_all add: flag_step_next)

end
