(* ===== verification/Satellite_Main.thy ===== *)
theory Satellite_Main
  imports Rpc_Link Mem_Kernel Go_Flag
begin

text \<open>
  The satellite's program (\<^verbatim>\<open>cmd/satellite/main.go\<close>): it serves requests on its standard
  input and output until they end, a signal arrives, or a handler panics. The events are served one
  after the other.
\<close>

subsection \<open>The program\<close>

text \<open>\<^verbatim>\<open>RWCloser.Close\<close> closes the reader, then the writer, whose error hides the reader's.\<close>

definition RWCloser_Close :: "('w \<Rightarrow> goerror option \<times> 'w) \<Rightarrow> ('w \<Rightarrow> goerror option \<times> 'w) \<Rightarrow> 'w \<Rightarrow> goerror option \<times> 'w" where
  "RWCloser_Close close_reader close_writer w =
    (case close_reader w of (err, w1) \<Rightarrow>
       (case close_writer w1 of
          (Some e, w2) \<Rightarrow> (Some e, w2)
        | (None, w2) \<Rightarrow> (err, w2)))"

text \<open>What can happen to a running satellite. When its input ends, \<^verbatim>\<open>main\<close> closes the channel
  of the signals before it returns, and \<^verbatim>\<open>shutdown\<close> may still run.\<close>

datatype event =
    Request string gob
  | Signal
  | Hangup bool

text \<open>\<^verbatim>\<open>shutdown\<close>, after the signal; \<open>order\<close> lists the keys of the table in the order in which
  Go visits them.\<close>

definition sat_shutdown :: "('f, 'w) satellite_env \<Rightarrow> ((uintptr \<rightharpoonup> 'f) \<Rightarrow> uintptr list) \<Rightarrow> 'f DockerFuseFSOps \<times> 'w
    \<Rightarrow> nat option \<times> 'f DockerFuseFSOps \<times> 'w" where
  "sat_shutdown env order st = (Some 0, CloseAllFDs env (order (fds (fst st))) st)"

text \<open>The outcome is the exit status of the process, if it has ended; a panic exits with 2.
  \<open>deferred\<close> is what \<^verbatim>\<open>main\<close> has deferred before, to be run when it returns.\<close>

fun ServeConn :: "('f, 'w) satellite_env \<Rightarrow> ((uintptr \<rightharpoonup> 'f) \<Rightarrow> uintptr list) \<Rightarrow> ('w \<Rightarrow> goerror option \<times> 'w) \<Rightarrow>
    ('w \<Rightarrow> goerror option \<times> 'w) \<Rightarrow> ('w \<Rightarrow> 'w) \<Rightarrow> event list \<Rightarrow> 'f DockerFuseFSOps \<times> 'w
    \<Rightarrow> nat option \<times> 'f DockerFuseFSOps \<times> 'w" where
  "ServeConn env order stdin stdout deferred [] st = (None, st)"
| "ServeConn env order stdin stdout deferred (Request m args # es) st =
    (case serve env m args st of
       (Crash _, st') \<Rightarrow> (Some 2, st')
     | (_, st') \<Rightarrow> ServeConn env order stdin stdout deferred es st')"
| "ServeConn env order stdin stdout deferred (Signal # es) st = sat_shutdown env order st"
| "ServeConn env order stdin stdout deferred (Hangup woken # es) (fso, w) =
    (case RWCloser_Close stdin stdout w of
       (_, w') \<Rightarrow> if woken then sat_shutdown env order (fso, w') else (Some 0, fso, deferred w'))"

record sat_args =
  sat_log :: bool
  sat_version :: bool

datatype sat_var = PersistentLog | SatVersion

fun set_sat_var :: "sat_var \<Rightarrow> bool \<Rightarrow> sat_args \<Rightarrow> sat_args" where
  "set_sat_var PersistentLog b fl = fl\<lparr> sat_log := b \<rparr>"
| "set_sat_var SatVersion b fl = fl\<lparr> sat_version := b \<rparr>"

text \<open>The satellite has no flag with a value.\<close>

definition sat_flags :: "(sat_var, unit, sat_args) FlagSet" where
  "sat_flags = \<lparr> formal = [(''log'', BoolVar PersistentLog), (''version'', BoolVar SatVersion)],
     set_BoolVar = set_sat_var, set_StringVar = (\<lambda>_ _ fl. fl) \<rparr>"

definition sat_defaults :: sat_args where
  "sat_defaults = \<lparr> sat_log = False, sat_version = False \<rparr>"

definition sat_main :: "('f, 'w) satellite_env \<Rightarrow> ((uintptr \<rightharpoonup> 'f) \<Rightarrow> uintptr list) \<Rightarrow> ('w \<Rightarrow> goerror option \<times> 'w) \<Rightarrow>
    ('w \<Rightarrow> goerror option \<times> 'w) \<Rightarrow> string list \<Rightarrow> event list \<Rightarrow> 'w \<Rightarrow> nat option \<times> 'f DockerFuseFSOps \<times> 'w" where
  "sat_main env order stdin stdout args es w = (case Parse sat_flags args sat_defaults of
     Inl status \<Rightarrow> (Some status, NewDockerFuseFSOps, w)
   | Inr fl \<Rightarrow>
       if sat_version fl then (Some 0, NewDockerFuseFSOps, w)
       else if sat_log fl then
         (case fs_OpenFile (dfFS env) ''/tmp/log.txt''
                 (sys_O_RDWR (env_flags env) OR sys_O_CREAT (env_flags env) OR sys_O_APPEND (env_flags env)) 0x1A0 w of
            (Inl _, w') \<Rightarrow> (Some 1, NewDockerFuseFSOps, w')
          | (Inr f, w') \<Rightarrow> ServeConn env order stdin stdout (\<lambda>w. snd (f_Close (fileOps env) f w)) es (NewDockerFuseFSOps, w'))
       else ServeConn env order stdin stdout id es (NewDockerFuseFSOps, w))"

subsection \<open>Properties\<close>

context satellite_files
begin

lemma ServeConn_signal:
  assumes "\<And>st. fd_inv env wfw open_files st \<Longrightarrow> set (order (fds (fst st))) = dom (fds (fst st))"
    and "fd_inv env wfw open_files st"
    and "ServeConn env order stdin stdout deferred (map (\<lambda>(m, a). Request m a) rs @ Signal # es) st = (x, st')"
  shows "fd_inv env wfw open_files st' \<and> (x = Some 2 \<or> x = Some 0 \<and> fds (fst st') = Map.empty)"
  using assms(2,3)
proof (induction rs arbitrary: st)
  case Nil
  then have "x = Some 0" "st' = CloseAllFDs env (order (fds (fst st))) st" by (auto simp: sat_shutdown_def)
  with Nil assms(1) [OF Nil.prems(1)] CloseAllFDs_fd_inv fds_CloseAllFDs [of env _ "fst st" "snd st"] show ?case
    by (auto simp: restrict_map_def fun_eq_iff)
next
  case (Cons r rs)
  obtain m a where r: "r = (m, a)" by fastforce
  obtain y st1 where s: "serve env m a st = (y, st1)" by (cases "serve env m a st")
  then have "fd_inv env wfw open_files st1" using serve_keeps [OF Cons.prems(1), of m a] by simp
  with Cons r s show ?case by (cases y) auto
qed

end

lemma os_open_finite: "os_wf base kfds w \<Longrightarrow> finite (os_open w)"
proof -
  assume "os_wf base kfds w"
  then have "f < next_obj w" if "f \<in> os_open w" for f
    using that by (cases "next_obj w \<le> f") (auto simp: os_wf_def os_open_def sysfd_def)
  then have "os_open w \<subseteq> {..< next_obj w}" by blast
  then show ?thesis by (rule finite_subset) simp
qed

lemma fd_inv_finite: "fd_inv (os_env K) (os_wf base kfds) os_open st \<Longrightarrow> finite (dom (fds (fst st)))"
proof -
  assume inv: "fd_inv (os_env K) (os_wf base kfds) os_open st"
  then have "dom (fds (fst st)) \<subseteq> (\<lambda>f. os_Fd f (snd st)) ` os_open (snd st)"
    by (cases st) (fastforce simp: fd_inv_def)
  moreover have "finite (os_open (snd st))"
    using inv os_open_finite by (cases st) (auto simp: fd_inv_def)
  ultimately show ?thesis by (meson finite_imageI finite_subset)
qed



end
