(* ===== verification/Client_Setup.thy ===== *)
theory Client_Setup
  imports Client
begin

text \<open>
  Starting and stopping the satellite (\<^verbatim>\<open>client.go\<close>, lines 67-202): choosing the binary
  for the image's architecture, copying it into the container as a tar archive, running it and
  connecting to it. The Docker API, the SSH connection helper and the local file system are
  interfaces of the source and parameters here. An error is its text.
\<close>

subsection \<open>Interfaces\<close>

text \<open>A tar archive as its entries.\<close>

record tar_entry =
  tar_Name :: string
  tar_Mode :: int64
  tar_Size :: int64
  tar_Data :: "byte list"

record ExecOptions =
  AttachStderr :: bool
  AttachStdout :: bool
  AttachStdin :: bool
  Tty :: bool
  Cmd :: "string list"

text \<open>\<^verbatim>\<open>dockerClient\<close> over the state \<open>'x\<close> of the Docker host: inspecting a
  container yields its image, inspecting an image its architecture, creating a process its
  identifier, attaching to it a connection \<open>'c\<close>.\<close>

record ('x, 'c) dockerClient =
  ContainerExecAttach :: "string \<Rightarrow> bool \<Rightarrow> 'x \<Rightarrow> (string + 'c) \<times> 'x"
  ContainerExecCreate :: "string \<Rightarrow> ExecOptions \<Rightarrow> 'x \<Rightarrow> (string + string) \<times> 'x"
  ContainerInspect :: "string \<Rightarrow> 'x \<Rightarrow> (string + string) \<times> 'x"
  CopyToContainer :: "string \<Rightarrow> string \<Rightarrow> tar_entry list \<Rightarrow> 'x \<Rightarrow> string option \<times> 'x"
  ImageInspectWithRaw :: "string \<Rightarrow> 'x \<Rightarrow> (string + string) \<times> 'x"

text \<open>\<^verbatim>\<open>fileSystem\<close> of the client.\<close>

record local_fs =
  Executable :: "string + string"
  ReadFile :: "string \<Rightarrow> string + byte list"

subsection \<open>Copying the satellite\<close>

definition satelliteBinPrefix :: string where "satelliteBinPrefix = ''dockerfuse_satellite''"
definition satelliteExecPath :: string where "satelliteExecPath = ''/tmp''"

text \<open>The archive has one entry of the size of its data, so writing it to memory does not fail.\<close>

definition satellite_tar :: "string \<Rightarrow> byte list \<Rightarrow> tar_entry list" where
  "satellite_tar name bin = [\<lparr> tar_Name = name, tar_Mode = 0x1C0, tar_Size = of_nat (length bin), tar_Data = bin \<rparr>]"

definition uploadSatellite :: "('x, 'c) dockerClient \<Rightarrow> local_fs \<Rightarrow> 's DockerFuseClient \<Rightarrow> 'x
    \<Rightarrow> (string option \<times> 's DockerFuseClient) \<times> 'x" where
  "uploadSatellite docker fs d x =
    (case ContainerInspect docker (containerID d) x of
       (Inl err, x1) \<Rightarrow> ((Some err, d), x1)
     | (Inr img, x1) \<Rightarrow>
    (case ImageInspectWithRaw docker img x1 of
       (Inl err, x2) \<Rightarrow> ((Some err, d), x2)
     | (Inr arch, x2) \<Rightarrow>
        if arch \<noteq> ''arm64'' \<and> arch \<noteq> ''amd64''
        then ((Some (''unsupported architecture: '' @ arch @ '' (use arm64 or amd64)''), d), x2)
        else
          (let satelliteBinName = satelliteBinPrefix @ ''_'' @ arch;
               d' = d\<lparr> satelliteFullRemotePath := Clean (Join [satelliteExecPath, satelliteBinName]) \<rparr>
           in (case Executable fs of
                 Inl err \<Rightarrow> ((Some err, d'), x2)
               | Inr ex \<Rightarrow>
                   (case ReadFile fs (Clean (Join [Dir ex, satelliteBinName])) of
                      Inl err \<Rightarrow> ((Some err, d'), x2)
                    | Inr satelliteBin \<Rightarrow>
                        (case CopyToContainer docker (containerID d') satelliteExecPath
                               (satellite_tar satelliteBinName satelliteBin) x2 of
                           (Some err, x3) \<Rightarrow> ((Some err, d'), x3)
                         | (None, x3) \<Rightarrow> ((None, d'), x3)))))))"

subsection \<open>Connecting\<close>

definition disconnect :: "'s DockerFuseClient \<Rightarrow> 's \<Rightarrow> 's DockerFuseClient \<times> 's" where
  "disconnect d s = (case rpcClient d of
     Some c \<Rightarrow> (d\<lparr> rpcClient := None \<rparr>, rc_Close c s)
   | None \<Rightarrow> (d, s))"

definition connectSatellite :: "('x, 'c) dockerClient \<Rightarrow> ('c \<Rightarrow> 's rpcClient) \<Rightarrow> 's DockerFuseClient \<Rightarrow> 's \<Rightarrow> 'x
    \<Rightarrow> (string option \<times> 's DockerFuseClient) \<times> 's \<times> 'x" where
  "connectSatellite docker NewClient d s x =
    (let (d', s') = (if rpcClient d \<noteq> None then disconnect d s else (d, s));
         config = \<lparr> AttachStderr = False, AttachStdout = True, AttachStdin = True, Tty = False,
                    Cmd = [satelliteFullRemotePath d'] \<rparr>
     in (case ContainerExecCreate docker (containerID d') config x of
           (Inl err, x1) \<Rightarrow> ((Some err, d'), s', x1)
         | (Inr execID, x1) \<Rightarrow>
             (case ContainerExecAttach docker execID True x1 of
                (Inl err, x2) \<Rightarrow> ((Some err, d'), s', x2)
              | (Inr conn, x2) \<Rightarrow> ((None, d'\<lparr> rpcClient := Some (NewClient conn) \<rparr>), s', x2))))"

subsection \<open>Creating the client\<close>

datatype clientOpt =
    WithHTTPClient string
  | WithHost string
  | WithDialContext string
  | FromEnv
  | WithVersion string
  | WithAPIVersionNegotiation

text \<open>
  The options of the Docker client, from the environment variables \<^verbatim>\<open>DOCKER_HOST\<close> and
  \<^verbatim>\<open>DOCKER_API_VERSION\<close> (empty when unset). The connection helper is named by its host.
\<close>

definition clientOpts :: "(string \<Rightarrow> string + string) \<Rightarrow> string \<Rightarrow> string \<Rightarrow> string + clientOpt list" where
  "clientOpts GetConnectionHelper dockerHost version =
    (let versionOpt = (if version \<noteq> '''' then [WithVersion version] else [WithAPIVersionNegotiation])
     in if HasPrefix dockerHost ''ssh://'' then
          (case GetConnectionHelper dockerHost of
             Inl err \<Rightarrow> Inl err
           | Inr helper \<Rightarrow> Inr ([WithHTTPClient helper, WithHost helper, WithDialContext helper] @ versionOpt))
        else Inr ([FromEnv] @ versionOpt))"

definition NewDockerFuseClient :: "(string \<Rightarrow> string + string) \<Rightarrow> (clientOpt list \<Rightarrow> string + ('x, 'c) dockerClient) \<Rightarrow>
    local_fs \<Rightarrow> ('c \<Rightarrow> 's rpcClient) \<Rightarrow> string \<Rightarrow> string \<Rightarrow> string \<Rightarrow> 's \<Rightarrow> 'x
    \<Rightarrow> (string + 's DockerFuseClient) \<times> 's \<times> 'x" where
  "NewDockerFuseClient GetConnectionHelper NewClientWithOpts fs NewClient dockerHost version container s x =
    (case clientOpts GetConnectionHelper dockerHost version of
       Inl err \<Rightarrow> (Inl err, s, x)
     | Inr opts \<Rightarrow>
    (case NewClientWithOpts opts of
       Inl err \<Rightarrow> (Inl err, s, x)
     | Inr docker \<Rightarrow>
    (case uploadSatellite docker fs \<lparr> rpcClient = None, containerID = container, satelliteFullRemotePath = '''' \<rparr> x of
       ((Some err, d), x1) \<Rightarrow>
         (Inl (''error copying docker-fuse satellite to remote container: '' @ err), s, x1)
     | ((None, d), x1) \<Rightarrow>
    (case connectSatellite docker NewClient d s x1 of
       ((Some err, d'), s2, x2) \<Rightarrow> (Inl (''error connecting to docker-fuse satellite: '' @ err), s2, x2)
     | ((None, d'), s2, x2) \<Rightarrow> (Inr d', s2, x2)))))"

subsection \<open>Properties\<close>

lemma satellite_remote_path:
  assumes "arch = ''arm64'' \<or> arch = ''amd64''"
  shows "Clean (Join [satelliteExecPath, satelliteBinPrefix @ ''_'' @ arch])
    = ''/tmp/'' @ satelliteBinPrefix @ ''_'' @ arch"
proof -
  have "child_path (abs_path [''tmp'']) (satelliteBinPrefix @ ''_'' @ arch) = abs_path [''tmp'', satelliteBinPrefix @ ''_'' @ arch]"
    using assms by (subst child_path_abs) (auto simp: plain_def satelliteBinPrefix_def)
  then show ?thesis by (simp add: child_path_def abs_path_def satelliteExecPath_def)
qed

text \<open>What a successful upload and a successful connection have done.\<close>

lemma uploadSatellite_None:
  assumes "uploadSatellite docker fs d x = ((None, d'), x')"
  obtains arch bin ex x2 where "arch = ''arm64'' \<or> arch = ''amd64''"
    and "Executable fs = Inr ex" and "ReadFile fs (Clean (Join [Dir ex, satelliteBinPrefix @ ''_'' @ arch])) = Inr bin"
    and "CopyToContainer docker (containerID d) ''/tmp'' (satellite_tar (satelliteBinPrefix @ ''_'' @ arch) bin) x2 = (None, x')"
    and "d' = d\<lparr> satelliteFullRemotePath := ''/tmp/'' @ satelliteBinPrefix @ ''_'' @ arch \<rparr>"
proof -
  obtain arch bin ex x2 where arch: "arch = ''arm64'' \<or> arch = ''amd64''"
    and rest: "Executable fs = Inr ex" "ReadFile fs (Clean (Join [Dir ex, satelliteBinPrefix @ ''_'' @ arch])) = Inr bin"
      "CopyToContainer docker (containerID d) satelliteExecPath (satellite_tar (satelliteBinPrefix @ ''_'' @ arch) bin) x2 = (None, x')"
      "d' = d\<lparr> satelliteFullRemotePath := Clean (Join [satelliteExecPath, satelliteBinPrefix @ ''_'' @ arch]) \<rparr>"
    using assms unfolding uploadSatellite_def Let_def
    by (auto split: prod.splits sum.splits option.splits if_splits)
  show thesis
    using that [OF arch rest(1,2)] rest(3) [unfolded satelliteExecPath_def] rest(4) [unfolded satellite_remote_path [OF arch]] by blast
qed


text \<open>A Docker host that unpacks archives into a container and runs only files that are there.\<close>

definition unpack :: "string \<Rightarrow> tar_entry list \<Rightarrow> (string \<times> byte list) list" where
  "unpack dst es = map (\<lambda>e. (dst @ ''/'' @ tar_Name e, tar_Data e)) es"

definition host_docker :: "((string \<times> byte list) list, byte list) dockerClient" where
  "host_docker = \<lparr>
     ContainerExecAttach = (\<lambda>p tty x. (case map_of x p of None \<Rightarrow> Inl ''no such process'' | Some bin \<Rightarrow> Inr bin, x)),
     ContainerExecCreate = (\<lambda>c opts x. (if map_of x (hd (Cmd opts)) = None then Inl ''no such file'' else Inr (hd (Cmd opts)), x)),
     ContainerInspect = (\<lambda>c x. (Inr ''image'', x)),
     CopyToContainer = (\<lambda>c dst es x. (None, unpack dst es @ x)),
     ImageInspectWithRaw = (\<lambda>i x. (Inr ''arm64'', x)) \<rparr>"

definition host_fs :: local_fs where
  "host_fs = \<lparr> Executable = Inr ''/usr/bin/dockerfuse'',
     ReadFile = (\<lambda>p. if p = ''/usr/bin/dockerfuse_satellite_arm64'' then Inr [127, 69, 76, 70] else Inl ''no such file'') \<rparr>"

definition null_rpc :: "byte list \<Rightarrow> unit rpcClient" where
  "null_rpc bin = \<lparr> rc_Call = (\<lambda>m args s. (Inl ''EOF'', s)), rc_Close = (\<lambda>s. s) \<rparr>"


text \<open>C25. An image of another architecture, or one for which there is no satellite beside the
  client's executable, is refused before anything is copied into the container or run in it: the
  Docker host is left as the two inspections leave it.\<close>

theorem unsupported_image_left_alone:
  fixes NewClient :: "'c \<Rightarrow> 's rpcClient"
  assumes "clientOpts helper host version = Inr os" and "opts os = Inr docker"
    and "ContainerInspect docker container x = (Inr img, x1)" and "ImageInspectWithRaw docker img x1 = (Inr arch, x2)"
    and "arch \<notin> {''arm64'', ''amd64''} \<or> Executable fs = Inl e \<or>
      Executable fs = Inr ex \<and> ReadFile fs (Clean (Join [Dir ex, ''dockerfuse_satellite_'' @ arch])) = Inl e"
  shows "\<exists>err. NewDockerFuseClient helper opts fs NewClient host version container s x = (Inl err, s, x2)"
proof -
  have "\<exists>err d'. uploadSatellite docker fs (\<lparr> rpcClient = None, containerID = container, satelliteFullRemotePath = '''' \<rparr> :: 's DockerFuseClient) x = ((Some err, d'), x2)"
    using assms(3-5) by (auto simp: uploadSatellite_def Let_def satelliteBinPrefix_def split: sum.split)
  then show ?thesis using assms(1,2) by (auto simp: NewDockerFuseClient_def)
qed

theorem unsupported_image_left_alone_witness:
  "\<exists>err. NewDockerFuseClient Inr (\<lambda>_. Inr (host_docker\<lparr> ImageInspectWithRaw := \<lambda>i x. (Inr ''s390x'', x) \<rparr>)) host_fs null_rpc '''' '''' ''c1'' () []
     = (Inl err, (), [])"
  by (rule unsupported_image_left_alone [where arch = "''s390x''" and img = "''image''" and ?x1.0 = "[]"])
    (auto simp: clientOpts_def HasPrefix_def host_docker_def)

end
