(* ===== verification/Dockerfuse_Main.thy ===== *)
theory Dockerfuse_Main
  imports Client_Setup Fuse_Node Go_Flag
begin

text \<open>
  The client's program (\<^verbatim>\<open>cmd/dockerfuse/main.go\<close>): the command line, the checks before
  anything is mounted, the creation of the client, the mount, and the end of the process. The
  packages \<^verbatim>\<open>flag\<close> (in \<^verbatim>\<open>Go_Flag\<close>) and \<^verbatim>\<open>strconv\<close> are modelled as far as the program uses them; the
  daemon package, the user database and go-fuse are parameters. Logging is left out.
\<close>

subsection \<open>The command line\<close>

record df_flags =
  fl_containerID :: string
  fl_mountPoint :: string
  fl_path :: string
  fl_daemonize :: bool
  fl_debug :: bool
  fl_jsonlog :: bool
  fl_printVersion :: bool

definition default_flags :: df_flags where
  "default_flags = \<lparr> fl_containerID = '''', fl_mountPoint = '''', fl_path = ''/'', fl_daemonize = False,
     fl_debug = False, fl_jsonlog = False, fl_printVersion = False \<rparr>"

datatype bool_var = PrintVersion | Daemonize | Debug | Jsonlog
datatype string_var = ContainerID | MountPoint | Path

text \<open>The calls of \<^verbatim>\<open>init\<close>.\<close>

fun set_bool :: "bool_var \<Rightarrow> bool \<Rightarrow> df_flags \<Rightarrow> df_flags" where
  "set_bool PrintVersion b fl = fl\<lparr> fl_printVersion := b \<rparr>"
| "set_bool Daemonize b fl = fl\<lparr> fl_daemonize := b \<rparr>"
| "set_bool Debug b fl = fl\<lparr> fl_debug := b \<rparr>"
| "set_bool Jsonlog b fl = fl\<lparr> fl_jsonlog := b \<rparr>"

fun set_string :: "string_var \<Rightarrow> string \<Rightarrow> df_flags \<Rightarrow> df_flags" where
  "set_string ContainerID s fl = fl\<lparr> fl_containerID := s \<rparr>"
| "set_string MountPoint s fl = fl\<lparr> fl_mountPoint := s \<rparr>"
| "set_string Path s fl = fl\<lparr> fl_path := s \<rparr>"

definition declared_flags :: "(bool_var, string_var, df_flags) FlagSet" where
  "declared_flags = \<lparr> formal = [
     (''version'', BoolVar PrintVersion), (''v'', BoolVar PrintVersion),
     (''id'', StringVar ContainerID), (''i'', StringVar ContainerID),
     (''mount'', StringVar MountPoint), (''m'', StringVar MountPoint),
     (''path'', StringVar Path), (''p'', StringVar Path),
     (''daemonize'', BoolVar Daemonize), (''d'', BoolVar Daemonize),
     (''debug'', BoolVar Debug),
     (''json'', BoolVar Jsonlog), (''j'', BoolVar Jsonlog)],
     set_BoolVar = set_bool, set_StringVar = set_string \<rparr>"

subsection \<open>User and group\<close>

text \<open>\<^verbatim>\<open>strconv.Atoi\<close> where an \<^verbatim>\<open>int\<close> has 64 bits.\<close>

definition digits_value :: "string \<Rightarrow> int" where
  "digits_value ds = foldl (\<lambda>n c. 10 * n + (int (of_char c) - 48)) 0 ds"

definition Atoi :: "string \<Rightarrow> string + int" where
  "Atoi s =
    (let neg = (s \<noteq> [] \<and> hd s = CHR ''-'');
         ds = (if s \<noteq> [] \<and> (hd s = CHR ''-'' \<or> hd s = CHR ''+'') then tl s else s);
         n = (if neg then - digits_value ds else digits_value ds)
     in if ds = [] \<or> \<not> list_all (\<lambda>c. 48 \<le> (of_char c :: nat) \<and> (of_char c :: nat) \<le> 57) ds then Inl ''invalid syntax''
        else if n < - (2 ^ 63) \<or> 2 ^ 63 \<le> n then Inl ''value out of range''
        else Inr n)"

definition check_id :: "string \<Rightarrow> uint32 option" where
  "check_id s = (case Atoi s of
     Inl _ \<Rightarrow> None
   | Inr n \<Rightarrow> if n < 0 \<or> n > 0xFFFFFFFF then None else Some (word_of_int n))"

subsection \<open>The program\<close>

record mount_options =
  EntryTimeout :: int64
  AttrTimeout :: int64
  NegativeTimeout :: int64
  FsName :: string
  mo_UID :: uint32
  mo_GID :: uint32

definition attrTTL :: int64 where "attrTTL = 1500 * 1000000"
definition entryTTL :: int64 where "entryTTL = 1500 * 1000000"

text \<open>What the program uses of its surroundings. \<^verbatim>\<open>Reborn\<close> returns the child in the parent and
  nothing in the child; the user has a user and a group identifier.\<close>

record ('s, 'srv, 'h) df_host =
  Reborn :: "'h \<Rightarrow> (string + bool) \<times> 'h"
  MkdirAll :: "string \<Rightarrow> FileMode \<Rightarrow> 'h \<Rightarrow> string option \<times> 'h"
  user_Current :: "'h \<Rightarrow> (string + string \<times> string) \<times> 'h"
  Mount :: "string \<Rightarrow> 's Node \<Rightarrow> mount_options \<Rightarrow> 'h \<Rightarrow> (string + 'srv) \<times> 'h"
  Unmount :: "'srv \<Rightarrow> 'h \<Rightarrow> string option \<times> 'h"

text \<open>What \<^const>\<open>NewDockerFuseClient\<close> uses.\<close>

record ('x, 'c, 's) docker_host =
  dh_helper :: "string \<Rightarrow> string + string"
  dh_client :: "clientOpt list \<Rightarrow> string + ('x, 'c) dockerClient"
  dh_fs :: local_fs
  dh_rpc :: "'c \<Rightarrow> 's rpcClient"
  dh_DOCKER_HOST :: string
  dh_DOCKER_API_VERSION :: string

datatype 'srv df_outcome = Exit nat | Serving 'srv

definition df_mount :: "client_env \<Rightarrow> ('x, 'c, 's) docker_host \<Rightarrow> ('s, 'srv, 'h) df_host \<Rightarrow> df_flags \<Rightarrow> 's \<times> 'x \<times> 'h
    \<Rightarrow> 'srv df_outcome \<times> 's \<times> 'x \<times> 'h" where
  "df_mount E D H fl = (\<lambda>(s, x, h).
    (case MkdirAll H (fl_mountPoint fl) 0x1ED h of
       (Some _, h1) \<Rightarrow> (Exit 3, s, x, h1)
     | (None, h1) \<Rightarrow>
    (case user_Current H h1 of
       (Inl _, h2) \<Rightarrow> (Exit 4, s, x, h2)
     | (Inr (uid, gid), h2) \<Rightarrow>
    (case check_id uid of
       None \<Rightarrow> (Exit 5, s, x, h2)
     | Some u \<Rightarrow>
    (case check_id gid of
       None \<Rightarrow> (Exit 5, s, x, h2)
     | Some g \<Rightarrow>
    (case NewDockerFuseClient (dh_helper D) (dh_client D) (dh_fs D) (dh_rpc D) (dh_DOCKER_HOST D) (dh_DOCKER_API_VERSION D)
            (fl_containerID fl) s x of
       (Inl _, s', x') \<Rightarrow> (Exit 6, s', x', h2)
     | (Inr d, s', x') \<Rightarrow>
    (case Mount H (fl_mountPoint fl) (NewNode (client_interface E d) (fl_path fl) '''')
            \<lparr> EntryTimeout = entryTTL, AttrTimeout = attrTTL, NegativeTimeout = entryTTL,
              FsName = ''dockerfuse-'' @ fl_containerID fl, mo_UID = u, mo_GID = g \<rparr> h2 of
       (Inl _, h3) \<Rightarrow> (Exit 7, s', x', h3)
     | (Inr server, h3) \<Rightarrow> (Serving server, s', x', h3))))))))"

definition df_main :: "client_env \<Rightarrow> ('x, 'c, 's) docker_host \<Rightarrow> ('s, 'srv, 'h) df_host \<Rightarrow> string list \<Rightarrow> 's \<times> 'x \<times> 'h
    \<Rightarrow> 'srv df_outcome \<times> 's \<times> 'x \<times> 'h" where
  "df_main E D H args = (\<lambda>(s, x, h).
    case Parse declared_flags args default_flags of
      Inl status \<Rightarrow> (Exit status, s, x, h)
    | Inr fl \<Rightarrow>
        if fl_printVersion fl then (Exit 0, s, x, h)
        else if fl_containerID fl = '''' then (Exit 1, s, x, h)
        else if fl_mountPoint fl = '''' then (Exit 1, s, x, h)
        else if fl_daemonize fl then
          (case Reborn H h of
             (Inl _, h1) \<Rightarrow> (Exit 2, s, x, h1)
           | (Inr True, h1) \<Rightarrow> (Exit 0, s, x, h1)
           | (Inr False, h1) \<Rightarrow> df_mount E D H fl (s, x, h1))
        else df_mount E D H fl (s, x, h))"

text \<open>The goroutine \<^verbatim>\<open>shutdown\<close>, after the signal.\<close>

definition df_shutdown :: "('s, 'srv, 'h) df_host \<Rightarrow> 'srv \<Rightarrow> 'h \<Rightarrow> 'srv df_outcome \<times> 'h" where
  "df_shutdown H server h = (case Unmount H server h of
     (Some _, h) \<Rightarrow> (Exit 7, h)
   | (None, h) \<Rightarrow> (Exit 0, h))"

text \<open>The end of \<^verbatim>\<open>main\<close>: a signal, or \<^verbatim>\<open>server.Wait\<close> returns because the file system was
  unmounted. Then \<^verbatim>\<open>main\<close> closes the channel of the signals before it returns, and
  \<^verbatim>\<open>shutdown\<close> may wake up and run before the process ends.\<close>

datatype df_event = Df_signal | Df_unmounted bool

definition df_wait :: "('s, 'srv, 'h) df_host \<Rightarrow> df_event \<Rightarrow> 'srv \<Rightarrow> 'h \<Rightarrow> 'srv df_outcome \<times> 'h" where
  "df_wait H ev server h = (case ev of
     Df_signal \<Rightarrow> df_shutdown H server h
   | Df_unmounted woken \<Rightarrow> if woken then df_shutdown H server h else (Exit 0, h))"

subsection \<open>Properties\<close>

lemma check_id_Some: "check_id s = Some v \<longleftrightarrow> Atoi s = Inr (uint v)"
proof -
  have "uint v < 2 ^ 32" "0 \<le> uint v" using uint_bounded [of v] by simp_all
  moreover have "uint (word_of_int n :: uint32) = n" if "0 \<le> n" "n \<le> 0xFFFFFFFF" for n
    using that by (simp add: uint_word_of_int)
  ultimately show ?thesis by (auto simp: check_id_def split: sum.splits if_splits)
qed

text \<open>The flags that have two names.\<close>

definition flag_names :: "(string \<times> string) list" where
  "flag_names = [(''version'', ''v''), (''id'', ''i''), (''mount'', ''m''), (''path'', ''p''), (''daemonize'', ''d''), (''json'', ''j'')]"

lemma flag_names_table:
  "list_all (\<lambda>(n, n'). plain_name n \<and> plain_name n' \<and> map_of (formal declared_flags) n \<noteq> None \<and>
     map_of (formal declared_flags) n' = map_of (formal declared_flags) n) flag_names"
  by code_simp

lemma flag_namesD:
  assumes "(n, n') \<in> set flag_names"
  shows "plain_name n" "plain_name n'" "map_of (formal declared_flags) n \<noteq> None"
    "map_of (formal declared_flags) n' = map_of (formal declared_flags) n"
  using flag_names_table assms by (force simp: list_all_iff)+

lemma map_of_string_flags:
  "n \<in> {''id'', ''mount'', ''path''} \<Longrightarrow> \<exists>f. map_of (formal declared_flags) n = Some (StringVar f)"
  by (elim insertE emptyE; simp add: declared_flags_def)

text \<open>C23. The short name of a flag means what its long name does, with one dash or two; and a value may
  follow as the next argument or after an equals sign.\<close>

theorem flag_spellings:
  assumes "(n, n') \<in> set flag_names"
  shows "Parse declared_flags ((CHR ''-'' # n) # args) fl = Parse declared_flags ((CHR ''-'' # n') # args) fl \<and>
    Parse declared_flags ((CHR ''-'' # CHR ''-'' # n) # args) fl = Parse declared_flags ((CHR ''-'' # n') # args) fl \<and>
    Parse declared_flags ((CHR ''-'' # n @ CHR ''='' # v) # args) fl = Parse declared_flags ((CHR ''-'' # n' @ CHR ''='' # v) # args) fl \<and>
    Parse declared_flags ((CHR ''-'' # CHR ''-'' # n @ CHR ''='' # v) # args) fl = Parse declared_flags ((CHR ''-'' # n' @ CHR ''='' # v) # args) fl \<and>
    (n \<in> {''id'', ''mount'', ''path''} \<longrightarrow>
       Parse declared_flags ((CHR ''-'' # n) # v # args) fl = Parse declared_flags ((CHR ''-'' # n @ CHR ''='' # v) # args) fl)"
proof (intro conjI impI)
  assume "n \<in> {''id'', ''mount'', ''path''}"
  from map_of_string_flags [OF this] obtain f where "map_of (formal declared_flags) n = Some (StringVar f)" by (elim exE)
  then show "Parse declared_flags ((CHR ''-'' # n) # v # args) fl = Parse declared_flags ((CHR ''-'' # n @ CHR ''='' # v) # args) fl"
    by (rule Parse_spellings(5) [OF flag_namesD [OF assms]])
qed (rule Parse_spellings [OF flag_namesD [OF assms]])+

theorem flag_spellings_witness:
  "Parse declared_flags [''--id'', ''c1'', ''-m=/mnt''] default_flags = Inr (default_flags\<lparr> fl_containerID := ''c1'', fl_mountPoint := ''/mnt'' \<rparr>)"
proof -
  have "Parse declared_flags [''--id'', ''c1'', ''-m=/mnt''] default_flags = Parse declared_flags [''-i'', ''c1'', ''-m=/mnt''] default_flags"
    using flag_spellings [of "''id''" "''i''" "[''c1'', ''-m=/mnt'']" default_flags] by (simp add: flag_names_def del: Parse.simps)
  also have "\<dots> = Inr (default_flags\<lparr> fl_containerID := ''c1'', fl_mountPoint := ''/mnt'' \<rparr>)"
    by (simp add: parseOne_def flag_step_def declared_flags_def flag_parts_def)
  finally show ?thesis .
qed

text \<open>C22. Nothing is mounted unless a container and a mount point are given and the user's identifiers
  are numbers of 32 bits; then the files are shown as owned by exactly that user and group: the
  conversion to \<^verbatim>\<open>uint32\<close> loses nothing.\<close>

theorem mounted_for_the_user:
  assumes "df_main E D H args (s, x, h) = (Serving srv, s', x', h')"
  shows "\<exists>fl uid gid d opts h1 h2. Parse declared_flags args default_flags = Inr fl \<and> fl_containerID fl \<noteq> '''' \<and> fl_mountPoint fl \<noteq> '''' \<and>
     user_Current H h1 = (Inr (uid, gid), h2) \<and>
     Atoi uid = Inr (uint (mo_UID opts)) \<and> Atoi gid = Inr (uint (mo_GID opts)) \<and>
     Mount H (fl_mountPoint fl) (NewNode (client_interface E d) (fl_path fl) '''') opts h2 = (Inr srv, h')"
proof -
  obtain fl h0 where fl: "Parse declared_flags args default_flags = Inr fl" "fl_containerID fl \<noteq> ''''" "fl_mountPoint fl \<noteq> ''''"
    and m: "df_mount E D H fl (s, x, h0) = (Serving srv, s', x', h')"
    using assms by (auto simp: df_main_def split: sum.splits if_splits prod.splits bool.splits)
  obtain uid gid u g d h1 h2 where ids: "user_Current H h1 = (Inr (uid, gid), h2)" "check_id uid = Some u" "check_id gid = Some g"
    and mnt: "Mount H (fl_mountPoint fl) (NewNode (client_interface E d) (fl_path fl) '''')
       \<lparr> EntryTimeout = entryTTL, AttrTimeout = attrTTL, NegativeTimeout = entryTTL,
         FsName = ''dockerfuse-'' @ fl_containerID fl, mo_UID = u, mo_GID = g \<rparr> h2 = (Inr srv, h')"
    using m unfolding df_mount_def by (auto split: option.splits sum.splits prod.splits)
  from ids(2,3) have "Atoi uid = Inr (uint u)" "Atoi gid = Inr (uint g)" by (simp_all add: check_id_Some)
  with fl ids(1) mnt show ?thesis
    by (intro exI [of _ fl] exI [of _ uid] exI [of _ gid] exI [of _ d] exI [of _ "\<lparr> EntryTimeout = entryTTL, AttrTimeout = attrTTL,
      NegativeTimeout = entryTTL, FsName = ''dockerfuse-'' @ fl_containerID fl, mo_UID = u, mo_GID = g \<rparr>"]
      exI [of _ h1] exI [of _ h2] conjI) simp_all
qed

text \<open>A host on which everything works, with the user 1000 of the group 4294967295.\<close>

definition good_host :: "(unit, uint32 \<times> uint32, unit) df_host" where
  "good_host = \<lparr> Reborn = Pair (Inr False), MkdirAll = (\<lambda>p m. Pair None), user_Current = Pair (Inr (''1000'', ''4294967295'')),
     Mount = (\<lambda>p n opts. Pair (Inr (mo_UID opts, mo_GID opts))), Unmount = (\<lambda>srv. Pair None) \<rparr>"

definition good_docker :: "((string \<times> byte list) list, byte list, unit) docker_host" where
  "good_docker = \<lparr> dh_helper = Inr, dh_client = (\<lambda>_. Inr host_docker), dh_fs = host_fs, dh_rpc = null_rpc,
     dh_DOCKER_HOST = '''', dh_DOCKER_API_VERSION = '''' \<rparr>"

theorem mounted_for_the_user_witness:
  "\<exists>s' x' h'. df_main \<lparr> ce_errno = linux_errno, ce_flags = linux_flags \<rparr> good_docker good_host [''-i'', ''c1'', ''-m'', ''/mnt''] ((), [], ())
     = (Serving (1000, 4294967295), s', x', h')"
proof -
  let ?E = "\<lparr> ce_errno = linux_errno, ce_flags = linux_flags \<rparr>"
  let ?r = "df_main ?E good_docker good_host [''-i'', ''c1'', ''-m'', ''/mnt''] ((), [], ())"
  have "case fst ?r of Serving srv \<Rightarrow> True | Exit n \<Rightarrow> False"
    by code_simp
  then obtain srv s' x' h' where r: "?r = (Serving srv, s', x', h')"
    by (cases ?r) (auto split: df_outcome.splits)
  have ids: "Atoi ''1000'' = Inr 1000" "Atoi ''4294967295'' = Inr 4294967295" by code_simp+
  obtain uid gid opts h1 h2 d and fl :: df_flags where o: "user_Current good_host h1 = (Inr (uid, gid), h2)" "Atoi uid = Inr (uint (mo_UID opts))"
      "Atoi gid = Inr (uint (mo_GID opts))"
      "Mount good_host (fl_mountPoint fl) (NewNode (client_interface ?E d) (fl_path fl) '''') opts h2 = (Inr srv, h')"
    using mounted_for_the_user [OF r] by blast
  then have srv: "srv = (mo_UID opts, mo_GID opts)" and "uid = ''1000''" "gid = ''4294967295''"
    by (simp_all add: good_host_def)
  with o(2,3) ids have "uint (mo_UID opts) = 1000" "uint (mo_GID opts) = 4294967295" by simp_all
  then have "mo_UID opts = 1000" "mo_GID opts = 4294967295" by (simp_all add: word_uint_eq_iff)
  with srv have "srv = (1000, 4294967295)" by simp
  with r show ?thesis by blast
qed

end
