(* ===== verification/Spec2Isabelle.thy ===== *)
theory Spec2Isabelle
  imports File_Sessions Mounted_Names Handler_Order Concurrent_Handlers Satellite_Main Dockerfuse_Main
begin

text \<open>
  \<^bold>\<open>Verification of dockerfuse.\<close>

  Dockerfuse mounts the file system of a running container. A client process
  (\<^verbatim>\<open>cmd/dockerfuse\<close>) answers the FUSE requests of the local kernel; it copies a small
  program, the satellite (\<^verbatim>\<open>cmd/satellite\<close>), into the container, starts it there and sends it
  one remote procedure call per file operation over the standard input and output of that process.
  The satellite carries the call out with the Go package \<^verbatim>\<open>os\<close> and keeps a table of the files
  it has open. Both sides share the types of the calls and the translation of open flags and error
  numbers (\<^verbatim>\<open>pkg/rpccommon\<close>), since they may run on different systems.

  \<^bold>\<open>From the source to the theories.\<close> State is passed explicitly: a handler of the satellite is a
  function on the table and a world \<open>'w\<close>, an operation of the client a function on the state
  \<open>'s\<close> of its connection. A Go function that can panic returns \<open>'a go\<close>, a handler
  \<open>'a result\<close> (reply, error text or crash). Integers have the width of the source as words.

  \<^item> \<^verbatim>\<open>Df_Prelude\<close>: the types of Go, \<open>'a go\<close>, and lemmas on words and association lists.
  \<^item> \<^verbatim>\<open>Open_Flags\<close> (\<^verbatim>\<open>rpccommon/utils.go\<close>, 20-113): the translation of the flags of
    \<^verbatim>\<open>open(2)\<close>, over the constants of a system (locale \<open>open_flag_consts\<close>, interpreted for
    Linux and macOS).
  \<^item> \<^verbatim>\<open>Errno_Codec\<close> (\<^verbatim>\<open>rpccommon/utils.go\<close>, 115-532): the two tables of error numbers, the
    encoding of an error as text and its decoding (locale \<open>errno_consts\<close>, interpreted for Linux and
    Darwin).
  \<^item> \<^verbatim>\<open>Rpc_Types\<close> (\<^verbatim>\<open>rpccommon/rpc_types.go\<close>): requests and replies, the attributes of
    \<^verbatim>\<open>SetAttrRequest\<close> with their bitmap.
  \<^item> \<^verbatim>\<open>Fs_Interface\<close>, \<^verbatim>\<open>Os_Layer\<close>, \<^verbatim>\<open>Os_Data\<close>
    (\<^verbatim>\<open>server/filesystem.go\<close>): the interface of the handlers to the file system with its
    contract (locale \<open>descriptor_files\<close>), and its implementation over a kernel that is a parameter,
    including what the package \<^verbatim>\<open>os\<close> does around a system call. The locales
    \<open>posix_kernel\<close> (descriptors) and \<open>file_data\<close> (contents) state what the kernel promises; a
    \<^theory_text>\<open>sublocale\<close> derives the contract of the interface from it.
  \<^item> \<^verbatim>\<open>Satellite_Server\<close> (\<^verbatim>\<open>server/server.go\<close>): the table and the sixteen handlers;
    \<^verbatim>\<open>Fd_Table\<close> its invariant, kept by every handler (locale \<open>satellite_files\<close>).
  \<^item> \<^verbatim>\<open>Mem_Kernel\<close>: an executable kernel with transfers of at most four bytes that meets the
    contracts; the witnesses run on it.
  \<^item> \<^verbatim>\<open>Satellite_Props\<close>, \<^verbatim>\<open>Satellite_Data\<close>: properties of the handlers.
  \<^item> \<^verbatim>\<open>Gob_Wire\<close>, \<^verbatim>\<open>Rpc_Link\<close>: the Go packages \<^verbatim>\<open>encoding/gob\<close> (field names,
    omission of zero values) and \<^verbatim>\<open>net/rpc\<close> as the program uses them, and the invariant of the
    table under any sequence of requests.
  \<^item> \<^verbatim>\<open>Go_Path\<close>: \<^verbatim>\<open>filepath.Clean\<close>, \<^verbatim>\<open>Join\<close> and \<^verbatim>\<open>Dir\<close>, with the contract
    of a tree of paths (locale \<open>directory_paths\<close>).
  \<^item> \<^verbatim>\<open>Client\<close>, \<^verbatim>\<open>Client_Calls\<close> (\<^verbatim>\<open>client/client.go\<close>, 204-501): the operations of
    the client, and what they have in common, proved once over the contract \<open>rpc_transport\<close> of the
    connection, which the model of \<^verbatim>\<open>net/rpc\<close> meets. \<^verbatim>\<open>Client_Setup\<close>
    (\<^verbatim>\<open>client/client.go\<close>, 67-202): upload and start of the satellite over the interfaces of
    \<^verbatim>\<open>docker_client.go\<close>, \<^verbatim>\<open>rcp_client.go\<close> and \<^verbatim>\<open>filesystem.go\<close>.
  \<^item> \<^verbatim>\<open>Fuse_Node\<close>, \<^verbatim>\<open>Node_Props\<close> (\<^verbatim>\<open>client/dockerfuse_fs.go\<close>): the nineteen
    operations of a node, and properties of paths, file types and handles.
  \<^item> \<^verbatim>\<open>End_To_End\<close>: properties of the whole way from a node to the kernel of the container.
    \<^verbatim>\<open>File_Sessions\<close>: sequences of reads and writes through any handles, against a store of
    byte arrays (locale \<open>file_store\<close>, of which \<open>file_data\<close> is a consequence).
    \<^verbatim>\<open>Mounted_Names\<close>: the operations on names against the system calls they stand for, and
    the attributes that a node reports.
  \<^item> \<^verbatim>\<open>Handler_Steps\<close>: the sixteen handlers of \<^verbatim>\<open>server/server.go\<close>, and
    \<^verbatim>\<open>CloseAllFDs\<close> as the goroutine of the signal handler runs it, split into atomic steps:
    one access to the table or one call of the file system each. \<^verbatim>\<open>Handler_Order\<close> and
    \<^verbatim>\<open>Concurrent_Handlers\<close> interleave them, as \<^verbatim>\<open>net/rpc\<close> does.
  \<^item> \<^verbatim>\<open>Go_Flag\<close>: the Go package \<^verbatim>\<open>flag\<close> for any set of flags.
    \<^verbatim>\<open>Satellite_Main\<close> (\<^verbatim>\<open>satellite/main.go\<close>) and \<^verbatim>\<open>Dockerfuse_Main\<close>
    (\<^verbatim>\<open>dockerfuse/main.go\<close>): the two programs, from their command lines to their ends.

  \<^bold>\<open>What is shown.\<close> Reading through the mount returns the bytes of the container's file and writing
  stores them, through every layer and whatever short transfers the kernel makes; a whole session of
  reads and writes through any handles gives the replies and the final bytes of a store of byte arrays.
  Operations on names are the system calls they stand for; the attributes reported are those of the
  file; attributes are changed exactly as asked and in a fixed order. Every operation reports success
  exactly when the satellite replied, and a refusal of the container's kernel arrives as the constant of
  the same name on the client's system. The satellite, serving one request after the other, has exactly
  the files of its table open, leaks no descriptor, and releases all of them on a signal. Starting up, the
  client runs exactly the binary that it has copied into the container, and copies nothing when there is
  none for the image.

  Under interleaving, the handlers always finish and do what their sequential definitions do when they
  are not interrupted. Those that make one call of the file system (reading, writing, seeking,
  synchronising, and all operations on names that report no attributes) take effect one at a time, in the
  order in which they finish. No file is lost as long as none is closed; closing races with opening (the
  entry of another file is deleted) and, like the clean-up after a signal, with reading (the satellite
  crashes).

  Further lemmas state behaviour of the code that a user will not expect: writes to files opened for
  appending fail, negative offsets crash the satellite, set-user-id bits are dropped, renaming is
  relative to the working directory of the satellite and ignores its flags, a new symbolic link is
  registered without its attributes, flushing a file ends it, and mount points are missing from listings.

  \<^bold>\<open>Bounds.\<close> The loops of \<^verbatim>\<open>ReadAt\<close> and \<^verbatim>\<open>WriteAt\<close>, the parser of the command
  line and the run of a handler on its own (\<open>run_alone\<close>) are total functions with a termination
  proof; nothing runs on fuel. A handler that lists a directory has no bound on its steps in advance, so its
  termination rests on the length of the listing once it has been read. Statements about offsets and
  lengths carry the bounds of \<^verbatim>\<open>int64\<close> as hypotheses.

  \<^bold>\<open>Not modelled.\<close> Log messages and their configuration; the libraries go-fuse (its tree of inodes,
  the kernel protocol and its caches), the Docker SDK, the SSH connection helper and the daemon package,
  which are parameters; the bytes of the tar and gob formats, of which the structure is modelled;
  contexts, which the code passes on and never cancels; races inside a single access to a Go map, which
  Go leaves undefined; the files of unit tests.
\<close>

end
